(* ===== verification/Go_Prelude.thy ===== *)
theory Go_Prelude
  imports
    Main
    "HOL-Library.Word"
    "HOL-Library.Sublist"
    "HOL-Library.AList"
    "HOL-Library.Char_ord"
    "HOL-Library.List_Lexorder"
    "HOL-Library.Multiset"
    "HOL-Library.Product_Lexorder"
begin

text \<open>
  Shared vocabulary of the development: how Go values, errors, loops, maps and the
  functions of the packages \<^verbatim>\<open>strings\<close>, \<^verbatim>\<open>strconv\<close>, \<^verbatim>\<open>math/big\<close> and \<^verbatim>\<open>sort\<close> that the
  code uses are written in HOL.

  \<^item> A Go function that returns \<open>(T, error)\<close> is a function into \<open>'e + 'a\<close>: \<open>Inl e\<close> is
    the early return with the error \<open>e\<close>, \<open>Inr v\<close> the normal return. A function that only
    returns an \<^verbatim>\<open>error\<close> has the value type \<^typ>\<open>unit\<close>.
  \<^item> A Go \<^verbatim>\<open>for ... range\<close> loop with early returns is \<open>for_res\<close>.
  \<^item> A Go \<^verbatim>\<open>string\<close> is a list of bytes, \<^typ>\<open>string\<close>; a \<^verbatim>\<open>[]byte\<close> is a list of 8-bit words.
  \<^item> A Go map is an association list with distinct keys, in order of insertion.
  \<^item> \<^verbatim>\<open>uint8\<close>, \<^verbatim>\<open>uint16\<close>, \<^verbatim>\<open>uint32\<close>, \<^verbatim>\<open>uint64\<close> are words of that width.
\<close>

named_theorems check_simps \<open>reading a sequence of guards and calls whose values are dropped\<close>
named_theorems res_simps \<open>reading off the normal return of a sequence of fallible steps\<close>

type_synonym byte = "8 word"
type_synonym bytes = "8 word list"
type_synonym u8 = "8 word"
type_synonym u16 = "16 word"
type_synonym u32 = "32 word"
type_synonym u64 = "64 word"


section \<open>Errors: early returns\<close>

definition bind_res :: "'e + 'a \<Rightarrow> ('a \<Rightarrow> 'e + 'b) \<Rightarrow> 'e + 'b" where
  "bind_res m f = (case m of Inl e \<Rightarrow> Inl e | Inr v \<Rightarrow> f v)"

definition guard_err :: "bool \<Rightarrow> 'e \<Rightarrow> 'e + unit" where
  "guard_err bad e = (if bad then Inl e else Inr ())"

definition map_err :: "('e \<Rightarrow> 'f) \<Rightarrow> 'e + 'a \<Rightarrow> 'f + 'a" where
  "map_err w m = (case m of Inl e \<Rightarrow> Inl (w e) | Inr v \<Rightarrow> Inr v)"

definition is_ok :: "'e + 'a \<Rightarrow> bool" where
  "is_ok m = (case m of Inl _ \<Rightarrow> False | Inr _ \<Rightarrow> True)"

definition ignore_err :: "'a \<Rightarrow> 'e + 'a \<Rightarrow> 'a" where
  \<comment> \<open>\<^verbatim>\<open>v, _ := f()\<close> where \<^verbatim>\<open>f\<close> returns the zero value with its error\<close>
  "ignore_err zero m = (case m of Inl _ \<Rightarrow> zero | Inr v \<Rightarrow> v)"

lemma ignore_err_simps [simp]:
  "ignore_err z (Inl e) = z"
  "ignore_err z (Inr v) = v"
  by (simp_all add: ignore_err_def)

lemma bind_res_simps [simp]:
  "bind_res (Inl e) f = Inl e"
  "bind_res (Inr v) f = f v"
  by (simp_all add: bind_res_def)

lemma bind_res_Inr_iff [res_simps]:
  "bind_res m f = Inr y \<longleftrightarrow> (\<exists>v. m = Inr v \<and> f v = Inr y)"
  by (cases m) auto

lemma bind_res_Inl_iff:
  "bind_res m f = Inl e \<longleftrightarrow> m = Inl e \<or> (\<exists>v. m = Inr v \<and> f v = Inl e)"
  by (cases m) auto

lemma bind_res_assoc: "bind_res (bind_res m f) g = bind_res m (\<lambda>v. bind_res (f v) g)"
  by (cases m) auto

lemma bind_res_cong [fundef_cong]:
  "m = m' \<Longrightarrow> (\<And>v. m' = Inr v \<Longrightarrow> f v = f' v) \<Longrightarrow> bind_res m f = bind_res m' f'"
  by (cases m') auto

lemma guard_err_Inr_iff [res_simps]: "guard_err bad e = Inr u \<longleftrightarrow> \<not> bad"
  by (simp add: guard_err_def)

lemma guard_err_simps [simp]:
  "guard_err True e = Inl e"
  "guard_err False e = Inr ()"
  by (simp_all add: guard_err_def)

lemma map_err_Inr_iff [res_simps]: "map_err w m = Inr v \<longleftrightarrow> m = Inr v"
  by (cases m) (auto simp: map_err_def)

lemma map_err_simps [simp]:
  "map_err w (Inl e) = Inl (w e)"
  "map_err w (Inr v) = Inr v"
  by (simp_all add: map_err_def)

lemma is_ok_simps [simp]:
  "\<not> is_ok (Inl e)"
  "is_ok (Inr v)"
  by (simp_all add: is_ok_def)

lemma is_ok_iff: "is_ok m \<longleftrightarrow> (\<exists>v. m = Inr v)"
  by (cases m) auto

lemma bind_res_Inr_id [simp]: "bind_res m Inr = m"
  by (cases m) auto

lemma ex_Inr [simp]: "(\<exists>v. m = Inr v) \<longleftrightarrow> is_ok m"
  by (simp add: is_ok_iff)

lemma is_ok_bind [simp]: "is_ok (bind_res m f) \<longleftrightarrow> (\<exists>v. m = Inr v \<and> is_ok (f v))"
  by (cases m) auto

lemma is_ok_map_err [simp]: "is_ok (map_err w m) \<longleftrightarrow> is_ok m"
  by (cases m) auto

lemma is_ok_guard [simp]: "is_ok (guard_err b e) \<longleftrightarrow> \<not> b"
  by (simp add: guard_err_def)

lemma bind_ignore_Inr [check_simps]: "bind_res m (\<lambda>_. k) = Inr y \<longleftrightarrow> is_ok m \<and> k = Inr y"
  by (cases m) auto

lemmas [check_simps] = map_err_Inr_iff guard_err_Inr_iff

lemma bind_guard: "bind_res (guard_err b e) f = (if b then Inl e else f ())"
  by (simp add: guard_err_def)


section \<open>Loops\<close>

text \<open>A loop over a slice that updates a state and may return early.\<close>

fun for_res :: "('a \<Rightarrow> 's \<Rightarrow> 'e + 's) \<Rightarrow> 'a list \<Rightarrow> 's \<Rightarrow> 'e + 's" where
  "for_res f [] s = Inr s"
| "for_res f (x # xs) s = bind_res (f x s) (for_res f xs)"

text \<open>A loop that only checks: no state is carried.\<close>

definition for_check :: "('a \<Rightarrow> 'e + unit) \<Rightarrow> 'a list \<Rightarrow> 'e + unit" where
  "for_check f xs = for_res (\<lambda>x _. f x) xs ()"

lemma for_res_cong [fundef_cong]:
  "xs = ys \<Longrightarrow> s = t \<Longrightarrow> (\<And>x r. x \<in> set ys \<Longrightarrow> f x r = g x r) \<Longrightarrow>
   for_res f xs s = for_res g ys t"
proof (induction xs arbitrary: ys s t)
  case (Cons x xs)
  have "bind_res (f x t) (for_res f xs) = bind_res (g x t) (for_res g xs)"
    using Cons.prems by (intro bind_res_cong Cons.IH) auto
  then show ?case using Cons.prems by auto
qed simp

lemma for_res_append:
  "for_res f (xs @ ys) s = bind_res (for_res f xs s) (for_res f ys)"
proof (induction xs arbitrary: s)
  case (Cons x xs)
  then have "for_res f (xs @ ys) = (\<lambda>r. bind_res (for_res f xs r) (for_res f ys))"
    by blast
  then show ?case by (simp add: bind_res_assoc)
qed simp

lemma for_res_snoc_Inr:
  "for_res f (xs @ [x]) s = Inr t \<longleftrightarrow> (\<exists>r. for_res f xs s = Inr r \<and> f x r = Inr t)"
  by (simp add: for_res_append res_simps)

text \<open>The loop rule: \<open>I ys t\<close> relates the elements already visited to the state.\<close>

lemma for_res_history:
  assumes "for_res f xs s = Inr t"
    and "I [] s"
    and "\<And>ys y zs r r'. xs = ys @ y # zs \<Longrightarrow> I ys r \<Longrightarrow> f y r = Inr r' \<Longrightarrow> I (ys @ [y]) r'"
  shows "I xs t"
proof -
  have "\<And>r. prefix ys xs \<Longrightarrow> for_res f ys s = Inr r \<Longrightarrow> I ys r" for ys
  proof (induction ys rule: rev_induct)
    case Nil
    then show ?case using assms(2) by simp
  next
    case (snoc y ys)
    then obtain q where q: "for_res f ys s = Inr q" "f y q = Inr r"
      by (auto simp: for_res_snoc_Inr)
    from snoc.prems(1) obtain zs where zs: "xs = ys @ y # zs"
      by (auto simp: prefix_def)
    then have "I ys q" using snoc.IH[of q] q(1) by (simp add: prefix_def)
    then show ?case using assms(3)[OF zs _ q(2)] by simp
  qed
  then show ?thesis using assms(1) by simp
qed

lemma for_res_success:
  assumes "I [] s"
    and "\<And>ys y zs r. xs = ys @ y # zs \<Longrightarrow> I ys r \<Longrightarrow> \<exists>r'. f y r = Inr r' \<and> I (ys @ [y]) r'"
  shows "\<exists>t. for_res f xs s = Inr t \<and> I xs t"
proof -
  have "prefix ys xs \<Longrightarrow> \<exists>t. for_res f ys s = Inr t \<and> I ys t" for ys
  proof (induction ys rule: rev_induct)
    case Nil
    then show ?case using assms(1) by simp
  next
    case (snoc y ys)
    then obtain zs where zs: "xs = ys @ y # zs"
      by (auto simp: prefix_def)
    then obtain r where "for_res f ys s = Inr r" "I ys r"
      using snoc.IH by (auto simp: prefix_def)
    moreover obtain r' where "f y r = Inr r'" "I (ys @ [y]) r'"
      using assms(2)[OF zs \<open>I ys r\<close>] by blast
    ultimately show ?case by (auto simp: for_res_snoc_Inr)
  qed
  then show ?thesis by simp
qed

lemma for_res_all:
  assumes "for_res f xs s = Inr t"
    and "\<And>x r r'. f x r = Inr r' \<Longrightarrow> P x"
  shows "\<forall>x \<in> set xs. P x"
  using assms(1) by (rule for_res_history) (auto intro: assms(2))

text \<open>
  The exact loop rule: when the state is a function \<open>st\<close> of the elements visited so far,
  the loop ends normally just when every element passes its test at its own position. The
  predicate \<open>at_each ok xs\<close> says that: \<open>ok\<close> holds of each element and the ones before it.
\<close>

definition at_each :: "('a list \<Rightarrow> 'a \<Rightarrow> bool) \<Rightarrow> 'a list \<Rightarrow> bool" where
  "at_each ok xs \<longleftrightarrow> (\<forall>i < length xs. ok (take i xs) (xs ! i))"

lemma at_each_Nil [simp]: "at_each ok []"
  by (simp add: at_each_def)

lemma at_each_snoc [simp]: "at_each ok (xs @ [x]) \<longleftrightarrow> at_each ok xs \<and> ok xs x"
  by (auto simp: at_each_def nth_append less_Suc_eq)

lemma at_each_set [simp]: "at_each (\<lambda>_. P) xs \<longleftrightarrow> (\<forall>x \<in> set xs. P x)"
  by (auto simp: at_each_def all_set_conv_all_nth)

lemma at_each_conj [simp]: "at_each (\<lambda>ys y. P ys y \<and> Q ys y) xs \<longleftrightarrow> at_each P xs \<and> at_each Q xs"
  by (auto simp: at_each_def)

lemma at_each_distinct [simp]: "at_each (\<lambda>ys y. k y \<notin> k ` set ys) xs \<longleftrightarrow> distinct (map k xs)"
  by (induction xs rule: rev_induct) auto

lemma at_each_cong:
  assumes "\<And>ys y. set ys \<subseteq> set xs \<Longrightarrow> y \<in> set xs \<Longrightarrow> P ys y \<longleftrightarrow> Q ys y"
  shows "at_each P xs \<longleftrightarrow> at_each Q xs"
  unfolding at_each_def using assms by (meson nth_mem set_take_subset)

lemma for_res_exact:
  assumes "\<And>ys y r. f y (st ys) = Inr r \<longleftrightarrow> ok ys y \<and> r = st (ys @ [y])"
  shows "for_res f xs (st []) = Inr t \<longleftrightarrow> at_each ok xs \<and> t = st xs"
  by (induction xs arbitrary: t rule: rev_induct) (auto simp: for_res_snoc_Inr assms)

lemma for_res_enum_exact:
  assumes "\<And>ys y r. f (length ys, y) (st ys) = Inr r \<longleftrightarrow> ok ys y \<and> r = st (ys @ [y])"
  shows "for_res f (enumerate 0 xs) (st []) = Inr t \<longleftrightarrow> at_each ok xs \<and> t = st xs"
  by (induction xs arbitrary: t rule: rev_induct)
    (auto simp: enumerate_append_eq for_res_snoc_Inr assms)

lemma for_res_exact_ok:
  assumes "\<And>ys y r. f y (st ys) = Inr r \<longleftrightarrow> ok ys y \<and> r = st (ys @ [y])" "s = st []"
  shows "is_ok (for_res f xs s) \<longleftrightarrow> at_each ok xs"
  using for_res_exact[of f st ok, OF assms(1)] assms(2) unfolding is_ok_iff by simp

lemma for_res_enum_ok:
  assumes "\<And>ys y r. f (length ys, y) (st ys) = Inr r \<longleftrightarrow> ok ys y \<and> r = st (ys @ [y])" "s = st []"
  shows "is_ok (for_res f (enumerate 0 xs) s) \<longleftrightarrow> at_each ok xs"
  using for_res_enum_exact[of f st ok, OF assms(1)] assms(2) unfolding is_ok_iff by simp

lemma for_check_Inr_iff [res_simps, check_simps]:
  "for_check f xs = Inr u \<longleftrightarrow> (\<forall>x \<in> set xs. f x = Inr ())"
  unfolding for_check_def by (induction xs) (auto simp: res_simps)

lemma is_ok_for_check [simp]: "is_ok (for_check f xs) \<longleftrightarrow> (\<forall>x \<in> set xs. is_ok (f x))"
  by (simp add: is_ok_iff res_simps)

lemma for_check_Nil [simp]: "for_check f [] = Inr ()"
  by (simp add: for_check_def)

lemma for_check_Cons [simp]: "for_check f (x # xs) = bind_res (f x) (\<lambda>_. for_check f xs)"
  by (simp add: for_check_def)


section \<open>Maps\<close>

text \<open>
  A Go map as an association list. \<^verbatim>\<open>m[k] = v\<close> is \<open>AList.update k v m\<close>, \<^verbatim>\<open>v, ok := m[k]\<close>
  is \<open>map_of m k\<close>, \<^verbatim>\<open>len(m)\<close> is \<open>length m\<close>. Go leaves the order of \<^verbatim>\<open>range\<close> over a map
  open; the list fixes one such order.
\<close>

type_synonym ('k, 'v) gomap = "('k \<times> 'v) list"

abbreviation gm_put :: "'k \<Rightarrow> 'v \<Rightarrow> ('k, 'v) gomap \<Rightarrow> ('k, 'v) gomap" where
  "gm_put \<equiv> AList.update"

abbreviation gm_wf :: "('k, 'v) gomap \<Rightarrow> bool" where
  "gm_wf m \<equiv> distinct (map fst m)"

definition gm_get :: "'v \<Rightarrow> ('k, 'v) gomap \<Rightarrow> 'k \<Rightarrow> 'v" where
  \<comment> \<open>\<^verbatim>\<open>m[k]\<close> with the zero value of the element type\<close>
  "gm_get zero m k = (case map_of m k of None \<Rightarrow> zero | Some v \<Rightarrow> v)"

lemma gm_wf_put [simp]: "gm_wf m \<Longrightarrow> gm_wf (gm_put k v m)"
  by (rule distinct_update)

lemma map_of_gm_put [simp]: "map_of (gm_put k v m) = (map_of m)(k \<mapsto> v)"
  by (rule ext) (simp add: update_conv')

lemma gm_get_put: "gm_get z (gm_put k v m) j = (if j = k then v else gm_get z m j)"
  by (simp add: gm_get_def)

lemma length_gm_put: "length (gm_put k v m) = (if map_of m k = None then Suc (length m) else length m)"
  by (induction m) auto

lemma gm_put_fresh: "map_of m k = None \<Longrightarrow> gm_put k v m = m @ [(k, v)]"
  by (induction m) (auto split: if_splits)

declare map_of_eq_Some_iff [simp del] Some_eq_map_of_iff [simp del]

text \<open>The map a loop builds by one assignment per element.\<close>

definition gm_build :: "('a \<Rightarrow> 'k) \<Rightarrow> ('a \<Rightarrow> 'v) \<Rightarrow> 'a list \<Rightarrow> ('k, 'v) gomap" where
  "gm_build k v xs = foldl (\<lambda>m x. gm_put (k x) (v x) m) [] xs"

lemma gm_build_Nil [simp]: "gm_build k v [] = []"
  by (simp add: gm_build_def)

lemma gm_build_snoc: "gm_build k v (xs @ [x]) = gm_put (k x) (v x) (gm_build k v xs)"
  by (simp add: gm_build_def)

lemma gm_wf_build [simp]: "gm_wf (gm_build k v xs)"
  by (induction xs rule: rev_induct) (simp_all add: gm_build_snoc)

lemma map_of_gm_build_None [simp]: "map_of (gm_build k v xs) i = None \<longleftrightarrow> i \<notin> k ` set xs"
  by (induction xs rule: rev_induct) (auto simp: gm_build_snoc)

lemma map_of_gm_build_ex [simp]: "(\<exists>w. map_of (gm_build k v xs) i = Some w) \<longleftrightarrow> i \<in> k ` set xs"
  using map_of_gm_build_None[of k v xs i] by (cases "map_of (gm_build k v xs) i") auto

lemma gm_build_distinct: "distinct (map k xs) \<Longrightarrow> gm_build k v xs = map (\<lambda>x. (k x, v x)) xs"
proof (induction xs rule: rev_induct)
  case (snoc x xs)
  have "map_of (gm_build k v xs) (k x) = None" using snoc.prems by simp
  then have "gm_build k v (xs @ [x]) = gm_build k v xs @ [(k x, v x)]"
    unfolding gm_build_snoc by (rule gm_put_fresh)
  then show ?case using snoc by simp
qed simp

lemma length_gm_build: "length (gm_build k v xs) = card (k ` set xs)"
proof (induction xs rule: rev_induct)
  case (snoc x xs)
  then show ?case by (auto simp: gm_build_snoc length_gm_put insert_absorb image_iff
        simp del: map_of_gm_build_None simp add: map_of_gm_build_None[unfolded image_iff])
qed simp

lemma map_of_gm_build:
  "distinct (map k xs) \<Longrightarrow> x \<in> set xs \<Longrightarrow> map_of (gm_build k v xs) (k x) = Some (v x)"
proof (induction xs rule: rev_induct)
  case (snoc y xs)
  then show ?case by (cases "x = y") (auto simp: gm_build_snoc image_iff)
qed simp

lemma map_of_gm_build_Some:
  "map_of (gm_build k v xs) i = Some w \<Longrightarrow> \<exists>x \<in> set xs. k x = i \<and> v x = w"
  by (induction xs rule: rev_induct) (auto simp: gm_build_snoc split: if_splits)

lemma gm_get_build:
  "(\<And>x. x \<in> set xs \<Longrightarrow> v x \<noteq> z) \<Longrightarrow> gm_get z (gm_build k v xs) i = z \<longleftrightarrow> i \<notin> k ` set xs"
  using map_of_gm_build_Some[of k v xs i] map_of_gm_build_None[of k v xs i]
  by (auto simp: gm_get_def split: option.splits)

lemma gm_wf_length: "gm_wf m \<Longrightarrow> length m = card (dom (map_of m))"
  by (simp add: dom_map_of_conv_image_fst distinct_card flip: set_map)

end
