(* ===== verification/Go_Strings.thy ===== *)
theory Go_Strings
  imports Go_Prelude
begin

text \<open>
  The functions of the Go standard library that the code applies to strings: trimming,
  prefixes, splitting, case, hexadecimal (\<^verbatim>\<open>encoding/hex\<close>) and decimal (\<^verbatim>\<open>strconv\<close>,
  \<^verbatim>\<open>math/big\<close>) text, with the laws the components use. A string is its list of bytes.

  \<^verbatim>\<open>strings.HasPrefix(s, p)\<close> is \<open>prefix p s\<close> and \<^verbatim>\<open>strings.HasSuffix(s, p)\<close> is
  \<open>suffix p s\<close>. \<^verbatim>\<open>strings.ToLower\<close> and \<^verbatim>\<open>strings.EqualFold\<close> are given on ASCII; the
  callers that meet other bytes reject them either way (they go on to decode hex).
\<close>


section \<open>Trimming\<close>

text \<open>The code points of \<^verbatim>\<open>unicode.IsSpace\<close>, each as its UTF-8 bytes.\<close>

definition go_spaces :: "string list" where
  "go_spaces =
     [[CHR 0x09], [CHR 0x0A], [CHR 0x0B], [CHR 0x0C], [CHR 0x0D], [CHR 0x20],
      [CHR 0xC2, CHR 0x85], [CHR 0xC2, CHR 0xA0], [CHR 0xE1, CHR 0x9A, CHR 0x80],
      [CHR 0xE2, CHR 0x80, CHR 0x80], [CHR 0xE2, CHR 0x80, CHR 0x81],
      [CHR 0xE2, CHR 0x80, CHR 0x82], [CHR 0xE2, CHR 0x80, CHR 0x83],
      [CHR 0xE2, CHR 0x80, CHR 0x84], [CHR 0xE2, CHR 0x80, CHR 0x85],
      [CHR 0xE2, CHR 0x80, CHR 0x86], [CHR 0xE2, CHR 0x80, CHR 0x87],
      [CHR 0xE2, CHR 0x80, CHR 0x88], [CHR 0xE2, CHR 0x80, CHR 0x89],
      [CHR 0xE2, CHR 0x80, CHR 0x8A], [CHR 0xE2, CHR 0x80, CHR 0xA8],
      [CHR 0xE2, CHR 0x80, CHR 0xA9], [CHR 0xE2, CHR 0x80, CHR 0xAF],
      [CHR 0xE2, CHR 0x81, CHR 0x9F], [CHR 0xE3, CHR 0x80, CHR 0x80]]"

function trim_seqs :: "string list \<Rightarrow> string \<Rightarrow> string" where
  "trim_seqs ps s =
     (case find (\<lambda>p. p \<noteq> [] \<and> prefix p s) ps of
        None \<Rightarrow> s
      | Some p \<Rightarrow> trim_seqs ps (drop (length p) s))"
  by pat_completeness auto
termination
  by (relation "measure (\<lambda>(ps, s). length s)")
    (auto simp: find_Some_iff prefix_def)

declare trim_seqs.simps [simp del]

definition trim_space :: "string \<Rightarrow> string" where
  "trim_space s = rev (trim_seqs (map rev go_spaces) (rev (trim_seqs go_spaces s)))"

definition trim_right_char :: "char \<Rightarrow> string \<Rightarrow> string" where
  \<comment> \<open>\<^verbatim>\<open>strings.TrimRight(s, "c")\<close>\<close>
  "trim_right_char c s = rev (dropWhile (\<lambda>x. x = c) (rev s))"

definition trim_char :: "char \<Rightarrow> string \<Rightarrow> string" where
  \<comment> \<open>\<^verbatim>\<open>strings.Trim(s, "c")\<close>\<close>
  "trim_char c s = trim_right_char c (dropWhile (\<lambda>x. x = c) s)"

definition trim_prefix :: "string \<Rightarrow> string \<Rightarrow> string" where
  "trim_prefix p s = (if prefix p s then drop (length p) s else s)"

definition trim_suffix :: "string \<Rightarrow> string \<Rightarrow> string" where
  "trim_suffix p s = (if suffix p s then take (length s - length p) s else s)"

lemma trim_seqs_stop: "find (\<lambda>p. p \<noteq> [] \<and> prefix p s) ps = None \<Longrightarrow> trim_seqs ps s = s"
  by (simp add: trim_seqs.simps)

lemma trim_seqs_Nil [simp]: "trim_seqs ps [] = []"
  by (rule trim_seqs_stop) (auto simp: find_None_iff)

lemma trim_seqs_suffix: "suffix (trim_seqs ps s) s"
proof (induction ps s rule: trim_seqs.induct)
  case (1 ps s)
  show ?case
  proof (cases "find (\<lambda>p. p \<noteq> [] \<and> prefix p s) ps")
    case None
    then show ?thesis by (simp add: trim_seqs_stop)
  next
    case (Some p)
    with "1.IH" have "suffix (trim_seqs ps (drop (length p) s)) (drop (length p) s)"
      by simp
    also have "suffix (drop (length p) s) s" by (rule suffix_drop)
    finally show ?thesis using Some by (simp add: trim_seqs.simps[of ps s])
  qed
qed

text \<open>A string that starts and ends with bytes that start (end) no space is left alone.\<close>

lemma trim_space_id:
  assumes "s \<noteq> []" "\<forall>p \<in> set go_spaces. hd p \<noteq> hd s" "\<forall>p \<in> set go_spaces. last p \<noteq> last s"
  shows "trim_space s = s"
proof -
  have ne: "\<forall>p \<in> set go_spaces. p \<noteq> []" by (simp add: go_spaces_def)
  have l: "trim_seqs go_spaces s = s"
    by (rule trim_seqs_stop) (use assms ne in \<open>auto simp: find_None_iff prefix_def\<close>)
  have "\<not> prefix (rev p) (rev s)" if "p \<in> set go_spaces" for p
    using that assms(3) ne by (auto simp: prefix_def) (metis last_rev hd_append2 hd_rev rev_is_Nil_conv rev_rev_ident)
  then have "trim_seqs (map rev go_spaces) (rev s) = rev s"
    by (intro trim_seqs_stop) (auto simp: find_None_iff)
  then show ?thesis by (simp add: trim_space_def l)
qed

lemma trim_space_nonblank:
  assumes "s \<noteq> []" "\<forall>p \<in> set go_spaces. hd p \<noteq> hd s"
    and "\<forall>p \<in> set go_spaces. hd s \<notin> set p"
  shows "trim_space s \<noteq> []"
proof -
  have ne: "\<forall>p \<in> set go_spaces. p \<noteq> []" by (simp add: go_spaces_def)
  have l: "trim_seqs go_spaces s = s"
    by (rule trim_seqs_stop) (use assms ne in \<open>auto simp: find_None_iff prefix_def\<close>)
  have "trim_seqs (map rev go_spaces) (t @ [hd s]) \<noteq> []" for t
  proof (induction "length t" arbitrary: t rule: less_induct)
    case less
    let ?f = "find (\<lambda>p. p \<noteq> [] \<and> prefix p (t @ [hd s])) (map rev go_spaces)"
    show ?case
    proof (cases ?f)
      case None
      then show ?thesis by (simp add: trim_seqs_stop)
    next
      case (Some p)
      then have p: "p \<noteq> []" "prefix p (t @ [hd s])" "p \<in> rev ` set go_spaces"
        by (auto simp: find_Some_iff) (metis nth_map nth_mem rev_image_eqI)
      have "hd s \<notin> set p" using assms(3) p(3) by auto
      moreover have "hd s \<in> set (t @ [hd s])" by simp
      ultimately have pt: "prefix p t" using p(2) by (auto simp del: set_append simp: prefix_snoc)
      then obtain u where u: "t = p @ u" by (auto simp: prefix_def)
      then have "drop (length p) (t @ [hd s]) = u @ [hd s]" by simp
      moreover have "length u < length t" using u p(1) by simp
      ultimately show ?thesis
        using less[of u] Some by (simp add: trim_seqs.simps[of _ "t @ [hd s]"])
    qed
  qed
  from this[of "rev (tl s)"] have "trim_seqs (map rev go_spaces) (rev s) \<noteq> []"
    using assms(1) by (metis hd_Cons_tl rev.simps(2))
  then show ?thesis by (simp add: trim_space_def l)
qed

definition visible :: "char \<Rightarrow> bool" where
  "visible c \<longleftrightarrow> CHR 0x21 \<le> c \<and> c \<le> CHR 0x7E"

lemma visible_not_space: "visible c \<Longrightarrow> p \<in> set go_spaces \<Longrightarrow> c \<notin> set p"
  by (auto simp: go_spaces_def visible_def)

lemma visible_nonblank: "s \<noteq> [] \<Longrightarrow> visible (hd s) \<Longrightarrow> trim_space s \<noteq> []"
proof (rule trim_space_nonblank)
  assume v: "visible (hd s)"
  have "\<forall>p \<in> set go_spaces. hd p \<in> set p" by (simp add: go_spaces_def)
  then show "\<forall>p \<in> set go_spaces. hd p \<noteq> hd s" using visible_not_space[OF v] by metis
  show "\<forall>p \<in> set go_spaces. hd s \<notin> set p" using visible_not_space[OF v] by blast
qed

lemma visible_trim: "s \<noteq> [] \<Longrightarrow> visible (hd s) \<Longrightarrow> visible (last s) \<Longrightarrow> trim_space s = s"
proof (rule trim_space_id)
  assume v: "visible (hd s)" "visible (last s)"
  have e: "\<forall>p \<in> set go_spaces. hd p \<in> set p \<and> last p \<in> set p" by (simp add: go_spaces_def)
  show "\<forall>p \<in> set go_spaces. hd p \<noteq> hd s" using e visible_not_space[OF v(1)] by metis
  show "\<forall>p \<in> set go_spaces. last p \<noteq> last s" using e visible_not_space[OF v(2)] by metis
qed

lemma trim_prefix_append [simp]: "trim_prefix p (p @ s) = s"
  by (simp add: trim_prefix_def)

lemma trim_suffix_append [simp]: "trim_suffix p (s @ p) = s"
  by (simp add: trim_suffix_def suffix_def)


section \<open>Splitting\<close>

fun split_on :: "char \<Rightarrow> string \<Rightarrow> string list" where
  \<comment> \<open>\<^verbatim>\<open>strings.Split(s, "c")\<close>\<close>
  "split_on c [] = [[]]"
| "split_on c (x # xs) =
     (if x = c then [] # split_on c xs
      else (case split_on c xs of [] \<Rightarrow> [[x]] | y # ys \<Rightarrow> (x # y) # ys))"

fun join_with :: "char \<Rightarrow> string list \<Rightarrow> string" where
  "join_with c [] = []"
| "join_with c [x] = x"
| "join_with c (x # y # ys) = x @ c # join_with c (y # ys)"

lemma split_on_ne [simp]: "split_on c s \<noteq> []"
  by (induction s) (auto split: list.splits)

lemma join_split: "join_with c (split_on c s) = s"
proof (induction s)
  case (Cons x xs)
  obtain y ys where ys: "split_on c xs = y # ys"
    by (cases "split_on c xs") auto
  show ?case
  proof (cases "x = c")
    case True
    with Cons ys show ?thesis by simp
  next
    case False
    with Cons ys show ?thesis by (cases ys) auto
  qed
qed simp

lemma split_on_no_sep: "c \<notin> set s \<Longrightarrow> split_on c s = [s]"
  by (induction s) auto

lemma split_on_parts: "p \<in> set (split_on c s) \<Longrightarrow> c \<notin> set p"
  by (induction s arbitrary: p) (auto split: if_splits list.splits)

lemma split_on_append:
  assumes "c \<notin> set a"
  shows "split_on c (a @ c # b) = a # split_on c b"
  using assms by (induction a) auto

lemma split_on_join:
  assumes "xs \<noteq> []" "\<forall>x \<in> set xs. c \<notin> set x"
  shows "split_on c (join_with c xs) = xs"
  using assms by (induction c xs rule: join_with.induct) (auto simp: split_on_no_sep split_on_append)


section \<open>Case\<close>

definition lower_char :: "char \<Rightarrow> char" where
  "lower_char c = (if CHR ''A'' \<le> c \<and> c \<le> CHR ''Z'' then char_of (of_char c + (32 :: nat)) else c)"

definition to_lower :: "string \<Rightarrow> string" where
  "to_lower s = map lower_char s"

definition equal_fold :: "string \<Rightarrow> string \<Rightarrow> bool" where
  "equal_fold a b \<longleftrightarrow> to_lower a = to_lower b"

definition is_lower :: "string \<Rightarrow> bool" where
  \<comment> \<open>\<^verbatim>\<open>s == strings.ToLower(s)\<close>\<close>
  "is_lower s \<longleftrightarrow> s = to_lower s"

lemma lower_char_id: "\<not> (CHR ''A'' \<le> c \<and> c \<le> CHR ''Z'') \<Longrightarrow> lower_char c = c"
  unfolding lower_char_def by (rule if_not_P)

lemma to_lower_append [simp]: "to_lower (a @ b) = to_lower a @ to_lower b"
  by (simp add: to_lower_def)

lemma to_lower_Cons [simp]: "to_lower (c # s) = lower_char c # to_lower s"
  by (simp add: to_lower_def)

lemma to_lower_Nil [simp]: "to_lower [] = []"
  by (simp add: to_lower_def)

lemma length_to_lower [simp]: "length (to_lower s) = length s"
  by (simp add: to_lower_def)

lemma is_lower_iff: "is_lower s \<longleftrightarrow> (\<forall>c \<in> set s. lower_char c = c)"
  unfolding is_lower_def to_lower_def by (induction s) auto

end
