(* ===== verification/Go_Codec.thy ===== *)
theory Go_Codec
  imports Go_Strings
begin

text \<open>
  Text encodings of the Go standard library: \<^verbatim>\<open>encoding/hex\<close>, the integer formats of
  \<^verbatim>\<open>strconv\<close> and \<^verbatim>\<open>math/big\<close>, and the conversion between strings and byte slices. The
  round-trip laws are what the parsers of the components rest on.
\<close>


section \<open>Bytes of a string\<close>

definition bytes_of :: "string \<Rightarrow> bytes" where
  "bytes_of s = map of_char s"

definition string_of :: "bytes \<Rightarrow> string" where
  "string_of bs = map (\<lambda>b. char_of (unat b)) bs"

lemma length_bytes_of [simp]: "length (bytes_of s) = length s"
  by (simp add: bytes_of_def)


section \<open>Hexadecimal digits\<close>

definition hex_digit :: "nat \<Rightarrow> char" where
  "hex_digit n = ''0123456789abcdef'' ! n"

definition hex_val :: "char \<Rightarrow> nat option" where
  "hex_val c =
     (if CHR ''0'' \<le> c \<and> c \<le> CHR ''9'' then Some (of_char c - 48)
      else if CHR ''a'' \<le> c \<and> c \<le> CHR ''f'' then Some (of_char c - 87)
      else if CHR ''A'' \<le> c \<and> c \<le> CHR ''F'' then Some (of_char c - 55)
      else None)"

lemma char_le_nat: "(c :: char) \<le> d \<longleftrightarrow> (of_char c :: nat) \<le> of_char d"
  by (simp add: less_eq_char_def)

lemma mem_codes: "c \<in> set s \<longleftrightarrow> (of_char c :: nat) \<in> set (map of_char s)"
  by (metis (mono_tags, lifting) char_of_char image_iff set_map)

lemma hex_digit_table:
  "list_all (\<lambda>n. hex_val (hex_digit n) = Some n \<and> lower_char (hex_digit n) = hex_digit n) [0..<16]"
  by code_simp

lemma hex_val_digit [simp]: "n < 16 \<Longrightarrow> hex_val (hex_digit n) = Some n"
  using hex_digit_table by (simp add: list_all_iff)

lemma lower_hex_digit [simp]: "n < 16 \<Longrightarrow> lower_char (hex_digit n) = hex_digit n"
  using hex_digit_table by (simp add: list_all_iff)

lemma hex_val_less: "hex_val c = Some n \<Longrightarrow> n < 16"
  by (auto simp: hex_val_def char_le_nat split: if_splits)

lemma hex_digit_val: "hex_val c = Some n \<Longrightarrow> hex_digit n = lower_char c"
proof -
  assume a: "hex_val c = Some n"
  let ?digits = "''0123456789abcdefABCDEF''"
  have codes: "map of_char ?digits = [48..<58] @ [97..<103] @ [65..<71 :: nat]" by code_simp
  have "(of_char c :: nat) \<in> set ([48..<58] @ [97..<103] @ [65..<71])"
    using a unfolding set_append set_upt by (auto simp: hex_val_def char_le_nat split: if_splits)
  then have "c \<in> set ?digits" unfolding mem_codes codes .
  moreover have "list_all (\<lambda>c. map_option hex_digit (hex_val c) = Some (lower_char c)) ?digits"
    by code_simp
  ultimately have "map_option hex_digit (hex_val c) = Some (lower_char c)"
    unfolding list_all_iff by blast
  then show ?thesis using a by simp
qed


section \<open>The package encoding/hex\<close>

definition hex_byte :: "byte \<Rightarrow> string" where
  "hex_byte b = [hex_digit (unat b div 16), hex_digit (unat b mod 16)]"

definition hex_encode :: "bytes \<Rightarrow> string" where
  "hex_encode bs = concat (map hex_byte bs)"

fun hex_decode :: "string \<Rightarrow> bytes option" where
  "hex_decode [] = Some []"
| "hex_decode [c] = None"
| "hex_decode (c # d # s) =
     (case (hex_val c, hex_val d) of
        (Some h, Some l) \<Rightarrow> map_option ((#) (word_of_nat (16 * h + l))) (hex_decode s)
      | _ \<Rightarrow> None)"

lemma unat_byte_less: "unat (b :: byte) < 256"
  using unsigned_less[of b, where ?'a = nat] by simp

lemma hex_encode_Nil [simp]: "hex_encode [] = []"
  by (simp add: hex_encode_def)

lemma hex_encode_Cons: "hex_encode (b # bs) = hex_byte b @ hex_encode bs"
  by (simp add: hex_encode_def)

lemma length_hex_encode [simp]: "length (hex_encode bs) = 2 * length bs"
  by (induction bs) (auto simp: hex_encode_Cons hex_byte_def)

lemma hex_decode_encode [simp]: "hex_decode (hex_encode bs) = Some bs"
proof (induction bs)
  case (Cons b bs)
  have "unat b div 16 < 16" "unat b mod 16 < 16"
    using unat_byte_less[of b] by auto
  then show ?case using Cons by (simp add: hex_encode_Cons hex_byte_def)
qed simp

lemma hex_encode_lower [simp]: "to_lower (hex_encode bs) = hex_encode bs"
proof (induction bs)
  case (Cons b bs)
  have "unat b div 16 < 16" "unat b mod 16 < 16"
    using unat_byte_less[of b] by auto
  then show ?case using Cons by (simp add: hex_encode_Cons hex_byte_def)
qed simp

lemma hex_encode_decode: "hex_decode s = Some bs \<Longrightarrow> hex_encode bs = to_lower s"
proof (induction s arbitrary: bs rule: hex_decode.induct)
  case (3 c d s)
  then obtain h l bs' where hl: "hex_val c = Some h" "hex_val d = Some l"
    and bs': "hex_decode s = Some bs'" "bs = word_of_nat (16 * h + l) # bs'"
    by (auto split: option.splits)
  have b: "h < 16" "l < 16" using hl by (auto dest: hex_val_less)
  then have "unat (word_of_nat (16 * h + l) :: byte) = 16 * h + l"
    by (simp add: unat_word_ariths unat_of_nat)
  then have "hex_byte (word_of_nat (16 * h + l)) = [lower_char c, lower_char d]"
    using b hl by (simp add: hex_byte_def hex_digit_val)
  moreover have "hex_encode bs' = to_lower s" using "3.IH" hl bs' by auto
  ultimately show ?case by (simp add: bs' hex_encode_Cons)
qed auto

lemma hex_encode_inj [simp]: "hex_encode a = hex_encode b \<longleftrightarrow> a = b"
  by (metis hex_decode_encode option.inject)

lemma length_hex_decode: "hex_decode s = Some bs \<Longrightarrow> length s = 2 * length bs"
  by (metis hex_encode_decode length_hex_encode length_to_lower)

lemma hex_val_visible: "hex_val c \<noteq> None \<Longrightarrow> visible c"
  by (auto simp: hex_val_def visible_def split: if_splits elim: order_trans[rotated] order_trans)

lemma hex_decode_Some_iff: "hex_decode s \<noteq> None \<longleftrightarrow> even (length s) \<and> (\<forall>c \<in> set s. hex_val c \<noteq> None)"
  by (induction s rule: hex_decode.induct) (auto split: option.splits)


lemma hex_encode_visible: "c \<in> set (hex_encode b) \<Longrightarrow> visible c"
  using hex_decode_Some_iff[of "hex_encode b"] hex_val_visible by simp

section \<open>Integers as text\<close>

text \<open>\<^verbatim>\<open>strconv.FormatUint(n, b)\<close>, \<^verbatim>\<open>(*big.Int).Text(b)\<close> and the verbs \<^verbatim>\<open>%d\<close> and \<^verbatim>\<open>%x\<close>.\<close>

function nat_text :: "nat \<Rightarrow> nat \<Rightarrow> string" where
  "nat_text b n =
     (if b < 2 \<or> n < b then [hex_digit n] else nat_text b (n div b) @ [hex_digit (n mod b)])"
  by pat_completeness auto
termination
  by (relation "measure (\<lambda>(b, n). n)") auto

declare nat_text.simps [simp del]

fun digits_val :: "nat \<Rightarrow> nat \<Rightarrow> string \<Rightarrow> nat option" where
  "digits_val b acc [] = Some acc"
| "digits_val b acc (c # cs) =
     (case hex_val c of
        None \<Rightarrow> None
      | Some d \<Rightarrow> if d < b then digits_val b (acc * b + d) cs else None)"

definition parse_nat :: "nat \<Rightarrow> string \<Rightarrow> nat option" where
  "parse_nat b s = (if s = [] then None else digits_val b 0 s)"

definition parse_uint64 :: "nat \<Rightarrow> string \<Rightarrow> u64 option" where
  \<comment> \<open>\<^verbatim>\<open>strconv.ParseUint(s, b, 64)\<close> for a base other than 0\<close>
  "parse_uint64 b s =
     (case parse_nat b s of
        None \<Rightarrow> None
      | Some n \<Rightarrow> if n < 2 ^ 64 then Some (word_of_nat n) else None)"

definition set_string :: "nat \<Rightarrow> string \<Rightarrow> int option" where
  \<comment> \<open>\<^verbatim>\<open>new(big.Int).SetString(s, b)\<close> for a base other than 0\<close>
  "set_string b s =
     (case s of
        [] \<Rightarrow> None
      | c # cs \<Rightarrow>
          if c = CHR ''-'' then map_option (\<lambda>n. - int n) (parse_nat b cs)
          else if c = CHR ''+'' then map_option int (parse_nat b cs)
          else map_option int (parse_nat b s))"

lemma digits_val_append:
  "digits_val b acc (xs @ ys) =
     (case digits_val b acc xs of None \<Rightarrow> None | Some a \<Rightarrow> digits_val b a ys)"
  by (induction xs arbitrary: acc) (auto split: option.splits)

lemma nat_text_ne [simp]: "nat_text b n \<noteq> []"
  by (subst nat_text.simps) simp

lemma nat_text_digit: "n < b \<Longrightarrow> nat_text b n = [hex_digit n]"
  by (simp add: nat_text.simps[of b n])

lemma nat_text_step:
  "2 \<le> b \<Longrightarrow> b \<le> n \<Longrightarrow> nat_text b n = nat_text b (n div b) @ [hex_digit (n mod b)]"
  by (simp add: nat_text.simps[of b n])

lemma digits_val_nat_text:
  assumes "2 \<le> b" "b \<le> 16"
  shows "digits_val b 0 (nat_text b n) = Some n"
proof (induction n rule: less_induct)
  case (less n)
  show ?case
  proof (cases "n < b")
    case True
    with assms show ?thesis by (simp add: nat_text_digit)
  next
    case False
    have "n mod b < b" using assms by simp
    then have d: "hex_val (hex_digit (n mod b)) = Some (n mod b)"
      using assms by (intro hex_val_digit) linarith
    have "n div b < n" using False assms by (intro div_less_dividend) auto
    then show ?thesis
      using False assms less d \<open>n mod b < b\<close>
      by (simp add: nat_text_step digits_val_append del: hex_val_digit)
  qed
qed

lemma parse_nat_text: "2 \<le> b \<Longrightarrow> b \<le> 16 \<Longrightarrow> parse_nat b (nat_text b n) = Some n"
  by (simp add: parse_nat_def digits_val_nat_text)

lemma nat_text_inj: "2 \<le> b \<Longrightarrow> b \<le> 16 \<Longrightarrow> nat_text b m = nat_text b n \<longleftrightarrow> m = n"
  by (metis parse_nat_text option.inject)

lemma nat_text_hex_digits: "2 \<le> b \<Longrightarrow> b \<le> 16 \<Longrightarrow> c \<in> set (nat_text b n) \<Longrightarrow> hex_val c \<noteq> None"
proof (induction n rule: less_induct)
  case (less n)
  show ?case
  proof (cases "n < b")
    case True
    with less.prems show ?thesis by (simp add: nat_text_digit)
  next
    case False
    then have "n div b < n" using less.prems by (intro div_less_dividend) auto
    moreover have "n mod b < 16" using less.prems
      by (meson mod_less_divisor less_le_trans zero_less_numeral)
    ultimately show ?thesis using less.IH[of "n div b"] less.prems False by (auto simp: nat_text_step)
  qed
qed

lemma digits_val_lower: "digits_val b acc s = Some n \<Longrightarrow> digits_val b acc (to_lower s) = Some n"
proof (induction s arbitrary: acc)
  case (Cons c s)
  then obtain d where d: "hex_val c = Some d" "d < b" "digits_val b (acc * b + d) s = Some n"
    by (auto split: option.splits if_splits)
  have "hex_val (lower_char c) = Some d"
    using d(1) by (metis hex_digit_val hex_val_digit hex_val_less)
  with d Cons.IH show ?case by simp
qed simp

end
