(* ===== verification/Geth_Interface.thy ===== *)
theory Geth_Interface
  imports Go_Codec
begin

text \<open>
  The functions of the third-party module \<^verbatim>\<open>github.com/ethereum/go-ethereum\<close> that the Go
  code calls. Its sources are not part of the repository, so they are a parameter of the
  model: a record of functions that every definition using them takes as its first
  argument. What the code relies on is the predicate \<open>geth_ok\<close>, one documented law per
  function: hash length, canonical hexadecimal text of hashes and addresses, and that
  ABI decoding inverts ABI encoding.
\<close>

section \<open>ABI types and values\<close>

text \<open>The ABI type names that occur in the code and the Go values packed for them.\<close>

datatype abi_type =
    T_bytes32 | T_address | T_string | T_bytes | T_bool
  | T_uint8 | T_uint16 | T_uint64 | T_uint256
  | T_slice abi_type
  | T_tuple "(string \<times> abi_type) list"

datatype abi_value =
    V_bytes32 bytes | V_address bytes | V_string string | V_bytes bytes | V_bool bool
  | V_uint8 u8 | V_uint16 u16 | V_uint64 u64 | V_big int
  | V_slice "abi_value list"
  | V_tuple "abi_value list"

text \<open>Which Go value fits which ABI type: lengths of the fixed byte arrays, the range of
  uint256; a tuple has at least one component.\<close>

fun abi_typed :: "abi_type \<Rightarrow> abi_value \<Rightarrow> bool"
  and abi_typed_fields :: "(string \<times> abi_type) list \<Rightarrow> abi_value list \<Rightarrow> bool" where
  "abi_typed T_bytes32 v = (case v of V_bytes32 b \<Rightarrow> length b = 32 | _ \<Rightarrow> False)"
| "abi_typed T_address v = (case v of V_address a \<Rightarrow> length a = 20 | _ \<Rightarrow> False)"
| "abi_typed T_string v = (case v of V_string _ \<Rightarrow> True | _ \<Rightarrow> False)"
| "abi_typed T_bytes v = (case v of V_bytes _ \<Rightarrow> True | _ \<Rightarrow> False)"
| "abi_typed T_bool v = (case v of V_bool _ \<Rightarrow> True | _ \<Rightarrow> False)"
| "abi_typed T_uint8 v = (case v of V_uint8 _ \<Rightarrow> True | _ \<Rightarrow> False)"
| "abi_typed T_uint16 v = (case v of V_uint16 _ \<Rightarrow> True | _ \<Rightarrow> False)"
| "abi_typed T_uint64 v = (case v of V_uint64 _ \<Rightarrow> True | _ \<Rightarrow> False)"
| "abi_typed T_uint256 v = (case v of V_big n \<Rightarrow> 0 \<le> n \<and> n < 2 ^ 256 | _ \<Rightarrow> False)"
| "abi_typed (T_slice t) v = (case v of V_slice vs \<Rightarrow> list_all (abi_typed t) vs | _ \<Rightarrow> False)"
| "abi_typed (T_tuple fs) v = (case v of V_tuple vs \<Rightarrow> fs \<noteq> [] \<and> abi_typed_fields fs vs | _ \<Rightarrow> False)"
| "abi_typed_fields [] vs = (vs = [])"
| "abi_typed_fields (f # fs) vs =
     (case vs of [] \<Rightarrow> False | v # vs' \<Rightarrow> abi_typed (snd f) v \<and> abi_typed_fields fs vs')"

definition abi_args_typed :: "abi_type list \<Rightarrow> abi_value list \<Rightarrow> bool" where
  "abi_args_typed ts vs \<longleftrightarrow> list_all2 abi_typed ts vs"

section \<open>The library\<close>

record geth =
  Keccak256Hash :: "bytes \<Rightarrow> bytes"
  IsHexAddress :: "string \<Rightarrow> bool"
  HexToAddress :: "string \<Rightarrow> bytes"
  Hash_Hex :: "bytes \<Rightarrow> string"
  Address_Hex :: "bytes \<Rightarrow> string"
  BytesToHash :: "bytes \<Rightarrow> bytes"
  Pack :: "abi_type list \<Rightarrow> abi_value list \<Rightarrow> string + bytes"
  Unpack :: "abi_type list \<Rightarrow> bytes \<Rightarrow> string + abi_value list"

definition HashLength :: nat where
  "HashLength = 32"

definition AddressLength :: nat where
  "AddressLength = 20"

definition keccak_law :: "geth \<Rightarrow> bool" where
  "keccak_law g \<longleftrightarrow> (\<forall>b. length (Keccak256Hash g b) = HashLength)"

definition hash_hex_law :: "geth \<Rightarrow> bool" where
  "hash_hex_law g \<longleftrightarrow> (\<forall>h. length h = HashLength \<longrightarrow>
     Hash_Hex g h = ''0x'' @ hex_encode h \<and> BytesToHash g h = h)"

definition address_law :: "geth \<Rightarrow> bool" where
  "address_law g \<longleftrightarrow>
     (\<forall>a. length a = AddressLength \<longrightarrow>
        to_lower (Address_Hex g a) = ''0x'' @ hex_encode a \<and>
        HexToAddress g (''0x'' @ hex_encode a) = a \<and>
        IsHexAddress g (''0x'' @ hex_encode a)) \<and>
     (\<forall>s. IsHexAddress g s \<longrightarrow> length s = 42 \<longrightarrow>
        (\<exists>t a. s = CHR ''0'' # t \<and> hd t \<in> {CHR ''x'', CHR ''X''} \<and>
           hex_decode (tl t) = Some a \<and> length a = AddressLength))"

definition abi_law :: "geth \<Rightarrow> bool" where
  "abi_law g \<longleftrightarrow>
     (\<forall>ts vs. abi_args_typed ts vs \<longrightarrow>
        (\<exists>b. Pack g ts vs = Inr b \<and> (ts \<noteq> [] \<longrightarrow> b \<noteq> []) \<and> Unpack g ts b = Inr vs))"

definition geth_ok :: "geth \<Rightarrow> bool" where
  "geth_ok g \<longleftrightarrow> keccak_law g \<and> hash_hex_law g \<and> address_law g \<and> abi_law g"

lemma geth_okD:
  assumes "geth_ok g"
  shows length_keccak: "length (Keccak256Hash g b) = 32"
    and hash_hex_text: "length h = 32 \<Longrightarrow> Hash_Hex g h = ''0x'' @ hex_encode h"
    and bytes_to_hash_id: "length h = 32 \<Longrightarrow> BytesToHash g h = h"
    and lower_address_text: "length a = 20 \<Longrightarrow> to_lower (Address_Hex g a) = ''0x'' @ hex_encode a"
    and hex_to_address_text: "length a = 20 \<Longrightarrow> HexToAddress g (''0x'' @ hex_encode a) = a"
    and is_hex_address_text: "length a = 20 \<Longrightarrow> IsHexAddress g (''0x'' @ hex_encode a)"
  using assms unfolding geth_ok_def keccak_law_def hash_hex_law_def address_law_def
    HashLength_def AddressLength_def
  by blast+

lemma pack_typed:
  assumes "geth_ok g" "abi_args_typed ts vs" "ts \<noteq> []"
  obtains b where "Pack g ts vs = Inr b" "b \<noteq> []" "Unpack g ts b = Inr vs"
  using assms unfolding geth_ok_def abi_law_def by blast

lemma pack_unpack:
  assumes "geth_ok g" "abi_args_typed ts vs"
  obtains b where "Pack g ts vs = Inr b" "Unpack g ts b = Inr vs"
  using assms unfolding geth_ok_def abi_law_def by blast

lemma is_hex_address_shape:
  assumes "geth_ok g" "IsHexAddress g s" "length s = 42" "s = to_lower s"
  obtains a where "s = ''0x'' @ hex_encode a" "length a = 20"
proof -
  obtain t a where t: "s = CHR ''0'' # t" "hd t \<in> {CHR ''x'', CHR ''X''}"
      "hex_decode (tl t) = Some a" "length a = 20"
    using assms(1-3) unfolding geth_ok_def address_law_def AddressLength_def by blast
  from t(1) assms(3) obtain c u where u: "t = c # u" by (cases t) auto
  have low: "lower_char c = c" "to_lower u = u"
    using assms(4) t(1) u by auto
  have "c = CHR ''x''"
    using t(2) u low(1) by (auto simp: lower_char_def char_of_def)
  moreover have "hex_encode a = u"
    using t(3) u low(2) by (simp add: hex_encode_decode)
  ultimately show thesis using that[of a] t u by simp
qed

end
