(* ===== verification/Migration_Codec.thy ===== *)
theory Migration_Codec
  imports Geth_Interface
begin

text \<open>
  \<^verbatim>\<open>cli/internal/suitemigration/codec.go\<close>: the module table, the ABI schemas of the
  import payloads, the payload encoders and the payload counter, the rolling commitment,
  and the parsers of canonical hexadecimal text. The lemmas at the end say exactly which
  strings the parsers accept; they carry most proofs about plans and snapshots.
\<close>


section \<open>Required modules\<close>

record moduleSpec =
  spec_name :: string
  spec_domain :: string
  spec_id :: bytes

definition module_spec :: "geth \<Rightarrow> string \<Rightarrow> string \<Rightarrow> moduleSpec" where
  "module_spec g name domain =
     \<lparr>spec_name = name, spec_domain = domain, spec_id = Keccak256Hash g (bytes_of domain)\<rparr>"

definition requiredModules :: "geth \<Rightarrow> moduleSpec list" where
  "requiredModules g =
     [module_spec g ''repository-core'' ''igit.module.repository-core'',
      module_spec g ''recovery'' ''igit.module.recovery'',
      module_spec g ''moderation'' ''igit.module.moderation'',
      module_spec g ''economic'' ''igit.module.economic'',
      module_spec g ''username'' ''igit.module.username'',
      module_spec g ''badge'' ''igit.module.badge'',
      module_spec g ''release'' ''igit.module.release'']"


section \<open>Values packed for the contracts\<close>

definition coreRepositoryABI ::
  "bytes \<Rightarrow> bytes \<Rightarrow> string \<Rightarrow> string \<Rightarrow> string \<Rightarrow> bytes \<Rightarrow> u64 \<Rightarrow> u64 \<Rightarrow> abi_value" where
  "coreRepositoryABI i owner name description defaultBranch forkedFrom createdAt updatedAt =
     V_tuple [V_bytes32 i, V_address owner, V_string name, V_string description,
       V_string defaultBranch, V_bytes32 forkedFrom, V_uint64 createdAt, V_uint64 updatedAt]"

definition coreAliasABI :: "bytes \<Rightarrow> bytes \<Rightarrow> string \<Rightarrow> abi_value" where
  "coreAliasABI repoId owner name = V_tuple [V_bytes32 repoId, V_address owner, V_string name]"

definition coreRefABI ::
  "bytes \<Rightarrow> string \<Rightarrow> string \<Rightarrow> string list \<Rightarrow> u64 \<Rightarrow> bytes \<Rightarrow> abi_value" where
  "coreRefABI repoId refName commitSha packUris updatedAt updatedBy =
     V_tuple [V_bytes32 repoId, V_string refName, V_string commitSha,
       V_slice (map V_string packUris), V_uint64 updatedAt, V_address updatedBy]"

definition coreCollaboratorABI :: "bytes \<Rightarrow> bytes \<Rightarrow> u8 \<Rightarrow> abi_value" where
  "coreCollaboratorABI repoId account role =
     V_tuple [V_bytes32 repoId, V_address account, V_uint8 role]"

definition guardianConfigABI :: "bytes \<Rightarrow> bytes \<Rightarrow> u8 \<Rightarrow> bytes list \<Rightarrow> abi_value" where
  "guardianConfigABI repoId configuredBy threshold guardians =
     V_tuple [V_bytes32 repoId, V_address configuredBy, V_uint8 threshold,
       V_slice (map V_address guardians)]"

definition moderationStatusABI :: "bytes \<Rightarrow> u8 \<Rightarrow> abi_value" where
  "moderationStatusABI repoId status = V_tuple [V_bytes32 repoId, V_uint8 status]"

definition moderationReportRecordABI ::
  "int \<Rightarrow> bytes \<Rightarrow> bytes \<Rightarrow> u8 \<Rightarrow> u8 \<Rightarrow> string \<Rightarrow> u64 \<Rightarrow> u64 \<Rightarrow> bool \<Rightarrow> abi_value" where
  "moderationReportRecordABI i repoId reporter status resolution reasonHash createdAt updatedAt exists =
     V_tuple [V_big i, V_bytes32 repoId, V_address reporter, V_uint8 status, V_uint8 resolution,
       V_string reasonHash, V_uint64 createdAt, V_uint64 updatedAt, V_bool exists]"

definition moderationReportTrailABI :: "u8 \<Rightarrow> bytes \<Rightarrow> u8 \<Rightarrow> string \<Rightarrow> u64 \<Rightarrow> abi_value" where
  "moderationReportTrailABI action actor status reasonHash timestamp =
     V_tuple [V_uint8 action, V_address actor, V_uint8 status, V_string reasonHash, V_uint64 timestamp]"

definition moderationReportABI :: "abi_value \<Rightarrow> abi_value list \<Rightarrow> abi_value" where
  "moderationReportABI report trail = V_tuple [report, V_slice trail]"

definition moderationStatusLogABI :: "u8 \<Rightarrow> bytes \<Rightarrow> string \<Rightarrow> u64 \<Rightarrow> int \<Rightarrow> abi_value" where
  "moderationStatusLogABI status actor reasonHash timestamp reportId =
     V_tuple [V_uint8 status, V_address actor, V_string reasonHash, V_uint64 timestamp, V_big reportId]"

definition moderationStatusTrailABI :: "bytes \<Rightarrow> abi_value list \<Rightarrow> abi_value" where
  "moderationStatusTrailABI repoId trail = V_tuple [V_bytes32 repoId, V_slice trail]"

definition economicSplitABI :: "bytes \<Rightarrow> u16 \<Rightarrow> abi_value" where
  "economicSplitABI recipient bps = V_tuple [V_address recipient, V_uint16 bps]"

definition economicSplitsABI :: "bytes \<Rightarrow> abi_value list \<Rightarrow> abi_value" where
  "economicSplitsABI repoId splits = V_tuple [V_bytes32 repoId, V_slice splits]"

definition economicTotalABI :: "bytes \<Rightarrow> string \<Rightarrow> int \<Rightarrow> abi_value" where
  "economicTotalABI repoId denom amount = V_tuple [V_bytes32 repoId, V_string denom, V_big amount]"

definition usernameOwnerABI :: "string \<Rightarrow> bytes \<Rightarrow> abi_value" where
  "usernameOwnerABI name owner = V_tuple [V_string name, V_address owner]"

definition badgeABI ::
  "int \<Rightarrow> bytes \<Rightarrow> bytes \<Rightarrow> bytes \<Rightarrow> string \<Rightarrow> u64 \<Rightarrow> bool \<Rightarrow> abi_value" where
  "badgeABI i repoId recipient awardedBy reason awardedAt exists =
     V_tuple [V_big i, V_bytes32 repoId, V_address recipient, V_address awardedBy,
       V_string reason, V_uint64 awardedAt, V_bool exists]"

definition releaseABI :: "string \<Rightarrow> string \<Rightarrow> bytes \<Rightarrow> bytes \<Rightarrow> u64 \<Rightarrow> bool \<Rightarrow> abi_value" where
  "releaseABI version platform sha registeredBy registeredAt exists =
     V_tuple [V_string version, V_string platform, V_bytes32 sha, V_address registeredBy,
       V_uint64 registeredAt, V_bool exists]"


section \<open>ABI schemas\<close>

definition tupleArrayArguments :: "(string \<times> abi_type) list \<Rightarrow> abi_type list" where
  "tupleArrayArguments components = [T_slice (T_tuple components)]"

definition outerPayloadArguments :: "abi_type list" where
  "outerPayloadArguments = [T_uint8, T_bytes]"

definition rollingRootArguments :: "abi_type list" where
  "rollingRootArguments = [T_bytes32, T_bytes32, T_uint256, T_uint256, T_bytes32]"

definition rollingSeedArguments :: "abi_type list" where
  "rollingSeedArguments = [T_bytes32, T_bytes32]"

definition coreRepositoryArguments :: "abi_type list" where
  "coreRepositoryArguments = tupleArrayArguments
     [(''id'', T_bytes32), (''owner'', T_address), (''name'', T_string), (''description'', T_string),
      (''defaultBranch'', T_string), (''forkedFrom'', T_bytes32), (''createdAt'', T_uint64),
      (''updatedAt'', T_uint64)]"

definition coreAliasArguments :: "abi_type list" where
  "coreAliasArguments = tupleArrayArguments
     [(''repoId'', T_bytes32), (''owner'', T_address), (''name'', T_string)]"

definition coreRefArguments :: "abi_type list" where
  "coreRefArguments = tupleArrayArguments
     [(''repoId'', T_bytes32), (''refName'', T_string), (''commitSha'', T_string),
      (''packUris'', T_slice T_string), (''updatedAt'', T_uint64), (''updatedBy'', T_address)]"

definition coreCollaboratorArguments :: "abi_type list" where
  "coreCollaboratorArguments = tupleArrayArguments
     [(''repoId'', T_bytes32), (''account'', T_address), (''role'', T_uint8)]"

definition guardianArguments :: "abi_type list" where
  "guardianArguments = tupleArrayArguments
     [(''repoId'', T_bytes32), (''configuredBy'', T_address), (''threshold'', T_uint8),
      (''guardians'', T_slice T_address)]"

definition moderationStatusArguments :: "abi_type list" where
  "moderationStatusArguments = tupleArrayArguments [(''repoId'', T_bytes32), (''status'', T_uint8)]"

definition moderationReportArguments :: "abi_type list" where
  "moderationReportArguments = tupleArrayArguments
     [(''report'', T_tuple
         [(''id'', T_uint256), (''repoId'', T_bytes32), (''reporter'', T_address),
          (''status'', T_uint8), (''resolution'', T_uint8), (''reasonHash'', T_string),
          (''createdAt'', T_uint64), (''updatedAt'', T_uint64), (''exists'', T_bool)]),
      (''trail'', T_slice (T_tuple
         [(''action'', T_uint8), (''actor'', T_address), (''status'', T_uint8),
          (''reasonHash'', T_string), (''timestamp'', T_uint64)]))]"

definition moderationStatusTrailArguments :: "abi_type list" where
  "moderationStatusTrailArguments = tupleArrayArguments
     [(''repoId'', T_bytes32),
      (''trail'', T_slice (T_tuple
         [(''status'', T_uint8), (''actor'', T_address), (''reasonHash'', T_string),
          (''timestamp'', T_uint64), (''reportId'', T_uint256)]))]"

definition economicSplitsArguments :: "abi_type list" where
  "economicSplitsArguments = tupleArrayArguments
     [(''repoId'', T_bytes32),
      (''splits'', T_slice (T_tuple [(''recipient'', T_address), (''bps'', T_uint16)]))]"

definition economicTotalArguments :: "abi_type list" where
  "economicTotalArguments = tupleArrayArguments
     [(''repoId'', T_bytes32), (''denom'', T_string), (''amount'', T_uint256)]"

definition usernameOwnerArguments :: "abi_type list" where
  "usernameOwnerArguments = tupleArrayArguments [(''name'', T_string), (''owner'', T_address)]"

definition usernameReservedArguments :: "abi_type list" where
  "usernameReservedArguments = [T_slice T_string]"

definition badgeArguments :: "abi_type list" where
  "badgeArguments = tupleArrayArguments
     [(''id'', T_uint256), (''repoId'', T_bytes32), (''recipient'', T_address),
      (''awardedBy'', T_address), (''reason'', T_string), (''awardedAt'', T_uint64),
      (''exists'', T_bool)]"

definition releaseArguments :: "abi_type list" where
  "releaseArguments = tupleArrayArguments
     [(''version'', T_string), (''platform'', T_string), (''sha256'', T_bytes32),
      (''registeredBy'', T_address), (''registeredAt'', T_uint64), (''exists'', T_bool)]"


section \<open>Payloads\<close>

datatype codec_error =
    AbiError string
  | AbiPanic string
  | InvalidKind string u8
  | UnknownModule string
  | KindWrapperDecode string
  | KindWrapperMismatch
  | KindWrapperNotCanonical
  | RecordsDecode string
  | NotOneRecordArray
  | RecordsNotCanonical
  | NotCanonicalHex string
  | HexDecodeError string
  | Not32Bytes string
  | NotCanonicalAddress string
  | NotLowercaseDigest string
  | DigestDecodeError string
  | DigestZero string

definition encodeDirectPayload :: "geth \<Rightarrow> abi_type list \<Rightarrow> abi_value list \<Rightarrow> codec_error + bytes" where
  "encodeDirectPayload g arguments records = map_err AbiError (Pack g arguments [V_slice records])"

definition encodeKindPayload :: "geth \<Rightarrow> u8 \<Rightarrow> abi_type list \<Rightarrow> abi_value list \<Rightarrow> codec_error + bytes" where
  "encodeKindPayload g kind arguments records =
     bind_res (map_err AbiError (Pack g arguments [V_slice records])) (\<lambda>inner.
     map_err AbiError (Pack g outerPayloadArguments [V_uint8 kind, V_bytes inner]))"

definition nth_schema :: "string \<Rightarrow> u8 \<Rightarrow> abi_type list list \<Rightarrow> codec_error + (abi_type list \<times> bool)" where
  "nth_schema module kind values =
     (if unat kind \<ge> length values then Inl (InvalidKind module kind)
      else Inr (values ! unat kind, True))"

definition payloadArguments :: "string \<Rightarrow> u8 \<Rightarrow> codec_error + (abi_type list \<times> bool)" where
  "payloadArguments module kind =
     (if module = ''repository-core'' then
        nth_schema module kind
          [coreRepositoryArguments, coreAliasArguments, coreRefArguments, coreCollaboratorArguments]
      else if module = ''recovery'' then
        (if kind \<noteq> 0 then Inl (InvalidKind module kind) else Inr (guardianArguments, False))
      else if module = ''moderation'' then
        nth_schema module kind
          [moderationStatusArguments, moderationReportArguments, moderationStatusTrailArguments]
      else if module = ''economic'' then
        nth_schema module kind [economicSplitsArguments, economicTotalArguments]
      else if module = ''username'' then
        nth_schema module kind [usernameOwnerArguments, usernameReservedArguments]
      else if module = ''badge'' then
        (if kind \<noteq> 0 then Inl (InvalidKind module kind) else Inr (badgeArguments, False))
      else if module = ''release'' then
        (if kind \<noteq> 0 then Inl (InvalidKind module kind) else Inr (releaseArguments, False))
      else Inl (UnknownModule module))"

text \<open>
  The type assertions on the decoded kind wrapper hold for the schema it was decoded
  with; a value of another shape is reported like a mismatch.
\<close>

definition unwrap_kind :: "geth \<Rightarrow> u8 \<Rightarrow> bytes \<Rightarrow> codec_error + bytes" where
  "unwrap_kind g kind payload =
     bind_res (map_err KindWrapperDecode (Unpack g outerPayloadArguments payload)) (\<lambda>outer.
     case outer of
       [V_uint8 k, V_bytes encoded] \<Rightarrow>
         if k \<noteq> kind then Inl KindWrapperMismatch
         else if Pack g outerPayloadArguments outer \<noteq> Inr payload then Inl KindWrapperNotCanonical
         else Inr encoded
     | _ \<Rightarrow> Inl KindWrapperMismatch)"

definition decodePayloadCount :: "geth \<Rightarrow> string \<Rightarrow> u8 \<Rightarrow> bytes \<Rightarrow> codec_error + u64" where
  "decodePayloadCount g module kind payload =
     bind_res (payloadArguments module kind) (\<lambda>(arguments, wrapped).
     bind_res (if wrapped then unwrap_kind g kind payload else Inr payload) (\<lambda>encoded.
     bind_res (map_err RecordsDecode (Unpack g arguments encoded)) (\<lambda>values.
     case values of
       [V_slice records] \<Rightarrow>
         if Pack g arguments values \<noteq> Inr encoded then Inl RecordsNotCanonical
         else Inr (word_of_nat (length records))
     | _ \<Rightarrow> Inl NotOneRecordArray)))"


section \<open>The rolling commitment\<close>

definition must_pack :: "geth \<Rightarrow> abi_type list \<Rightarrow> abi_value list \<Rightarrow> codec_error + bytes" where
  \<comment> \<open>the code panics where packing fails\<close>
  "must_pack g ts vs = map_err AbiPanic (Pack g ts vs)"

definition rollingSeed :: "geth \<Rightarrow> bytes \<Rightarrow> bytes \<Rightarrow> codec_error + bytes" where
  "rollingSeed g moduleID snapshotRoot =
     bind_res (must_pack g rollingSeedArguments [V_bytes32 moduleID, V_bytes32 snapshotRoot]) (\<lambda>encoded.
     Inr (Keccak256Hash g encoded))"

definition rollingStep :: "geth \<Rightarrow> bytes \<Rightarrow> bytes \<Rightarrow> u64 \<Rightarrow> u64 \<Rightarrow> bytes \<Rightarrow> codec_error + bytes" where
  "rollingStep g previous moduleID sequence cnt payloadHash =
     bind_res (must_pack g rollingRootArguments
       [V_bytes32 previous, V_bytes32 moduleID, V_big (uint sequence), V_big (uint cnt),
        V_bytes32 payloadHash]) (\<lambda>encoded.
     Inr (Keccak256Hash g encoded))"


section \<open>Canonical text\<close>

definition hexBytes :: "bytes \<Rightarrow> string" where
  "hexBytes value = ''0x'' @ hex_encode value"

definition parseHexBytes :: "string \<Rightarrow> string \<Rightarrow> codec_error + bytes" where
  "parseHexBytes label value =
     (if \<not> prefix ''0x'' value \<or> value \<noteq> to_lower value \<or> length value mod 2 \<noteq> 0
      then Inl (NotCanonicalHex label)
      else case hex_decode (drop 2 value) of
             None \<Rightarrow> Inl (HexDecodeError label)
           | Some decoded \<Rightarrow> Inr decoded)"

definition parseHash :: "string \<Rightarrow> string \<Rightarrow> codec_error + bytes" where
  "parseHash label value =
     bind_res (parseHexBytes label value) (\<lambda>decoded.
     if length decoded \<noteq> HashLength then Inl (Not32Bytes label) else Inr decoded)"

definition zeroHash :: bytes where
  "zeroHash = replicate 32 0"

definition parseRawHash :: "string \<Rightarrow> string \<Rightarrow> bytes" where
  \<comment> \<open>the callers drop the error and use the zero array returned with it\<close>
  "parseRawHash label value = (case parseHash label value of Inl _ \<Rightarrow> zeroHash | Inr h \<Rightarrow> h)"

definition zeroAddressText :: string where
  "zeroAddressText = ''0x0000000000000000000000000000000000000000''"

definition canonicalAddress :: "geth \<Rightarrow> string \<Rightarrow> string \<Rightarrow> codec_error + bytes" where
  "canonicalAddress g label value =
     (if value \<noteq> to_lower value \<or> \<not> IsHexAddress g value \<or> length value \<noteq> 42 \<or> value = zeroAddressText
      then Inl (NotCanonicalAddress label)
      else Inr (HexToAddress g value))"

definition rawSHA256 :: "string \<Rightarrow> string \<Rightarrow> codec_error + bytes" where
  "rawSHA256 label value =
     (if length value \<noteq> 64 \<or> value \<noteq> to_lower value then Inl (NotLowercaseDigest label)
      else case hex_decode value of
             None \<Rightarrow> Inl (DigestDecodeError label)
           | Some decoded \<Rightarrow>
               if decoded = replicate 32 0 then Inl (DigestZero label) else Inr decoded)"


section \<open>Which texts the parsers accept\<close>

lemma hexBytes_inj [simp]: "hexBytes a = hexBytes b \<longleftrightarrow> a = b"
  by (simp add: hexBytes_def)

lemma length_hexBytes [simp]: "length (hexBytes b) = 2 + 2 * length b"
  by (simp add: hexBytes_def)

lemma hexBytes_lower [simp]: "to_lower (hexBytes b) = hexBytes b"
  by (simp add: hexBytes_def lower_char_def)

lemma parseHexBytes_hexBytes [simp]: "parseHexBytes label (hexBytes b) = Inr b"
proof -
  have "prefix ''0x'' (hexBytes b)" "drop 2 (hexBytes b) = hex_encode b"
    by (simp_all add: hexBytes_def)
  then show ?thesis by (simp add: parseHexBytes_def)
qed

lemma parseHexBytes_Inr_iff: "parseHexBytes label value = Inr b \<longleftrightarrow> value = hexBytes b"
proof
  assume a: "parseHexBytes label value = Inr b"
  then have p: "prefix ''0x'' value" and l: "value = to_lower value"
    and d: "hex_decode (drop 2 value) = Some b"
    unfolding parseHexBytes_def by (auto split: if_splits option.splits)
  from p obtain t where t: "value = ''0x'' @ t" by (auto simp: prefix_def)
  have "hex_encode b = to_lower t" using d t by (simp add: hex_encode_decode)
  moreover have "to_lower t = t" using l t by simp
  ultimately show "value = hexBytes b" by (simp add: t hexBytes_def)
qed simp

lemma parseHash_Inr_iff: "parseHash label value = Inr h \<longleftrightarrow> value = hexBytes h \<and> length h = 32"
  unfolding parseHash_def HashLength_def by (auto simp: res_simps parseHexBytes_Inr_iff)

lemma parseRawHash_hexBytes [simp]: "length h = 32 \<Longrightarrow> parseRawHash label (hexBytes h) = h"
  by (simp add: parseRawHash_def parseHash_def HashLength_def)

lemma length_parseRawHash [simp]: "length (parseRawHash label value) = 32"
  by (simp add: parseRawHash_def zeroHash_def parseHash_Inr_iff split: sum.splits)

lemma zeroAddressText_bytes: "zeroAddressText = hexBytes (replicate 20 0)"
  by code_simp

lemma canonicalAddress_Inr_iff:
  assumes "geth_ok g"
  shows "canonicalAddress g label value = Inr a \<longleftrightarrow>
    value = hexBytes a \<and> length a = 20 \<and> a \<noteq> replicate 20 0"
proof
  assume c: "canonicalAddress g label value = Inr a"
  then have v: "IsHexAddress g value" "length value = 42" "value = to_lower value"
      "value \<noteq> zeroAddressText" "a = HexToAddress g value"
    by (auto simp: canonicalAddress_def split: if_splits)
  obtain b where b: "value = ''0x'' @ hex_encode b" "length b = 20"
    using is_hex_address_shape[OF assms v(1-3)] by blast
  then show "value = hexBytes a \<and> length a = 20 \<and> a \<noteq> replicate 20 0"
    using v hex_to_address_text[OF assms b(2)] by (auto simp: hexBytes_def zeroAddressText_bytes)
next
  assume a: "value = hexBytes a \<and> length a = 20 \<and> a \<noteq> replicate 20 0"
  then show "canonicalAddress g label value = Inr a"
    using is_hex_address_text[OF assms, of a] hex_to_address_text[OF assms, of a]
    by (simp add: canonicalAddress_def zeroAddressText_bytes) (simp add: hexBytes_def)
qed

lemma rawSHA256_Inr_iff:
  "rawSHA256 label value = Inr d \<longleftrightarrow> value = hex_encode d \<and> length d = 32 \<and> d \<noteq> zeroHash"
proof
  assume a: "rawSHA256 label value = Inr d"
  then have l: "length value = 64" "value = to_lower value" "hex_decode value = Some d"
      "d \<noteq> zeroHash"
    unfolding rawSHA256_def zeroHash_def by (auto split: if_splits option.splits)
  then show "value = hex_encode d \<and> length d = 32 \<and> d \<noteq> zeroHash"
    using hex_encode_decode[OF l(3)] length_hex_decode[OF l(3)] by simp
next
  assume a: "value = hex_encode d \<and> length d = 32 \<and> d \<noteq> zeroHash"
  then have "hex_decode value = Some d" "length value = 64" "to_lower value = value" by simp_all
  then show "rawSHA256 label value = Inr d"
    using a by (simp add: rawSHA256_def zeroHash_def)
qed


section \<open>Payloads decode to their record count\<close>

lemma decode_direct_payload:
  assumes g: "geth_ok g" and args: "payloadArguments m k = Inr (ts, False)" "ts \<noteq> []"
    and typed: "abi_args_typed ts [V_slice rs]"
  obtains p where "encodeDirectPayload g ts rs = Inr p" "p \<noteq> []"
    "decodePayloadCount g m k p = Inr (word_of_nat (length rs))"
proof -
  obtain p where p: "Pack g ts [V_slice rs] = Inr p" "p \<noteq> []" "Unpack g ts p = Inr [V_slice rs]"
    using pack_typed[OF g typed args(2)] by blast
  then show thesis
    using that[of p] args by (simp add: encodeDirectPayload_def decodePayloadCount_def)
qed

lemma decode_kind_payload:
  assumes g: "geth_ok g" and args: "payloadArguments m k = Inr (ts, True)" "ts \<noteq> []"
    and typed: "abi_args_typed ts [V_slice rs]"
  obtains p where "encodeKindPayload g k ts rs = Inr p" "p \<noteq> []"
    "decodePayloadCount g m k p = Inr (word_of_nat (length rs))"
proof -
  obtain b where b: "Pack g ts [V_slice rs] = Inr b" "Unpack g ts b = Inr [V_slice rs]"
    using pack_typed[OF g typed args(2)] by blast
  have "abi_args_typed outerPayloadArguments [V_uint8 k, V_bytes b]"
    by (simp add: abi_args_typed_def outerPayloadArguments_def)
  then obtain p where p: "Pack g outerPayloadArguments [V_uint8 k, V_bytes b] = Inr p" "p \<noteq> []"
      "Unpack g outerPayloadArguments p = Inr [V_uint8 k, V_bytes b]"
    using pack_typed[OF g] by (metis outerPayloadArguments_def list.distinct(1))
  then show thesis
    using that[of p] args b by (simp add: encodeKindPayload_def decodePayloadCount_def unwrap_kind_def)
qed

lemma rollingSeed_ok:
  assumes "geth_ok g" "length i = 32" "length r = 32"
  obtains h where "rollingSeed g i r = Inr h" "length h = 32"
proof -
  have "abi_args_typed rollingSeedArguments [V_bytes32 i, V_bytes32 r]"
    using assms by (simp add: abi_args_typed_def rollingSeedArguments_def)
  then obtain b where "Pack g rollingSeedArguments [V_bytes32 i, V_bytes32 r] = Inr b"
    using pack_typed[OF assms(1)] by (metis rollingSeedArguments_def list.distinct(1))
  then show thesis
    using that[of "Keccak256Hash g b"] by (simp add: rollingSeed_def must_pack_def length_keccak[OF assms(1)])
qed

lemma uint_u64_uint256: "uint (w :: u64) < 2 ^ 256"
proof -
  have "uint w < 2 ^ 64" using uint_bounded[of w] by simp
  also have "\<dots> < (2 :: int) ^ 256" by (simp add: power_strict_increasing)
  finally show ?thesis .
qed

lemma rollingStep_ok:
  assumes "geth_ok g" "length prev = 32" "length i = 32" "length h = 32"
  obtains r where "rollingStep g prev i sq cnt h = Inr r" "length r = 32"
proof -
  let ?vs = "[V_bytes32 prev, V_bytes32 i, V_big (uint sq), V_big (uint cnt), V_bytes32 h]"
  have "abi_args_typed rollingRootArguments ?vs"
    using assms by (simp add: abi_args_typed_def rollingRootArguments_def uint_u64_uint256[simplified])
  then obtain b where "Pack g rollingRootArguments ?vs = Inr b"
    using pack_typed[OF assms(1)] by (metis rollingRootArguments_def list.distinct(1))
  then show thesis
    using that[of "Keccak256Hash g b"] by (simp add: rollingStep_def must_pack_def length_keccak[OF assms(1)])
qed

section \<open>Property\<close>

text \<open>C17: a text is accepted as a hash exactly when it is the printed form of a 32-byte value,
  and the value read is the one printed: parsing and printing are inverse, and no second
  spelling of a hash is accepted.\<close>

theorem canonical_hash_roundtrip:
  "parseHash label value = Inr h \<longleftrightarrow> value = hexBytes h \<and> length h = HashLength"
  by (simp add: parseHash_Inr_iff HashLength_def)

end
