(* ===== verification/Snapshot_Schema.thy ===== *)
theory Snapshot_Schema
  imports Migration_Codec
begin

text \<open>
  \<^verbatim>\<open>cli/internal/suitemigration/schema.go\<close>: the snapshot of the archived control plane,
  the bootstrap plan built from it and the calldata manifest built from the plan. One
  record per Go struct; a field carries the name of its struct in front, since record
  fields share one name space. \<^verbatim>\<open>int\<close> fields are integers, \<^verbatim>\<open>uintN\<close> fields are words.
\<close>

definition SnapshotSchema :: string where
  "SnapshotSchema = ''igit.cosmwasm-v1.suite-snapshot.v1''"

definition PlanSchema :: string where
  "PlanSchema = ''igit.evm-suite.bootstrap-plan.v1''"

definition ManifestSchema :: string where
  "ManifestSchema = ''igit.evm-suite.bootstrap-calldata-manifest.v1''"

definition SuiteVersion :: u64 where
  "SuiteVersion = 3"

definition DefaultBatchSize :: int where
  "DefaultBatchSize = 64"

definition MaximumBatchItems :: int where
  "MaximumBatchItems = 128"

definition MaximumPayloadBytes :: nat where
  "MaximumPayloadBytes = 96000"

definition RequiredModuleCount :: int where
  "RequiredModuleCount = 7"

definition MaxRevenueSplitRecipients :: nat where
  "MaxRevenueSplitRecipients = 20"

definition MaxReservedUsernames :: nat where
  "MaxReservedUsernames = 128"


section \<open>The snapshot\<close>

record SnapshotSource =
  Source_ChainID :: string
  Source_Contract :: string
  Source_Height :: u64
  Source_BlockHash :: string
  Source_InventorySHA256 :: string
  Source_TxSearchSHA256 :: string
  Source_BlockEvidenceSHA256 :: string
  Source_EventCommitmentSHA256 :: string

record ContractPolicy =
  Policy_Admin :: string
  Policy_Treasury :: string
  Policy_Committee :: string
  Policy_ReleaseAuthority :: string
  Policy_UsernamePolicyAdmin :: string
  Policy_PlatformFeeBPS :: u16

record SnapshotRepository =
  Repository_ID :: string
  Repository_Owner :: string
  Repository_Name :: string
  Repository_Description :: string
  Repository_DefaultBranch :: string
  Repository_ForkedFrom :: string
  Repository_CreatedAt :: u64
  Repository_UpdatedAt :: u64

record SnapshotAlias =
  Alias_RepoID :: string
  Alias_Owner :: string
  Alias_Name :: string

record SnapshotRef =
  Ref_RepoID :: string
  Ref_RefName :: string
  Ref_CommitSHA :: string
  Ref_PackURIs :: "string list"
  Ref_UpdatedAt :: u64
  Ref_UpdatedBy :: string

record SnapshotCollaborator =
  Collaborator_RepoID :: string
  Collaborator_Account :: string
  Collaborator_Role :: string

record SnapshotGuardianConfig =
  Guardian_RepoID :: string
  Guardian_ConfiguredBy :: string
  Guardian_Threshold :: u8
  Guardian_Guardians :: "string list"

record SnapshotFinalStatus =
  FinalStatus_RepoID :: string
  FinalStatus_Status :: string

record SnapshotReportTrail =
  ReportTrail_Action :: string
  ReportTrail_Actor :: string
  ReportTrail_Status :: string
  ReportTrail_ReasonHash :: string
  ReportTrail_Timestamp :: u64

record SnapshotReport =
  Report_ID :: u64
  Report_RepoID :: string
  Report_Reporter :: string
  Report_Status :: string
  Report_Resolution :: string
  Report_ReasonHash :: string
  Report_CreatedAt :: u64
  Report_UpdatedAt :: u64
  Report_Trail :: "SnapshotReportTrail list"

record SnapshotRepositoryStatusLog =
  StatusLog_Status :: string
  StatusLog_Actor :: string
  StatusLog_ReasonHash :: string
  StatusLog_Timestamp :: u64
  StatusLog_ReportID :: u64

record SnapshotStatusTrail =
  StatusTrail_RepoID :: string
  StatusTrail_Trail :: "SnapshotRepositoryStatusLog list"

record SnapshotModeration =
  Moderation_FinalStatuses :: "SnapshotFinalStatus list"
  Moderation_Reports :: "SnapshotReport list"
  Moderation_StatusTrails :: "SnapshotStatusTrail list"

record SnapshotSplit =
  Split_Recipient :: string
  Split_BPS :: u16

record SnapshotRevenueSplits =
  RevenueSplits_RepoID :: string
  RevenueSplits_Splits :: "SnapshotSplit list"

record SnapshotSponsorTotal =
  SponsorTotal_RepoID :: string
  SponsorTotal_Denom :: string
  SponsorTotal_Amount :: string

record SnapshotEconomic =
  Economic_Splits :: "SnapshotRevenueSplits list"
  Economic_Totals :: "SnapshotSponsorTotal list"

record SnapshotOriginalUsername =
  OriginalUsername_Name :: string
  OriginalUsername_Owner :: string

record UsernameEscrowRelease =
  Escrow_AllReleased :: bool
  Escrow_Contract :: string
  Escrow_Height :: u64
  Escrow_BlockHash :: string
  Escrow_Denom :: string
  Escrow_EscrowBalance :: string
  Escrow_EvidenceSHA256 :: string

record SnapshotUsername =
  Username_OriginalOwners :: "SnapshotOriginalUsername list"
  Username_ReservedNames :: "string list"
  Username_EscrowRelease :: UsernameEscrowRelease

record SnapshotBadge =
  Badge_ID :: u64
  Badge_RepoID :: string
  Badge_Recipient :: string
  Badge_AwardedBy :: string
  Badge_Reason :: string
  Badge_AwardedAt :: u64

record SnapshotBadgeRecipientIndex =
  RecipientIndex_Recipient :: string
  RecipientIndex_BadgeIDs :: "u64 list"

record SnapshotBadgeRepositoryIndex =
  RepositoryIndex_RepoID :: string
  RepositoryIndex_BadgeIDs :: "u64 list"

record SnapshotBadgeIndexes =
  BadgeIndexes_ByRecipient :: "SnapshotBadgeRecipientIndex list"
  BadgeIndexes_ByRepository :: "SnapshotBadgeRepositoryIndex list"

record SnapshotRelease =
  Release_Version :: string
  Release_Platform :: string
  Release_SHA256 :: string
  Release_RegisteredBy :: string
  Release_RegisteredAt :: u64

record SnapshotReleaseVersion =
  ReleaseVersion_Version :: string
  ReleaseVersion_Platforms :: "string list"

record Snapshot =
  Snapshot_Schema :: string
  Snapshot_Source :: SnapshotSource
  Snapshot_ContractPolicy :: ContractPolicy
  Snapshot_Repositories :: "SnapshotRepository list"
  Snapshot_Aliases :: "SnapshotAlias list"
  Snapshot_Refs :: "SnapshotRef list"
  Snapshot_Collaborators :: "SnapshotCollaborator list"
  Snapshot_GuardianConfigs :: "SnapshotGuardianConfig list"
  Snapshot_Moderation :: SnapshotModeration
  Snapshot_Economic :: SnapshotEconomic
  Snapshot_Username :: SnapshotUsername
  Snapshot_Badges :: "SnapshotBadge list"
  Snapshot_BadgeIndexes :: SnapshotBadgeIndexes
  Snapshot_Releases :: "SnapshotRelease list"
  Snapshot_ReleaseVersions :: "SnapshotReleaseVersion list"


section \<open>The plan\<close>

record BuildOptions =
  Options_TargetChainID :: u64
  Options_Directory :: string
  Options_Coordinator :: string
  Options_BatchSize :: int

record PlanSnapshot =
  PlanSnapshot_Schema :: string
  PlanSnapshot_SHA256 :: string
  PlanSnapshot_Root :: string
  PlanSnapshot_SourceChainID :: string
  PlanSnapshot_SourceContract :: string
  PlanSnapshot_SourceHeight :: u64
  PlanSnapshot_SourceBlockHash :: string
  PlanSnapshot_InventorySHA256 :: string
  PlanSnapshot_TxSearchSHA256 :: string
  PlanSnapshot_BlockEvidenceSHA256 :: string
  PlanSnapshot_EventCommitmentSHA256 :: string

record PlanTarget =
  Target_ChainID :: u64
  Target_SuiteVersion :: u64
  Target_Directory :: string
  Target_Coordinator :: string

record PlanLimits =
  Limits_BatchSize :: int
  Limits_MaxBatchItems :: int
  Limits_MaxPayloadBytes :: int

record PlanBatch =
  Batch_Sequence :: u64
  Batch_Kind :: string
  Batch_KindCode :: u8
  Batch_Count :: u64
  Batch_ItemKeys :: "string list"
  Batch_Payload :: string
  Batch_PayloadHash :: string
  Batch_RollingRoot :: string

record ModulePlan =
  Module_Order :: int
  Module_Name :: string
  Module_ID :: string
  Module_ExpectedCount :: u64
  Module_ExpectedBatches :: u64
  Module_ExpectedRoot :: string
  Module_Batches :: "PlanBatch list"

record PlanSummary =
  Summary_RepositoryCount :: int
  Summary_AliasCount :: int
  Summary_RefCount :: int
  Summary_CollaboratorCount :: int
  Summary_GuardianConfigCount :: int
  Summary_ModerationStatusCount :: int
  Summary_ModerationReportCount :: int
  Summary_ModerationTrailCount :: int
  Summary_EconomicSplitCount :: int
  Summary_EconomicTotalCount :: int
  Summary_UsernameOwnerCount :: int
  Summary_ReservedNameCount :: int
  Summary_BadgeCount :: int
  Summary_ReleaseArtifactCount :: int
  Summary_BatchCount :: int
  Summary_TransactionCount :: int

record Plan =
  Plan_Schema :: string
  Plan_Executable :: bool
  Plan_Snapshot :: PlanSnapshot
  Plan_Target :: PlanTarget
  Plan_ContractPolicy :: ContractPolicy
  Plan_UsernameEscrowRelease :: UsernameEscrowRelease
  Plan_UsernameEscrowEvidenceHash :: string
  Plan_Limits :: PlanLimits
  Plan_Modules :: "ModulePlan list"
  Plan_Summary :: PlanSummary


section \<open>The calldata manifest\<close>

record ManifestTransaction =
  Tx_Order :: int
  Tx_ModuleOrder :: "int option"
  Tx_Module :: string
  Tx_ModuleID :: string
  Tx_Sequence :: "u64 option"
  Tx_Phase :: string
  Tx_Function :: string
  Tx_ExpectedEvent :: string
  Tx_ExpectedTopic :: string
  Tx_To :: string
  Tx_Value :: string
  Tx_Data :: string

record CalldataManifest =
  Manifest_Schema :: string
  Manifest_CalldataReady :: bool
  Manifest_Signed :: bool
  Manifest_Broadcast :: bool
  Manifest_PlanSHA256 :: string
  Manifest_SnapshotRoot :: string
  Manifest_Target :: PlanTarget
  Manifest_Transactions :: "ManifestTransaction list"

end
