(* ===== verification/Snapshot_Validate.thy ===== *)
theory Snapshot_Validate
  imports Snapshot_Schema
begin

text \<open>
  The validation of a suite snapshot, \<^verbatim>\<open>validateSnapshot\<close> of
  \<^verbatim>\<open>cli/internal/suitemigration/plan.go\<close> with its helpers: the code tables, the token
  checks, the contract policy, the escrow release and the badge and release indexes. The
  Go function is one sequence of loops over the sections of the snapshot; here each section
  is a definition of its own and \<open>validateSnapshot\<close> runs them in the same order, passing
  on the maps that later sections read. A Go \<^verbatim>\<open>map[K]struct{}\<close> or \<^verbatim>\<open>map[K]bool\<close> that is only
  used as a set is the list of its members.
\<close>


section \<open>Code tables and tokens\<close>

datatype value_error =
    InvalidRole string
  | InvalidRepositoryStatus string
  | InvalidReportStatus string
  | InvalidTrailAction string
  | NotCanonicalDecimal string
  | NotPositiveUint256 string
  | NotExactlyZero string

definition roleCode :: "string \<Rightarrow> value_error + u8" where
  "roleCode v =
     (if v = ''maintainer'' then Inr 1
      else if v = ''reader'' then Inr 2
      else Inl (InvalidRole v))"

definition repoStatusCode :: "string \<Rightarrow> value_error + u8" where
  "repoStatusCode v =
     (if v = ''active'' then Inr 0
      else if v = ''frozen'' then Inr 1
      else if v = ''delisted'' then Inr 2
      else Inl (InvalidRepositoryStatus v))"

definition reportStatusCode :: "string \<Rightarrow> value_error + u8" where
  "reportStatusCode v =
     (if v = ''open'' then Inr 0
      else if v = ''resolved'' then Inr 1
      else if v = ''appealed'' then Inr 2
      else if v = ''appeal_resolved'' then Inr 3
      else Inl (InvalidReportStatus v))"

definition trailActionCode :: "string \<Rightarrow> value_error + u8" where
  "trailActionCode v =
     (if v = ''submitted'' then Inr 0
      else if v = ''resolved'' then Inr 1
      else if v = ''appealed'' then Inr 2
      else if v = ''appeal_resolved'' then Inr 3
      else if v = ''status_set'' then Inr 4
      else Inl (InvalidTrailAction v))"

definition positiveDecimal :: "string \<Rightarrow> string \<Rightarrow> value_error + int" where
  "positiveDecimal label v =
     (if v = '''' \<or> hd v = CHR ''+'' \<or> (length v > 1 \<and> hd v = CHR ''0'')
      then Inl (NotCanonicalDecimal label)
      else case set_string 10 v of
             None \<Rightarrow> Inl (NotPositiveUint256 label)
           | Some number \<Rightarrow>
               if number \<le> 0 \<or> \<not> number < 2 ^ 256 then Inl (NotPositiveUint256 label)
               else Inr number)"

definition zeroDecimal :: "string \<Rightarrow> string \<Rightarrow> value_error + unit" where
  "zeroDecimal label v = (if v \<noteq> ''0'' then Inl (NotExactlyZero label) else Inr ())"

definition between :: "char \<Rightarrow> char \<Rightarrow> char \<Rightarrow> bool" where
  "between lo hi c \<longleftrightarrow> lo \<le> c \<and> c \<le> hi"

definition validRepoName :: "string \<Rightarrow> bool" where
  "validRepoName v \<longleftrightarrow> \<not> (length v = 0 \<or> length v > 64) \<and>
     list_all (\<lambda>c. between CHR ''a'' CHR ''z'' c \<or> between CHR ''A'' CHR ''Z'' c \<or>
       between CHR ''0'' CHR ''9'' c \<or> c = CHR ''-'' \<or> c = CHR ''_'' \<or> c = CHR ''.'') v"

definition validUsername :: "string \<Rightarrow> bool" where
  "validUsername v \<longleftrightarrow>
     \<not> (length v < 3 \<or> length v > 32 \<or> hd v = CHR ''-'' \<or> last v = CHR ''-'' \<or> prefix ''inj1'' v) \<and>
     list_all (\<lambda>c. between CHR ''a'' CHR ''z'' c \<or> between CHR ''0'' CHR ''9'' c \<or> c = CHR ''-'') v"

definition validToken :: "string \<Rightarrow> nat \<Rightarrow> bool" where
  "validToken v maximum \<longleftrightarrow> \<not> (length v = 0 \<or> length v > maximum) \<and>
     list_all (\<lambda>c. between CHR ''a'' CHR ''z'' c \<or> between CHR ''A'' CHR ''Z'' c \<or>
       between CHR ''0'' CHR ''9'' c \<or> c = CHR ''.'' \<or> c = CHR ''-'' \<or> c = CHR ''_'') v"

definition validSHA :: "string \<Rightarrow> bool" where
  "validSHA v \<longleftrightarrow> \<not> (length v \<noteq> 40 \<and> length v \<noteq> 64) \<and>
     list_all (\<lambda>c. between CHR ''0'' CHR ''9'' c \<or> between CHR ''a'' CHR ''f'' c \<or>
       between CHR ''A'' CHR ''F'' c) v"

definition validRefName :: "string \<Rightarrow> bool" where
  "validRefName v \<longleftrightarrow>
     \<not> (length v < 5 \<or> length v > 256 \<or> \<not> prefix ''refs/'' v \<or> sublist ''..'' v) \<and>
     list_all (\<lambda>c. \<not> (c < CHR 0x21 \<or> CHR 0x7E < c \<or> c = CHR ''~'' \<or> c = CHR ''^'' \<or>
       c = CHR '':'' \<or> c = CHR 0x5C)) v"

definition NUL :: string where
  "NUL = [CHR 0x00]"

definition locatorKey :: "string \<Rightarrow> string \<Rightarrow> string" where
  "locatorKey owner name = owner @ NUL @ name"


section \<open>Policy and escrow\<close>

datatype policy_error =
    PolicyAddress codec_error
  | PlatformFeeExceeds

definition validateContractPolicy :: "geth \<Rightarrow> ContractPolicy \<Rightarrow> policy_error + unit" where
  "validateContractPolicy g policy =
     bind_res (for_check (\<lambda>(label, v).
         map_err PolicyAddress (bind_res (canonicalAddress g label v) (\<lambda>_. Inr ())))
       [(''policy admin'', Policy_Admin policy), (''treasury'', Policy_Treasury policy),
        (''committee'', Policy_Committee policy), (''release authority'', Policy_ReleaseAuthority policy),
        (''username policy admin'', Policy_UsernamePolicyAdmin policy)]) (\<lambda>_.
     guard_err (Policy_PlatformFeeBPS policy > 500) PlatformFeeExceeds)"

datatype escrow_error =
    EscrowNotComplete
  | EscrowContractMismatch
  | EscrowPredatesSnapshot
  | EscrowBalance value_error
  | EscrowDenomRequired
  | EscrowDigest codec_error

definition validateEscrowRelease ::
  "UsernameEscrowRelease \<Rightarrow> string \<Rightarrow> u64 \<Rightarrow> escrow_error + unit" where
  "validateEscrowRelease escrow sourceContract sourceHeight =
     bind_res (guard_err (\<not> Escrow_AllReleased escrow) EscrowNotComplete) (\<lambda>_.
     bind_res (guard_err (Escrow_Contract escrow \<noteq> sourceContract) EscrowContractMismatch) (\<lambda>_.
     bind_res (guard_err (Escrow_Height escrow < sourceHeight) EscrowPredatesSnapshot) (\<lambda>_.
     bind_res (map_err EscrowBalance (zeroDecimal ''username escrow balance'' (Escrow_EscrowBalance escrow))) (\<lambda>_.
     bind_res (guard_err (trim_space (Escrow_Denom escrow) = '''') EscrowDenomRequired) (\<lambda>_.
     bind_res (map_err EscrowDigest (rawSHA256 ''username escrow block hash'' (Escrow_BlockHash escrow))) (\<lambda>_.
     bind_res (map_err EscrowDigest (rawSHA256 ''username escrow evidence SHA-256'' (Escrow_EvidenceSHA256 escrow))) (\<lambda>_.
     Inr ())))))))"


section \<open>Source\<close>

datatype source_error =
    UnsupportedSchema string
  | SourceRequired
  | SourceDigest codec_error
  | SourcePolicy policy_error

definition synthetic_demo_source :: "string \<Rightarrow> string \<Rightarrow> u64 \<Rightarrow> string \<Rightarrow> bool" where
  "synthetic_demo_source chainID contract height blockHash \<longleftrightarrow>
     chainID = ''injective-evm-testnet-demo'' \<and> contract = ''synthetic-demo-suite'' \<and>
     height = 1 \<and> blockHash = replicate 64 CHR ''0''"

definition check_block_hash :: "string \<Rightarrow> string \<Rightarrow> u64 \<Rightarrow> string \<Rightarrow> codec_error + unit" where
  "check_block_hash chainID contract height blockHash =
     (case rawSHA256 ''source block hash'' blockHash of
        Inr _ \<Rightarrow> Inr ()
      | Inl err \<Rightarrow> if \<not> synthetic_demo_source chainID contract height blockHash then Inl err else Inr ())"

definition check_evidence_digests :: "string \<Rightarrow> string \<Rightarrow> string \<Rightarrow> string \<Rightarrow> codec_error + unit" where
  "check_evidence_digests inventory txSearch blockEvidence eventCommitment =
     for_check (\<lambda>(label, v). bind_res (rawSHA256 label v) (\<lambda>_. Inr ()))
       [(''inventory SHA-256'', inventory), (''tx_search SHA-256'', txSearch),
        (''block evidence SHA-256'', blockEvidence), (''event commitment SHA-256'', eventCommitment)]"

definition validate_source :: "geth \<Rightarrow> Snapshot \<Rightarrow> source_error + unit" where
  "validate_source g s =
    (let src = Snapshot_Source s in
     bind_res (guard_err (Snapshot_Schema s \<noteq> SnapshotSchema) (UnsupportedSchema (Snapshot_Schema s))) (\<lambda>_.
     bind_res (guard_err (trim_space (Source_ChainID src) = '''' \<or> trim_space (Source_Contract src) = '''' \<or>
       Source_Height src = 0) SourceRequired) (\<lambda>_.
     bind_res (map_err SourceDigest (check_block_hash (Source_ChainID src) (Source_Contract src)
       (Source_Height src) (Source_BlockHash src))) (\<lambda>_.
     bind_res (map_err SourceDigest (check_evidence_digests (Source_InventorySHA256 src)
       (Source_TxSearchSHA256 src) (Source_BlockEvidenceSHA256 src) (Source_EventCommitmentSHA256 src))) (\<lambda>_.
     map_err SourcePolicy (validateContractPolicy g (Snapshot_ContractPolicy s)))))))"


section \<open>Repositories and forks\<close>

type_synonym repo_map = "(string, SnapshotRepository) gomap"
type_synonym locator_map = "(string, string) gomap"

datatype repository_error =
    RepositoryID nat codec_error
  | RepositoryOwner string codec_error
  | RepositoryName string
  | RepositoryMetadata string
  | RepositoryTimestamps string
  | DuplicateRepository string
  | DuplicateRepositoryLocator string string
  | ForksItself string
  | UnknownForkParent string string
  | ForkCycle string

definition validate_repository ::
  "geth \<Rightarrow> nat \<times> SnapshotRepository \<Rightarrow> repo_map \<times> locator_map \<Rightarrow> repository_error + (repo_map \<times> locator_map)" where
  "validate_repository g = (\<lambda>(i, r) (repos, locators).
     bind_res (map_err (RepositoryID i) (parseHash ''repository ID'' (Repository_ID r))) (\<lambda>_.
     bind_res (map_err (RepositoryOwner (Repository_ID r)) (canonicalAddress g ''repository owner'' (Repository_Owner r))) (\<lambda>_.
     bind_res (guard_err (\<not> validRepoName (Repository_Name r)) (RepositoryName (Repository_ID r))) (\<lambda>_.
     bind_res (guard_err (length (Repository_Description r) > 1024 \<or> length (Repository_DefaultBranch r) > 64)
       (RepositoryMetadata (Repository_ID r))) (\<lambda>_.
     bind_res (guard_err (Repository_CreatedAt r = 0 \<or> Repository_UpdatedAt r < Repository_CreatedAt r)
       (RepositoryTimestamps (Repository_ID r))) (\<lambda>_.
     bind_res (guard_err (map_of repos (Repository_ID r) \<noteq> None) (DuplicateRepository (Repository_ID r))) (\<lambda>_.
     let key = locatorKey (Repository_Owner r) (Repository_Name r) in
     bind_res (guard_err (gm_get '''' locators key \<noteq> '''')
       (DuplicateRepositoryLocator (Repository_Owner r) (Repository_Name r))) (\<lambda>_.
     Inr (gm_put (Repository_ID r) r repos, gm_put key (Repository_ID r) locators)))))))))"

definition validate_repositories ::
  "geth \<Rightarrow> SnapshotRepository list \<Rightarrow> repository_error + (repo_map \<times> locator_map)" where
  "validate_repositories g rs = for_res (validate_repository g) (enumerate 0 rs) ([], [])"

definition validate_fork_parents :: "repo_map \<Rightarrow> SnapshotRepository list \<Rightarrow> repository_error + unit" where
  "validate_fork_parents repos = for_check (\<lambda>r.
     if Repository_ForkedFrom r \<noteq> '''' then
       bind_res (guard_err (Repository_ForkedFrom r = Repository_ID r) (ForksItself (Repository_ID r))) (\<lambda>_.
       guard_err (map_of repos (Repository_ForkedFrom r) = None)
         (UnknownForkParent (Repository_ID r) (Repository_ForkedFrom r)))
     else Inr ())"

definition fork_parent :: "repo_map \<Rightarrow> string \<Rightarrow> string" where
  \<comment> \<open>\<^verbatim>\<open>repos[id].ForkedFrom\<close>: an absent key gives the zero struct\<close>
  "fork_parent repos i = (case map_of repos i of None \<Rightarrow> '''' | Some r \<Rightarrow> Repository_ForkedFrom r)"

text \<open>\<open>visitFork repos i (visiting, visited)\<close> walks up from \<open>i\<close>; the state is the pair of Go sets.\<close>

function visitFork ::
  "repo_map \<Rightarrow> string \<Rightarrow> string list \<times> string list \<Rightarrow> repository_error + (string list \<times> string list)" where
  "visitFork repos i (visiting, visited) =
     (if i \<in> set visiting then Inl (ForkCycle i)
      else if i \<in> set visited then Inr (visiting, visited)
      else
        bind_res
          (if fork_parent repos i \<noteq> '''' then visitFork repos (fork_parent repos i) (i # visiting, visited)
           else Inr (i # visiting, visited))
          (\<lambda>(visiting', visited'). Inr (removeAll i visiting', i # visited')))"
  by pat_completeness auto

lemma visitFork_measure:
  assumes "i \<notin> V" "fork_parent repos i \<noteq> ''''"
  shows "card (fst ` set repos - insert i V) < card (fst ` set repos - V)"
proof -
  have "i \<in> fst ` set repos"
    using assms(2) map_of_eq_None_iff[of repos i] by (auto simp: fork_parent_def split: option.splits)
  then have "fst ` set repos - insert i V \<subset> fst ` set repos - V" using assms(1) by blast
  then show ?thesis by (simp add: psubset_card_mono)
qed

termination visitFork
  by (relation "measure (\<lambda>(repos, i, visiting, visited). card (fst ` set repos - set visiting))")
    (simp_all add: visitFork_measure)

definition visit_all_forks :: "repo_map \<Rightarrow> repository_error + (string list \<times> string list)" where
  "visit_all_forks repos = for_res (visitFork repos) (map fst repos) ([], [])"

section \<open>Aliases, refs, collaborators and guardians\<close>

datatype record_error =
    UnknownRepository string nat
  | RecordCodec codec_error
  | AliasName nat
  | AliasCollides string
  | AliasDuplicate nat
  | RefLimits nat
  | RefPackURI nat
  | RefTimestamp nat
  | DuplicateRef string
  | RefLimitExceeded string

datatype member_error =
    MemberUnknownRepository nat
  | MemberCodec codec_error
  | MemberValue value_error
  | OwnerIsCollaborator string
  | DuplicateCollaborator string
  | CollaboratorLimitExceeded string
  | GuardianUnknownRepository string
  | DuplicateGuardianConfig string
  | GuardianStale string
  | GuardianThreshold string
  | GuardianOwner string
  | DuplicateGuardian string

definition validate_alias ::
  "geth \<Rightarrow> repo_map \<Rightarrow> nat \<times> SnapshotAlias \<Rightarrow> locator_map \<Rightarrow> record_error + locator_map" where
  "validate_alias g repos = (\<lambda>(i, a) locators.
     bind_res (guard_err (map_of repos (Alias_RepoID a) = None) (UnknownRepository ''alias'' i)) (\<lambda>_.
     bind_res (map_err RecordCodec (canonicalAddress g ''alias owner'' (Alias_Owner a))) (\<lambda>_.
     bind_res (guard_err (\<not> validRepoName (Alias_Name a)) (AliasName i)) (\<lambda>_.
     let key = locatorKey (Alias_Owner a) (Alias_Name a); existing = gm_get '''' locators key in
     bind_res (guard_err (existing \<noteq> '''' \<and> existing \<noteq> Alias_RepoID a) (AliasCollides existing)) (\<lambda>_.
     bind_res (guard_err (existing = Alias_RepoID a) (AliasDuplicate i)) (\<lambda>_.
     Inr (gm_put key (Alias_RepoID a) locators)))))))"

definition validate_aliases ::
  "geth \<Rightarrow> repo_map \<Rightarrow> locator_map \<Rightarrow> SnapshotAlias list \<Rightarrow> record_error + locator_map" where
  "validate_aliases g repos locators aliases = for_res (validate_alias g repos) (enumerate 0 aliases) locators"

definition valid_pack_uri :: "string \<Rightarrow> bool" where
  "valid_pack_uri uri \<longleftrightarrow> \<not> (length uri \<le> 7 \<or> length uri > 512 \<or> \<not> prefix ''ipfs://'' uri)"

definition validate_ref ::
  "geth \<Rightarrow> repo_map \<Rightarrow> nat \<times> SnapshotRef \<Rightarrow> (string, int) gomap \<times> string list \<Rightarrow>
   record_error + ((string, int) gomap \<times> string list)" where
  "validate_ref g repos = (\<lambda>(i, r) (refsPerRepo, refKeys).
     bind_res (guard_err (map_of repos (Ref_RepoID r) = None) (UnknownRepository ''ref'' i)) (\<lambda>_.
     bind_res (guard_err (\<not> validRefName (Ref_RefName r) \<or> \<not> validSHA (Ref_CommitSHA r) \<or>
       length (Ref_PackURIs r) = 0 \<or> length (Ref_PackURIs r) > 128) (RefLimits i)) (\<lambda>_.
     bind_res (for_check (\<lambda>uri. guard_err (\<not> valid_pack_uri uri) (RefPackURI i)) (Ref_PackURIs r)) (\<lambda>_.
     bind_res (guard_err (Ref_UpdatedAt r = 0) (RefTimestamp i)) (\<lambda>_.
     bind_res (map_err RecordCodec (canonicalAddress g ''ref updated_by'' (Ref_UpdatedBy r))) (\<lambda>_.
     let key = Ref_RepoID r @ NUL @ Ref_RefName r in
     bind_res (guard_err (key \<in> set refKeys) (DuplicateRef key)) (\<lambda>_.
     let perRepo = gm_get 0 refsPerRepo (Ref_RepoID r) + 1 in
     bind_res (guard_err (perRepo > 1024) (RefLimitExceeded (Ref_RepoID r))) (\<lambda>_.
     Inr (gm_put (Ref_RepoID r) perRepo refsPerRepo, key # refKeys)))))))))"

definition validate_refs ::
  "geth \<Rightarrow> repo_map \<Rightarrow> SnapshotRef list \<Rightarrow> record_error + ((string, int) gomap \<times> string list)" where
  "validate_refs g repos refs = for_res (validate_ref g repos) (enumerate 0 refs) ([], [])"

definition validate_collaborator ::
  "geth \<Rightarrow> repo_map \<Rightarrow> nat \<times> SnapshotCollaborator \<Rightarrow> (string, int) gomap \<times> string list \<Rightarrow>
   member_error + ((string, int) gomap \<times> string list)" where
  "validate_collaborator g repos = (\<lambda>(i, c) (collabsPerRepo, collabKeys).
     case map_of repos (Collaborator_RepoID c) of
       None \<Rightarrow> Inl (MemberUnknownRepository i)
     | Some repo \<Rightarrow>
         bind_res (map_err MemberCodec (canonicalAddress g ''collaborator account'' (Collaborator_Account c))) (\<lambda>_.
         bind_res (guard_err (Collaborator_Account c = Repository_Owner repo)
           (OwnerIsCollaborator (Collaborator_RepoID c))) (\<lambda>_.
         bind_res (map_err MemberValue (roleCode (Collaborator_Role c))) (\<lambda>_.
         let key = Collaborator_RepoID c @ NUL @ Collaborator_Account c in
         bind_res (guard_err (key \<in> set collabKeys) (DuplicateCollaborator key)) (\<lambda>_.
         let perRepo = gm_get 0 collabsPerRepo (Collaborator_RepoID c) + 1 in
         bind_res (guard_err (perRepo > 256) (CollaboratorLimitExceeded (Collaborator_RepoID c))) (\<lambda>_.
         Inr (gm_put (Collaborator_RepoID c) perRepo collabsPerRepo, key # collabKeys)))))))"

definition validate_collaborators ::
  "geth \<Rightarrow> repo_map \<Rightarrow> SnapshotCollaborator list \<Rightarrow> member_error + ((string, int) gomap \<times> string list)" where
  "validate_collaborators g repos cs = for_res (validate_collaborator g repos) (enumerate 0 cs) ([], [])"

definition validate_guardian_address ::
  "geth \<Rightarrow> string \<Rightarrow> string \<Rightarrow> string \<Rightarrow> string list \<Rightarrow> member_error + string list" where
  "validate_guardian_address g repoID owner address seen =
     bind_res (map_err MemberCodec (canonicalAddress g ''guardian'' address)) (\<lambda>_.
     bind_res (guard_err (address = owner) (GuardianOwner repoID)) (\<lambda>_.
     bind_res (guard_err (address \<in> set seen) (DuplicateGuardian repoID)) (\<lambda>_.
     Inr (address # seen))))"

definition validate_guardian_config ::
  "geth \<Rightarrow> repo_map \<Rightarrow> SnapshotGuardianConfig \<Rightarrow> string list \<Rightarrow> member_error + string list" where
  "validate_guardian_config g repos c guardianRepos =
     (case map_of repos (Guardian_RepoID c) of
        None \<Rightarrow> Inl (GuardianUnknownRepository (Guardian_RepoID c))
      | Some repo \<Rightarrow>
          bind_res (guard_err (Guardian_RepoID c \<in> set guardianRepos) (DuplicateGuardianConfig (Guardian_RepoID c))) (\<lambda>_.
          bind_res (guard_err (Guardian_ConfiguredBy c \<noteq> Repository_Owner repo) (GuardianStale (Guardian_RepoID c))) (\<lambda>_.
          bind_res (guard_err (length (Guardian_Guardians c) = 0 \<or> length (Guardian_Guardians c) > 10 \<or>
            Guardian_Threshold c = 0 \<or> unat (Guardian_Threshold c) > length (Guardian_Guardians c))
            (GuardianThreshold (Guardian_RepoID c))) (\<lambda>_.
          bind_res (for_res (validate_guardian_address g (Guardian_RepoID c) (Repository_Owner repo))
            (Guardian_Guardians c) []) (\<lambda>_.
          Inr (Guardian_RepoID c # guardianRepos))))))"

definition validate_guardian_configs ::
  "geth \<Rightarrow> repo_map \<Rightarrow> SnapshotGuardianConfig list \<Rightarrow> member_error + string list" where
  "validate_guardian_configs g repos cs = for_res (validate_guardian_config g repos) cs []"

section \<open>Moderation\<close>

datatype status_error =
    StatusUnknownRepository string
  | DuplicateFinalStatus string
  | StatusValue value_error
  | StatusCoverage nat nat
  | StatusCodec codec_error
  | DuplicateStatusTrail string
  | StatusTrailEmpty string
  | StatusTrailInvalid string
  | StatusTrailReport string u64
  | StatusTrailFinal string

datatype report_error =
    ReportIDInvalid u64
  | DuplicateReport u64
  | ReportUnknownRepository u64
  | ReportCodec codec_error
  | ReportValue value_error
  | ReportRecordInvalid u64
  | ReportOpenNotActive u64
  | ReportTrailLength u64 nat nat
  | ReportTrailAction u64 nat
  | ReportTrailInvalid u64
  | ReportTrailSubmission u64
  | ReportUpdatedAt u64
  | ReportFinalStatus u64
  | ReportAppealChanged u64
  | ReportResolutionStatus u64

definition validate_final_status ::
  "repo_map \<Rightarrow> SnapshotFinalStatus \<Rightarrow> (string, string) gomap \<Rightarrow> status_error + (string, string) gomap" where
  "validate_final_status repos status statuses =
     bind_res (guard_err (map_of repos (FinalStatus_RepoID status) = None)
       (StatusUnknownRepository (FinalStatus_RepoID status))) (\<lambda>_.
     bind_res (guard_err (map_of statuses (FinalStatus_RepoID status) \<noteq> None)
       (DuplicateFinalStatus (FinalStatus_RepoID status))) (\<lambda>_.
     bind_res (map_err StatusValue (repoStatusCode (FinalStatus_Status status))) (\<lambda>_.
     Inr (gm_put (FinalStatus_RepoID status) (FinalStatus_Status status) statuses))))"

definition validate_final_statuses ::
  "repo_map \<Rightarrow> SnapshotFinalStatus list \<Rightarrow> status_error + (string, string) gomap" where
  "validate_final_statuses repos finalStatuses =
     bind_res (for_res (validate_final_status repos) finalStatuses []) (\<lambda>statuses.
     bind_res (guard_err (length statuses \<noteq> length repos) (StatusCoverage (length statuses) (length repos))) (\<lambda>_.
     Inr statuses))"

definition expectedActions :: "string list" where
  "expectedActions = [''submitted'', ''resolved'', ''appealed'', ''appeal_resolved'']"

definition check_report_fields ::
  "geth \<Rightarrow> repo_map \<Rightarrow> (u64, SnapshotReport) gomap \<Rightarrow> SnapshotReport \<Rightarrow> report_error + unit" where
  "check_report_fields g repos reports r =
     bind_res (guard_err (Report_ID r = 0 \<or> Report_ID r = - 1) (ReportIDInvalid (Report_ID r))) (\<lambda>_.
     bind_res (guard_err (map_of reports (Report_ID r) \<noteq> None) (DuplicateReport (Report_ID r))) (\<lambda>_.
     bind_res (guard_err (map_of repos (Report_RepoID r) = None) (ReportUnknownRepository (Report_ID r))) (\<lambda>_.
     bind_res (map_err ReportCodec (canonicalAddress g ''reporter'' (Report_Reporter r))) (\<lambda>_.
     bind_res (map_err ReportValue (reportStatusCode (Report_Status r))) (\<lambda>_.
     bind_res (map_err ReportValue (repoStatusCode (Report_Resolution r))) (\<lambda>_.
     guard_err (length (Report_ReasonHash r) = 0 \<or> length (Report_ReasonHash r) > 128 \<or>
       Report_CreatedAt r = 0 \<or> Report_UpdatedAt r < Report_CreatedAt r \<or> length (Report_Trail r) = 0)
       (ReportRecordInvalid (Report_ID r))))))))"

definition expected_trail_length :: "SnapshotReport \<Rightarrow> report_error + nat" where
  "expected_trail_length r =
     (if Report_Status r = ''open'' then
        (if Report_Resolution r \<noteq> ''active'' then Inl (ReportOpenNotActive (Report_ID r)) else Inr 1)
      else if Report_Status r = ''resolved'' then Inr 2
      else if Report_Status r = ''appealed'' then Inr 3
      else if Report_Status r = ''appeal_resolved'' then Inr 4
      else Inr 0)"

definition validate_report_entry ::
  "geth \<Rightarrow> SnapshotReport \<Rightarrow> nat \<times> SnapshotReportTrail \<Rightarrow> u64 \<Rightarrow> report_error + u64" where
  "validate_report_entry g r = (\<lambda>(index, entry) previous.
     bind_res (map_err ReportValue (trailActionCode (ReportTrail_Action entry))) (\<lambda>_.
     bind_res (guard_err (ReportTrail_Action entry \<noteq> expectedActions ! index)
       (ReportTrailAction (Report_ID r) index)) (\<lambda>_.
     bind_res (map_err ReportCodec (canonicalAddress g ''report trail actor'' (ReportTrail_Actor entry))) (\<lambda>_.
     bind_res (map_err ReportValue (repoStatusCode (ReportTrail_Status entry))) (\<lambda>_.
     bind_res (guard_err (length (ReportTrail_ReasonHash entry) = 0 \<or> length (ReportTrail_ReasonHash entry) > 128 \<or>
       ReportTrail_Timestamp entry = 0 \<or> ReportTrail_Timestamp entry < previous)
       (ReportTrailInvalid (Report_ID r))) (\<lambda>_.
     bind_res (guard_err (index = 0 \<and> (ReportTrail_Actor entry \<noteq> Report_Reporter r \<or>
       ReportTrail_Status entry \<noteq> ''active'' \<or> ReportTrail_Timestamp entry \<noteq> Report_CreatedAt r \<or>
       ReportTrail_ReasonHash entry \<noteq> Report_ReasonHash r)) (ReportTrailSubmission (Report_ID r))) (\<lambda>_.
     Inr (ReportTrail_Timestamp entry))))))))"

definition validate_report_trail :: "geth \<Rightarrow> SnapshotReport \<Rightarrow> report_error + unit" where
  "validate_report_trail g r =
     bind_res (expected_trail_length r) (\<lambda>expectedTrailLength.
     bind_res (guard_err (length (Report_Trail r) \<noteq> expectedTrailLength)
       (ReportTrailLength (Report_ID r) (length (Report_Trail r)) expectedTrailLength)) (\<lambda>_.
     bind_res (for_res (validate_report_entry g r) (enumerate 0 (Report_Trail r)) 0) (\<lambda>previous.
     bind_res (guard_err (previous \<noteq> Report_UpdatedAt r) (ReportUpdatedAt (Report_ID r))) (\<lambda>_.
     bind_res (guard_err (ReportTrail_Status (last (Report_Trail r)) \<noteq> Report_Resolution r)
       (ReportFinalStatus (Report_ID r))) (\<lambda>_.
     bind_res (guard_err (Report_Status r = ''appeal_resolved'' \<and>
       ReportTrail_Status (Report_Trail r ! 2) \<noteq> ReportTrail_Status (Report_Trail r ! 1))
       (ReportAppealChanged (Report_ID r))) (\<lambda>_.
     guard_err (Report_Status r \<noteq> ''open'' \<and> Report_Status r \<noteq> ''appeal_resolved'' \<and>
       ReportTrail_Status (Report_Trail r ! 1) \<noteq> Report_Resolution r)
       (ReportResolutionStatus (Report_ID r))))))))"

definition validate_report ::
  "geth \<Rightarrow> repo_map \<Rightarrow> SnapshotReport \<Rightarrow> (u64, SnapshotReport) gomap \<Rightarrow>
   report_error + (u64, SnapshotReport) gomap" where
  "validate_report g repos r reports =
     bind_res (check_report_fields g repos reports r) (\<lambda>_.
     bind_res (validate_report_trail g r) (\<lambda>_.
     Inr (gm_put (Report_ID r) r reports)))"

definition validate_reports ::
  "geth \<Rightarrow> repo_map \<Rightarrow> SnapshotReport list \<Rightarrow> report_error + (u64, SnapshotReport) gomap" where
  "validate_reports g repos rs = for_res (validate_report g repos) rs []"

definition validate_status_entry ::
  "geth \<Rightarrow> (u64, SnapshotReport) gomap \<Rightarrow> string \<Rightarrow> SnapshotRepositoryStatusLog \<Rightarrow> u64 \<Rightarrow> status_error + u64" where
  "validate_status_entry g reports repoID entry previous =
     bind_res (map_err StatusValue (repoStatusCode (StatusLog_Status entry))) (\<lambda>_.
     bind_res (map_err StatusCodec (canonicalAddress g ''status trail actor'' (StatusLog_Actor entry))) (\<lambda>_.
     bind_res (guard_err (length (StatusLog_ReasonHash entry) > 128 \<or> StatusLog_Timestamp entry = 0 \<or>
       StatusLog_Timestamp entry < previous) (StatusTrailInvalid repoID)) (\<lambda>_.
     bind_res (guard_err (StatusLog_ReportID entry \<noteq> 0 \<and>
       (case map_of reports (StatusLog_ReportID entry) of
          None \<Rightarrow> True
        | Some report \<Rightarrow> Report_RepoID report \<noteq> repoID))
       (StatusTrailReport repoID (StatusLog_ReportID entry))) (\<lambda>_.
     Inr (StatusLog_Timestamp entry)))))"

definition validate_status_trail ::
  "geth \<Rightarrow> repo_map \<Rightarrow> (string, string) gomap \<Rightarrow> (u64, SnapshotReport) gomap \<Rightarrow>
   SnapshotStatusTrail \<Rightarrow> string list \<Rightarrow> status_error + string list" where
  "validate_status_trail g repos statuses reports r statusTrails =
     bind_res (guard_err (map_of repos (StatusTrail_RepoID r) = None)
       (StatusUnknownRepository (StatusTrail_RepoID r))) (\<lambda>_.
     bind_res (guard_err (StatusTrail_RepoID r \<in> set statusTrails)
       (DuplicateStatusTrail (StatusTrail_RepoID r))) (\<lambda>_.
     bind_res (guard_err (length (StatusTrail_Trail r) = 0) (StatusTrailEmpty (StatusTrail_RepoID r))) (\<lambda>_.
     bind_res (for_res (validate_status_entry g reports (StatusTrail_RepoID r)) (StatusTrail_Trail r) 0) (\<lambda>_.
     bind_res (guard_err (StatusLog_Status (last (StatusTrail_Trail r)) \<noteq>
       gm_get '''' statuses (StatusTrail_RepoID r)) (StatusTrailFinal (StatusTrail_RepoID r))) (\<lambda>_.
     Inr (StatusTrail_RepoID r # statusTrails))))))"

definition validate_status_trails ::
  "geth \<Rightarrow> repo_map \<Rightarrow> (string, string) gomap \<Rightarrow> (u64, SnapshotReport) gomap \<Rightarrow>
   SnapshotStatusTrail list \<Rightarrow> status_error + string list" where
  "validate_status_trails g repos statuses reports ts =
     for_res (validate_status_trail g repos statuses reports) ts []"

section \<open>Economic records and user names\<close>

datatype economic_error =
    SplitsUnknownRepository string
  | DuplicateSplits string
  | SplitsCount string
  | EconomicCodec codec_error
  | SplitNamesOwner string
  | SplitZero string
  | SplitDuplicateRecipient string
  | SplitExceeds string
  | TotalUnknownRepository string
  | TotalDenom string
  | TotalAmount value_error
  | DuplicateTotal string

datatype username_error =
    InvalidUsername string
  | UsernameCodec codec_error
  | DuplicateUsername string
  | OwnerHasTwoNames string string string
  | ReservedTooMany
  | InvalidReserved string
  | ReservedOverlaps string
  | DuplicateReserved string
  | UsernameEscrow escrow_error

definition validate_split ::
  "geth \<Rightarrow> string \<Rightarrow> string \<Rightarrow> SnapshotSplit \<Rightarrow> string list \<times> int \<Rightarrow> economic_error + (string list \<times> int)" where
  "validate_split g repoID owner entry = (\<lambda>(seen, total).
     bind_res (map_err EconomicCodec (canonicalAddress g ''split recipient'' (Split_Recipient entry))) (\<lambda>_.
     bind_res (guard_err (Split_Recipient entry = owner) (SplitNamesOwner repoID)) (\<lambda>_.
     bind_res (guard_err (Split_BPS entry = 0) (SplitZero repoID)) (\<lambda>_.
     bind_res (guard_err (Split_Recipient entry \<in> set seen) (SplitDuplicateRecipient repoID)) (\<lambda>_.
     Inr (Split_Recipient entry # seen, total + uint (Split_BPS entry)))))))"

definition validate_revenue_splits ::
  "geth \<Rightarrow> repo_map \<Rightarrow> SnapshotRevenueSplits \<Rightarrow> string list \<Rightarrow> economic_error + string list" where
  "validate_revenue_splits g repos r splitRepos =
     (case map_of repos (RevenueSplits_RepoID r) of
        None \<Rightarrow> Inl (SplitsUnknownRepository (RevenueSplits_RepoID r))
      | Some repo \<Rightarrow>
          bind_res (guard_err (RevenueSplits_RepoID r \<in> set splitRepos) (DuplicateSplits (RevenueSplits_RepoID r))) (\<lambda>_.
          bind_res (guard_err (length (RevenueSplits_Splits r) > MaxRevenueSplitRecipients)
            (SplitsCount (RevenueSplits_RepoID r))) (\<lambda>_.
          bind_res (for_res (validate_split g (RevenueSplits_RepoID r) (Repository_Owner repo))
            (RevenueSplits_Splits r) ([], 0)) (\<lambda>(seen, total).
          bind_res (guard_err (total > 10000) (SplitExceeds (RevenueSplits_RepoID r))) (\<lambda>_.
          Inr (RevenueSplits_RepoID r # splitRepos))))))"

definition validate_splits ::
  "geth \<Rightarrow> repo_map \<Rightarrow> SnapshotRevenueSplits list \<Rightarrow> economic_error + string list" where
  "validate_splits g repos rs = for_res (validate_revenue_splits g repos) rs []"

definition validate_total :: "repo_map \<Rightarrow> SnapshotSponsorTotal \<Rightarrow> string list \<Rightarrow> economic_error + string list" where
  "validate_total repos r totalKeys =
     bind_res (guard_err (map_of repos (SponsorTotal_RepoID r) = None)
       (TotalUnknownRepository (SponsorTotal_RepoID r))) (\<lambda>_.
     bind_res (guard_err (length (SponsorTotal_Denom r) = 0 \<or> length (SponsorTotal_Denom r) > 128)
       (TotalDenom (SponsorTotal_Denom r))) (\<lambda>_.
     bind_res (map_err TotalAmount (positiveDecimal ''sponsor total'' (SponsorTotal_Amount r))) (\<lambda>_.
     let key = SponsorTotal_RepoID r @ NUL @ SponsorTotal_Denom r in
     bind_res (guard_err (key \<in> set totalKeys) (DuplicateTotal key)) (\<lambda>_.
     Inr (key # totalKeys)))))"

definition validate_totals :: "repo_map \<Rightarrow> SnapshotSponsorTotal list \<Rightarrow> economic_error + string list" where
  "validate_totals repos rs = for_res (validate_total repos) rs []"

definition validate_original_owner ::
  "geth \<Rightarrow> SnapshotOriginalUsername \<Rightarrow> (string, string) gomap \<times> (string, string) gomap \<Rightarrow>
   username_error + ((string, string) gomap \<times> (string, string) gomap)" where
  "validate_original_owner g r = (\<lambda>(usernameNames, usernameOwners).
     bind_res (guard_err (\<not> validUsername (OriginalUsername_Name r)) (InvalidUsername (OriginalUsername_Name r))) (\<lambda>_.
     bind_res (map_err UsernameCodec (canonicalAddress g ''username owner'' (OriginalUsername_Owner r))) (\<lambda>_.
     bind_res (guard_err (map_of usernameNames (OriginalUsername_Name r) \<noteq> None)
       (DuplicateUsername (OriginalUsername_Name r))) (\<lambda>_.
     let existing = gm_get '''' usernameOwners (OriginalUsername_Owner r) in
     bind_res (guard_err (existing \<noteq> '''')
       (OwnerHasTwoNames (OriginalUsername_Owner r) existing (OriginalUsername_Name r))) (\<lambda>_.
     Inr (gm_put (OriginalUsername_Name r) (OriginalUsername_Owner r) usernameNames,
          gm_put (OriginalUsername_Owner r) (OriginalUsername_Name r) usernameOwners))))))"

definition validate_original_owners ::
  "geth \<Rightarrow> SnapshotOriginalUsername list \<Rightarrow>
   username_error + ((string, string) gomap \<times> (string, string) gomap)" where
  "validate_original_owners g rs = for_res (validate_original_owner g) rs ([], [])"

definition validate_reserved_name ::
  "(string, string) gomap \<Rightarrow> string \<Rightarrow> string list \<Rightarrow> username_error + string list" where
  "validate_reserved_name usernameNames name reserved =
     bind_res (guard_err (\<not> validUsername name) (InvalidReserved name)) (\<lambda>_.
     bind_res (guard_err (map_of usernameNames name \<noteq> None) (ReservedOverlaps name)) (\<lambda>_.
     bind_res (guard_err (name \<in> set reserved) (DuplicateReserved name)) (\<lambda>_.
     Inr (name # reserved))))"

definition validate_reserved_names ::
  "(string, string) gomap \<Rightarrow> string list \<Rightarrow> username_error + string list" where
  "validate_reserved_names usernameNames names =
     bind_res (guard_err (length names > MaxReservedUsernames) ReservedTooMany) (\<lambda>_.
     for_res (validate_reserved_name usernameNames) names [])"


section \<open>Badges and releases\<close>

datatype badge_error =
    BadgeIDZero
  | DuplicateBadge u64
  | BadgeUnknownRepository u64
  | BadgeCodec codec_error
  | BadgeSelfAward u64
  | BadgeInvalid u64
  | DuplicateRecipientIndex string
  | RecipientIndexBadge u64
  | DuplicateRepositoryIndex string
  | RepositoryIndexBadge u64
  | BadgeIndexesDiffer
  | BadgeNotInBoth u64

type_synonym badge_map = "(u64, SnapshotBadge) gomap"
type_synonym id_index = "(string, u64 list) gomap"

definition sorted_equal_unique :: "('a :: linorder) list \<Rightarrow> 'a list \<Rightarrow> bool" where
  \<comment> \<open>the index comparison after both slices are sorted\<close>
  "sorted_equal_unique g w \<longleftrightarrow> length g = length w \<and>
     list_all (\<lambda>i. \<not> (g ! i \<noteq> w ! i \<or> (i > 0 \<and> g ! i = g ! (i - 1)))) [0..<length g]"

definition equalIndexMaps :: "id_index \<Rightarrow> id_index \<Rightarrow> bool" where
  "equalIndexMaps got want \<longleftrightarrow> length got = length want \<and>
     list_all (\<lambda>(key, w).
       case map_of got key of
         None \<Rightarrow> False
       | Some g \<Rightarrow> sorted_equal_unique (sort g) (sort w)) want"

definition index_entries ::
  "(SnapshotBadge \<Rightarrow> bool) \<Rightarrow> (u64 \<Rightarrow> badge_error) \<Rightarrow> badge_map \<Rightarrow> u64 list \<Rightarrow> (u64, int) gomap \<Rightarrow>
   badge_error + (u64, int) gomap" where
  "index_entries belongs err badges = for_res (\<lambda>i seenIDs.
     case map_of badges i of
       None \<Rightarrow> Inl (err i)
     | Some badge \<Rightarrow>
         if \<not> belongs badge then Inl (err i) else Inr (gm_put i (gm_get 0 seenIDs i + 1) seenIDs))"

definition validate_recipient_index ::
  "geth \<Rightarrow> badge_map \<Rightarrow> SnapshotBadgeRecipientIndex \<Rightarrow> id_index \<times> (u64, int) gomap \<Rightarrow>
   badge_error + (id_index \<times> (u64, int) gomap)" where
  "validate_recipient_index gt badges g = (\<lambda>(gotRecipients, seenIDs).
     bind_res (map_err BadgeCodec (canonicalAddress gt ''badge index recipient'' (RecipientIndex_Recipient g))) (\<lambda>_.
     bind_res (guard_err (map_of gotRecipients (RecipientIndex_Recipient g) \<noteq> None)
       (DuplicateRecipientIndex (RecipientIndex_Recipient g))) (\<lambda>_.
     bind_res (index_entries (\<lambda>badge. Badge_Recipient badge = RecipientIndex_Recipient g) RecipientIndexBadge
       badges (RecipientIndex_BadgeIDs g) seenIDs) (\<lambda>seenIDs'.
     Inr (gm_put (RecipientIndex_Recipient g) (RecipientIndex_BadgeIDs g) gotRecipients, seenIDs')))))"

definition validate_repository_index ::
  "badge_map \<Rightarrow> SnapshotBadgeRepositoryIndex \<Rightarrow> id_index \<times> (u64, int) gomap \<Rightarrow>
   badge_error + (id_index \<times> (u64, int) gomap)" where
  "validate_repository_index badges g = (\<lambda>(gotRepos, seenIDs).
     bind_res (guard_err (map_of gotRepos (RepositoryIndex_RepoID g) \<noteq> None)
       (DuplicateRepositoryIndex (RepositoryIndex_RepoID g))) (\<lambda>_.
     bind_res (index_entries (\<lambda>badge. Badge_RepoID badge = RepositoryIndex_RepoID g) RepositoryIndexBadge
       badges (RepositoryIndex_BadgeIDs g) seenIDs) (\<lambda>seenIDs'.
     Inr (gm_put (RepositoryIndex_RepoID g) (RepositoryIndex_BadgeIDs g) gotRepos, seenIDs'))))"

definition validateBadgeIndexes ::
  "geth \<Rightarrow> SnapshotBadgeIndexes \<Rightarrow> badge_map \<Rightarrow> id_index \<Rightarrow> id_index \<Rightarrow> badge_error + unit" where
  "validateBadgeIndexes g indexes badges wantRecipients wantRepos =
     bind_res (for_res (validate_recipient_index g badges) (BadgeIndexes_ByRecipient indexes) ([], []))
       (\<lambda>(gotRecipients, seenIDs).
     bind_res (for_res (validate_repository_index badges) (BadgeIndexes_ByRepository indexes) ([], seenIDs))
       (\<lambda>(gotRepos, seenIDs').
     bind_res (guard_err (\<not> equalIndexMaps gotRecipients wantRecipients \<or> \<not> equalIndexMaps gotRepos wantRepos)
       BadgeIndexesDiffer) (\<lambda>_.
     for_check (\<lambda>(i, _). guard_err (gm_get 0 seenIDs' i \<noteq> 2) (BadgeNotInBoth i)) badges)))"

definition gm_append :: "'k \<Rightarrow> 'v \<Rightarrow> ('k, 'v list) gomap \<Rightarrow> ('k, 'v list) gomap" where
  \<comment> \<open>\<^verbatim>\<open>m[k] = append(m[k], v)\<close>\<close>
  "gm_append k v m = gm_put k (gm_get [] m k @ [v]) m"

definition validate_badge ::
  "geth \<Rightarrow> repo_map \<Rightarrow> SnapshotBadge \<Rightarrow> badge_map \<times> id_index \<times> id_index \<Rightarrow>
   badge_error + (badge_map \<times> id_index \<times> id_index)" where
  "validate_badge g repos b = (\<lambda>(badges, byRecipient, byRepo).
     bind_res (guard_err (Badge_ID b = 0) BadgeIDZero) (\<lambda>_.
     bind_res (guard_err (map_of badges (Badge_ID b) \<noteq> None) (DuplicateBadge (Badge_ID b))) (\<lambda>_.
     bind_res (guard_err (map_of repos (Badge_RepoID b) = None) (BadgeUnknownRepository (Badge_ID b))) (\<lambda>_.
     bind_res (map_err BadgeCodec (canonicalAddress g ''badge recipient'' (Badge_Recipient b))) (\<lambda>_.
     bind_res (map_err BadgeCodec (canonicalAddress g ''badge awarded_by'' (Badge_AwardedBy b))) (\<lambda>_.
     bind_res (guard_err (Badge_Recipient b = Badge_AwardedBy b) (BadgeSelfAward (Badge_ID b))) (\<lambda>_.
     bind_res (guard_err (length (Badge_Reason b) = 0 \<or> length (Badge_Reason b) > 256 \<or> Badge_AwardedAt b = 0)
       (BadgeInvalid (Badge_ID b))) (\<lambda>_.
     Inr (gm_put (Badge_ID b) b badges, gm_append (Badge_Recipient b) (Badge_ID b) byRecipient,
          gm_append (Badge_RepoID b) (Badge_ID b) byRepo)))))))))"

definition validate_badges :: "geth \<Rightarrow> repo_map \<Rightarrow> Snapshot \<Rightarrow> badge_error + unit" where
  "validate_badges g repos s =
     bind_res (for_res (validate_badge g repos) (Snapshot_Badges s) ([], [], [])) (\<lambda>(badges, byRecipient, byRepo).
     validateBadgeIndexes g (Snapshot_BadgeIndexes s) badges byRecipient byRepo)"

datatype release_error =
    InvalidReleaseKey string string
  | ReleaseCodec codec_error
  | ReleaseTimestamp string string
  | DuplicateRelease string string
  | InvalidIndexedVersion string
  | DuplicateVersionIndex string
  | VersionIndexCoverage
  | VersionIndexMissing string
  | VersionPlatformCount string
  | VersionPlatformMismatch string

definition validate_release ::
  "geth \<Rightarrow> SnapshotRelease \<Rightarrow> (string, SnapshotRelease) gomap \<times> (string, string list) gomap \<Rightarrow>
   release_error + ((string, SnapshotRelease) gomap \<times> (string, string list) gomap)" where
  "validate_release g r = (\<lambda>(releases, platforms).
     bind_res (guard_err (\<not> validToken (Release_Version r) 64 \<or> \<not> validToken (Release_Platform r) 64)
       (InvalidReleaseKey (Release_Version r) (Release_Platform r))) (\<lambda>_.
     bind_res (map_err ReleaseCodec (rawSHA256 ''release SHA-256'' (Release_SHA256 r))) (\<lambda>_.
     bind_res (map_err ReleaseCodec (canonicalAddress g ''release registered_by'' (Release_RegisteredBy r))) (\<lambda>_.
     bind_res (guard_err (Release_RegisteredAt r = 0) (ReleaseTimestamp (Release_Version r) (Release_Platform r))) (\<lambda>_.
     let key = Release_Version r @ NUL @ Release_Platform r in
     bind_res (guard_err (map_of releases key \<noteq> None) (DuplicateRelease (Release_Version r) (Release_Platform r))) (\<lambda>_.
     Inr (gm_put key r releases, gm_append (Release_Version r) (Release_Platform r) platforms)))))))"

definition validate_version_index ::
  "SnapshotReleaseVersion \<Rightarrow> (string, string list) gomap \<Rightarrow> release_error + (string, string list) gomap" where
  "validate_version_index g got =
     bind_res (guard_err (\<not> validToken (ReleaseVersion_Version g) 64)
       (InvalidIndexedVersion (ReleaseVersion_Version g))) (\<lambda>_.
     bind_res (guard_err (map_of got (ReleaseVersion_Version g) \<noteq> None)
       (DuplicateVersionIndex (ReleaseVersion_Version g))) (\<lambda>_.
     Inr (gm_put (ReleaseVersion_Version g) (ReleaseVersion_Platforms g) got)))"

definition compare_platforms :: "string \<Rightarrow> string list \<Rightarrow> string list \<Rightarrow> release_error + unit" where
  "compare_platforms version g w =
     bind_res (guard_err (length g \<noteq> length w) (VersionPlatformCount version)) (\<lambda>_.
     for_check (\<lambda>i. guard_err
       (\<not> validToken (g ! i) 64 \<or> g ! i \<noteq> w ! i \<or> (i > 0 \<and> g ! i = g ! (i - 1)))
       (VersionPlatformMismatch version)) [0..<length g])"

definition validateReleaseIndexes ::
  "SnapshotReleaseVersion list \<Rightarrow> (string, string list) gomap \<Rightarrow> release_error + unit" where
  "validateReleaseIndexes indexes want =
     bind_res (for_res validate_version_index indexes []) (\<lambda>got.
     bind_res (guard_err (length got \<noteq> length want) VersionIndexCoverage) (\<lambda>_.
     for_check (\<lambda>(version, w).
       case map_of got version of
         None \<Rightarrow> Inl (VersionIndexMissing version)
       | Some g \<Rightarrow> compare_platforms version (sort g) (sort w)) want))"

definition validate_releases :: "geth \<Rightarrow> Snapshot \<Rightarrow> release_error + unit" where
  "validate_releases g s =
     bind_res (for_res (validate_release g) (Snapshot_Releases s) ([], [])) (\<lambda>(releases, platforms).
     validateReleaseIndexes (Snapshot_ReleaseVersions s) platforms)"


section \<open>The whole snapshot\<close>

datatype snapshot_error =
    E_source source_error
  | E_repository repository_error
  | E_record record_error
  | E_member member_error
  | E_status status_error
  | E_report report_error
  | E_economic economic_error
  | E_username username_error
  | E_badge badge_error
  | E_release release_error

definition validateSnapshot :: "geth \<Rightarrow> Snapshot \<Rightarrow> snapshot_error + unit" where
  "validateSnapshot g s =
     bind_res (map_err E_source (validate_source g s)) (\<lambda>_.
     bind_res (map_err E_repository (validate_repositories g (Snapshot_Repositories s))) (\<lambda>(repos, locators).
     bind_res (map_err E_repository (validate_fork_parents repos (Snapshot_Repositories s))) (\<lambda>_.
     bind_res (map_err E_repository (visit_all_forks repos)) (\<lambda>_.
     bind_res (map_err E_record (validate_aliases g repos locators (Snapshot_Aliases s))) (\<lambda>_.
     bind_res (map_err E_record (validate_refs g repos (Snapshot_Refs s))) (\<lambda>_.
     bind_res (map_err E_member (validate_collaborators g repos (Snapshot_Collaborators s))) (\<lambda>_.
     bind_res (map_err E_member (validate_guardian_configs g repos (Snapshot_GuardianConfigs s))) (\<lambda>_.
     bind_res (map_err E_status (validate_final_statuses repos
       (Moderation_FinalStatuses (Snapshot_Moderation s)))) (\<lambda>statuses.
     bind_res (map_err E_report (validate_reports g repos (Moderation_Reports (Snapshot_Moderation s)))) (\<lambda>reports.
     bind_res (map_err E_status (validate_status_trails g repos statuses reports
       (Moderation_StatusTrails (Snapshot_Moderation s)))) (\<lambda>_.
     bind_res (map_err E_economic (validate_splits g repos (Economic_Splits (Snapshot_Economic s)))) (\<lambda>_.
     bind_res (map_err E_economic (validate_totals repos (Economic_Totals (Snapshot_Economic s)))) (\<lambda>_.
     bind_res (map_err E_username (validate_original_owners g
       (Username_OriginalOwners (Snapshot_Username s)))) (\<lambda>(usernameNames, usernameOwners).
     bind_res (map_err E_username (validate_reserved_names usernameNames
       (Username_ReservedNames (Snapshot_Username s)))) (\<lambda>_.
     bind_res (map_err (E_username \<circ> UsernameEscrow) (validateEscrowRelease
       (Username_EscrowRelease (Snapshot_Username s)) (Source_Contract (Snapshot_Source s))
       (Source_Height (Snapshot_Source s)))) (\<lambda>_.
     bind_res (map_err E_badge (validate_badges g repos s)) (\<lambda>_.
     map_err E_release (validate_releases g s))))))))))))))))))"

end
