(* ===== verification/Snapshot_Invariant.thy ===== *)
theory Snapshot_Invariant
  imports Snapshot_Validate
begin

text \<open>
  What an accepted snapshot is. The first part states it without loops and maps: every
  record is well formed, keys are unique, references resolve, fork lineage has no cycle,
  the badge and release indexes list exactly the records. The second part proves section by
  section that the validation accepts exactly such snapshots.
\<close>


section \<open>Well-formed snapshots\<close>

definition hash_text :: "string \<Rightarrow> bool" where
  "hash_text t \<longleftrightarrow> (\<exists>h. t = hexBytes h \<and> length h = 32)"

definition address_text :: "string \<Rightarrow> bool" where
  "address_text t \<longleftrightarrow> (\<exists>a. t = hexBytes a \<and> length a = 20 \<and> a \<noteq> replicate 20 0)"

definition digest_text :: "string \<Rightarrow> bool" where
  "digest_text t \<longleftrightarrow> (\<exists>d. t = hex_encode d \<and> length d = 32 \<and> d \<noteq> zeroHash)"

definition policy_ok :: "ContractPolicy \<Rightarrow> bool" where
  "policy_ok p \<longleftrightarrow> address_text (Policy_Admin p) \<and> address_text (Policy_Treasury p) \<and>
     address_text (Policy_Committee p) \<and> address_text (Policy_ReleaseAuthority p) \<and>
     address_text (Policy_UsernamePolicyAdmin p) \<and> Policy_PlatformFeeBPS p \<le> 500"

definition escrow_ok :: "UsernameEscrowRelease \<Rightarrow> string \<Rightarrow> u64 \<Rightarrow> bool" where
  "escrow_ok e contract height \<longleftrightarrow> Escrow_AllReleased e \<and> Escrow_Contract e = contract \<and>
     height \<le> Escrow_Height e \<and> Escrow_EscrowBalance e = ''0'' \<and> trim_space (Escrow_Denom e) \<noteq> '''' \<and>
     digest_text (Escrow_BlockHash e) \<and> digest_text (Escrow_EvidenceSHA256 e)"

definition source_ok :: "SnapshotSource \<Rightarrow> bool" where
  "source_ok src \<longleftrightarrow> trim_space (Source_ChainID src) \<noteq> '''' \<and> trim_space (Source_Contract src) \<noteq> '''' \<and>
     Source_Height src \<noteq> 0 \<and>
     (digest_text (Source_BlockHash src) \<or> synthetic_demo_source (Source_ChainID src)
        (Source_Contract src) (Source_Height src) (Source_BlockHash src)) \<and>
     digest_text (Source_InventorySHA256 src) \<and> digest_text (Source_TxSearchSHA256 src) \<and>
     digest_text (Source_BlockEvidenceSHA256 src) \<and> digest_text (Source_EventCommitmentSHA256 src)"

definition repository_ok :: "SnapshotRepository \<Rightarrow> bool" where
  "repository_ok r \<longleftrightarrow> hash_text (Repository_ID r) \<and> address_text (Repository_Owner r) \<and>
     validRepoName (Repository_Name r) \<and> length (Repository_Description r) \<le> 1024 \<and>
     length (Repository_DefaultBranch r) \<le> 64 \<and> Repository_CreatedAt r \<noteq> 0 \<and>
     Repository_CreatedAt r \<le> Repository_UpdatedAt r"

definition repo_locator :: "SnapshotRepository \<Rightarrow> string \<times> string" where
  "repo_locator r = (Repository_Owner r, Repository_Name r)"

definition alias_locator :: "SnapshotAlias \<Rightarrow> string \<times> string" where
  "alias_locator a = (Alias_Owner a, Alias_Name a)"

definition repositories_ok :: "SnapshotRepository list \<Rightarrow> bool" where
  "repositories_ok rs \<longleftrightarrow> (\<forall>r \<in> set rs. repository_ok r) \<and> distinct (map Repository_ID rs) \<and>
     distinct (map repo_locator rs)"

definition fork_edges :: "SnapshotRepository list \<Rightarrow> (string \<times> string) set" where
  "fork_edges rs = {(Repository_ForkedFrom r, Repository_ID r) | r. r \<in> set rs \<and> Repository_ForkedFrom r \<noteq> ''''}"

definition forks_ok :: "SnapshotRepository list \<Rightarrow> bool" where
  "forks_ok rs \<longleftrightarrow> Domain (fork_edges rs) \<subseteq> Repository_ID ` set rs \<and> acyclic (fork_edges rs)"

definition aliases_ok :: "SnapshotRepository list \<Rightarrow> SnapshotAlias list \<Rightarrow> bool" where
  "aliases_ok rs as \<longleftrightarrow>
     (\<forall>a \<in> set as. Alias_RepoID a \<in> Repository_ID ` set rs \<and> address_text (Alias_Owner a) \<and>
        validRepoName (Alias_Name a)) \<and>
     distinct (map repo_locator rs @ map alias_locator as)"

definition per_key :: "('a \<Rightarrow> 'k) \<Rightarrow> 'a list \<Rightarrow> 'k \<Rightarrow> nat" where
  "per_key k xs i = length (filter (\<lambda>x. k x = i) xs)"

definition ref_ok :: "SnapshotRepository list \<Rightarrow> SnapshotRef \<Rightarrow> bool" where
  "ref_ok rs r \<longleftrightarrow> Ref_RepoID r \<in> Repository_ID ` set rs \<and> validRefName (Ref_RefName r) \<and>
     validSHA (Ref_CommitSHA r) \<and> Ref_PackURIs r \<noteq> [] \<and> length (Ref_PackURIs r) \<le> 128 \<and>
     (\<forall>u \<in> set (Ref_PackURIs r). valid_pack_uri u) \<and> Ref_UpdatedAt r \<noteq> 0 \<and> address_text (Ref_UpdatedBy r)"

definition refs_ok :: "SnapshotRepository list \<Rightarrow> SnapshotRef list \<Rightarrow> bool" where
  "refs_ok rs refs \<longleftrightarrow> (\<forall>r \<in> set refs. ref_ok rs r) \<and>
     distinct (map (\<lambda>r. (Ref_RepoID r, Ref_RefName r)) refs) \<and> (\<forall>i. per_key Ref_RepoID refs i \<le> 1024)"

definition owned_by :: "SnapshotRepository list \<Rightarrow> string \<Rightarrow> string \<Rightarrow> bool" where
  "owned_by rs i owner \<longleftrightarrow> (\<exists>r \<in> set rs. Repository_ID r = i \<and> Repository_Owner r = owner)"

definition collaborators_ok :: "SnapshotRepository list \<Rightarrow> SnapshotCollaborator list \<Rightarrow> bool" where
  "collaborators_ok rs cs \<longleftrightarrow>
     (\<forall>c \<in> set cs. Collaborator_RepoID c \<in> Repository_ID ` set rs \<and> address_text (Collaborator_Account c) \<and>
        \<not> owned_by rs (Collaborator_RepoID c) (Collaborator_Account c) \<and> is_ok (roleCode (Collaborator_Role c))) \<and>
     distinct (map (\<lambda>c. (Collaborator_RepoID c, Collaborator_Account c)) cs) \<and>
     (\<forall>i. per_key Collaborator_RepoID cs i \<le> 256)"

definition guardians_ok :: "SnapshotRepository list \<Rightarrow> SnapshotGuardianConfig list \<Rightarrow> bool" where
  "guardians_ok rs cs \<longleftrightarrow>
     (\<forall>c \<in> set cs. owned_by rs (Guardian_RepoID c) (Guardian_ConfiguredBy c) \<and>
        length (Guardian_Guardians c) \<le> 10 \<and> Guardian_Threshold c \<noteq> 0 \<and>
        unat (Guardian_Threshold c) \<le> length (Guardian_Guardians c) \<and>
        (\<forall>a \<in> set (Guardian_Guardians c). address_text a \<and> a \<noteq> Guardian_ConfiguredBy c) \<and>
        distinct (Guardian_Guardians c)) \<and>
     distinct (map Guardian_RepoID cs)"

section \<open>Texts\<close>

lemma parseHash_ok: "is_ok (parseHash l t) \<longleftrightarrow> hash_text t"
  by (auto simp: is_ok_iff parseHash_Inr_iff hash_text_def)

lemma canonicalAddress_ok: "geth_ok g \<Longrightarrow> is_ok (canonicalAddress g l t) \<longleftrightarrow> address_text t"
  by (auto simp: is_ok_iff canonicalAddress_Inr_iff address_text_def)

lemma rawSHA256_ok: "is_ok (rawSHA256 l t) \<longleftrightarrow> digest_text t"
  by (auto simp: is_ok_iff rawSHA256_Inr_iff digest_text_def)

lemma length_address_text: "address_text t \<Longrightarrow> length t = 42"
  by (auto simp: address_text_def)

lemma length_hash_text: "hash_text t \<Longrightarrow> length t = 66"
  by (auto simp: hash_text_def)

lemma hash_text_ne: "hash_text t \<Longrightarrow> t \<noteq> ''''"
  by (auto dest: length_hash_text)

lemmas text_ok [check_simps] = parseHash_ok canonicalAddress_ok rawSHA256_ok


section \<open>Source, policy and escrow\<close>

lemma policy_exact:
  "geth_ok g \<Longrightarrow> validateContractPolicy g p = Inr u \<longleftrightarrow> policy_ok p"
  by (auto simp: validateContractPolicy_def policy_ok_def check_simps)

lemma escrow_exact: "validateEscrowRelease e c h = Inr u \<longleftrightarrow> escrow_ok e c h"
  by (auto simp: validateEscrowRelease_def escrow_ok_def check_simps zeroDecimal_def not_less)

lemma block_hash_exact:
  "check_block_hash c k h b = Inr u \<longleftrightarrow> digest_text b \<or> synthetic_demo_source c k h b"
  using rawSHA256_ok[of "''source block hash''" b]
  by (cases "rawSHA256 ''source block hash'' b") (auto simp: check_block_hash_def)

lemma evidence_exact:
  "check_evidence_digests a b c d = Inr u \<longleftrightarrow>
   digest_text a \<and> digest_text b \<and> digest_text c \<and> digest_text d"
  by (auto simp: check_evidence_digests_def check_simps)

lemma source_exact:
  "geth_ok g \<Longrightarrow> validate_source g s = Inr u \<longleftrightarrow> Snapshot_Schema s = SnapshotSchema \<and>
   source_ok (Snapshot_Source s) \<and> policy_ok (Snapshot_ContractPolicy s)"
  by (auto simp: validate_source_def source_ok_def Let_def res_simps policy_exact block_hash_exact evidence_exact)


section \<open>Repositories\<close>

definition repos_of :: "SnapshotRepository list \<Rightarrow> repo_map" where
  "repos_of rs = gm_build Repository_ID id rs"

definition repo_key :: "SnapshotRepository \<Rightarrow> string" where
  "repo_key r = locatorKey (Repository_Owner r) (Repository_Name r)"

definition locators_of :: "SnapshotRepository list \<Rightarrow> locator_map" where
  "locators_of rs = gm_build repo_key Repository_ID rs"

lemma same_length_NUL_inj:
  "length a = length b \<Longrightarrow> a @ NUL @ x = b @ NUL @ y \<longleftrightarrow> a = b \<and> x = y"
  by simp

lemma distinct_pair_keys:
  assumes "\<And>x. x \<in> set xs \<Longrightarrow> length (f x) = n"
  shows "distinct (map (\<lambda>x. f x @ NUL @ h x) xs) \<longleftrightarrow> distinct (map (\<lambda>x. (f x, h x)) xs)"
proof -
  let ?F = "\<lambda>(a, b). a @ NUL @ b" and ?G = "\<lambda>x. (f x, h x)"
  have inj: "inj_on ?F (set (map ?G xs))"
    using assms by (auto simp: inj_on_def same_length_NUL_inj)
  have "map (\<lambda>x. f x @ NUL @ h x) xs = map ?F (map ?G xs)" by simp
  then show ?thesis using inj distinct_map[of ?F "map ?G xs"] by metis
qed

lemma repositories_step:
  assumes "geth_ok g"
  shows "validate_repository g (n, r) (repos_of rs, locators_of rs) = Inr t \<longleftrightarrow>
    (repository_ok r \<and> Repository_ID r \<notin> Repository_ID ` set rs \<and>
     gm_get '''' (locators_of rs) (repo_key r) = '''') \<and>
    t = (repos_of (rs @ [r]), locators_of (rs @ [r]))"
  using assms
  by (auto simp: validate_repository_def check_simps Let_def repository_ok_def repos_of_def locators_of_def
      gm_build_snoc repo_key_def not_less image_iff)

lemma repositories_exact:
  assumes "geth_ok g"
  shows "validate_repositories g rs = Inr t \<longleftrightarrow> repositories_ok rs \<and> t = (repos_of rs, locators_of rs)"
proof -
  have "validate_repositories g rs = Inr t \<longleftrightarrow>
      at_each (\<lambda>rs r. repository_ok r \<and> Repository_ID r \<notin> Repository_ID ` set rs \<and>
        gm_get '''' (locators_of rs) (repo_key r) = '''') rs \<and> t = (repos_of rs, locators_of rs)"
    unfolding validate_repositories_def
    using for_res_enum_exact[where st = "\<lambda>rs. (repos_of rs, locators_of rs)", OF repositories_step[OF assms]]
    by (simp add: repos_of_def locators_of_def)
  also have "\<dots> \<longleftrightarrow> repositories_ok rs \<and> t = (repos_of rs, locators_of rs)"
  proof (cases "\<forall>r \<in> set rs. repository_ok r")
    case True
    have "at_each (\<lambda>rs r. gm_get '''' (locators_of rs) (repo_key r) = '''') rs \<longleftrightarrow>
        at_each (\<lambda>rs r. repo_key r \<notin> repo_key ` set rs) rs"
    proof (rule at_each_cong)
      fix ys y assume "set ys \<subseteq> set rs" "y \<in> set rs"
      then have "Repository_ID x \<noteq> ''''" if "x \<in> set ys" for x
        using True that hash_text_ne by (auto simp: repository_ok_def)
      then show "gm_get '''' (locators_of ys) (repo_key y) = '''' \<longleftrightarrow> repo_key y \<notin> repo_key ` set ys"
        unfolding locators_of_def by (rule gm_get_build)
    qed
    also have "\<dots> \<longleftrightarrow> distinct (map repo_locator rs)"
      using distinct_pair_keys[of rs Repository_Owner 42 Repository_Name] True length_address_text
      by (simp add: repository_ok_def repo_key_def[abs_def] locatorKey_def repo_locator_def[abs_def])
    finally show ?thesis using True by (auto simp: repositories_ok_def)
  qed (auto simp: repositories_ok_def)
  finally show ?thesis .
qed

lemma repos_of_lookup:
  assumes "distinct (map Repository_ID rs)"
  shows "map_of (repos_of rs) i = Some r \<longleftrightarrow> r \<in> set rs \<and> Repository_ID r = i"
  using assms map_of_gm_build[of Repository_ID rs r id] map_of_gm_build_Some[of Repository_ID id rs i r]
  by (auto simp: repos_of_def)

lemma repos_of_None: "map_of (repos_of rs) i = None \<longleftrightarrow> i \<notin> Repository_ID ` set rs"
  by (simp add: repos_of_def)

lemma keys_repos_of: "distinct (map Repository_ID rs) \<Longrightarrow> map fst (repos_of rs) = map Repository_ID rs"
  by (simp add: repos_of_def gm_build_distinct comp_def)

section \<open>Fork lineage\<close>

lemma fork_parent_edge:
  assumes "distinct (map Repository_ID rs)"
  shows "(p, i) \<in> fork_edges rs \<longleftrightarrow> p = fork_parent (repos_of rs) i \<and> p \<noteq> ''''"
proof -
  have "fork_parent (repos_of rs) i = p \<and> p \<noteq> '''' \<longleftrightarrow>
      (\<exists>r \<in> set rs. Repository_ID r = i \<and> Repository_ForkedFrom r = p \<and> p \<noteq> '''')"
  proof (cases "map_of (repos_of rs) i")
    case None
    then have "i \<notin> Repository_ID ` set rs" by (simp add: repos_of_None)
    then show ?thesis using None by (auto simp: fork_parent_def)
  next
    case (Some a)
    then have "a \<in> set rs" "Repository_ID a = i" using repos_of_lookup[OF assms] by blast+
    then show ?thesis
      using Some assms by (auto simp: fork_parent_def distinct_map inj_on_def)
  qed
  moreover have "(p, i) \<in> fork_edges rs \<longleftrightarrow>
      (\<exists>r \<in> set rs. Repository_ID r = i \<and> Repository_ForkedFrom r = p \<and> p \<noteq> [])"
    by (auto simp: fork_edges_def)
  ultimately show ?thesis by blast
qed

declare visitFork.simps [simp del]

lemma visitFork_eqs:
  "i \<in> set visiting \<Longrightarrow> visitFork repos i (visiting, visited) = Inl (ForkCycle i)"
  "i \<notin> set visiting \<Longrightarrow> i \<in> set visited \<Longrightarrow> visitFork repos i (visiting, visited) = Inr (visiting, visited)"
  "i \<notin> set visiting \<Longrightarrow> i \<notin> set visited \<Longrightarrow> fork_parent repos i = [] \<Longrightarrow>
     visitFork repos i (visiting, visited) = Inr (visiting, i # visited)"
  "i \<notin> set visiting \<Longrightarrow> i \<notin> set visited \<Longrightarrow> fork_parent repos i \<noteq> [] \<Longrightarrow>
     visitFork repos i (visiting, visited) =
     bind_res (visitFork repos (fork_parent repos i) (i # visiting, visited))
       (\<lambda>(visiting', visited'). Inr (removeAll i visiting', i # visited'))"
  by (subst visitFork.simps, simp)+

lemma finite_fork_edges: "finite (fork_edges rs)"
proof -
  have "fork_edges rs \<subseteq> (\<lambda>r. (Repository_ForkedFrom r, Repository_ID r)) ` set rs"
    by (auto simp: fork_edges_def)
  then show ?thesis by (rule finite_subset) simp
qed

text \<open>A normal return of the walk adds only identifiers without an infinite chain of parents.\<close>

lemma visitFork_sound:
  assumes rs: "distinct (map Repository_ID rs)"
  shows "visitFork repos i (visiting, visited) = Inr (vg, vd) \<Longrightarrow> repos = repos_of rs \<Longrightarrow>
    set visited \<subseteq> Wellfounded.acc (fork_edges rs) \<Longrightarrow>
    vg = visiting \<and> insert i (set visited) \<subseteq> set vd \<and> set vd \<subseteq> Wellfounded.acc (fork_edges rs)"
proof (induction repos i "(visiting, visited)" arbitrary: visiting visited vg vd rule: visitFork.induct)
  case (1 repos i visiting visited)
  let ?p = "fork_parent repos i"
  have parents: "q = ?p" "?p \<noteq> ''''" if "(q, i) \<in> fork_edges rs" for q
    using that fork_parent_edge[OF rs] "1.prems"(2) by auto
  show ?case
  proof (cases "i \<in> set visited")
    case True
    then show ?thesis using "1.prems" by (cases "i \<in> set visiting") (auto simp: visitFork_eqs)
  next
    case False
    have new: "i \<notin> set visiting" using "1.prems"(1) by (auto simp: visitFork_eqs)
    show ?thesis
    proof (cases "?p = ''''")
      case True
      then have "i \<in> Wellfounded.acc (fork_edges rs)" using parents by (blast intro: accI)
      then show ?thesis using "1.prems" False new True by (auto simp: visitFork_eqs)
    next
      case p: False
      from "1.prems"(1) False new p obtain a b where
        rec: "visitFork repos ?p (i # visiting, visited) = Inr (a, b)"
        and out: "vg = removeAll i a" "vd = i # b"
        by (auto simp: res_simps visitFork_eqs)
      have ih: "a = i # visiting" "insert ?p (set visited) \<subseteq> set b"
          "set b \<subseteq> Wellfounded.acc (fork_edges rs)"
        using "1.hyps"[OF new False p rec "1.prems"(2,3)] by blast+
      then have "i \<in> Wellfounded.acc (fork_edges rs)" using parents(1) by (blast intro: accI)
      then show ?thesis using ih out new by auto
    qed
  qed
qed

lemma visitFork_complete:
  assumes rs: "distinct (map Repository_ID rs)" and wf: "wf (fork_edges rs)"
  shows "\<forall>x \<in> set visiting. (x, i) \<notin> (fork_edges rs)\<^sup>* \<Longrightarrow>
    \<exists>vd. visitFork (repos_of rs) i (visiting, visited) = Inr (visiting, vd)"
  using wf
proof (induction i arbitrary: visiting visited rule: wf_induct_rule)
  case (less i)
  let ?p = "fork_parent (repos_of rs) i"
  have new: "i \<notin> set visiting" using less.prems by auto
  show ?case
  proof (cases "i \<in> set visited \<or> ?p = ''''")
    case True
    then show ?thesis using new by (cases "i \<in> set visited") (auto simp: visitFork_eqs)
  next
    case False
    then have e: "(?p, i) \<in> fork_edges rs" using fork_parent_edge[OF rs] by auto
    have "(i, ?p) \<notin> (fork_edges rs)\<^sup>*"
      using wf_acyclic[OF wf] e unfolding acyclic_def by (meson rtrancl_into_trancl1)
    moreover have "(x, ?p) \<notin> (fork_edges rs)\<^sup>*" if "x \<in> set visiting" for x
      using less.prems that e by (meson rtrancl.rtrancl_into_rtrancl)
    ultimately obtain vd where
        "visitFork (repos_of rs) ?p (i # visiting, visited) = Inr (i # visiting, vd)"
      using less.IH[OF e, of "i # visiting" visited] by auto
    then show ?thesis using new False by (auto simp: visitFork_eqs)
  qed
qed

lemma visit_all_sound:
  assumes rs: "distinct (map Repository_ID rs)" and ok: "visit_all_forks (repos_of rs) = Inr t"
  shows "wf (fork_edges rs)"
proof -
  let ?A = "Wellfounded.acc (fork_edges rs)"
  define I where "I = (\<lambda>ys st. case st of (vg, vd) \<Rightarrow> set ys \<subseteq> set vd \<and> set vd \<subseteq> ?A \<and> vg = ([] :: string list))"
  have "I (map fst (repos_of rs)) t"
    using ok unfolding visit_all_forks_def
  proof (rule for_res_history)
    fix ys y zs r r' assume I: "I ys r" and step: "visitFork (repos_of rs) y r = Inr r'"
    obtain vg vd vg' vd' where s: "r = (vg, vd)" "r' = (vg', vd')" by (cases r, cases r')
    show "I (ys @ [y]) r'"
      using visitFork_sound[OF rs step[unfolded s] refl] I s by (auto simp: I_def)
  qed (simp add: I_def)
  then have ids: "Repository_ID ` set rs \<subseteq> ?A"
    using keys_repos_of[OF rs] by (cases t) (auto simp: I_def)
  have "x \<in> ?A" for x
  proof (rule accI)
    fix y assume y: "(y, x) \<in> fork_edges rs"
    then have "x \<in> ?A" using ids by (auto simp: fork_edges_def)
    then show "y \<in> ?A" using y by (rule acc_downward)
  qed
  then show ?thesis using acc_wfI by blast
qed

lemma visit_all_complete:
  assumes rs: "distinct (map Repository_ID rs)" and wf: "wf (fork_edges rs)"
  shows "is_ok (visit_all_forks (repos_of rs))"
proof -
  have "\<exists>t. visit_all_forks (repos_of rs) = Inr t \<and> fst t = []"
    unfolding visit_all_forks_def
  proof (rule for_res_success[where I = "\<lambda>_ t. fst t = []"])
    fix ys y zs and r :: "string list \<times> string list" assume "fst r = []"
    then show "\<exists>r'. visitFork (repos_of rs) y r = Inr r' \<and> fst r' = []"
      using visitFork_complete[OF rs wf, of "[]" y "snd r"] by (cases r) auto
  qed simp
  then show ?thesis by auto
qed

lemma forks_exact:
  assumes "repositories_ok rs"
  shows "validate_fork_parents (repos_of rs) rs = Inr u \<and> is_ok (visit_all_forks (repos_of rs)) \<longleftrightarrow> forks_ok rs"
proof -
  have d: "distinct (map Repository_ID rs)" using assms by (simp add: repositories_ok_def)
  have "is_ok (visit_all_forks (repos_of rs)) \<longleftrightarrow> acyclic (fork_edges rs)"
    using visit_all_sound[OF d] visit_all_complete[OF d] finite_acyclic_wf[OF finite_fork_edges]
    by (auto simp: is_ok_iff wf_acyclic)
  moreover have "validate_fork_parents (repos_of rs) rs = Inr u \<longleftrightarrow>
      Domain (fork_edges rs) \<subseteq> Repository_ID ` set rs \<and> (\<forall>i. (i, i) \<notin> fork_edges rs)"
    by (auto simp: validate_fork_parents_def check_simps fork_edges_def repos_of_None)
  moreover have "acyclic (fork_edges rs) \<Longrightarrow> (i, i) \<notin> fork_edges rs" for i
    by (auto simp: acyclic_def)
  ultimately show ?thesis by (auto simp: forks_ok_def)
qed

section \<open>Aliases, refs, collaborators and guardians\<close>

lemma gm_build_map: "gm_build k v (map f xs) = gm_build (k \<circ> f) (v \<circ> f) xs"
  by (induction xs rule: rev_induct) (simp_all add: gm_build_snoc)

definition alias_key :: "SnapshotAlias \<Rightarrow> string" where
  "alias_key a = locatorKey (Alias_Owner a) (Alias_Name a)"

definition locator_entries :: "SnapshotRepository list \<Rightarrow> SnapshotAlias list \<Rightarrow> (string \<times> string) list" where
  "locator_entries rs as = map (\<lambda>r. (repo_key r, Repository_ID r)) rs @ map (\<lambda>a. (alias_key a, Alias_RepoID a)) as"

definition all_locators :: "SnapshotRepository list \<Rightarrow> SnapshotAlias list \<Rightarrow> locator_map" where
  "all_locators rs as = gm_build fst snd (locator_entries rs as)"

lemma all_locators_Nil: "all_locators rs [] = locators_of rs"
  by (simp add: all_locators_def locator_entries_def locators_of_def gm_build_map comp_def)

lemma all_locators_snoc: "all_locators rs (as @ [a]) = gm_put (alias_key a) (Alias_RepoID a) (all_locators rs as)"
  using gm_build_snoc[of fst snd "locator_entries rs as" "(alias_key a, Alias_RepoID a)"]
  by (simp add: all_locators_def locator_entries_def)

definition alias_record_ok :: "SnapshotRepository list \<Rightarrow> SnapshotAlias \<Rightarrow> bool" where
  "alias_record_ok rs a \<longleftrightarrow> Alias_RepoID a \<in> Repository_ID ` set rs \<and> address_text (Alias_Owner a) \<and>
     validRepoName (Alias_Name a)"

lemma repo_id_ne: "repositories_ok rs \<Longrightarrow> i \<in> Repository_ID ` set rs \<Longrightarrow> i \<noteq> ''''"
  using hash_text_ne by (auto simp: repositories_ok_def repository_ok_def)

lemma repo_id_length: "repositories_ok rs \<Longrightarrow> i \<in> Repository_ID ` set rs \<Longrightarrow> length i = 66"
  using length_hash_text by (auto simp: repositories_ok_def repository_ok_def)

lemma aliases_step:
  assumes "geth_ok g" "repositories_ok rs"
  shows "validate_alias g (repos_of rs) (n, a) (all_locators rs as) = Inr t \<longleftrightarrow>
    (alias_record_ok rs a \<and> gm_get '''' (all_locators rs as) (alias_key a) = '''') \<and>
    t = all_locators rs (as @ [a])"
  using assms(1) repo_id_ne[OF assms(2)]
  by (auto simp: validate_alias_def check_simps Let_def repos_of_None alias_record_ok_def alias_key_def all_locators_snoc)

lemma aliases_fresh:
  assumes "repositories_ok rs" "\<forall>a \<in> set as. alias_record_ok rs a"
  shows "gm_get '''' (all_locators rs as) k = '''' \<longleftrightarrow> k \<notin> repo_key ` set rs \<union> alias_key ` set as"
proof -
  have "snd x \<noteq> ''''" if "x \<in> set (locator_entries rs as)" for x
    using that assms repo_id_ne[OF assms(1)] by (auto simp: locator_entries_def alias_record_ok_def)
  then have "gm_get '''' (all_locators rs as) k = '''' \<longleftrightarrow> k \<notin> fst ` set (locator_entries rs as)"
    unfolding all_locators_def by (rule gm_get_build)
  then show ?thesis by (simp add: locator_entries_def image_Un image_image)
qed

lemma locator_keys_distinct:
  assumes "repositories_ok rs" "\<forall>a \<in> set as. alias_record_ok rs a"
  shows "at_each (\<lambda>ys y. alias_key y \<notin> repo_key ` set rs \<union> alias_key ` set ys) as \<longleftrightarrow>
    distinct (map repo_locator rs @ map alias_locator as)"
proof -
  let ?e = "map repo_locator rs @ map alias_locator as"
  have keys: "map (\<lambda>x. fst x @ NUL @ snd x) ?e = map repo_key rs @ map alias_key as"
    by (simp add: repo_key_def alias_key_def locatorKey_def repo_locator_def alias_locator_def)
  have owners: "length (fst x) = 42" if "x \<in> set ?e" for x
    using that assms length_address_text
    by (auto simp: repo_locator_def alias_locator_def repositories_ok_def repository_ok_def alias_record_ok_def)
  have "distinct ?e \<longleftrightarrow> distinct (map repo_key rs @ map alias_key as)"
    unfolding keys[symmetric]
    using distinct_pair_keys[of ?e fst 42 snd, OF owners] by (simp only: prod.collapse list.map_ident)
  moreover have "distinct (map repo_key rs)"
    using assms(1) distinct_pair_keys[of rs Repository_Owner 42 Repository_Name] length_address_text
    by (simp add: repositories_ok_def repository_ok_def repo_key_def[abs_def] locatorKey_def repo_locator_def[abs_def])
  moreover have "at_each (\<lambda>ys y. alias_key y \<notin> repo_key ` set rs \<union> alias_key ` set ys) as \<longleftrightarrow>
      (\<forall>y \<in> set as. alias_key y \<notin> repo_key ` set rs) \<and> distinct (map alias_key as)"
    by (simp only: Un_iff de_Morgan_disj at_each_conj at_each_set at_each_distinct)
  moreover have "(\<forall>y \<in> set as. alias_key y \<notin> repo_key ` set rs) \<longleftrightarrow>
      set (map repo_key rs) \<inter> set (map alias_key as) = {}"
    by (force simp: disjoint_iff image_iff)
  ultimately show ?thesis by (metis distinct_append)
qed

lemma aliases_exact:
  assumes "geth_ok g" "repositories_ok rs"
  shows "is_ok (validate_aliases g (repos_of rs) (locators_of rs) as) \<longleftrightarrow> aliases_ok rs as"
proof -
  have "is_ok (validate_aliases g (repos_of rs) (locators_of rs) as) \<longleftrightarrow>
      at_each (\<lambda>as a. alias_record_ok rs a \<and> gm_get '''' (all_locators rs as) (alias_key a) = '''') as"
    unfolding validate_aliases_def all_locators_Nil[symmetric]
    by (rule for_res_enum_ok[where st = "all_locators rs", OF aliases_step[OF assms] refl])
  also have "\<dots> \<longleftrightarrow> aliases_ok rs as"
  proof (cases "\<forall>a \<in> set as. alias_record_ok rs a")
    case True
    have "at_each (\<lambda>as a. gm_get '''' (all_locators rs as) (alias_key a) = '''') as \<longleftrightarrow>
        at_each (\<lambda>ys y. alias_key y \<notin> repo_key ` set rs \<union> alias_key ` set ys) as"
    proof (rule at_each_cong)
      fix ys y assume "set ys \<subseteq> set as"
      then have "\<forall>a \<in> set ys. alias_record_ok rs a" using True by auto
      then show "gm_get [] (all_locators rs ys) (alias_key y) = [] \<longleftrightarrow>
          alias_key y \<notin> repo_key ` set rs \<union> alias_key ` set ys"
        by (rule aliases_fresh[OF assms(2)])
    qed
    then show ?thesis
      using True locator_keys_distinct[OF assms(2) True] by (auto simp: aliases_ok_def alias_record_ok_def)
  qed (auto simp: aliases_ok_def alias_record_ok_def)
  finally show ?thesis .
qed

text \<open>Counting per key, as the loops over refs and collaborators do.\<close>

definition counts_of :: "('a \<Rightarrow> 'k) \<Rightarrow> 'a list \<Rightarrow> ('k, int) gomap" where
  "counts_of k xs = foldl (\<lambda>m x. gm_put (k x) (gm_get 0 m (k x) + 1) m) [] xs"

lemma counts_of_snoc: "counts_of k (xs @ [x]) = gm_put (k x) (gm_get 0 (counts_of k xs) (k x) + 1) (counts_of k xs)"
  by (simp add: counts_of_def)

lemma counts_of_Nil [simp]: "counts_of k [] = []"
  by (simp add: counts_of_def)

lemma gm_get_counts_of [simp]: "gm_get 0 (counts_of k xs) i = int (per_key k xs i)"
  by (induction xs arbitrary: i rule: rev_induct)
    (simp_all add: counts_of_snoc gm_get_put per_key_def gm_get_def[of _ "[]"])

lemma at_each_per_key: "at_each (\<lambda>ys y. per_key k ys (k y) < n) xs \<longleftrightarrow> (\<forall>i. per_key k xs i \<le> n)"
proof (induction xs rule: rev_induct)
  case (snoc x xs)
  have "(\<forall>i. per_key k (xs @ [x]) i \<le> n) \<longleftrightarrow> (\<forall>i. per_key k xs i \<le> n) \<and> per_key k xs (k x) < n"
  proof
    assume a: "\<forall>i. per_key k (xs @ [x]) i \<le> n"
    have "per_key k xs i \<le> per_key k (xs @ [x]) i" for i by (simp add: per_key_def)
    moreover have "per_key k (xs @ [x]) (k x) = Suc (per_key k xs (k x))" by (simp add: per_key_def)
    ultimately show "(\<forall>i. per_key k xs i \<le> n) \<and> per_key k xs (k x) < n"
      using a by (metis Suc_le_eq le_trans)
  qed (simp add: per_key_def Suc_le_eq)
  then show ?case using snoc by simp
qed (simp add: per_key_def)

lemma length_key_distinct:
  assumes "repositories_ok rs" "\<And>x. x \<in> set xs \<Longrightarrow> f x \<in> Repository_ID ` set rs"
  shows "distinct (map (\<lambda>x. f x @ NUL @ h x) xs) \<longleftrightarrow> distinct (map (\<lambda>x. (f x, h x)) xs)"
  using assms repo_id_length by (intro distinct_pair_keys[where n = 66]) blast

definition ref_key :: "SnapshotRef \<Rightarrow> string" where
  "ref_key r = Ref_RepoID r @ NUL @ Ref_RefName r"

lemma refs_step:
  assumes "geth_ok g"
  shows "validate_ref g (repos_of rs) (n, r) (counts_of Ref_RepoID ys, rev (map ref_key ys)) = Inr t \<longleftrightarrow>
    (ref_ok rs r \<and> ref_key r \<notin> ref_key ` set ys \<and> per_key Ref_RepoID ys (Ref_RepoID r) < 1024) \<and>
    t = (counts_of Ref_RepoID (ys @ [r]), rev (map ref_key (ys @ [r])))"
  using assms
  by (auto simp: validate_ref_def check_simps Let_def repos_of_None ref_ok_def ref_key_def counts_of_snoc not_less)

lemma refs_exact:
  assumes "geth_ok g" "repositories_ok rs"
  shows "is_ok (validate_refs g (repos_of rs) refs) \<longleftrightarrow> refs_ok rs refs"
proof -
  have "is_ok (validate_refs g (repos_of rs) refs) \<longleftrightarrow> (\<forall>r \<in> set refs. ref_ok rs r) \<and>
      distinct (map ref_key refs) \<and> (\<forall>i. per_key Ref_RepoID refs i \<le> 1024)"
    unfolding validate_refs_def
    by (subst for_res_enum_ok[where st = "\<lambda>ys. (counts_of Ref_RepoID ys, rev (map ref_key ys))",
          OF refs_step[OF assms(1)]]) (simp_all add: at_each_per_key)
  then show ?thesis
    using length_key_distinct[OF assms(2), of refs Ref_RepoID Ref_RefName]
    by (auto simp: refs_ok_def ref_ok_def ref_key_def[abs_def])
qed

definition collaborator_ok :: "SnapshotRepository list \<Rightarrow> SnapshotCollaborator \<Rightarrow> bool" where
  "collaborator_ok rs c \<longleftrightarrow> Collaborator_RepoID c \<in> Repository_ID ` set rs \<and> address_text (Collaborator_Account c) \<and>
     \<not> owned_by rs (Collaborator_RepoID c) (Collaborator_Account c) \<and> is_ok (roleCode (Collaborator_Role c))"

definition collab_key :: "SnapshotCollaborator \<Rightarrow> string" where
  "collab_key c = Collaborator_RepoID c @ NUL @ Collaborator_Account c"

lemma repo_lookup_cases:
  assumes "repositories_ok rs"
  obtains (absent) "map_of (repos_of rs) i = None" "i \<notin> Repository_ID ` set rs" "\<And>w. \<not> owned_by rs i w"
  | (present) r where "map_of (repos_of rs) i = Some r" "r \<in> set rs" "Repository_ID r = i"
      "\<And>w. owned_by rs i w \<longleftrightarrow> w = Repository_Owner r"
proof -
  have d: "distinct (map Repository_ID rs)" using assms by (simp add: repositories_ok_def)
  show thesis
  proof (cases "map_of (repos_of rs) i")
    case None
    then have "i \<notin> Repository_ID ` set rs" by (simp add: repos_of_None)
    then show thesis using None absent by (auto simp: owned_by_def)
  next
    case (Some r)
    then have r: "r \<in> set rs" "Repository_ID r = i" using repos_of_lookup[OF d] by blast+
    then have "owned_by rs i w \<longleftrightarrow> w = Repository_Owner r" for w
      using d by (auto simp: owned_by_def distinct_map inj_on_def)
    then show thesis using Some r present by blast
  qed
qed

lemma collaborators_step:
  assumes "geth_ok g" "repositories_ok rs"
  shows "validate_collaborator g (repos_of rs) (n, c)
      (counts_of Collaborator_RepoID ys, rev (map collab_key ys)) = Inr t \<longleftrightarrow>
    (collaborator_ok rs c \<and> collab_key c \<notin> collab_key ` set ys \<and>
     per_key Collaborator_RepoID ys (Collaborator_RepoID c) < 256) \<and>
    t = (counts_of Collaborator_RepoID (ys @ [c]), rev (map collab_key (ys @ [c])))"
  using assms(2)
proof (cases rule: repo_lookup_cases[of rs "Collaborator_RepoID c"])
  case absent
  then show ?thesis by (simp add: validate_collaborator_def collaborator_ok_def)
next
  case (present r)
  have "Collaborator_RepoID c \<in> Repository_ID ` set rs" using present(2,3) by (metis imageI)
  then show ?thesis using assms(1)
    by (simp add: validate_collaborator_def check_simps Let_def collaborator_ok_def collab_key_def
        counts_of_snoc not_less present(1,4)) auto
qed

lemma collaborators_exact:
  assumes "geth_ok g" "repositories_ok rs"
  shows "is_ok (validate_collaborators g (repos_of rs) cs) \<longleftrightarrow> collaborators_ok rs cs"
proof -
  have "is_ok (validate_collaborators g (repos_of rs) cs) \<longleftrightarrow> (\<forall>c \<in> set cs. collaborator_ok rs c) \<and>
      distinct (map collab_key cs) \<and> (\<forall>i. per_key Collaborator_RepoID cs i \<le> 256)"
    unfolding validate_collaborators_def
    by (subst for_res_enum_ok[where st = "\<lambda>ys. (counts_of Collaborator_RepoID ys, rev (map collab_key ys))",
          OF collaborators_step[OF assms]]) (simp_all add: at_each_per_key)
  then show ?thesis
    using length_key_distinct[OF assms(2), of cs Collaborator_RepoID Collaborator_Account]
    by (auto simp: collaborators_ok_def collaborator_ok_def collab_key_def[abs_def])
qed

lemma guardian_addresses_exact:
  assumes "geth_ok g"
  shows "is_ok (for_res (validate_guardian_address g i w) as []) \<longleftrightarrow>
    (\<forall>a \<in> set as. address_text a \<and> a \<noteq> w) \<and> distinct as"
proof -
  have step: "validate_guardian_address g i w a (rev ys) = Inr t \<longleftrightarrow>
      (address_text a \<and> a \<noteq> w \<and> a \<notin> id ` set ys) \<and> t = rev (ys @ [a])" for a ys t
    using assms by (auto simp: validate_guardian_address_def check_simps)
  show ?thesis
    by (subst for_res_exact_ok[where st = rev, OF step])
      (auto simp del: at_each_distinct simp: at_each_distinct[of id, simplified])
qed

definition guardian_ok :: "SnapshotRepository list \<Rightarrow> SnapshotGuardianConfig \<Rightarrow> bool" where
  "guardian_ok rs c \<longleftrightarrow> owned_by rs (Guardian_RepoID c) (Guardian_ConfiguredBy c) \<and>
     length (Guardian_Guardians c) \<le> 10 \<and> Guardian_Threshold c \<noteq> 0 \<and>
     unat (Guardian_Threshold c) \<le> length (Guardian_Guardians c) \<and>
     (\<forall>a \<in> set (Guardian_Guardians c). address_text a \<and> a \<noteq> Guardian_ConfiguredBy c) \<and>
     distinct (Guardian_Guardians c)"

lemma guardians_step:
  assumes "geth_ok g" "repositories_ok rs"
  shows "validate_guardian_config g (repos_of rs) c (rev (map Guardian_RepoID ys)) = Inr t \<longleftrightarrow>
    (guardian_ok rs c \<and> Guardian_RepoID c \<notin> Guardian_RepoID ` set ys) \<and>
    t = rev (map Guardian_RepoID (ys @ [c]))"
  using assms(2)
proof (cases rule: repo_lookup_cases[of rs "Guardian_RepoID c"])
  case absent
  then show ?thesis by (simp add: validate_guardian_config_def guardian_ok_def)
next
  case (present r)
  have "Guardian_Guardians c \<noteq> []" if "Guardian_Threshold c \<noteq> 0" "unat (Guardian_Threshold c) \<le> length (Guardian_Guardians c)"
    using that by (auto simp: unat_eq_0)
  then show ?thesis
    by (auto simp: validate_guardian_config_def check_simps guardian_ok_def not_less present(1,4)
        guardian_addresses_exact[OF assms(1)])
qed

lemma guardians_exact:
  assumes "geth_ok g" "repositories_ok rs"
  shows "is_ok (validate_guardian_configs g (repos_of rs) cs) \<longleftrightarrow> guardians_ok rs cs"
  unfolding validate_guardian_configs_def
  by (subst for_res_exact_ok[where st = "\<lambda>ys. rev (map Guardian_RepoID ys)", OF guardians_step[OF assms]])
    (auto simp: guardians_ok_def guardian_ok_def)

end
