(* ===== verification/Snapshot_Exact.thy ===== *)
theory Snapshot_Exact
  imports Snapshot_Invariant
begin

text \<open>
  The remaining sections of the snapshot: moderation, economic records, user names, badges
  and releases, each with its well-formedness predicate and the lemma that the loop of the
  code accepts exactly the well-formed records. The last section assembles them into
  \<open>snapshot_ok\<close>, the specification of \<open>validateSnapshot\<close>.
\<close>


section \<open>Well-formed moderation records\<close>

definition statuses_ok :: "SnapshotRepository list \<Rightarrow> SnapshotFinalStatus list \<Rightarrow> bool" where
  "statuses_ok rs sts \<longleftrightarrow> (\<forall>s \<in> set sts. is_ok (repoStatusCode (FinalStatus_Status s))) \<and>
     distinct (map FinalStatus_RepoID sts) \<and> FinalStatus_RepoID ` set sts = Repository_ID ` set rs"

definition report_entry_ok :: "SnapshotReportTrail \<Rightarrow> bool" where
  "report_entry_ok e \<longleftrightarrow> address_text (ReportTrail_Actor e) \<and> is_ok (repoStatusCode (ReportTrail_Status e)) \<and>
     ReportTrail_ReasonHash e \<noteq> '''' \<and> length (ReportTrail_ReasonHash e) \<le> 128 \<and> ReportTrail_Timestamp e \<noteq> 0"

definition submission_of :: "SnapshotReport \<Rightarrow> SnapshotReportTrail \<Rightarrow> bool" where
  "submission_of r e \<longleftrightarrow> ReportTrail_Actor e = Report_Reporter r \<and> ReportTrail_Status e = ''active'' \<and>
     ReportTrail_Timestamp e = Report_CreatedAt r \<and> ReportTrail_ReasonHash e = Report_ReasonHash r"

text \<open>
  The life of a report: the trail runs through the actions submitted, resolved, appealed,
  appeal resolved, as far as the status says; it starts with the submission, its time stamps
  do not decrease, an appeal leaves the status unchanged, and the last entry carries the
  resolution and the time of the last update.
\<close>

definition report_trail_ok :: "SnapshotReport \<Rightarrow> bool" where
  "report_trail_ok r \<longleftrightarrow>
    (let trail = Report_Trail r in
     trail \<noteq> [] \<and>
     expectedActions ! (length trail - 1) = (if Report_Status r = ''open'' then ''submitted'' else Report_Status r) \<and>
     length trail \<le> 4 \<and>
     map ReportTrail_Action trail = take (length trail) expectedActions \<and>
     (\<forall>e \<in> set trail. report_entry_ok e) \<and>
     sorted (map ReportTrail_Timestamp trail) \<and>
     submission_of r (hd trail) \<and>
     ReportTrail_Timestamp (last trail) = Report_UpdatedAt r \<and>
     ReportTrail_Status (last trail) = Report_Resolution r \<and>
     (length trail > 2 \<longrightarrow> ReportTrail_Status (trail ! 2) = ReportTrail_Status (trail ! 1)))"

definition report_ok :: "SnapshotRepository list \<Rightarrow> SnapshotReport \<Rightarrow> bool" where
  "report_ok rs r \<longleftrightarrow> Report_ID r \<noteq> 0 \<and> Report_ID r \<noteq> - 1 \<and> Report_RepoID r \<in> Repository_ID ` set rs \<and>
     address_text (Report_Reporter r) \<and> is_ok (reportStatusCode (Report_Status r)) \<and>
     is_ok (repoStatusCode (Report_Resolution r)) \<and> Report_ReasonHash r \<noteq> '''' \<and>
     length (Report_ReasonHash r) \<le> 128 \<and> Report_CreatedAt r \<noteq> 0 \<and>
     Report_CreatedAt r \<le> Report_UpdatedAt r \<and> report_trail_ok r"

definition reports_ok :: "SnapshotRepository list \<Rightarrow> SnapshotReport list \<Rightarrow> bool" where
  "reports_ok rs reps \<longleftrightarrow> (\<forall>r \<in> set reps. report_ok rs r) \<and> distinct (map Report_ID reps)"

definition status_entry_ok :: "SnapshotReport list \<Rightarrow> string \<Rightarrow> SnapshotRepositoryStatusLog \<Rightarrow> bool" where
  "status_entry_ok reps i e \<longleftrightarrow> is_ok (repoStatusCode (StatusLog_Status e)) \<and> address_text (StatusLog_Actor e) \<and>
     length (StatusLog_ReasonHash e) \<le> 128 \<and> StatusLog_Timestamp e \<noteq> 0 \<and>
     (StatusLog_ReportID e \<noteq> 0 \<longrightarrow>
        (\<exists>r \<in> set reps. Report_ID r = StatusLog_ReportID e \<and> Report_RepoID r = i))"

definition status_trail_ok ::
  "SnapshotRepository list \<Rightarrow> SnapshotFinalStatus list \<Rightarrow> SnapshotReport list \<Rightarrow> SnapshotStatusTrail \<Rightarrow> bool" where
  "status_trail_ok rs sts reps t \<longleftrightarrow> StatusTrail_RepoID t \<in> Repository_ID ` set rs \<and> StatusTrail_Trail t \<noteq> [] \<and>
     (\<forall>e \<in> set (StatusTrail_Trail t). status_entry_ok reps (StatusTrail_RepoID t) e) \<and>
     sorted (map StatusLog_Timestamp (StatusTrail_Trail t)) \<and>
     (\<exists>s \<in> set sts. FinalStatus_RepoID s = StatusTrail_RepoID t \<and>
        FinalStatus_Status s = StatusLog_Status (last (StatusTrail_Trail t)))"

definition status_trails_ok ::
  "SnapshotRepository list \<Rightarrow> SnapshotFinalStatus list \<Rightarrow> SnapshotReport list \<Rightarrow> SnapshotStatusTrail list \<Rightarrow> bool" where
  "status_trails_ok rs sts reps ts \<longleftrightarrow> (\<forall>t \<in> set ts. status_trail_ok rs sts reps t) \<and>
     distinct (map StatusTrail_RepoID ts)"


section \<open>Moderation: the loops\<close>

definition statuses_of :: "SnapshotFinalStatus list \<Rightarrow> (string, string) gomap" where
  "statuses_of sts = gm_build FinalStatus_RepoID FinalStatus_Status sts"

definition reports_of :: "SnapshotReport list \<Rightarrow> (u64, SnapshotReport) gomap" where
  "reports_of reps = gm_build Report_ID id reps"

lemma final_status_step:
  "validate_final_status (repos_of rs) s (statuses_of ys) = Inr t \<longleftrightarrow>
    ((FinalStatus_RepoID s \<in> Repository_ID ` set rs \<and> is_ok (repoStatusCode (FinalStatus_Status s))) \<and>
     FinalStatus_RepoID s \<notin> FinalStatus_RepoID ` set ys) \<and> t = statuses_of (ys @ [s])"
  by (auto simp: validate_final_status_def check_simps repos_of_None statuses_of_def gm_build_snoc
      simp flip: not_None_eq)

lemma final_statuses_exact:
  assumes "repositories_ok rs"
  shows "validate_final_statuses (repos_of rs) sts = Inr t \<longleftrightarrow> statuses_ok rs sts \<and> t = statuses_of sts"
proof -
  let ?k = FinalStatus_RepoID
  have loop: "for_res (validate_final_status (repos_of rs)) sts [] = Inr m \<longleftrightarrow>
      ((\<forall>s \<in> set sts. ?k s \<in> Repository_ID ` set rs \<and> is_ok (repoStatusCode (FinalStatus_Status s))) \<and>
       distinct (map ?k sts)) \<and> m = statuses_of sts" for m
    using for_res_exact[of "validate_final_status (repos_of rs)" statuses_of, OF final_status_step, of sts m]
    by (simp add: statuses_of_def ball_conj_distrib)
  have "length (repos_of rs) = card (Repository_ID ` set rs)"
    by (simp add: repos_of_def length_gm_build)
  then have len: "length (statuses_of sts) = length (repos_of rs) \<longleftrightarrow> ?k ` set sts = Repository_ID ` set rs"
    if "?k ` set sts \<subseteq> Repository_ID ` set rs"
    using that card_subset_eq[OF _ that] by (auto simp: statuses_of_def length_gm_build)
  show ?thesis
    unfolding validate_final_statuses_def bind_res_Inr_iff loop guard_err_Inr_iff statuses_ok_def
    using len by auto
qed

text \<open>Time stamps compared with the previous entry are sorted.\<close>

definition last_time :: "('a \<Rightarrow> u64) \<Rightarrow> 'a list \<Rightarrow> u64" where
  "last_time t ys = (if ys = [] then 0 else t (last ys))"

lemma last_time_snoc [simp]: "last_time t (ys @ [y]) = t y" "last_time t [] = 0"
  by (simp_all add: last_time_def)

lemma sorted_snoc_last: "sorted (xs @ [x]) \<longleftrightarrow> sorted xs \<and> (xs = [] \<or> last xs \<le> x)"
proof (induction xs rule: rev_induct)
  case (snoc y ys)
  then show ?case by (auto simp: sorted_append)
qed simp

lemma at_each_sorted: "at_each (\<lambda>ys y. last_time t ys \<le> t y) xs \<longleftrightarrow> sorted (map t xs)"
  by (induction xs rule: rev_induct)
    (auto simp: sorted_snoc_last last_map last_time_def)

lemma at_each_nth_eq:
  "length xs \<le> length es \<Longrightarrow> at_each (\<lambda>ys y. f y = es ! length ys) xs \<longleftrightarrow> map f xs = take (length xs) es"
  by (auto simp: at_each_def list_eq_iff_nth_eq)

lemma at_each_hd: "xs \<noteq> [] \<Longrightarrow> at_each (\<lambda>ys y. ys = [] \<longrightarrow> P y) xs \<longleftrightarrow> P (hd xs)"
proof (induction xs rule: rev_induct)
  case (snoc x xs)
  then show ?case by (cases "xs = []") (auto simp: at_each_def[of _ "[x]"])
qed simp

lemma report_fields_exact:
  assumes "geth_ok g"
  shows "is_ok (check_report_fields g (repos_of rs) (reports_of ys) r) \<longleftrightarrow>
    Report_ID r \<notin> Report_ID ` set ys \<and> Report_ID r \<noteq> 0 \<and> Report_ID r \<noteq> - 1 \<and>
    Report_RepoID r \<in> Repository_ID ` set rs \<and> address_text (Report_Reporter r) \<and>
    is_ok (reportStatusCode (Report_Status r)) \<and> is_ok (repoStatusCode (Report_Resolution r)) \<and>
    Report_ReasonHash r \<noteq> '''' \<and> length (Report_ReasonHash r) \<le> 128 \<and> Report_CreatedAt r \<noteq> 0 \<and>
    Report_CreatedAt r \<le> Report_UpdatedAt r \<and> Report_Trail r \<noteq> []"
  using assms
  by (auto simp: check_report_fields_def text_ok guard_err_Inr_iff reports_of_def repos_of_None not_less)

lemma action_code_expected:
  "is_ok (trailActionCode a)" if "a \<in> set expectedActions"
  using that by (auto simp: expectedActions_def trailActionCode_def)

lemma report_entry_step:
  assumes "geth_ok g" "length ys < 4"
  shows "validate_report_entry g r (length ys, e) (last_time ReportTrail_Timestamp ys) = Inr t \<longleftrightarrow>
    (ReportTrail_Action e = expectedActions ! length ys \<and> report_entry_ok e \<and>
     last_time ReportTrail_Timestamp ys \<le> ReportTrail_Timestamp e \<and> (ys = [] \<longrightarrow> submission_of r e)) \<and>
    t = last_time ReportTrail_Timestamp (ys @ [e])"
proof -
  have "expectedActions ! length ys \<in> set expectedActions"
    using assms(2) by (intro nth_mem) (simp add: expectedActions_def)
  then have "is_ok (trailActionCode (expectedActions ! length ys))" by (rule action_code_expected)
  then show ?thesis using assms(1)
    by (auto simp: validate_report_entry_def check_simps report_entry_ok_def submission_of_def not_less)
qed

lemma expected_length_cases:
  assumes "is_ok (reportStatusCode (Report_Status r))"
  obtains "Report_Status r = ''open''" | "Report_Status r = ''resolved''"
  | "Report_Status r = ''appealed''" | "Report_Status r = ''appeal_resolved''"
  using assms by (auto simp: reportStatusCode_def split: if_splits)

lemma for_res_enum_bounded:
  assumes "\<And>ys y r. length ys < n \<Longrightarrow> f (length ys, y) (st ys) = Inr r \<longleftrightarrow> ok ys y \<and> r = st (ys @ [y])"
    and "length xs \<le> n"
  shows "for_res f (enumerate 0 xs) (st []) = Inr t \<longleftrightarrow> at_each ok xs \<and> t = st xs"
  using assms(2)
  by (induction xs arbitrary: t rule: rev_induct)
    (auto simp: enumerate_append_eq for_res_snoc_Inr assms(1))

lemma report_entries_exact:
  assumes "geth_ok g" "Report_Trail r \<noteq> []" "length (Report_Trail r) \<le> 4"
  shows "for_res (validate_report_entry g r) (enumerate 0 (Report_Trail r)) 0 = Inr t \<longleftrightarrow>
    (map ReportTrail_Action (Report_Trail r) = take (length (Report_Trail r)) expectedActions \<and>
     (\<forall>e \<in> set (Report_Trail r). report_entry_ok e) \<and>
     sorted (map ReportTrail_Timestamp (Report_Trail r)) \<and> submission_of r (hd (Report_Trail r))) \<and>
    t = ReportTrail_Timestamp (last (Report_Trail r))"
  using for_res_enum_bounded[of 4 "validate_report_entry g r" "last_time ReportTrail_Timestamp",
      OF report_entry_step[OF assms(1)] assms(3), of t]
    at_each_nth_eq[of "Report_Trail r" expectedActions ReportTrail_Action] assms(2,3)
  by (simp add: at_each_sorted at_each_hd last_time_def[of _ "Report_Trail r"] expectedActions_def)

lemma last_nth: "length xs = Suc n \<Longrightarrow> last xs = xs ! n"
  by (cases xs) (auto simp: last_conv_nth)

lemmas trail_unfold = validate_report_trail_def expected_trail_length_def report_trail_ok_def Let_def
  guard_err_Inr_iff

lemma report_trail_exact:
  assumes "geth_ok g" "Report_Trail r \<noteq> []" "is_ok (reportStatusCode (Report_Status r))"
  shows "is_ok (validate_report_trail g r) \<longleftrightarrow> report_trail_ok r"
proof -
  let ?tr = "Report_Trail r"
  have len: "expectedActions ! (length ?tr - 1) = (if Report_Status r = ''open'' then ''submitted'' else Report_Status r) \<and>
      length ?tr \<le> 4 \<longleftrightarrow> length ?tr =
      (if Report_Status r = ''open'' then 1 else if Report_Status r = ''resolved'' then 2
       else if Report_Status r = ''appealed'' then 3 else 4)"
  proof -
    have four: "length ?tr \<in> {1, 2, 3, 4}" if "length ?tr \<le> 4"
      using that assms(2) length_greater_0_conv[of ?tr] by (simp only: insert_iff empty_iff) arith
    show ?thesis
      using assms(3) by (cases rule: expected_length_cases) (use four in \<open>auto simp: expectedActions_def\<close>)
  qed
  have last2: "last ?tr = ?tr ! 1" if "length ?tr = 2" using that by (intro last_nth) simp
  have last1: "last ?tr = hd ?tr" if "length ?tr = 1" using that by (cases ?tr) auto
  have last3: "last ?tr = ?tr ! 2" if "length ?tr = 3" using that by (intro last_nth) simp
  show ?thesis
    using assms(3)
  proof (cases rule: expected_length_cases)
    case 1
    then show ?thesis using len last1
      by (cases "length ?tr = 1") (auto simp: trail_unfold report_entries_exact[OF assms(1,2)] submission_of_def)
  next
    case 2
    then show ?thesis using len last2
      by (cases "length ?tr = 2") (auto simp: trail_unfold report_entries_exact[OF assms(1,2)])
  next
    case 3
    then show ?thesis using len last3
      by (cases "length ?tr = 3") (auto simp: trail_unfold report_entries_exact[OF assms(1,2)])
  next
    case 4
    then show ?thesis using len
      by (cases "length ?tr = 4") (auto simp: trail_unfold report_entries_exact[OF assms(1,2)])
  qed
qed

lemma report_step:
  assumes "geth_ok g"
  shows "validate_report g (repos_of rs) r (reports_of ys) = Inr t \<longleftrightarrow>
    (report_ok rs r \<and> Report_ID r \<notin> Report_ID ` set ys) \<and> t = reports_of (ys @ [r])"
proof -
  have "report_trail_ok r \<Longrightarrow> Report_Trail r \<noteq> []" by (simp add: report_trail_ok_def Let_def)
  then show ?thesis
    unfolding validate_report_def bind_ignore_Inr report_fields_exact[OF assms] report_ok_def
    using report_trail_exact[OF assms, of r] by (auto simp: reports_of_def gm_build_snoc)
qed

lemma reports_exact:
  assumes "geth_ok g"
  shows "validate_reports g (repos_of rs) reps = Inr t \<longleftrightarrow> reports_ok rs reps \<and> t = reports_of reps"
  using for_res_exact[of "validate_report g (repos_of rs)" reports_of, OF report_step[OF assms], of reps t]
  by (simp add: validate_reports_def reports_ok_def reports_of_def)

lemma reports_of_lookup:
  assumes "distinct (map Report_ID reps)"
  shows "map_of (reports_of reps) i = Some r \<longleftrightarrow> r \<in> set reps \<and> Report_ID r = i"
  using assms map_of_gm_build[of Report_ID reps r id] map_of_gm_build_Some[of Report_ID id reps i r]
  by (auto simp: reports_of_def)

lemma report_reference:
  assumes "distinct (map Report_ID reps)"
  shows "(case map_of (reports_of reps) i of None \<Rightarrow> True | Some report \<Rightarrow> Report_RepoID report \<noteq> j) \<longleftrightarrow>
    \<not> (\<exists>r \<in> set reps. Report_ID r = i \<and> Report_RepoID r = j)"
proof (cases "map_of (reports_of reps) i")
  case None
  then have "i \<notin> Report_ID ` set reps" by (simp add: reports_of_def)
  then show ?thesis using None by auto
next
  case (Some r)
  then have "r \<in> set reps" "Report_ID r = i" using reports_of_lookup[OF assms] by blast+
  then show ?thesis using Some assms by (auto simp: distinct_map inj_on_def)
qed

lemma status_entries_exact:
  assumes "geth_ok g" "distinct (map Report_ID reps)"
  shows "is_ok (for_res (validate_status_entry g (reports_of reps) i) es 0) \<longleftrightarrow>
    (\<forall>e \<in> set es. status_entry_ok reps i e) \<and> sorted (map StatusLog_Timestamp es)"
proof -
  have step: "validate_status_entry g (reports_of reps) i e (last_time StatusLog_Timestamp ys) = Inr t \<longleftrightarrow>
      (status_entry_ok reps i e \<and> last_time StatusLog_Timestamp ys \<le> StatusLog_Timestamp e) \<and>
      t = last_time StatusLog_Timestamp (ys @ [e])" for e ys t
    using assms(1)
    by (auto simp: validate_status_entry_def check_simps status_entry_ok_def report_reference[OF assms(2)] not_less)
  show ?thesis
    by (subst for_res_exact_ok[where st = "last_time StatusLog_Timestamp", OF step])
      (simp_all add: at_each_sorted)
qed

lemma final_status_lookup:
  assumes "statuses_ok rs sts" "i \<in> Repository_ID ` set rs"
  shows "gm_get '''' (statuses_of sts) i = v \<longleftrightarrow>
    (\<exists>s \<in> set sts. FinalStatus_RepoID s = i \<and> FinalStatus_Status s = v)"
proof -
  obtain s where s: "s \<in> set sts" "FinalStatus_RepoID s = i"
    using assms by (metis (no_types) imageE statuses_ok_def)
  have d: "distinct (map FinalStatus_RepoID sts)" using assms(1) by (simp add: statuses_ok_def)
  have "map_of (statuses_of sts) i = Some (FinalStatus_Status s)"
    using map_of_gm_build[OF d s(1), of FinalStatus_Status] s(2) by (simp add: statuses_of_def)
  then show ?thesis using s d by (auto simp: gm_get_def distinct_map inj_on_def)
qed

lemma status_trail_step:
  assumes "geth_ok g" "statuses_ok rs sts" "reports_ok rs reps"
  shows "validate_status_trail g (repos_of rs) (statuses_of sts) (reports_of reps) r (rev (map StatusTrail_RepoID ys)) = Inr t \<longleftrightarrow>
    (status_trail_ok rs sts reps r \<and> StatusTrail_RepoID r \<notin> StatusTrail_RepoID ` set ys) \<and>
    t = rev (map StatusTrail_RepoID (ys @ [r]))"
proof -
  have d: "distinct (map Report_ID reps)" using assms(3) by (simp add: reports_ok_def)
  show ?thesis
  proof (cases "StatusTrail_RepoID r \<in> Repository_ID ` set rs")
    case True
    then show ?thesis
      using final_status_lookup[OF assms(2) True, of "StatusLog_Status (last (StatusTrail_Trail r))"]
      by (auto simp: validate_status_trail_def check_simps status_trail_ok_def repos_of_None
          status_entries_exact[OF assms(1) d])
  qed (simp add: validate_status_trail_def check_simps status_trail_ok_def repos_of_None)
qed

lemma status_trails_exact:
  assumes "geth_ok g" "statuses_ok rs sts" "reports_ok rs reps"
  shows "is_ok (validate_status_trails g (repos_of rs) (statuses_of sts) (reports_of reps) ts) \<longleftrightarrow>
    status_trails_ok rs sts reps ts"
  unfolding validate_status_trails_def
  by (subst for_res_exact_ok[where st = "\<lambda>ys. rev (map StatusTrail_RepoID ys)", OF status_trail_step[OF assms]])
    (simp_all add: status_trails_ok_def)


section \<open>Economic records and user names\<close>

definition splits_ok :: "SnapshotRepository list \<Rightarrow> SnapshotRevenueSplits \<Rightarrow> bool" where
  "splits_ok rs r \<longleftrightarrow> RevenueSplits_RepoID r \<in> Repository_ID ` set rs \<and>
     length (RevenueSplits_Splits r) \<le> MaxRevenueSplitRecipients \<and>
     (\<forall>e \<in> set (RevenueSplits_Splits r). address_text (Split_Recipient e) \<and> Split_BPS e \<noteq> 0 \<and>
        \<not> owned_by rs (RevenueSplits_RepoID r) (Split_Recipient e)) \<and>
     distinct (map Split_Recipient (RevenueSplits_Splits r)) \<and>
     (\<Sum>e \<leftarrow> RevenueSplits_Splits r. uint (Split_BPS e)) \<le> 10000"

definition total_ok :: "SnapshotRepository list \<Rightarrow> SnapshotSponsorTotal \<Rightarrow> bool" where
  "total_ok rs r \<longleftrightarrow> SponsorTotal_RepoID r \<in> Repository_ID ` set rs \<and> SponsorTotal_Denom r \<noteq> '''' \<and>
     length (SponsorTotal_Denom r) \<le> 128 \<and> is_ok (positiveDecimal ''sponsor total'' (SponsorTotal_Amount r))"

definition economic_ok :: "SnapshotRepository list \<Rightarrow> SnapshotEconomic \<Rightarrow> bool" where
  "economic_ok rs e \<longleftrightarrow> (\<forall>r \<in> set (Economic_Splits e). splits_ok rs r) \<and>
     distinct (map RevenueSplits_RepoID (Economic_Splits e)) \<and>
     (\<forall>r \<in> set (Economic_Totals e). total_ok rs r) \<and>
     distinct (map (\<lambda>r. (SponsorTotal_RepoID r, SponsorTotal_Denom r)) (Economic_Totals e))"

definition usernames_ok :: "SnapshotUsername \<Rightarrow> bool" where
  "usernames_ok u \<longleftrightarrow>
     (\<forall>r \<in> set (Username_OriginalOwners u). validUsername (OriginalUsername_Name r) \<and>
        address_text (OriginalUsername_Owner r)) \<and>
     distinct (map OriginalUsername_Owner (Username_OriginalOwners u)) \<and>
     (\<forall>n \<in> set (Username_ReservedNames u). validUsername n) \<and>
     distinct (map OriginalUsername_Name (Username_OriginalOwners u) @ Username_ReservedNames u) \<and>
     length (Username_ReservedNames u) \<le> MaxReservedUsernames"

lemma split_entries_exact:
  assumes "geth_ok g"
  shows "for_res (validate_split g i w) es ([], 0) = Inr t \<longleftrightarrow>
    ((\<forall>e \<in> set es. address_text (Split_Recipient e) \<and> Split_BPS e \<noteq> 0 \<and> w \<noteq> Split_Recipient e) \<and>
     distinct (map Split_Recipient es)) \<and>
    t = (rev (map Split_Recipient es), \<Sum>e \<leftarrow> es. uint (Split_BPS e))"
proof -
  let ?st = "\<lambda>ys. (rev (map Split_Recipient ys), \<Sum>e \<leftarrow> ys. uint (Split_BPS e))"
  have step: "validate_split g i w e (?st ys) = Inr t \<longleftrightarrow>
      ((address_text (Split_Recipient e) \<and> Split_BPS e \<noteq> 0 \<and> w \<noteq> Split_Recipient e) \<and>
       Split_Recipient e \<notin> Split_Recipient ` set ys) \<and> t = ?st (ys @ [e])" for e ys t
    using assms by (auto simp: validate_split_def check_simps)
  show ?thesis using for_res_exact[of "validate_split g i w" ?st, OF step, of es t]
    by (simp add: ball_conj_distrib)
qed

lemma splits_step:
  assumes "geth_ok g" "repositories_ok rs"
  shows "validate_revenue_splits g (repos_of rs) r (rev (map RevenueSplits_RepoID ys)) = Inr t \<longleftrightarrow>
    (splits_ok rs r \<and> RevenueSplits_RepoID r \<notin> RevenueSplits_RepoID ` set ys) \<and>
    t = rev (map RevenueSplits_RepoID (ys @ [r]))"
  using assms(2)
proof (cases rule: repo_lookup_cases[of rs "RevenueSplits_RepoID r"])
  case absent
  then show ?thesis by (simp add: validate_revenue_splits_def splits_ok_def)
next
  case (present p)
  have "RevenueSplits_RepoID r \<in> Repository_ID ` set rs" using present(2,3) by (metis imageI)
  then show ?thesis
    by (auto simp: validate_revenue_splits_def res_simps splits_ok_def present(1,4) not_less
        split_entries_exact[OF assms(1)])
qed

lemma splits_exact:
  assumes "geth_ok g" "repositories_ok rs"
  shows "is_ok (validate_splits g (repos_of rs) xs) \<longleftrightarrow>
    (\<forall>r \<in> set xs. splits_ok rs r) \<and> distinct (map RevenueSplits_RepoID xs)"
  unfolding validate_splits_def
  by (subst for_res_exact_ok[where st = "\<lambda>ys. rev (map RevenueSplits_RepoID ys)", OF splits_step[OF assms]]) simp_all

definition total_key :: "SnapshotSponsorTotal \<Rightarrow> string" where
  "total_key r = SponsorTotal_RepoID r @ NUL @ SponsorTotal_Denom r"

lemma totals_exact:
  assumes "repositories_ok rs"
  shows "is_ok (validate_totals (repos_of rs) xs) \<longleftrightarrow> (\<forall>r \<in> set xs. total_ok rs r) \<and>
    distinct (map (\<lambda>r. (SponsorTotal_RepoID r, SponsorTotal_Denom r)) xs)"
proof -
  have step: "validate_total (repos_of rs) r (rev (map total_key ys)) = Inr t \<longleftrightarrow>
      (total_ok rs r \<and> total_key r \<notin> total_key ` set ys) \<and> t = rev (map total_key (ys @ [r]))" for r ys t
    by (auto simp: validate_total_def check_simps Let_def total_ok_def total_key_def repos_of_None not_less)
  have "is_ok (validate_totals (repos_of rs) xs) \<longleftrightarrow> (\<forall>r \<in> set xs. total_ok rs r) \<and> distinct (map total_key xs)"
    unfolding validate_totals_def
    by (subst for_res_exact_ok[where st = "\<lambda>ys. rev (map total_key ys)", OF step]) simp_all
  then show ?thesis
    using length_key_distinct[OF assms, of xs SponsorTotal_RepoID SponsorTotal_Denom]
    by (auto simp: total_ok_def total_key_def[abs_def])
qed

type_synonym name_maps = "(string, string) gomap \<times> (string, string) gomap"

definition name_maps_of :: "SnapshotOriginalUsername list \<Rightarrow> name_maps" where
  "name_maps_of xs = (gm_build OriginalUsername_Name OriginalUsername_Owner xs,
     gm_build OriginalUsername_Owner OriginalUsername_Name xs)"

definition owner_record_ok :: "SnapshotOriginalUsername \<Rightarrow> bool" where
  "owner_record_ok r \<longleftrightarrow> validUsername (OriginalUsername_Name r) \<and> address_text (OriginalUsername_Owner r)"

lemma original_owners_exact:
  assumes "geth_ok g"
  shows "validate_original_owners g xs = Inr t \<longleftrightarrow>
    ((\<forall>r \<in> set xs. owner_record_ok r) \<and> distinct (map OriginalUsername_Name xs) \<and>
     distinct (map OriginalUsername_Owner xs)) \<and> t = name_maps_of xs"
proof -
  let ?free = "\<lambda>ys r. gm_get '''' (snd (name_maps_of ys)) (OriginalUsername_Owner r) = ''''"
  have step: "validate_original_owner g r (name_maps_of ys) = Inr t \<longleftrightarrow>
      (owner_record_ok r \<and> OriginalUsername_Name r \<notin> OriginalUsername_Name ` set ys \<and> ?free ys r) \<and>
      t = name_maps_of (ys @ [r])" for r ys t
    using assms
    by (auto simp: validate_original_owner_def check_simps Let_def name_maps_of_def owner_record_ok_def gm_build_snoc)
  have "validate_original_owners g xs = Inr t \<longleftrightarrow>
      ((\<forall>r \<in> set xs. owner_record_ok r) \<and> distinct (map OriginalUsername_Name xs) \<and> at_each ?free xs) \<and>
      t = name_maps_of xs"
    using for_res_exact[of "validate_original_owner g" name_maps_of, OF step, of xs t]
    by (simp add: validate_original_owners_def name_maps_of_def)
  moreover have "at_each ?free xs \<longleftrightarrow> distinct (map OriginalUsername_Owner xs)"
    if ok: "\<forall>r \<in> set xs. owner_record_ok r"
  proof -
    have "at_each ?free xs \<longleftrightarrow>
        at_each (\<lambda>ys r. OriginalUsername_Owner r \<notin> OriginalUsername_Owner ` set ys) xs"
    proof (rule at_each_cong)
      fix ys y assume "set ys \<subseteq> set xs"
      then have "OriginalUsername_Name x \<noteq> ''''" if "x \<in> set ys" for x
        using ok that by (fastforce simp: owner_record_ok_def validUsername_def)
      then show "?free ys y \<longleftrightarrow> OriginalUsername_Owner y \<notin> OriginalUsername_Owner ` set ys"
        by (simp add: name_maps_of_def gm_get_build)
    qed
    then show ?thesis by simp
  qed
  ultimately show ?thesis by blast
qed

lemma reserved_exact:
  "is_ok (validate_reserved_names (fst (name_maps_of xs)) ns) \<longleftrightarrow> length ns \<le> MaxReservedUsernames \<and>
    (\<forall>n \<in> set ns. validUsername n \<and> n \<notin> OriginalUsername_Name ` set xs) \<and> distinct ns"
proof -
  have step: "validate_reserved_name (fst (name_maps_of xs)) n (rev ys) = Inr t \<longleftrightarrow>
      (validUsername n \<and> n \<notin> OriginalUsername_Name ` set xs \<and> n \<notin> id ` set ys) \<and> t = rev (ys @ [n])" for n ys t
    by (auto simp: validate_reserved_name_def check_simps name_maps_of_def)
  have "is_ok (for_res (validate_reserved_name (fst (name_maps_of xs))) ns []) \<longleftrightarrow>
      (\<forall>n \<in> set ns. validUsername n \<and> n \<notin> OriginalUsername_Name ` set xs) \<and> distinct ns"
    by (subst for_res_exact_ok[where st = rev, OF step])
      (auto simp del: at_each_distinct simp: at_each_distinct[of id, simplified])
  then show ?thesis by (auto simp: validate_reserved_names_def guard_err_Inr_iff)
qed

lemma usernames_exact:
  assumes "geth_ok g"
  shows "(\<exists>t. validate_original_owners g (Username_OriginalOwners u) = Inr t \<and>
      is_ok (validate_reserved_names (fst t) (Username_ReservedNames u))) \<longleftrightarrow> usernames_ok u"
  unfolding original_owners_exact[OF assms]
  by (auto simp: reserved_exact usernames_ok_def owner_record_ok_def)


section \<open>Badges and their indexes\<close>

definition badge_ok :: "SnapshotRepository list \<Rightarrow> SnapshotBadge \<Rightarrow> bool" where
  "badge_ok rs b \<longleftrightarrow> Badge_ID b \<noteq> 0 \<and> Badge_RepoID b \<in> Repository_ID ` set rs \<and>
     address_text (Badge_Recipient b) \<and> address_text (Badge_AwardedBy b) \<and>
     Badge_Recipient b \<noteq> Badge_AwardedBy b \<and> Badge_Reason b \<noteq> '''' \<and> length (Badge_Reason b) \<le> 256 \<and>
     Badge_AwardedAt b \<noteq> 0"

text \<open>An index lists, for every key that occurs, exactly the values recorded for it, each once.\<close>

definition index_ok :: "('a \<Rightarrow> 'k) \<Rightarrow> ('a \<Rightarrow> 'v) \<Rightarrow> 'a list \<Rightarrow> ('k \<times> 'v list) list \<Rightarrow> bool" where
  "index_ok k v xs ix \<longleftrightarrow> distinct (map fst ix) \<and> fst ` set ix = k ` set xs \<and>
     (\<forall>(i, vs) \<in> set ix. distinct vs \<and> mset vs = mset (map v (filter (\<lambda>x. k x = i) xs)))"

definition recipient_index :: "SnapshotBadgeIndexes \<Rightarrow> (string \<times> u64 list) list" where
  "recipient_index ix = map (\<lambda>g. (RecipientIndex_Recipient g, RecipientIndex_BadgeIDs g)) (BadgeIndexes_ByRecipient ix)"

definition repository_index :: "SnapshotBadgeIndexes \<Rightarrow> (string \<times> u64 list) list" where
  "repository_index ix = map (\<lambda>g. (RepositoryIndex_RepoID g, RepositoryIndex_BadgeIDs g)) (BadgeIndexes_ByRepository ix)"

definition badges_ok :: "SnapshotRepository list \<Rightarrow> SnapshotBadge list \<Rightarrow> SnapshotBadgeIndexes \<Rightarrow> bool" where
  "badges_ok rs bs ix \<longleftrightarrow> (\<forall>b \<in> set bs. badge_ok rs b) \<and> distinct (map Badge_ID bs) \<and>
     index_ok Badge_Recipient Badge_ID bs (recipient_index ix) \<and>
     index_ok Badge_RepoID Badge_ID bs (repository_index ix)"

lemma sorted_equal_unique_alt:
  "sorted_equal_unique s t \<longleftrightarrow> s = t \<and> (\<forall>i < length s. 0 < i \<longrightarrow> s ! i \<noteq> s ! (i - 1))"
proof
  assume a: "sorted_equal_unique s t"
  then have "s = t" by (intro nth_equalityI) (auto simp: sorted_equal_unique_def list_all_iff)
  then show "s = t \<and> (\<forall>i < length s. 0 < i \<longrightarrow> s ! i \<noteq> s ! (i - 1))"
    using a unfolding sorted_equal_unique_def list_all_iff
    by (metis atLeastLessThan_iff atLeast_upt bot_nat_0.extremum set_upt)
qed (auto simp: sorted_equal_unique_def list_all_iff)

lemma sorted_equal_unique_mset:
  "sorted_equal_unique (sort g) (sort w) \<longleftrightarrow> mset g = mset w \<and> distinct g"
proof -
  have eq: "sort g = sort w \<longleftrightarrow> mset g = mset w"
    by (metis mset_sort properties_for_sort sorted_sort)
  have shift: "(\<forall>i < n. 0 < i \<longrightarrow> Q i (i - 1)) \<longleftrightarrow> (\<forall>i. Suc i < n \<longrightarrow> Q (Suc i) i)" for n and Q :: "nat \<Rightarrow> nat \<Rightarrow> bool"
    by (metis Suc_pred diff_Suc_1 zero_less_Suc)
  have strict: "distinct s \<longleftrightarrow> (\<forall>i < length s. 0 < i \<longrightarrow> s ! i \<noteq> s ! (i - 1))" if "sorted s" for s :: "'a list"
  proof -
    have "distinct s \<longleftrightarrow> (\<forall>i. Suc i < length s \<longrightarrow> s ! i < s ! Suc i)"
      using that sorted_wrt_iff_nth_Suc_transp[of "(<)" s] by (simp add: strict_sorted_iff)
    also have "\<dots> \<longleftrightarrow> (\<forall>i. Suc i < length s \<longrightarrow> s ! Suc i \<noteq> s ! i)"
      using that unfolding sorted_iff_nth_Suc by (metis order_le_less less_irrefl)
    finally show ?thesis using shift[of "length s" "\<lambda>i j. s ! i \<noteq> s ! j"] by simp
  qed
  have "sorted_equal_unique (sort g) (sort w) \<longleftrightarrow> sort g = sort w \<and> distinct (sort g)"
    unfolding strict[OF sorted_sort] by (rule sorted_equal_unique_alt)
  then show ?thesis using eq by simp
qed

text \<open>The grouping maps that \<^verbatim>\<open>m[k] = append(m[k], v)\<close> builds.\<close>

definition group_of :: "('a \<Rightarrow> 'k) \<Rightarrow> ('a \<Rightarrow> 'v) \<Rightarrow> 'a list \<Rightarrow> ('k, 'v list) gomap" where
  "group_of k v xs = foldl (\<lambda>m x. gm_append (k x) (v x) m) [] xs"

lemma group_of_Nil [simp]: "group_of k v [] = []"
  by (simp add: group_of_def)

lemma group_of_snoc: "group_of k v (xs @ [x]) = gm_append (k x) (v x) (group_of k v xs)"
  by (simp add: group_of_def)

lemma map_of_group_of:
  "map_of (group_of k v xs) i = (if i \<in> k ` set xs then Some (map v (filter (\<lambda>x. k x = i) xs)) else None)"
proof (induction xs arbitrary: i rule: rev_induct)
  case (snoc x xs)
  have "filter (\<lambda>y. k y = k x) xs = []" if "k x \<notin> k ` set xs"
    using that by (auto simp: filter_empty_conv image_iff)
  then show ?case by (auto simp: group_of_snoc gm_append_def gm_get_def snoc.IH)
qed simp

lemma gm_wf_group_of: "gm_wf (group_of k v xs)"
  by (induction xs rule: rev_induct) (simp_all add: group_of_snoc gm_append_def)

lemma length_group_of: "length (group_of k v xs) = card (k ` set xs)"
proof -
  have "dom (map_of (group_of k v xs)) = k ` set xs"
    by (auto simp: map_of_group_of dom_def)
  then show ?thesis using gm_wf_length[OF gm_wf_group_of] by metis
qed

lemma group_of_all:
  "(\<forall>(i, w) \<in> set (group_of k v xs). P i w) \<longleftrightarrow> (\<forall>i \<in> k ` set xs. P i (map v (filter (\<lambda>x. k x = i) xs)))"
proof -
  have mem: "(i, w) \<in> set (group_of k v xs) \<longleftrightarrow> i \<in> k ` set xs \<and> w = map v (filter (\<lambda>x. k x = i) xs)" for i w
    using map_of_eq_Some_iff[OF gm_wf_group_of[of k v xs], of i w] by (auto simp: map_of_group_of split: if_splits)
  have "set (group_of k v xs) = (\<lambda>i. (i, map v (filter (\<lambda>x. k x = i) xs))) ` (k ` set xs)"
    by (auto simp: mem)
  then show ?thesis by simp
qed

lemma index_cover:
  assumes "distinct (map fst ix)"
  shows "length ix = length (group_of k v xs) \<and>
      (\<forall>(i, w) \<in> set (group_of k v xs). case map_of ix i of None \<Rightarrow> False | Some u \<Rightarrow> Q u w) \<longleftrightarrow>
    fst ` set ix = k ` set xs \<and> (\<forall>(i, u) \<in> set ix. Q u (map v (filter (\<lambda>x. k x = i) xs)))"
    (is "?l \<longleftrightarrow> ?r")
proof -
  have len: "length ix = card (fst ` set ix)" using assms by (metis distinct_card length_map set_map)
  have look: "map_of ix i = Some u \<longleftrightarrow> (i, u) \<in> set ix" for i u
    using assms by (simp add: map_of_eq_Some_iff)
  show ?thesis unfolding len length_group_of group_of_all
  proof
    assume l: "card (fst ` set ix) = card (k ` set xs) \<and> (\<forall>i \<in> k ` set xs.
      case map_of ix i of None \<Rightarrow> False | Some u \<Rightarrow> Q u (map v (filter (\<lambda>x. k x = i) xs)))"
    then have some: "\<exists>u. (i, u) \<in> set ix \<and> Q u (map v (filter (\<lambda>x. k x = i) xs))" if "i \<in> k ` set xs" for i
      using that look by (fastforce split: option.splits)
    then have "k ` set xs \<subseteq> fst ` set ix" by force
    then have "fst ` set ix = k ` set xs" using l card_subset_eq[of "fst ` set ix" "k ` set xs"] by auto
    moreover have "Q u (map v (filter (\<lambda>x. k x = i) xs))" if "(i, u) \<in> set ix" for i u
    proof -
      have "i \<in> k ` set xs" using that calculation by force
      then obtain u' where "(i, u') \<in> set ix" "Q u' (map v (filter (\<lambda>x. k x = i) xs))" using some by blast
      then show ?thesis using that look by (metis option.inject)
    qed
    ultimately show ?r by blast
  next
    assume r: ?r
    show "card (fst ` set ix) = card (k ` set xs) \<and> (\<forall>i \<in> k ` set xs.
      case map_of ix i of None \<Rightarrow> False | Some u \<Rightarrow> Q u (map v (filter (\<lambda>x. k x = i) xs)))"
    proof (intro conjI ballI)
      fix i assume "i \<in> k ` set xs"
      then obtain u where u: "(i, u) \<in> set ix" using r by (metis (no_types) imageE prod.collapse)
      then show "case map_of ix i of None \<Rightarrow> False | Some u \<Rightarrow> Q u (map v (filter (\<lambda>x. k x = i) xs))"
        using r look[of i u] by auto
    qed (use r in simp)
  qed
qed

lemma equalIndexMaps_exact:
  assumes "distinct (map fst ix)"
  shows "equalIndexMaps ix (group_of k v xs) \<longleftrightarrow> index_ok k v xs ix"
  using index_cover[OF assms, of k v xs "\<lambda>u w. sorted_equal_unique (sort u) (sort w)"] assms
  by (auto simp: equalIndexMaps_def list_all_iff index_ok_def sorted_equal_unique_mset)

lemma count_list_distinct: "distinct vs \<Longrightarrow> x \<in> set vs \<Longrightarrow> count_list vs x = 1"
  by (induction vs) (auto simp: count_list_0_iff)

lemma index_entry_mem:
  "index_ok k v xs ix \<Longrightarrow> (i, vs) \<in> set ix \<Longrightarrow> set vs = v ` {x \<in> set xs. k x = i}"
proof -
  assume "index_ok k v xs ix" "(i, vs) \<in> set ix"
  then have "mset vs = mset (map v (filter (\<lambda>x. k x = i) xs))" by (auto simp: index_ok_def)
  then have "set vs = set (map v (filter (\<lambda>x. k x = i) xs))" by (rule mset_eq_setD)
  then show ?thesis by simp
qed

lemma index_counts_once:
  assumes ix: "index_ok k v xs ix" and d: "distinct (map v xs)" and x: "x \<in> set xs"
  shows "count_list (concat (map snd ix)) (v x) = 1"
proof -
  have "k x \<in> fst ` set ix" using ix x by (simp add: index_ok_def)
  then obtain vs where "(k x, vs) \<in> set ix" by force
  then obtain us ws where split: "ix = us @ (k x, vs) # ws" by (meson split_list)
  have mem: "v x \<in> set vs" "distinct vs"
    using index_entry_mem[OF ix, of "k x" vs] x ix by (auto simp: split index_ok_def)
  have other: "v x \<notin> set vs'" if "(i, vs') \<in> set (us @ ws)" for i vs'
  proof
    assume "v x \<in> set vs'"
    moreover have "k x \<notin> fst ` set (us @ ws)" using ix by (simp add: split index_ok_def image_Un)
    then have "i \<noteq> k x" using that by force
    moreover have "(i, vs') \<in> set ix" using that by (auto simp: split)
    ultimately obtain y where "y \<in> set xs" "k y = i" "v y = v x"
      using index_entry_mem[OF ix] by fastforce
    then show False using d x \<open>i \<noteq> k x\<close> by (auto simp: distinct_map inj_on_def)
  qed
  then have "count_list (concat (map snd us)) (v x) = 0" "count_list (concat (map snd ws)) (v x) = 0"
    by (force simp: count_list_0_iff)+
  then show ?thesis using count_list_distinct[OF mem(2,1)] by (simp add: split)
qed

text \<open>The badge loop and the index loops.\<close>

definition badges_of :: "SnapshotBadge list \<Rightarrow> badge_map" where
  "badges_of bs = gm_build Badge_ID id bs"

definition badge_maps :: "SnapshotBadge list \<Rightarrow> badge_map \<times> id_index \<times> id_index" where
  "badge_maps bs = (badges_of bs, group_of Badge_Recipient Badge_ID bs, group_of Badge_RepoID Badge_ID bs)"

lemma badges_loop:
  assumes "geth_ok g"
  shows "for_res (validate_badge g (repos_of rs)) bs ([], [], []) = Inr t \<longleftrightarrow>
    ((\<forall>b \<in> set bs. badge_ok rs b) \<and> distinct (map Badge_ID bs)) \<and> t = badge_maps bs"
proof -
  have step: "validate_badge g (repos_of rs) b (badge_maps ys) = Inr t \<longleftrightarrow>
      (badge_ok rs b \<and> Badge_ID b \<notin> Badge_ID ` set ys) \<and> t = badge_maps (ys @ [b])" for b ys t
    using assms
    by (auto simp: validate_badge_def check_simps badge_ok_def badge_maps_def badges_of_def repos_of_None
        not_less gm_build_snoc group_of_snoc)
  show ?thesis using for_res_exact[of "validate_badge g (repos_of rs)" badge_maps, OF step, of bs t]
    by (simp add: badge_maps_def badges_of_def)
qed

definition add_counts :: "(u64, int) gomap \<Rightarrow> u64 list \<Rightarrow> (u64, int) gomap" where
  "add_counts seen ids = foldl (\<lambda>m i. gm_put i (gm_get 0 m i + 1) m) seen ids"

lemma add_counts_simps [simp]:
  "add_counts seen [] = seen"
  "add_counts seen (ids @ [i]) = gm_put i (gm_get 0 (add_counts seen ids) i + 1) (add_counts seen ids)"
  by (simp_all add: add_counts_def)

lemma add_counts_append: "add_counts seen (xs @ ys) = add_counts (add_counts seen xs) ys"
  by (simp add: add_counts_def)

lemma gm_get_add_counts: "gm_get 0 (add_counts seen ids) i = gm_get 0 seen i + int (count_list ids i)"
  by (induction ids arbitrary: i rule: rev_induct) (auto simp: gm_get_put)

definition listed_under :: "SnapshotBadge list \<Rightarrow> (SnapshotBadge \<Rightarrow> string) \<Rightarrow> string \<Rightarrow> u64 list \<Rightarrow> bool" where
  "listed_under bs k key ids \<longleftrightarrow> (\<forall>i \<in> set ids. \<exists>b \<in> set bs. Badge_ID b = i \<and> k b = key)"

lemma index_entries_exact:
  assumes "distinct (map Badge_ID bs)"
  shows "index_entries (\<lambda>b. k b = key) err (badges_of bs) ids seen = Inr t \<longleftrightarrow>
    listed_under bs k key ids \<and> t = add_counts seen ids"
proof -
  let ?f = "\<lambda>i seenIDs. case map_of (badges_of bs) i of None \<Rightarrow> Inl (err i)
    | Some badge \<Rightarrow> if \<not> k badge = key then Inl (err i) else Inr (gm_put i (gm_get 0 seenIDs i + 1) seenIDs)"
  have look: "map_of (badges_of bs) i = Some b \<longleftrightarrow> b \<in> set bs \<and> Badge_ID b = i" for i b
    using assms map_of_gm_build[of Badge_ID bs b id] map_of_gm_build_Some[of Badge_ID id bs i b]
    by (auto simp: badges_of_def)
  have step: "?f i (add_counts seen ys) = Inr t \<longleftrightarrow>
      (\<exists>b \<in> set bs. Badge_ID b = i \<and> k b = key) \<and> t = add_counts seen (ys @ [i])" for i ys t
  proof (cases "map_of (badges_of bs) i")
    case None
    then have "i \<notin> Badge_ID ` set bs" by (simp add: badges_of_def)
    then show ?thesis using None by auto
  next
    case (Some b)
    then have "(\<exists>b \<in> set bs. Badge_ID b = i \<and> k b = key) \<longleftrightarrow> k b = key"
      using look[of i] by (metis option.inject)
    then show ?thesis using Some by auto
  qed
  show ?thesis unfolding index_entries_def
    using for_res_exact[of ?f "add_counts seen", OF step, of ids t] by (simp add: listed_under_def)
qed

lemma recipient_indexes_exact:
  assumes "geth_ok g" "distinct (map Badge_ID bs)"
  shows "for_res (validate_recipient_index g (badges_of bs)) xs ([], []) = Inr t \<longleftrightarrow>
    ((\<forall>x \<in> set xs. address_text (RecipientIndex_Recipient x) \<and>
        listed_under bs Badge_Recipient (RecipientIndex_Recipient x) (RecipientIndex_BadgeIDs x)) \<and>
     distinct (map RecipientIndex_Recipient xs)) \<and>
    t = (gm_build RecipientIndex_Recipient RecipientIndex_BadgeIDs xs, add_counts [] (concat (map RecipientIndex_BadgeIDs xs)))"
proof -
  let ?st = "\<lambda>xs. (gm_build RecipientIndex_Recipient RecipientIndex_BadgeIDs xs,
    add_counts [] (concat (map RecipientIndex_BadgeIDs xs)))"
  have step: "validate_recipient_index g (badges_of bs) x (?st ys) = Inr t \<longleftrightarrow>
      ((address_text (RecipientIndex_Recipient x) \<and>
        listed_under bs Badge_Recipient (RecipientIndex_Recipient x) (RecipientIndex_BadgeIDs x)) \<and>
       RecipientIndex_Recipient x \<notin> RecipientIndex_Recipient ` set ys) \<and> t = ?st (ys @ [x])" for x ys t
    using assms(1) unfolding validate_recipient_index_def
    by (auto simp: bind_ignore_Inr text_ok bind_res_Inr_iff index_entries_exact[OF assms(2)] gm_build_snoc add_counts_append)
  show ?thesis using for_res_exact[of "validate_recipient_index g (badges_of bs)" ?st, OF step, of xs t]
    by (simp add: ball_conj_distrib)
qed

lemma repository_indexes_exact:
  assumes "distinct (map Badge_ID bs)"
  shows "for_res (validate_repository_index (badges_of bs)) xs ([], seen) = Inr t \<longleftrightarrow>
    ((\<forall>x \<in> set xs. listed_under bs Badge_RepoID (RepositoryIndex_RepoID x) (RepositoryIndex_BadgeIDs x)) \<and>
     distinct (map RepositoryIndex_RepoID xs)) \<and>
    t = (gm_build RepositoryIndex_RepoID RepositoryIndex_BadgeIDs xs, add_counts seen (concat (map RepositoryIndex_BadgeIDs xs)))"
proof -
  let ?st = "\<lambda>xs. (gm_build RepositoryIndex_RepoID RepositoryIndex_BadgeIDs xs,
    add_counts seen (concat (map RepositoryIndex_BadgeIDs xs)))"
  have step: "validate_repository_index (badges_of bs) x (?st ys) = Inr t \<longleftrightarrow>
      (listed_under bs Badge_RepoID (RepositoryIndex_RepoID x) (RepositoryIndex_BadgeIDs x) \<and>
       RepositoryIndex_RepoID x \<notin> RepositoryIndex_RepoID ` set ys) \<and> t = ?st (ys @ [x])" for x ys t
    unfolding validate_repository_index_def
    by (auto simp: bind_ignore_Inr bind_res_Inr_iff index_entries_exact[OF assms] gm_build_snoc add_counts_append)
  show ?thesis using for_res_exact[of "validate_repository_index (badges_of bs)" ?st, OF step, of xs t] by simp
qed

lemma index_ok_listed:
  assumes "index_ok k Badge_ID bs ix" "(key, ids) \<in> set ix"
  shows "listed_under bs k key ids" "key \<in> k ` set bs"
proof -
  show "listed_under bs k key ids"
    using index_entry_mem[OF assms] by (auto simp: listed_under_def)
  show "key \<in> k ` set bs" using assms by (force simp: index_ok_def)
qed

lemma badge_seen_twice:
  assumes "distinct (map Badge_ID bs)" "index_ok Badge_Recipient Badge_ID bs (recipient_index ix)"
    "index_ok Badge_RepoID Badge_ID bs (repository_index ix)" "b \<in> set bs"
  shows "gm_get 0 (add_counts (add_counts [] (concat (map RecipientIndex_BadgeIDs (BadgeIndexes_ByRecipient ix))))
    (concat (map RepositoryIndex_BadgeIDs (BadgeIndexes_ByRepository ix)))) (Badge_ID b) = 2"
  using index_counts_once[OF assms(2,1,4)] index_counts_once[OF assms(3,1,4)]
  by (simp add: gm_get_add_counts recipient_index_def repository_index_def comp_def gm_get_def[of _ "[]"])

lemma badge_indexes_exact:
  assumes g: "geth_ok g" and bs: "\<forall>b \<in> set bs. badge_ok rs b" and d: "distinct (map Badge_ID bs)"
  shows "is_ok (validateBadgeIndexes g ix (badges_of bs) (group_of Badge_Recipient Badge_ID bs)
      (group_of Badge_RepoID Badge_ID bs)) \<longleftrightarrow>
    index_ok Badge_Recipient Badge_ID bs (recipient_index ix) \<and>
    index_ok Badge_RepoID Badge_ID bs (repository_index ix)" (is "is_ok ?v \<longleftrightarrow> ?a \<and> ?b")
proof -
  let ?xs = "BadgeIndexes_ByRecipient ix" and ?ys = "BadgeIndexes_ByRepository ix"
  let ?A = "\<forall>x \<in> set ?xs. address_text (RecipientIndex_Recipient x) \<and>
      listed_under bs Badge_Recipient (RecipientIndex_Recipient x) (RecipientIndex_BadgeIDs x)"
  let ?B = "\<forall>x \<in> set ?ys. listed_under bs Badge_RepoID (RepositoryIndex_RepoID x) (RepositoryIndex_BadgeIDs x)"
  let ?seen = "add_counts (add_counts [] (concat (map RecipientIndex_BadgeIDs ?xs))) (concat (map RepositoryIndex_BadgeIDs ?ys))"
  let ?C = "\<forall>p \<in> set (badges_of bs). gm_get 0 ?seen (fst p) = 2"
  have builds: "gm_build RecipientIndex_Recipient RecipientIndex_BadgeIDs ?xs = recipient_index ix"
    if "distinct (map RecipientIndex_Recipient ?xs)"
    using gm_build_distinct[OF that, of RecipientIndex_BadgeIDs] by (simp add: recipient_index_def)
  have builds': "gm_build RepositoryIndex_RepoID RepositoryIndex_BadgeIDs ?ys = repository_index ix"
    if "distinct (map RepositoryIndex_RepoID ?ys)"
    using gm_build_distinct[OF that, of RepositoryIndex_BadgeIDs] by (simp add: repository_index_def)
  have keys: "map fst (recipient_index ix) = map RecipientIndex_Recipient ?xs"
      "map fst (repository_index ix) = map RepositoryIndex_RepoID ?ys"
    by (simp_all add: recipient_index_def repository_index_def)
  have "is_ok ?v \<longleftrightarrow> ?A \<and> distinct (map RecipientIndex_Recipient ?xs) \<and> ?B \<and>
      distinct (map RepositoryIndex_RepoID ?ys) \<and> ?a \<and> ?b \<and> ?C"
    using builds builds' equalIndexMaps_exact[of "recipient_index ix" Badge_Recipient Badge_ID bs]
      equalIndexMaps_exact[of "repository_index ix" Badge_RepoID Badge_ID bs]
    unfolding validateBadgeIndexes_def
    by (auto simp: recipient_indexes_exact[OF g d] repository_indexes_exact[OF d] guard_err_Inr_iff keys)
  moreover have ?C if "?a" "?b"
  proof
    fix p assume "p \<in> set (badges_of bs)"
    then have "fst p \<in> Badge_ID ` set bs" by (auto simp: badges_of_def gm_build_distinct[OF d])
    then show "gm_get 0 ?seen (fst p) = 2" using badge_seen_twice[OF d that] by auto
  qed
  moreover have ?A if a: ?a
  proof
    fix x assume "x \<in> set ?xs"
    then have m: "(RecipientIndex_Recipient x, RecipientIndex_BadgeIDs x) \<in> set (recipient_index ix)"
      by (simp add: recipient_index_def)
    then show "address_text (RecipientIndex_Recipient x) \<and>
        listed_under bs Badge_Recipient (RecipientIndex_Recipient x) (RecipientIndex_BadgeIDs x)"
      using index_ok_listed[OF a m] bs by (auto simp: badge_ok_def)
  qed
  moreover have ?B if b: ?b
    using index_ok_listed(1)[OF b] by (simp add: repository_index_def)
  moreover have "distinct (map RecipientIndex_Recipient ?xs)" if ?a using that by (simp add: index_ok_def keys)
  moreover have "distinct (map RepositoryIndex_RepoID ?ys)" if ?b using that by (simp add: index_ok_def keys)
  ultimately show ?thesis by argo
qed

lemma badges_exact:
  assumes "geth_ok g"
  shows "is_ok (validate_badges g (repos_of rs) s) \<longleftrightarrow> badges_ok rs (Snapshot_Badges s) (Snapshot_BadgeIndexes s)"
proof (cases "(\<forall>b \<in> set (Snapshot_Badges s). badge_ok rs b) \<and> distinct (map Badge_ID (Snapshot_Badges s))")
  case True
  then show ?thesis
    using badge_indexes_exact[OF assms, of "Snapshot_Badges s" rs "Snapshot_BadgeIndexes s"]
    by (simp add: validate_badges_def badges_loop[OF assms] badge_maps_def badges_ok_def)
next
  case False
  then show ?thesis by (simp add: validate_badges_def badges_loop[OF assms] badges_ok_def) blast
qed


section \<open>Releases and their version index\<close>

definition release_ok :: "SnapshotRelease \<Rightarrow> bool" where
  "release_ok r \<longleftrightarrow> validToken (Release_Version r) 64 \<and> validToken (Release_Platform r) 64 \<and>
     digest_text (Release_SHA256 r) \<and> address_text (Release_RegisteredBy r) \<and> Release_RegisteredAt r \<noteq> 0"

definition version_index :: "SnapshotReleaseVersion list \<Rightarrow> (string \<times> string list) list" where
  "version_index vs = map (\<lambda>g. (ReleaseVersion_Version g, ReleaseVersion_Platforms g)) vs"

definition releases_ok :: "SnapshotRelease list \<Rightarrow> SnapshotReleaseVersion list \<Rightarrow> bool" where
  "releases_ok rels vs \<longleftrightarrow> (\<forall>r \<in> set rels. release_ok r) \<and>
     distinct (map (\<lambda>r. (Release_Version r, Release_Platform r)) rels) \<and>
     index_ok Release_Version Release_Platform rels (version_index vs)"

definition release_key :: "SnapshotRelease \<Rightarrow> string" where
  "release_key r = Release_Version r @ NUL @ Release_Platform r"

lemma token_no_NUL: "validToken t n \<Longrightarrow> CHR 0x00 \<notin> set t"
  by (auto simp: validToken_def list_all_iff between_def)

lemma NUL_split_inj:
  assumes "CHR 0x00 \<notin> set a" "CHR 0x00 \<notin> set b"
  shows "a @ NUL @ x = b @ NUL @ y \<longleftrightarrow> a = b \<and> x = y"
proof
  assume e: "a @ NUL @ x = b @ NUL @ y"
  have "takeWhile (\<lambda>c. c \<noteq> CHR 0x00) (a @ NUL @ x) = a" "takeWhile (\<lambda>c. c \<noteq> CHR 0x00) (b @ NUL @ y) = b"
    using assms by (auto simp: takeWhile_append NUL_def)
  then show "a = b \<and> x = y" using e by (metis append.assoc append_same_eq same_append_eq)
qed simp

lemma release_keys_distinct:
  assumes "\<forall>r \<in> set rels. release_ok r"
  shows "distinct (map release_key rels) \<longleftrightarrow> distinct (map (\<lambda>r. (Release_Version r, Release_Platform r)) rels)"
proof -
  have "release_key r = release_key q \<longleftrightarrow> Release_Version r = Release_Version q \<and> Release_Platform r = Release_Platform q"
    if "r \<in> set rels" "q \<in> set rels" for r q
    unfolding release_key_def using that assms token_no_NUL by (intro NUL_split_inj) (auto simp: release_ok_def)
  then show ?thesis unfolding distinct_map inj_on_def by auto
qed

lemma releases_loop:
  assumes "geth_ok g"
  shows "for_res (validate_release g) rels ([], []) = Inr t \<longleftrightarrow>
    ((\<forall>r \<in> set rels. release_ok r) \<and> distinct (map release_key rels)) \<and>
    t = (gm_build release_key id rels, group_of Release_Version Release_Platform rels)"
proof -
  let ?st = "\<lambda>ys. (gm_build release_key id ys, group_of Release_Version Release_Platform ys)"
  have step: "validate_release g r (?st ys) = Inr t \<longleftrightarrow>
      (release_ok r \<and> release_key r \<notin> release_key ` set ys) \<and> t = ?st (ys @ [r])" for r ys t
    using assms
    by (auto simp: validate_release_def check_simps Let_def release_ok_def release_key_def gm_build_snoc group_of_snoc)
  show ?thesis using for_res_exact[of "validate_release g" ?st, OF step, of rels t] by simp
qed

lemma version_index_loop:
  "for_res validate_version_index vs [] = Inr t \<longleftrightarrow>
    ((\<forall>v \<in> set vs. validToken (ReleaseVersion_Version v) 64) \<and> distinct (map ReleaseVersion_Version vs)) \<and>
    t = gm_build ReleaseVersion_Version ReleaseVersion_Platforms vs"
proof -
  let ?st = "gm_build ReleaseVersion_Version ReleaseVersion_Platforms"
  have step: "validate_version_index v (?st ys) = Inr t \<longleftrightarrow>
      (validToken (ReleaseVersion_Version v) 64 \<and> ReleaseVersion_Version v \<notin> ReleaseVersion_Version ` set ys) \<and>
      t = ?st (ys @ [v])" for v ys t
    by (auto simp: validate_version_index_def check_simps gm_build_snoc)
  show ?thesis using for_res_exact[of validate_version_index ?st, OF step, of vs t] by simp
qed

lemma compare_platforms_exact:
  "is_ok (compare_platforms version (sort g) (sort w)) \<longleftrightarrow>
    mset g = mset w \<and> distinct g \<and> (\<forall>p \<in> set g. validToken p 64)"
proof -
  have "is_ok (compare_platforms version (sort g) (sort w)) \<longleftrightarrow>
      sorted_equal_unique (sort g) (sort w) \<and> (\<forall>i < length (sort g). validToken (sort g ! i) 64)"
    by (auto simp: compare_platforms_def sorted_equal_unique_def list_all_iff guard_err_Inr_iff)
  also have "\<dots> \<longleftrightarrow> mset g = mset w \<and> distinct g \<and> (\<forall>p \<in> set (sort g). validToken p 64)"
    by (simp only: sorted_equal_unique_mset all_set_conv_all_nth conj_assoc)
  finally show ?thesis by simp
qed

lemma release_indexes_exact:
  assumes rels: "\<forall>r \<in> set rels. release_ok r"
  shows "is_ok (validateReleaseIndexes vs (group_of Release_Version Release_Platform rels)) \<longleftrightarrow>
    index_ok Release_Version Release_Platform rels (version_index vs)" (is "is_ok ?v \<longleftrightarrow> ?ix")
proof -
  let ?G = "group_of Release_Version Release_Platform rels"
  let ?Q = "\<lambda>g w. mset g = mset w \<and> distinct g \<and> (\<forall>p \<in> set g. validToken p 64)"
  have keys: "map fst (version_index vs) = map ReleaseVersion_Version vs" by (simp add: version_index_def)
  have build: "gm_build ReleaseVersion_Version ReleaseVersion_Platforms vs = version_index vs"
    if "distinct (map fst (version_index vs))"
    using that gm_build_distinct[of ReleaseVersion_Version vs ReleaseVersion_Platforms]
    unfolding keys by (simp add: version_index_def)
  have "is_ok ?v \<longleftrightarrow> (\<forall>v \<in> set vs. validToken (ReleaseVersion_Version v) 64) \<and> distinct (map fst (version_index vs)) \<and>
      length (version_index vs) = length ?G \<and>
      (\<forall>(i, w) \<in> set ?G. case map_of (version_index vs) i of None \<Rightarrow> False | Some u \<Rightarrow> ?Q u w)"
    unfolding validateReleaseIndexes_def using build
    by (auto simp: version_index_loop guard_err_Inr_iff keys compare_platforms_exact split: option.splits)
  also have "\<dots> \<longleftrightarrow> ?ix"
  proof (cases "distinct (map fst (version_index vs))")
    case True
    have mem: "set u = Release_Platform ` {r \<in> set rels. Release_Version r = i}"
      if "mset u = mset (map Release_Platform (filter (\<lambda>r. Release_Version r = i) rels))" for u i
      using mset_eq_setD[OF that] by simp
    have tok: "\<forall>p \<in> set u. validToken p 64"
      if "mset u = mset (map Release_Platform (filter (\<lambda>r. Release_Version r = i) rels))" for u i
      using mem[OF that] rels by (auto simp: release_ok_def)
    have "\<forall>v \<in> set vs. validToken (ReleaseVersion_Version v) 64" if ?ix
    proof
      fix v assume "v \<in> set vs"
      then have "ReleaseVersion_Version v \<in> Release_Version ` set rels"
        using that unfolding index_ok_def by (force simp: version_index_def)
      then show "validToken (ReleaseVersion_Version v) 64" using rels by (auto simp: release_ok_def)
    qed
    moreover have "(\<forall>(i, u) \<in> set (version_index vs). ?Q u (map Release_Platform (filter (\<lambda>r. Release_Version r = i) rels))) \<longleftrightarrow>
        (\<forall>(i, u) \<in> set (version_index vs). distinct u \<and>
           mset u = mset (map Release_Platform (filter (\<lambda>r. Release_Version r = i) rels)))"
      using tok by (intro ball_cong refl) (auto simp del: mset_map mset_filter)
    ultimately show ?thesis
      unfolding index_cover[OF True, of Release_Version Release_Platform rels ?Q] index_ok_def
      using True by argo
  qed (simp add: index_ok_def)
  finally show ?thesis .
qed

lemma releases_exact:
  assumes "geth_ok g"
  shows "is_ok (validate_releases g s) \<longleftrightarrow> releases_ok (Snapshot_Releases s) (Snapshot_ReleaseVersions s)"
proof (cases "\<forall>r \<in> set (Snapshot_Releases s). release_ok r")
  case True
  then show ?thesis
    by (auto simp: validate_releases_def releases_loop[OF assms] releases_ok_def release_keys_distinct
        release_indexes_exact)
next
  case False
  then show ?thesis by (auto simp: validate_releases_def releases_loop[OF assms] releases_ok_def)
qed


section \<open>Accepted snapshots\<close>

definition snapshot_ok :: "Snapshot \<Rightarrow> bool" where
  "snapshot_ok s \<longleftrightarrow>
     Snapshot_Schema s = SnapshotSchema \<and> source_ok (Snapshot_Source s) \<and> policy_ok (Snapshot_ContractPolicy s) \<and>
     repositories_ok (Snapshot_Repositories s) \<and> forks_ok (Snapshot_Repositories s) \<and>
     aliases_ok (Snapshot_Repositories s) (Snapshot_Aliases s) \<and>
     refs_ok (Snapshot_Repositories s) (Snapshot_Refs s) \<and>
     collaborators_ok (Snapshot_Repositories s) (Snapshot_Collaborators s) \<and>
     guardians_ok (Snapshot_Repositories s) (Snapshot_GuardianConfigs s) \<and>
     statuses_ok (Snapshot_Repositories s) (Moderation_FinalStatuses (Snapshot_Moderation s)) \<and>
     reports_ok (Snapshot_Repositories s) (Moderation_Reports (Snapshot_Moderation s)) \<and>
     status_trails_ok (Snapshot_Repositories s) (Moderation_FinalStatuses (Snapshot_Moderation s))
       (Moderation_Reports (Snapshot_Moderation s)) (Moderation_StatusTrails (Snapshot_Moderation s)) \<and>
     economic_ok (Snapshot_Repositories s) (Snapshot_Economic s) \<and>
     usernames_ok (Snapshot_Username s) \<and>
     escrow_ok (Username_EscrowRelease (Snapshot_Username s)) (Source_Contract (Snapshot_Source s))
       (Source_Height (Snapshot_Source s)) \<and>
     badges_ok (Snapshot_Repositories s) (Snapshot_Badges s) (Snapshot_BadgeIndexes s) \<and>
     releases_ok (Snapshot_Releases s) (Snapshot_ReleaseVersions s)"

lemma unit_ok: "m = Inr () \<longleftrightarrow> is_ok m"
  by (cases m) auto

lemma validateSnapshot_sections:
  "validateSnapshot g s = Inr () \<longleftrightarrow> is_ok (validate_source g s) \<and>
     (\<exists>r. validate_repositories g (Snapshot_Repositories s) = Inr r \<and>
      is_ok (validate_fork_parents (fst r) (Snapshot_Repositories s)) \<and> is_ok (visit_all_forks (fst r)) \<and>
      is_ok (validate_aliases g (fst r) (snd r) (Snapshot_Aliases s)) \<and>
      is_ok (validate_refs g (fst r) (Snapshot_Refs s)) \<and>
      is_ok (validate_collaborators g (fst r) (Snapshot_Collaborators s)) \<and>
      is_ok (validate_guardian_configs g (fst r) (Snapshot_GuardianConfigs s)) \<and>
      (\<exists>statuses. validate_final_statuses (fst r) (Moderation_FinalStatuses (Snapshot_Moderation s)) = Inr statuses \<and>
      (\<exists>reports. validate_reports g (fst r) (Moderation_Reports (Snapshot_Moderation s)) = Inr reports \<and>
      is_ok (validate_status_trails g (fst r) statuses reports (Moderation_StatusTrails (Snapshot_Moderation s))) \<and>
      is_ok (validate_splits g (fst r) (Economic_Splits (Snapshot_Economic s))) \<and>
      is_ok (validate_totals (fst r) (Economic_Totals (Snapshot_Economic s))) \<and>
      (\<exists>t. validate_original_owners g (Username_OriginalOwners (Snapshot_Username s)) = Inr t \<and>
        is_ok (validate_reserved_names (fst t) (Username_ReservedNames (Snapshot_Username s))) \<and>
      is_ok (validateEscrowRelease (Username_EscrowRelease (Snapshot_Username s)) (Source_Contract (Snapshot_Source s))
        (Source_Height (Snapshot_Source s))) \<and>
      is_ok (validate_badges g (fst r) s) \<and> is_ok (validate_releases g s)))))"
proof -
  have drop: "is_ok (bind_res m (\<lambda>_. k)) \<longleftrightarrow> is_ok m \<and> is_ok k" for m :: "snapshot_error + 'b" and k :: "snapshot_error + 'c"
    by (cases m) auto
  show ?thesis
    unfolding unit_ok validateSnapshot_def
    by (simp only: split_beta drop is_ok_bind is_ok_map_err map_err_Inr_iff ex_simps conj_assoc)
qed

lemma sections_exact:
  assumes "geth_ok g"
  shows "validateSnapshot g s = Inr () \<longleftrightarrow> snapshot_ok s"
proof (cases "repositories_ok (Snapshot_Repositories s) \<and> statuses_ok (Snapshot_Repositories s) (Moderation_FinalStatuses (Snapshot_Moderation s)) \<and>
      reports_ok (Snapshot_Repositories s) (Moderation_Reports (Snapshot_Moderation s))")
  case True
  then have R: "repositories_ok (Snapshot_Repositories s)" and S: "statuses_ok (Snapshot_Repositories s) (Moderation_FinalStatuses (Snapshot_Moderation s))"
    and P: "reports_ok (Snapshot_Repositories s) (Moderation_Reports (Snapshot_Moderation s))" by auto
  have names: "(\<exists>t. validate_original_owners g (Username_OriginalOwners (Snapshot_Username s)) = Inr t \<and>
      is_ok (validate_reserved_names (fst t) (Username_ReservedNames (Snapshot_Username s))) \<and> K) \<longleftrightarrow>
      usernames_ok (Snapshot_Username s) \<and> K" for K
    using usernames_exact[OF assms, of "Snapshot_Username s"] by metis
  have forks: "is_ok (validate_fork_parents (repos_of (Snapshot_Repositories s)) (Snapshot_Repositories s)) \<and> is_ok (visit_all_forks (repos_of (Snapshot_Repositories s))) \<and> K \<longleftrightarrow>
      forks_ok (Snapshot_Repositories s) \<and> K" for K
    using forks_exact[OF R, of "()"] unit_ok by metis
  have src: "is_ok (validate_source g s) \<longleftrightarrow> Snapshot_Schema s = SnapshotSchema \<and>
      source_ok (Snapshot_Source s) \<and> policy_ok (Snapshot_ContractPolicy s)"
    using source_exact[OF assms, of s "()"] unit_ok by metis
  have escrow: "is_ok (validateEscrowRelease e c h) \<longleftrightarrow> escrow_ok e c h" for e c h
    using escrow_exact[of e c h "()"] unit_ok by metis
  show ?thesis
    unfolding validateSnapshot_sections repositories_exact[OF assms] snapshot_ok_def
    using R S P
    by (simp only: simp_thms ex_simps conj_assoc fst_conv snd_conv names forks src escrow economic_ok_def
      aliases_exact[OF assms R] refs_exact[OF assms R] collaborators_exact[OF assms R]
      guardians_exact[OF assms R] status_trails_exact[OF assms S P] splits_exact[OF assms R]
      totals_exact[OF R] badges_exact[OF assms] releases_exact[OF assms]
      final_statuses_exact[OF R] reports_exact[OF assms])
next
  case False
  then show ?thesis
    by (auto simp: validateSnapshot_sections repositories_exact[OF assms] final_statuses_exact reports_exact[OF assms] snapshot_ok_def)
qed

end
