(* ===== verification/Module_Records.thy ===== *)
theory Module_Records
  imports Snapshot_Exact
begin

text \<open>
  \<^verbatim>\<open>snapshotModuleRecords\<close> of \<^verbatim>\<open>cli/internal/suitemigration/plan.go\<close>: the records of a snapshot
  as sorted, ABI-typed groups per module, and the summary of their counts. The memoised
  recursion \<^verbatim>\<open>forkDepth\<close> does not return on a fork cycle, so it is a partial function into
  \<open>option\<close>, where \<open>None\<close> stands for not returning; the lemmas show that it returns on every
  accepted snapshot. \<^verbatim>\<open>sort.Slice\<close> orders by a key that is unique on accepted snapshots, so
  its result is the one sorted list that \<open>sort_key\<close> computes.
\<close>

record recordGroup =
  group_kind :: string
  group_kindCode :: u8
  group_values :: "abi_value list"
  group_keys :: "string list"
  group_encode :: "abi_value list \<Rightarrow> codec_error + bytes"

definition kindGroup ::
  "geth \<Rightarrow> string \<Rightarrow> u8 \<Rightarrow> abi_value list \<Rightarrow> string list \<Rightarrow> abi_type list \<Rightarrow> bool \<Rightarrow> recordGroup" where
  "kindGroup g name code values keys arguments wrapped =
     \<lparr>group_kind = name, group_kindCode = code, group_values = values, group_keys = keys,
      group_encode = (\<lambda>records.
        if wrapped then encodeKindPayload g code arguments records
        else encodeDirectPayload g arguments records)\<rparr>"


section \<open>Fork depth\<close>

partial_function (option) forkDepth ::
  "repo_map \<Rightarrow> string \<Rightarrow> (string, int) gomap \<Rightarrow> (int \<times> (string, int) gomap) option" where
  "forkDepth repoByID i depth =
     (case map_of depth i of
        Some v \<Rightarrow> Some (v, depth)
      | None \<Rightarrow>
          if fork_parent repoByID i = '''' then Some (0, gm_put i 0 depth)
          else Option.bind (forkDepth repoByID (fork_parent repoByID i) depth) (\<lambda>(v, depth').
            Some (v + 1, gm_put i (v + 1) depth')))"

declare forkDepth.simps [code]

fun all_depths :: "repo_map \<Rightarrow> SnapshotRepository list \<Rightarrow> (string, int) gomap \<Rightarrow> (string, int) gomap option" where
  "all_depths repoByID [] depth = Some depth"
| "all_depths repoByID (r # rs) depth =
     Option.bind (forkDepth repoByID (Repository_ID r) depth) (\<lambda>(_, depth'). all_depths repoByID rs depth')"

definition sorted_repositories :: "SnapshotRepository list \<Rightarrow> SnapshotRepository list option" where
  "sorted_repositories rs =
     Option.bind (all_depths (gm_build Repository_ID id rs) rs []) (\<lambda>depth.
     Some (sort_key (\<lambda>r. (gm_get 0 depth (Repository_ID r), Repository_ID r)) rs))"


section \<open>The groups\<close>

definition repository_value :: "geth \<Rightarrow> SnapshotRepository \<Rightarrow> abi_value" where
  "repository_value g r =
     coreRepositoryABI (parseRawHash ''repository ID'' (Repository_ID r)) (HexToAddress g (Repository_Owner r))
       (Repository_Name r) (Repository_Description r) (Repository_DefaultBranch r)
       (if Repository_ForkedFrom r \<noteq> '''' then parseRawHash ''forked_from'' (Repository_ForkedFrom r) else zeroHash)
       (Repository_CreatedAt r) (Repository_UpdatedAt r)"

definition repository_group :: "geth \<Rightarrow> SnapshotRepository list \<Rightarrow> recordGroup option" where
  "repository_group g rs =
     Option.bind (sorted_repositories rs) (\<lambda>repositories.
     Some (kindGroup g ''repositories'' 0 (map (repository_value g) repositories)
       (map Repository_ID repositories) coreRepositoryArguments True))"

definition alias_group :: "geth \<Rightarrow> SnapshotAlias list \<Rightarrow> recordGroup" where
  "alias_group g as =
    (let aliases = sort_key (\<lambda>a. (Alias_Owner a, Alias_Name a)) as in
     kindGroup g ''aliases'' 1
       (map (\<lambda>r. coreAliasABI (parseRawHash ''alias repo ID'' (Alias_RepoID r))
          (HexToAddress g (Alias_Owner r)) (Alias_Name r)) aliases)
       (map (\<lambda>r. Alias_Owner r @ ''/'' @ Alias_Name r) aliases) coreAliasArguments True)"

definition ref_group :: "geth \<Rightarrow> SnapshotRef list \<Rightarrow> recordGroup" where
  "ref_group g xs =
    (let refs = sort_key (\<lambda>r. (Ref_RepoID r, Ref_RefName r)) xs in
     kindGroup g ''refs'' 2
       (map (\<lambda>r. coreRefABI (parseRawHash ''ref repo ID'' (Ref_RepoID r)) (Ref_RefName r) (Ref_CommitSHA r)
          (Ref_PackURIs r) (Ref_UpdatedAt r) (HexToAddress g (Ref_UpdatedBy r))) refs)
       (map (\<lambda>r. Ref_RepoID r @ '':'' @ Ref_RefName r) refs) coreRefArguments True)"

definition collaborator_group :: "geth \<Rightarrow> SnapshotCollaborator list \<Rightarrow> recordGroup" where
  "collaborator_group g xs =
    (let collaborators = sort_key (\<lambda>c. (Collaborator_RepoID c, Collaborator_Account c)) xs in
     kindGroup g ''collaborators'' 3
       (map (\<lambda>r. coreCollaboratorABI (parseRawHash ''collaborator repo ID'' (Collaborator_RepoID r))
          (HexToAddress g (Collaborator_Account r)) (ignore_err 0 (roleCode (Collaborator_Role r)))) collaborators)
       (map (\<lambda>r. Collaborator_RepoID r @ '':'' @ Collaborator_Account r) collaborators)
       coreCollaboratorArguments True)"

definition guardian_group :: "geth \<Rightarrow> SnapshotGuardianConfig list \<Rightarrow> recordGroup" where
  "guardian_group g xs =
    (let guardians = sort_key Guardian_RepoID xs in
     kindGroup g ''guardian-configs'' 0
       (map (\<lambda>r. guardianConfigABI (parseRawHash ''guardian repo ID'' (Guardian_RepoID r))
          (HexToAddress g (Guardian_ConfiguredBy r)) (Guardian_Threshold r)
          (map (HexToAddress g) (Guardian_Guardians r))) guardians)
       (map Guardian_RepoID guardians) guardianArguments False)"

definition status_group :: "geth \<Rightarrow> SnapshotFinalStatus list \<Rightarrow> recordGroup" where
  "status_group g xs =
    (let statuses = sort_key FinalStatus_RepoID xs in
     kindGroup g ''final-statuses'' 0
       (map (\<lambda>r. moderationStatusABI (parseRawHash ''status repo ID'' (FinalStatus_RepoID r))
          (ignore_err 0 (repoStatusCode (FinalStatus_Status r)))) statuses)
       (map FinalStatus_RepoID statuses) moderationStatusArguments True)"

definition report_trail_value :: "geth \<Rightarrow> SnapshotReportTrail \<Rightarrow> abi_value" where
  "report_trail_value g e =
     moderationReportTrailABI (ignore_err 0 (trailActionCode (ReportTrail_Action e)))
       (HexToAddress g (ReportTrail_Actor e)) (ignore_err 0 (repoStatusCode (ReportTrail_Status e)))
       (ReportTrail_ReasonHash e) (ReportTrail_Timestamp e)"

definition report_value :: "geth \<Rightarrow> SnapshotReport \<Rightarrow> abi_value" where
  "report_value g r =
     moderationReportABI
       (moderationReportRecordABI (uint (Report_ID r)) (parseRawHash ''report repo ID'' (Report_RepoID r))
         (HexToAddress g (Report_Reporter r)) (ignore_err 0 (reportStatusCode (Report_Status r)))
         (ignore_err 0 (repoStatusCode (Report_Resolution r))) (Report_ReasonHash r) (Report_CreatedAt r)
         (Report_UpdatedAt r) True)
       (map (report_trail_value g) (Report_Trail r))"

definition report_group :: "geth \<Rightarrow> SnapshotReport list \<Rightarrow> recordGroup" where
  "report_group g xs =
    (let reports = sort_key Report_ID xs in
     kindGroup g ''reports'' 1 (map (report_value g) reports)
       (map (\<lambda>r. nat_text 10 (unat (Report_ID r))) reports) moderationReportArguments True)"

definition status_log_value :: "geth \<Rightarrow> SnapshotRepositoryStatusLog \<Rightarrow> abi_value" where
  "status_log_value g e =
     moderationStatusLogABI (ignore_err 0 (repoStatusCode (StatusLog_Status e))) (HexToAddress g (StatusLog_Actor e))
       (StatusLog_ReasonHash e) (StatusLog_Timestamp e) (uint (StatusLog_ReportID e))"

definition status_trail_group :: "geth \<Rightarrow> SnapshotStatusTrail list \<Rightarrow> recordGroup" where
  "status_trail_group g xs =
    (let statusTrails = sort_key StatusTrail_RepoID xs in
     kindGroup g ''status-trails'' 2
       (map (\<lambda>r. moderationStatusTrailABI (parseRawHash ''trail repo ID'' (StatusTrail_RepoID r))
          (map (status_log_value g) (StatusTrail_Trail r))) statusTrails)
       (map StatusTrail_RepoID statusTrails) moderationStatusTrailArguments True)"

definition split_group :: "geth \<Rightarrow> SnapshotRevenueSplits list \<Rightarrow> recordGroup" where
  "split_group g xs =
    (let splits = sort_key RevenueSplits_RepoID xs in
     kindGroup g ''splits'' 0
       (map (\<lambda>r. economicSplitsABI (parseRawHash ''split repo ID'' (RevenueSplits_RepoID r))
          (map (\<lambda>e. economicSplitABI (HexToAddress g (Split_Recipient e)) (Split_BPS e)) (RevenueSplits_Splits r))) splits)
       (map RevenueSplits_RepoID splits) economicSplitsArguments True)"

definition total_group :: "geth \<Rightarrow> SnapshotSponsorTotal list \<Rightarrow> recordGroup" where
  "total_group g xs =
    (let totals = sort_key (\<lambda>r. (SponsorTotal_RepoID r, SponsorTotal_Denom r)) xs in
     kindGroup g ''all-denom-totals'' 1
       (map (\<lambda>r. economicTotalABI (parseRawHash ''total repo ID'' (SponsorTotal_RepoID r)) (SponsorTotal_Denom r)
          (case set_string 10 (SponsorTotal_Amount r) of Some amount \<Rightarrow> amount | None \<Rightarrow> 0)) totals)
       (map (\<lambda>r. SponsorTotal_RepoID r @ '':'' @ SponsorTotal_Denom r) totals) economicTotalArguments True)"

definition owner_group :: "geth \<Rightarrow> SnapshotOriginalUsername list \<Rightarrow> recordGroup" where
  "owner_group g xs =
    (let owners = sort_key OriginalUsername_Name xs in
     kindGroup g ''original-owners'' 0
       (map (\<lambda>r. usernameOwnerABI (OriginalUsername_Name r) (HexToAddress g (OriginalUsername_Owner r))) owners)
       (map OriginalUsername_Name owners) usernameOwnerArguments True)"

definition reserved_group :: "geth \<Rightarrow> string list \<Rightarrow> recordGroup" where
  "reserved_group g xs =
    (let reserved = sort xs in
     kindGroup g ''reserved-names'' 1 (map V_string reserved) reserved usernameReservedArguments True)"

definition badge_group :: "geth \<Rightarrow> SnapshotBadge list \<Rightarrow> recordGroup" where
  "badge_group g xs =
    (let badges = sort_key Badge_ID xs in
     kindGroup g ''badges'' 0
       (map (\<lambda>r. badgeABI (uint (Badge_ID r)) (parseRawHash ''badge repo ID'' (Badge_RepoID r))
          (HexToAddress g (Badge_Recipient r)) (HexToAddress g (Badge_AwardedBy r)) (Badge_Reason r)
          (Badge_AwardedAt r) True) badges)
       (map (\<lambda>r. nat_text 10 (unat (Badge_ID r))) badges) badgeArguments False)"

definition release_group :: "geth \<Rightarrow> SnapshotRelease list \<Rightarrow> recordGroup" where
  "release_group g xs =
    (let releases = sort_key (\<lambda>r. (Release_Version r, Release_Platform r)) xs in
     kindGroup g ''artifacts'' 0
       (map (\<lambda>r. releaseABI (Release_Version r) (Release_Platform r)
          (ignore_err zeroHash (rawSHA256 ''release SHA-256'' (Release_SHA256 r)))
          (HexToAddress g (Release_RegisteredBy r)) (Release_RegisteredAt r) True) releases)
       (map (\<lambda>r. Release_Version r @ '':'' @ Release_Platform r) releases) releaseArguments False)"


section \<open>All records and the summary\<close>

definition snapshot_summary :: "Snapshot \<Rightarrow> PlanSummary" where
  "snapshot_summary s =
     \<lparr>Summary_RepositoryCount = int (length (Snapshot_Repositories s)),
      Summary_AliasCount = int (length (Snapshot_Aliases s)),
      Summary_RefCount = int (length (Snapshot_Refs s)),
      Summary_CollaboratorCount = int (length (Snapshot_Collaborators s)),
      Summary_GuardianConfigCount = int (length (Snapshot_GuardianConfigs s)),
      Summary_ModerationStatusCount = int (length (Moderation_FinalStatuses (Snapshot_Moderation s))),
      Summary_ModerationReportCount = int (length (Moderation_Reports (Snapshot_Moderation s))),
      Summary_ModerationTrailCount = int (length (Moderation_StatusTrails (Snapshot_Moderation s))),
      Summary_EconomicSplitCount = int (length (Economic_Splits (Snapshot_Economic s))),
      Summary_EconomicTotalCount = int (length (Economic_Totals (Snapshot_Economic s))),
      Summary_UsernameOwnerCount = int (length (Username_OriginalOwners (Snapshot_Username s))),
      Summary_ReservedNameCount = int (length (Username_ReservedNames (Snapshot_Username s))),
      Summary_BadgeCount = int (length (Snapshot_Badges s)),
      Summary_ReleaseArtifactCount = int (length (Snapshot_Releases s)),
      Summary_BatchCount = 0, Summary_TransactionCount = 0\<rparr>"

definition snapshotModuleRecords ::
  "geth \<Rightarrow> Snapshot \<Rightarrow> ((string, recordGroup list) gomap \<times> PlanSummary) option" where
  "snapshotModuleRecords g s =
     Option.bind (repository_group g (Snapshot_Repositories s)) (\<lambda>repositories.
     Some ([(''repository-core'', [repositories, alias_group g (Snapshot_Aliases s), ref_group g (Snapshot_Refs s),
              collaborator_group g (Snapshot_Collaborators s)]),
            (''recovery'', [guardian_group g (Snapshot_GuardianConfigs s)]),
            (''moderation'', [status_group g (Moderation_FinalStatuses (Snapshot_Moderation s)),
              report_group g (Moderation_Reports (Snapshot_Moderation s)),
              status_trail_group g (Moderation_StatusTrails (Snapshot_Moderation s))]),
            (''economic'', [split_group g (Economic_Splits (Snapshot_Economic s)),
              total_group g (Economic_Totals (Snapshot_Economic s))]),
            (''username'', [owner_group g (Username_OriginalOwners (Snapshot_Username s)),
              reserved_group g (Username_ReservedNames (Snapshot_Username s))]),
            (''badge'', [badge_group g (Snapshot_Badges s)]),
            (''release'', [release_group g (Snapshot_Releases s)])],
           snapshot_summary s))"

end
