(* ===== verification/Record_Groups.thy ===== *)
theory Record_Groups
  imports Module_Records
begin

text \<open>
  Facts about the record groups of an accepted snapshot: the fork depth recursion returns
  and its order puts every fork parent before its children; every group has one key per
  value, no blank key, and values of the ABI type that its module and kind declare. The
  locale \<open>batched_group\<close> names what the batch builder relies on, and one interpretation per
  group family discharges it.
\<close>

definition kind_names :: "string \<Rightarrow> string list" where
  "kind_names module =
     (if module = ''repository-core'' then [''repositories'', ''aliases'', ''refs'', ''collaborators'']
      else if module = ''recovery'' then [''guardian-configs'']
      else if module = ''moderation'' then [''final-statuses'', ''reports'', ''status-trails'']
      else if module = ''economic'' then [''splits'', ''all-denom-totals'']
      else if module = ''username'' then [''original-owners'', ''reserved-names'']
      else if module = ''badge'' then [''badges'']
      else if module = ''release'' then [''artifacts'']
      else [])"

definition kindName :: "string \<Rightarrow> u8 \<Rightarrow> string option" where
  "kindName module code =
     (if unat code \<ge> length (kind_names module) then None else Some (kind_names module ! unat code))"


section \<open>Fork depth\<close>

text \<open>The distance of a repository from the root of its lineage.\<close>

inductive fork_level :: "repo_map \<Rightarrow> string \<Rightarrow> nat \<Rightarrow> bool" for repos where
  root: "fork_parent repos i = '''' \<Longrightarrow> fork_level repos i 0"
| fork: "fork_parent repos i \<noteq> '''' \<Longrightarrow> fork_level repos (fork_parent repos i) n \<Longrightarrow> fork_level repos i (Suc n)"

lemma fork_level_unique: "fork_level repos i m \<Longrightarrow> fork_level repos i n \<Longrightarrow> m = n"
proof (induction arbitrary: n rule: fork_level.induct)
  case (root i)
  from root.prems show ?case using root.hyps by (cases rule: fork_level.cases) auto
next
  case (fork i m)
  from fork.prems show ?case using fork.hyps(1) fork.IH by (cases rule: fork_level.cases) auto
qed

lemma fork_level_parent:
  "fork_level repos i n \<Longrightarrow> fork_parent repos i \<noteq> '''' \<Longrightarrow> \<exists>m. n = Suc m \<and> fork_level repos (fork_parent repos i) m"
  by (cases rule: fork_level.cases) auto

definition depths_ok :: "repo_map \<Rightarrow> (string, int) gomap \<Rightarrow> bool" where
  "depths_ok repos depth \<longleftrightarrow> (\<forall>i v. map_of depth i = Some v \<longrightarrow> (\<exists>n. v = int n \<and> fork_level repos i n))"

lemma depths_okI:
  "depths_ok repos depth \<Longrightarrow> fork_level repos i n \<Longrightarrow> depths_ok repos (gm_put i (int n) depth)"
  by (auto simp: depths_ok_def)

lemma forkDepth_returns:
  assumes rs: "distinct (map Repository_ID rs)" and wf: "wf (fork_edges rs)"
  shows "depths_ok (repos_of rs) depth \<Longrightarrow> \<exists>n depth'. forkDepth (repos_of rs) i depth = Some (int n, depth') \<and>
    fork_level (repos_of rs) i n \<and> depths_ok (repos_of rs) depth' \<and> map_of depth' i = Some (int n) \<and>
    dom (map_of depth) \<subseteq> dom (map_of depth')"
  using wf
proof (induction i arbitrary: depth rule: wf_induct_rule)
  case (less i)
  let ?p = "fork_parent (repos_of rs) i"
  show ?case
  proof (cases "map_of depth i")
    case (Some v)
    then show ?thesis using less.prems by (auto simp: depths_ok_def forkDepth.simps[of _ i])
  next
    case None
    show ?thesis
    proof (cases "?p = ''''")
      case True
      then have "fork_level (repos_of rs) i 0" by (rule fork_level.root)
      then show ?thesis using None True depths_okI[OF less.prems, of i 0]
        by (auto simp: forkDepth.simps[of _ i])
    next
      case False
      then have "(?p, i) \<in> fork_edges rs" using fork_parent_edge[OF rs] by auto
      then obtain n depth' where n: "forkDepth (repos_of rs) ?p depth = Some (int n, depth')"
          "fork_level (repos_of rs) ?p n" "depths_ok (repos_of rs) depth'" "dom (map_of depth) \<subseteq> dom (map_of depth')"
        using less.IH[OF _ less.prems] by blast
      have "fork_level (repos_of rs) i (Suc n)" using False n(2) by (rule fork_level.fork)
      then show ?thesis using None False n depths_okI[OF n(3), of i "Suc n"]
        by (intro exI[of _ "Suc n"] exI[of _ "gm_put i (int (Suc n)) depth'"])
          (auto simp: forkDepth.simps[of _ i] add.commute[of 1])
    qed
  qed
qed

lemma all_depths_returns:
  assumes "distinct (map Repository_ID rs)" "wf (fork_edges rs)"
  shows "depths_ok (repos_of rs) depth \<Longrightarrow> \<exists>depth'. all_depths (repos_of rs) xs depth = Some depth' \<and>
    depths_ok (repos_of rs) depth' \<and> Repository_ID ` set xs \<union> dom (map_of depth) \<subseteq> dom (map_of depth')"
proof (induction xs arbitrary: depth)
  case (Cons x xs)
  obtain n d where d: "forkDepth (repos_of rs) (Repository_ID x) depth = Some (int n, d)"
      "depths_ok (repos_of rs) d" "map_of d (Repository_ID x) = Some (int n)"
      "dom (map_of depth) \<subseteq> dom (map_of d)"
    using forkDepth_returns[OF assms Cons.prems] by blast
  obtain d' where d': "all_depths (repos_of rs) xs d = Some d'" "depths_ok (repos_of rs) d'"
      "Repository_ID ` set xs \<union> dom (map_of d) \<subseteq> dom (map_of d')"
    using Cons.IH[OF d(2)] by blast
  have "Repository_ID x \<in> dom (map_of d)" using d(3) by blast
  then have "Repository_ID ` set (x # xs) \<union> dom (map_of depth) \<subseteq> dom (map_of d')"
    using d(4) d'(3) by (simp only: list.set image_insert) blast
  then show ?case using d(1) d'(1,2) by simp
qed auto

lemma sorted_key_precedes:
  assumes "sorted (map f xs)" "x \<in> set xs" "xs = us @ y # ws" "f x < f y"
  shows "x \<in> set us"
  using assms by (auto simp: sorted_append)

lemma sorted_repositories_returns:
  assumes ok: "repositories_ok rs" "forks_ok rs"
  obtains xs where "sorted_repositories rs = Some xs" "mset xs = mset rs"
    "\<And>us y ws. xs = us @ y # ws \<Longrightarrow> Repository_ForkedFrom y \<noteq> '''' \<Longrightarrow>
      Repository_ForkedFrom y \<in> Repository_ID ` set us"
proof -
  have d: "distinct (map Repository_ID rs)" using ok by (simp add: repositories_ok_def)
  have wf: "wf (fork_edges rs)" using ok finite_acyclic_wf[OF finite_fork_edges] by (simp add: forks_ok_def)
  obtain depth where depth: "all_depths (repos_of rs) rs [] = Some depth" "depths_ok (repos_of rs) depth"
      "Repository_ID ` set rs \<subseteq> dom (map_of depth)"
    using all_depths_returns[OF d wf, of "[]" rs] by (auto simp: depths_ok_def)
  let ?k = "\<lambda>r. (gm_get 0 depth (Repository_ID r), Repository_ID r)"
  let ?xs = "sort_key ?k rs"
  have level: "\<exists>n. gm_get 0 depth i = int n \<and> fork_level (repos_of rs) i n" if "i \<in> Repository_ID ` set rs" for i
    using that depth(2,3) unfolding depths_ok_def gm_get_def by (force split: option.splits)
  have "sorted_repositories rs = Some ?xs"
    using depth(1) by (simp add: sorted_repositories_def repos_of_def)
  moreover have "Repository_ForkedFrom y \<in> Repository_ID ` set us"
    if split: "?xs = us @ y # ws" and p: "Repository_ForkedFrom y \<noteq> ''''" for us y ws
  proof -
    have "y \<in> set ?xs" using split by simp
    then have y: "y \<in> set rs" by simp
    then have e: "(Repository_ForkedFrom y, Repository_ID y) \<in> fork_edges rs" using p by (auto simp: fork_edges_def)
    then obtain x where x: "x \<in> set rs" "Repository_ID x = Repository_ForkedFrom y"
      using ok(2) unfolding forks_ok_def by (metis (no_types) Domain.DomainI imageE subsetD)
    have par: "fork_parent (repos_of rs) (Repository_ID y) = Repository_ID x"
      using fork_parent_edge[OF d] e x(2) by auto
    obtain m n where mn: "gm_get 0 depth (Repository_ID x) = int m" "fork_level (repos_of rs) (Repository_ID x) m"
        "gm_get 0 depth (Repository_ID y) = int n" "fork_level (repos_of rs) (Repository_ID y) n"
      using level[of "Repository_ID x"] level[of "Repository_ID y"] x(1) y by (metis imageI)
    have "n = Suc m"
      using fork_level_parent[OF mn(4)] par p x(2) fork_level_unique[OF mn(2)] by auto
    then have "?k x < ?k y" using mn by simp
    moreover have "x \<in> set ?xs" using x(1) by simp
    ultimately have "x \<in> set us" using sorted_key_precedes[OF sorted_sort_key _ split] by blast
    then show ?thesis using x(2) by (metis imageI)
  qed
  ultimately show thesis using that[of ?xs] by simp
qed

section \<open>Values of the declared ABI type\<close>

lemma length_HexToAddress: "geth_ok g \<Longrightarrow> address_text t \<Longrightarrow> length (HexToAddress g t) = 20"
  using hex_to_address_text by (fastforce simp: address_text_def hexBytes_def)

lemma typed_slice: "abi_args_typed [T_slice t] [V_slice vs] \<longleftrightarrow> (\<forall>v \<in> set vs. abi_typed t v)"
  by (simp add: abi_args_typed_def list_all_iff)

lemma typed_tuples:
  "abi_args_typed (tupleArrayArguments cs) [V_slice vs] \<longleftrightarrow> (\<forall>v \<in> set vs. abi_typed (T_tuple cs) v)"
  by (simp add: tupleArrayArguments_def typed_slice)

lemma uint64_range: "0 \<le> uint (w :: u64) \<and> uint w < 2 ^ 256"
  using uint_u64_uint256 by simp

lemma positiveDecimal_range:
  assumes "is_ok (positiveDecimal l t)"
  obtains n where "set_string 10 t = Some n" "0 \<le> n" "n < 2 ^ 256"
  using assms by (auto simp: positiveDecimal_def is_ok_def split: if_splits option.splits)

text \<open>
  What the batch builder needs of a group: a key for every value, no blank key, the kind
  name that belongs to the code, and an encoding that accepts every part of the values and
  decodes to their number.
\<close>

definition group_fits :: "geth \<Rightarrow> string \<Rightarrow> recordGroup \<Rightarrow> bool" where
  "group_fits g module G \<longleftrightarrow>
     length (group_values G) = length (group_keys G) \<and>
     (\<forall>k \<in> set (group_keys G). trim_space k \<noteq> '''') \<and>
     kindName module (group_kindCode G) = Some (group_kind G) \<and>
     (\<forall>vs. set vs \<subseteq> set (group_values G) \<longrightarrow>
        (\<exists>p. group_encode G vs = Inr p \<and> p \<noteq> [] \<and>
           decodePayloadCount g module (group_kindCode G) p = Inr (word_of_nat (length vs))))"

lemma kindGroup_sel [simp]:
  "group_kind (kindGroup g n c vs ks ts w) = n"
  "group_kindCode (kindGroup g n c vs ks ts w) = c"
  "group_values (kindGroup g n c vs ks ts w) = vs"
  "group_keys (kindGroup g n c vs ks ts w) = ks"
  by (simp_all add: kindGroup_def)

lemma group_fitsI:
  assumes g: "geth_ok g" and len: "length vs = length ks" and keys: "\<forall>k \<in> set ks. k \<noteq> '''' \<and> visible (hd k)"
    and kind: "kindName module c = Some n" and args: "payloadArguments module c = Inr ([T_slice t], w)"
    and typed: "\<forall>v \<in> set vs. abi_typed t v"
  shows "group_fits g module (kindGroup g n c vs ks [T_slice t] w)"
proof -
  have "\<exists>p. group_encode (kindGroup g n c vs ks [T_slice t] w) us = Inr p \<and> p \<noteq> [] \<and>
      decodePayloadCount g module c p = Inr (word_of_nat (length us))" if us: "set us \<subseteq> set vs" for us
  proof -
    have t: "abi_args_typed [T_slice t] [V_slice us]" using us typed by (auto simp: typed_slice)
    show ?thesis
    proof (cases w)
      case True
      have "payloadArguments module c = Inr ([T_slice t], True)" using args True by simp
      then obtain p where "encodeKindPayload g c [T_slice t] us = Inr p" "p \<noteq> []"
          "decodePayloadCount g module c p = Inr (word_of_nat (length us))"
        using decode_kind_payload[OF g _ _ t] by blast
      then show ?thesis using True by (simp add: kindGroup_def)
    next
      case False
      have "payloadArguments module c = Inr ([T_slice t], False)" using args False by simp
      then obtain p where "encodeDirectPayload g [T_slice t] us = Inr p" "p \<noteq> []"
          "decodePayloadCount g module c p = Inr (word_of_nat (length us))"
        using decode_direct_payload[OF g _ _ t] by blast
      then show ?thesis using False by (simp add: kindGroup_def)
    qed
  qed
  then show ?thesis using len keys kind visible_nonblank by (auto simp: group_fits_def)
qed

lemma visible_zero [simp]: "visible CHR ''0''"
  by (simp add: visible_def)

lemma hash_text_visible: "hash_text t \<Longrightarrow> t @ u \<noteq> '''' \<and> visible (hd (t @ u))"
  by (auto simp: hash_text_def hexBytes_def)

lemma address_text_visible: "address_text t \<Longrightarrow> t @ u \<noteq> '''' \<and> visible (hd (t @ u))"
  by (auto simp: address_text_def hexBytes_def)

lemma visible_between:
  "between CHR ''a'' CHR ''z'' c \<Longrightarrow> visible c" "between CHR ''A'' CHR ''Z'' c \<Longrightarrow> visible c"
  "between CHR ''0'' CHR ''9'' c \<Longrightarrow> visible c"
  by (auto simp: between_def visible_def elim: order_trans[rotated] order_trans)

lemma username_visible: "validUsername t \<Longrightarrow> t \<noteq> '''' \<and> visible (hd t)"
  by (cases t) (auto simp: validUsername_def intro: visible_between)

lemma token_visible: "validToken t n \<Longrightarrow> t @ u \<noteq> '''' \<and> visible (hd (t @ u))"
  by (cases t) (auto simp: validToken_def visible_def[of "CHR ''.''"] visible_def[of "CHR ''-''"]
      visible_def[of "CHR ''_''"] intro: visible_between)

lemma decimal_visible: "nat_text 10 n \<noteq> '''' \<and> visible (hd (nat_text 10 n))"
  using nat_text_hex_digits[of 10 "hd (nat_text 10 n)" n] hd_in_set[of "nat_text 10 n"] hex_val_visible by simp

section \<open>Every group of an accepted snapshot fits its module\<close>

lemma schema_core:
  "payloadArguments ''repository-core'' 0 = Inr (coreRepositoryArguments, True)"
  "payloadArguments ''repository-core'' 1 = Inr (coreAliasArguments, True)"
  "payloadArguments ''repository-core'' 2 = Inr (coreRefArguments, True)"
  "payloadArguments ''repository-core'' 3 = Inr (coreCollaboratorArguments, True)"
  by (simp_all add: payloadArguments_def nth_schema_def)

lemma schema_moderation:
  "payloadArguments ''moderation'' 0 = Inr (moderationStatusArguments, True)"
  "payloadArguments ''moderation'' 1 = Inr (moderationReportArguments, True)"
  "payloadArguments ''moderation'' 2 = Inr (moderationStatusTrailArguments, True)"
  by (simp_all add: payloadArguments_def nth_schema_def)

lemma schema_others:
  "payloadArguments ''recovery'' 0 = Inr (guardianArguments, False)"
  "payloadArguments ''economic'' 0 = Inr (economicSplitsArguments, True)"
  "payloadArguments ''economic'' 1 = Inr (economicTotalArguments, True)"
  "payloadArguments ''username'' 0 = Inr (usernameOwnerArguments, True)"
  "payloadArguments ''username'' 1 = Inr (usernameReservedArguments, True)"
  "payloadArguments ''badge'' 0 = Inr (badgeArguments, False)"
  "payloadArguments ''release'' 0 = Inr (releaseArguments, False)"
  by (simp_all add: payloadArguments_def nth_schema_def)

lemma kind_name_table:
  "kindName ''repository-core'' 0 = Some ''repositories''" "kindName ''repository-core'' 1 = Some ''aliases''"
  "kindName ''repository-core'' 2 = Some ''refs''" "kindName ''repository-core'' 3 = Some ''collaborators''"
  "kindName ''recovery'' 0 = Some ''guardian-configs''" "kindName ''moderation'' 0 = Some ''final-statuses''"
  "kindName ''moderation'' 1 = Some ''reports''" "kindName ''moderation'' 2 = Some ''status-trails''"
  "kindName ''economic'' 0 = Some ''splits''" "kindName ''economic'' 1 = Some ''all-denom-totals''"
  "kindName ''username'' 0 = Some ''original-owners''" "kindName ''username'' 1 = Some ''reserved-names''"
  "kindName ''badge'' 0 = Some ''badges''" "kindName ''release'' 0 = Some ''artifacts''"
  by (simp_all add: kindName_def kind_names_def)

lemma group_fits_map:
  assumes "geth_ok g" "payloadArguments module c = Inr (ts, w)" "kindName module c = Some n"
    and keys: "\<And>x. x \<in> set xs \<Longrightarrow> k x \<noteq> '''' \<and> visible (hd (k x))"
    and ts: "ts = [T_slice t]" and typed: "\<And>x. x \<in> set xs \<Longrightarrow> abi_typed t (f x)"
  shows "group_fits g module (kindGroup g n c (map f xs) (map k xs) ts w)"
  unfolding ts
proof (rule group_fitsI[OF assms(1) _ _ assms(3)])
  show "payloadArguments module c = Inr ([T_slice t], w)" using assms(2) ts by simp
qed (use keys typed in auto)

lemma hash_key: "hash_text t \<Longrightarrow> t \<noteq> '''' \<and> visible (hd t)"
  using hash_text_visible[of t "[]"] by simp

lemma repository_group_fits:
  assumes g: "geth_ok g" and rs: "repositories_ok rs" "forks_ok rs"
  obtains G where "repository_group g rs = Some G" "group_fits g ''repository-core'' G"
    "group_kindCode G = 0" "length (group_values G) = length rs"
proof -
  obtain xs where xs: "sorted_repositories rs = Some xs" "mset xs = mset rs"
    by (rule sorted_repositories_returns[OF rs])
  have ok: "repository_ok r" if "r \<in> set xs" for r
    using that rs(1) mset_eq_setD[OF xs(2)] by (simp add: repositories_ok_def)
  have "group_fits g ''repository-core''
      (kindGroup g ''repositories'' 0 (map (repository_value g) xs) (map Repository_ID xs) coreRepositoryArguments True)"
  proof (rule group_fits_map[OF g schema_core(1) kind_name_table(1) _ coreRepositoryArguments_def[unfolded tupleArrayArguments_def]])
    fix r assume "r \<in> set xs"
    from ok[OF this] show "Repository_ID r \<noteq> '''' \<and> visible (hd (Repository_ID r))"
      by (intro hash_key) (simp add: repository_ok_def)
  qed (use ok in \<open>simp add: repository_value_def coreRepositoryABI_def repository_ok_def zeroHash_def length_HexToAddress[OF g]\<close>)
  moreover have "repository_group g rs = Some (kindGroup g ''repositories'' 0 (map (repository_value g) xs)
      (map Repository_ID xs) coreRepositoryArguments True)"
    unfolding repository_group_def xs(1) by simp
  moreover have "length (map (repository_value g) xs) = length rs"
    using mset_eq_length[OF xs(2)] by simp
  ultimately show thesis by (intro that[OF _ _ kindGroup_sel(2)]) (simp_all only: kindGroup_sel)
qed

lemma alias_group_fits:
  assumes g: "geth_ok g" and ok: "aliases_ok rs xs"
  shows "group_fits g ''repository-core'' (alias_group g xs)"
  unfolding alias_group_def Let_def
proof (rule group_fits_map[OF g schema_core(2) kind_name_table(2) _ coreAliasArguments_def[unfolded tupleArrayArguments_def]])
  fix a assume "a \<in> set (sort_key (\<lambda>a. (Alias_Owner a, Alias_Name a)) xs)"
  then show "Alias_Owner a @ ''/'' @ Alias_Name a \<noteq> '''' \<and> visible (hd (Alias_Owner a @ ''/'' @ Alias_Name a))"
    using ok by (intro address_text_visible) (simp add: aliases_ok_def)
qed (use ok in \<open>simp add: aliases_ok_def coreAliasABI_def length_HexToAddress[OF g]\<close>)

lemma repo_hash_text: "repositories_ok rs \<Longrightarrow> i \<in> Repository_ID ` set rs \<Longrightarrow> hash_text i"
  by (auto simp: repositories_ok_def repository_ok_def)

lemma ref_group_fits:
  assumes g: "geth_ok g" and rs: "repositories_ok rs" and ok: "refs_ok rs xs"
  shows "group_fits g ''repository-core'' (ref_group g xs)"
  unfolding ref_group_def Let_def
proof (rule group_fits_map[OF g schema_core(3) kind_name_table(3) _ coreRefArguments_def[unfolded tupleArrayArguments_def]])
  fix r assume "r \<in> set (sort_key (\<lambda>r. (Ref_RepoID r, Ref_RefName r)) xs)"
  then show "Ref_RepoID r @ '':'' @ Ref_RefName r \<noteq> '''' \<and> visible (hd (Ref_RepoID r @ '':'' @ Ref_RefName r))"
    using ok by (intro hash_text_visible repo_hash_text[OF rs]) (simp add: refs_ok_def ref_ok_def)
qed (use ok in \<open>simp add: refs_ok_def ref_ok_def coreRefABI_def length_HexToAddress[OF g] list_all_iff\<close>)

lemma collaborator_group_fits:
  assumes g: "geth_ok g" and rs: "repositories_ok rs" and ok: "collaborators_ok rs xs"
  shows "group_fits g ''repository-core'' (collaborator_group g xs)"
  unfolding collaborator_group_def Let_def
proof (rule group_fits_map[OF g schema_core(4) kind_name_table(4) _ coreCollaboratorArguments_def[unfolded tupleArrayArguments_def]])
  fix r assume "r \<in> set (sort_key (\<lambda>c. (Collaborator_RepoID c, Collaborator_Account c)) xs)"
  then show "Collaborator_RepoID r @ '':'' @ Collaborator_Account r \<noteq> '''' \<and>
      visible (hd (Collaborator_RepoID r @ '':'' @ Collaborator_Account r))"
    using ok by (intro hash_text_visible repo_hash_text[OF rs]) (simp add: collaborators_ok_def)
qed (use ok in \<open>simp add: collaborators_ok_def coreCollaboratorABI_def length_HexToAddress[OF g]\<close>)

lemma owned_by_repo: "owned_by rs i w \<Longrightarrow> i \<in> Repository_ID ` set rs"
  by (auto simp: owned_by_def)

lemma owned_by_address: "repositories_ok rs \<Longrightarrow> owned_by rs i w \<Longrightarrow> address_text w"
  by (auto simp: owned_by_def repositories_ok_def repository_ok_def)

lemma guardian_group_fits:
  assumes g: "geth_ok g" and rs: "repositories_ok rs" and ok: "guardians_ok rs xs"
  shows "group_fits g ''recovery'' (guardian_group g xs)"
  unfolding guardian_group_def Let_def
proof (rule group_fits_map[OF g schema_others(1) kind_name_table(5) _ guardianArguments_def[unfolded tupleArrayArguments_def]])
  fix r assume r: "r \<in> set (sort_key Guardian_RepoID xs)"
  then have w: "owned_by rs (Guardian_RepoID r) (Guardian_ConfiguredBy r)" using ok by (simp add: guardians_ok_def)
  then show "Guardian_RepoID r \<noteq> '''' \<and> visible (hd (Guardian_RepoID r))"
    by (intro hash_key repo_hash_text[OF rs] owned_by_repo)
  show "abi_typed (T_tuple [(''repoId'', T_bytes32), (''configuredBy'', T_address), (''threshold'', T_uint8),
      (''guardians'', T_slice T_address)]) (guardianConfigABI (parseRawHash ''guardian repo ID'' (Guardian_RepoID r))
        (HexToAddress g (Guardian_ConfiguredBy r)) (Guardian_Threshold r) (map (HexToAddress g) (Guardian_Guardians r)))"
    using r ok owned_by_address[OF rs w]
    by (simp add: guardians_ok_def guardianConfigABI_def length_HexToAddress[OF g] list_all_iff)
qed

lemma status_group_fits:
  assumes g: "geth_ok g" and rs: "repositories_ok rs" and ok: "statuses_ok rs xs"
  shows "group_fits g ''moderation'' (status_group g xs)"
  unfolding status_group_def Let_def
proof (rule group_fits_map[OF g schema_moderation(1) kind_name_table(6) _ moderationStatusArguments_def[unfolded tupleArrayArguments_def]])
  fix r assume "r \<in> set (sort_key FinalStatus_RepoID xs)"
  then show "FinalStatus_RepoID r \<noteq> '''' \<and> visible (hd (FinalStatus_RepoID r))"
    using ok by (intro hash_key repo_hash_text[OF rs]) (auto simp: statuses_ok_def)
qed (simp add: moderationStatusABI_def)

lemma report_group_fits:
  assumes g: "geth_ok g" and ok: "reports_ok rs xs"
  shows "group_fits g ''moderation'' (report_group g xs)"
  unfolding report_group_def Let_def
proof (rule group_fits_map[OF g schema_moderation(2) kind_name_table(7) decimal_visible
      moderationReportArguments_def[unfolded tupleArrayArguments_def]])
  fix r assume "r \<in> set (sort_key Report_ID xs)"
  then have "address_text (Report_Reporter r)" "\<forall>e \<in> set (Report_Trail r). address_text (ReportTrail_Actor e)"
    using ok by (simp_all add: reports_ok_def report_ok_def report_trail_ok_def report_entry_ok_def Let_def)
  then show "abi_typed (T_tuple
     [(''report'', T_tuple
         [(''id'', T_uint256), (''repoId'', T_bytes32), (''reporter'', T_address),
          (''status'', T_uint8), (''resolution'', T_uint8), (''reasonHash'', T_string),
          (''createdAt'', T_uint64), (''updatedAt'', T_uint64), (''exists'', T_bool)]),
      (''trail'', T_slice (T_tuple
         [(''action'', T_uint8), (''actor'', T_address), (''status'', T_uint8),
          (''reasonHash'', T_string), (''timestamp'', T_uint64)]))]) (report_value g r)"
    by (simp add: report_value_def report_trail_value_def moderationReportABI_def moderationReportRecordABI_def
        moderationReportTrailABI_def list_all_iff uint64_range[simplified] length_HexToAddress[OF g])
qed

lemma status_trail_group_fits:
  assumes g: "geth_ok g" and rs: "repositories_ok rs" and ok: "status_trails_ok rs sts reps xs"
  shows "group_fits g ''moderation'' (status_trail_group g xs)"
  unfolding status_trail_group_def Let_def
proof (rule group_fits_map[OF g schema_moderation(3) kind_name_table(8) _ moderationStatusTrailArguments_def[unfolded tupleArrayArguments_def]])
  fix r assume "r \<in> set (sort_key StatusTrail_RepoID xs)"
  then show "StatusTrail_RepoID r \<noteq> '''' \<and> visible (hd (StatusTrail_RepoID r))"
    using ok by (intro hash_key repo_hash_text[OF rs]) (simp add: status_trails_ok_def status_trail_ok_def)
qed (use ok in \<open>simp add: status_trails_ok_def status_trail_ok_def status_entry_ok_def moderationStatusTrailABI_def
      status_log_value_def moderationStatusLogABI_def list_all_iff uint64_range[simplified] length_HexToAddress[OF g]\<close>)

lemma split_group_fits:
  assumes g: "geth_ok g" and rs: "repositories_ok rs" and ok: "\<forall>r \<in> set xs. splits_ok rs r"
  shows "group_fits g ''economic'' (split_group g xs)"
  unfolding split_group_def Let_def
proof (rule group_fits_map[OF g schema_others(2) kind_name_table(9) _ economicSplitsArguments_def[unfolded tupleArrayArguments_def]])
  fix r assume "r \<in> set (sort_key RevenueSplits_RepoID xs)"
  then show "RevenueSplits_RepoID r \<noteq> '''' \<and> visible (hd (RevenueSplits_RepoID r))"
    using ok by (intro hash_key repo_hash_text[OF rs]) (simp add: splits_ok_def)
qed (use ok in \<open>simp add: splits_ok_def economicSplitsABI_def economicSplitABI_def list_all_iff length_HexToAddress[OF g]\<close>)

lemma total_group_fits:
  assumes g: "geth_ok g" and rs: "repositories_ok rs" and ok: "\<forall>r \<in> set xs. total_ok rs r"
  shows "group_fits g ''economic'' (total_group g xs)"
  unfolding total_group_def Let_def
proof (rule group_fits_map[OF g schema_others(3) kind_name_table(10) _ economicTotalArguments_def[unfolded tupleArrayArguments_def]])
  fix r assume "r \<in> set (sort_key (\<lambda>r. (SponsorTotal_RepoID r, SponsorTotal_Denom r)) xs)"
  then have r: "total_ok rs r" using ok by simp
  then show "SponsorTotal_RepoID r @ '':'' @ SponsorTotal_Denom r \<noteq> '''' \<and>
      visible (hd (SponsorTotal_RepoID r @ '':'' @ SponsorTotal_Denom r))"
    by (intro hash_text_visible repo_hash_text[OF rs]) (simp add: total_ok_def)
  from r obtain n where "set_string 10 (SponsorTotal_Amount r) = Some n" "0 \<le> n" "n < 2 ^ 256"
    by (auto simp: total_ok_def elim: positiveDecimal_range)
  then show "abi_typed (T_tuple [(''repoId'', T_bytes32), (''denom'', T_string), (''amount'', T_uint256)])
      (economicTotalABI (parseRawHash ''total repo ID'' (SponsorTotal_RepoID r)) (SponsorTotal_Denom r)
        (case set_string 10 (SponsorTotal_Amount r) of Some amount \<Rightarrow> amount | None \<Rightarrow> 0))"
    by (simp add: economicTotalABI_def)
qed

lemma owner_group_fits:
  assumes g: "geth_ok g" and ok: "usernames_ok u"
  shows "group_fits g ''username'' (owner_group g (Username_OriginalOwners u))"
  unfolding owner_group_def Let_def
proof (rule group_fits_map[OF g schema_others(4) kind_name_table(11) _ usernameOwnerArguments_def[unfolded tupleArrayArguments_def]])
  fix r assume "r \<in> set (sort_key OriginalUsername_Name (Username_OriginalOwners u))"
  then show "OriginalUsername_Name r \<noteq> '''' \<and> visible (hd (OriginalUsername_Name r))"
    using ok by (intro username_visible) (simp add: usernames_ok_def)
qed (use ok in \<open>simp add: usernames_ok_def usernameOwnerABI_def length_HexToAddress[OF g]\<close>)

lemma reserved_group_fits:
  assumes g: "geth_ok g" and ok: "usernames_ok u"
  shows "group_fits g ''username'' (reserved_group g (Username_ReservedNames u))"
proof -
  have "group_fits g ''username'' (kindGroup g ''reserved-names'' 1
      (map V_string (sort (Username_ReservedNames u))) (map (\<lambda>n. n) (sort (Username_ReservedNames u))) usernameReservedArguments True)"
  proof (rule group_fits_map[OF g schema_others(5) kind_name_table(12) _ usernameReservedArguments_def])
    fix n assume "n \<in> set (sort (Username_ReservedNames u))"
    then show "n \<noteq> '''' \<and> visible (hd n)" using ok by (intro username_visible) (simp add: usernames_ok_def)
  qed simp
  then show ?thesis by (simp add: reserved_group_def Let_def)
qed

lemma badge_group_fits:
  assumes g: "geth_ok g" and ok: "badges_ok rs xs ix"
  shows "group_fits g ''badge'' (badge_group g xs)"
  unfolding badge_group_def Let_def
  by (rule group_fits_map[OF g schema_others(6) kind_name_table(13) decimal_visible badgeArguments_def[unfolded tupleArrayArguments_def]])
    (use ok in \<open>simp add: badges_ok_def badge_ok_def badgeABI_def length_HexToAddress[OF g] uint64_range[simplified]\<close>)

lemma digest_text_raw:
  assumes "digest_text t"
  obtains d where "rawSHA256 l t = Inr d" "length d = 32"
  using assms by (auto simp: digest_text_def rawSHA256_Inr_iff)

lemma release_group_fits:
  assumes g: "geth_ok g" and ok: "releases_ok xs vs"
  shows "group_fits g ''release'' (release_group g xs)"
  unfolding release_group_def Let_def
proof (rule group_fits_map[OF g schema_others(7) kind_name_table(14) _ releaseArguments_def[unfolded tupleArrayArguments_def]])
  fix r assume "r \<in> set (sort_key (\<lambda>r. (Release_Version r, Release_Platform r)) xs)"
  then have r: "release_ok r" using ok by (simp add: releases_ok_def)
  then show "Release_Version r @ '':'' @ Release_Platform r \<noteq> '''' \<and> visible (hd (Release_Version r @ '':'' @ Release_Platform r))"
    by (intro token_visible[of _ 64]) (simp add: release_ok_def)
  obtain d where "rawSHA256 ''release SHA-256'' (Release_SHA256 r) = Inr d" "length d = 32"
    using r by (auto simp: release_ok_def elim: digest_text_raw)
  then show "abi_typed (T_tuple [(''version'', T_string), (''platform'', T_string), (''sha256'', T_bytes32),
      (''registeredBy'', T_address), (''registeredAt'', T_uint64), (''exists'', T_bool)])
      (releaseABI (Release_Version r) (Release_Platform r)
        (ignore_err zeroHash (rawSHA256 ''release SHA-256'' (Release_SHA256 r)))
        (HexToAddress g (Release_RegisteredBy r)) (Release_RegisteredAt r) True)"
    using r by (simp add: releaseABI_def release_ok_def length_HexToAddress[OF g])
qed

end
