(* ===== verification/Sha256.thy ===== *)
theory Sha256
  imports Go_Prelude
begin

text \<open>
  The package \<^verbatim>\<open>crypto/sha256\<close> of the Go standard library: SHA-256 as FIPS 180-4 defines it,
  on 32-bit words. The code calls \<^verbatim>\<open>sha256.Sum256\<close> on whole byte slices only.
\<close>

unbundle bit_operations_syntax

definition sha_K :: "u32 list" where
  "sha_K =
    [0x428a2f98, 0x71374491, 0xb5c0fbcf, 0xe9b5dba5, 0x3956c25b, 0x59f111f1, 0x923f82a4, 0xab1c5ed5,
     0xd807aa98, 0x12835b01, 0x243185be, 0x550c7dc3, 0x72be5d74, 0x80deb1fe, 0x9bdc06a7, 0xc19bf174,
     0xe49b69c1, 0xefbe4786, 0x0fc19dc6, 0x240ca1cc, 0x2de92c6f, 0x4a7484aa, 0x5cb0a9dc, 0x76f988da,
     0x983e5152, 0xa831c66d, 0xb00327c8, 0xbf597fc7, 0xc6e00bf3, 0xd5a79147, 0x06ca6351, 0x14292967,
     0x27b70a85, 0x2e1b2138, 0x4d2c6dfc, 0x53380d13, 0x650a7354, 0x766a0abb, 0x81c2c92e, 0x92722c85,
     0xa2bfe8a1, 0xa81a664b, 0xc24b8b70, 0xc76c51a3, 0xd192e819, 0xd6990624, 0xf40e3585, 0x106aa070,
     0x19a4c116, 0x1e376c08, 0x2748774c, 0x34b0bcb5, 0x391c0cb3, 0x4ed8aa4a, 0x5b9cca4f, 0x682e6ff3,
     0x748f82ee, 0x78a5636f, 0x84c87814, 0x8cc70208, 0x90befffa, 0xa4506ceb, 0xbef9a3f7, 0xc67178f2]"

type_synonym sha_state = "u32 \<times> u32 \<times> u32 \<times> u32 \<times> u32 \<times> u32 \<times> u32 \<times> u32"

definition sha_init :: sha_state where
  "sha_init = (0x6a09e667, 0xbb67ae85, 0x3c6ef372, 0xa54ff53a, 0x510e527f, 0x9b05688c, 0x1f83d9ab, 0x5be0cd19)"

definition rotr32 :: "nat \<Rightarrow> u32 \<Rightarrow> u32" where
  "rotr32 n w = drop_bit n w OR push_bit (32 - n) w"

definition be32 :: "bytes \<Rightarrow> u32" where
  "be32 bs = foldl (\<lambda>acc b. push_bit 8 acc OR ucast b) 0 bs"

definition bytes_of_u32 :: "u32 \<Rightarrow> bytes" where
  "bytes_of_u32 w = map (\<lambda>i. ucast (drop_bit i w)) [24, 16, 8, 0]"

definition be64 :: "u64 \<Rightarrow> bytes" where
  "be64 w = map (\<lambda>i. ucast (drop_bit i w)) [56, 48, 40, 32, 24, 16, 8, 0]"

definition sha_pad :: "bytes \<Rightarrow> bytes" where
  "sha_pad m = m @ 0x80 # replicate ((119 - length m mod 64) mod 64) 0 @ be64 (word_of_nat (8 * length m))"

function chunks :: "nat \<Rightarrow> 'a list \<Rightarrow> 'a list list" where
  "chunks n xs = (if xs = [] \<or> n = 0 then [] else take n xs # chunks n (drop n xs))"
  by pat_completeness auto
termination by (relation "measure (\<lambda>(n, xs). length xs)") auto

declare chunks.simps [simp del]

fun sha_schedule :: "nat \<Rightarrow> u32 list \<Rightarrow> u32 list" where
  \<comment> \<open>the list is kept in reverse: the newest word first\<close>
  "sha_schedule 0 ws = rev ws"
| "sha_schedule (Suc n) ws =
     (let w15 = ws ! 14; w2 = ws ! 1;
          s0 = rotr32 7 w15 XOR rotr32 18 w15 XOR drop_bit 3 w15;
          s1 = rotr32 17 w2 XOR rotr32 19 w2 XOR drop_bit 10 w2
      in sha_schedule n ((ws ! 15 + s0 + ws ! 6 + s1) # ws))"

definition sha_round :: "sha_state \<Rightarrow> u32 \<times> u32 \<Rightarrow> sha_state" where
  "sha_round = (\<lambda>(a, b, c, d, e, f, g, h) (k, w).
     (let s1 = rotr32 6 e XOR rotr32 11 e XOR rotr32 25 e;
          ch = (e AND f) XOR (NOT e AND g);
          t1 = h + s1 + ch + k + w;
          s0 = rotr32 2 a XOR rotr32 13 a XOR rotr32 22 a;
          maj = (a AND b) XOR (a AND c) XOR (b AND c)
      in (t1 + (s0 + maj), a, b, c, d + t1, e, f, g)))"

definition sha_add :: "sha_state \<Rightarrow> sha_state \<Rightarrow> sha_state" where
  "sha_add = (\<lambda>(a, b, c, d, e, f, g, h) (a', b', c', d', e', f', g', h').
     (a + a', b + b', c + c', d + d', e + e', f + f', g + g', h + h'))"

definition sha_block :: "sha_state \<Rightarrow> bytes \<Rightarrow> sha_state" where
  "sha_block st blk =
     (let ws = sha_schedule 48 (rev (map be32 (chunks 4 blk)))
      in sha_add st (foldl sha_round st (zip sha_K ws)))"

definition sha_words :: "sha_state \<Rightarrow> u32 list" where
  "sha_words = (\<lambda>(a, b, c, d, e, f, g, h). [a, b, c, d, e, f, g, h])"

definition Sum256 :: "bytes \<Rightarrow> bytes" where
  "Sum256 m = concat (map bytes_of_u32 (sha_words (foldl sha_block sha_init (chunks 64 (sha_pad m)))))"

lemma length_Sum256 [simp]: "length (Sum256 m) = 32"
  by (simp add: Sum256_def sha_words_def bytes_of_u32_def split: prod.splits)

end
