(* ===== verification/Plan_Build.thy ===== *)
theory Plan_Build
  imports Record_Groups Sha256
begin

text \<open>
  \<^verbatim>\<open>BuildPlan\<close>, \<^verbatim>\<open>appendRecordBatches\<close> and \<^verbatim>\<open>ValidatePlan\<close> of
  \<^verbatim>\<open>cli/internal/suitemigration/plan.go\<close>. The two loops of \<^verbatim>\<open>appendRecordBatches\<close> are partial
  functions into \<open>option\<close>: with a batch size of zero the Go loop does not return. Decoding
  the snapshot from JSON (lines 67 to 81 of the file) is the parameter \<open>decode\<close>. A plan is a
  value here, so the check for a nil plan has no counterpart; where Go ranges over a map only
  to report the first bad entry, the entries are taken in the order the source lists them.
\<close>


section \<open>Batches\<close>

datatype batch_error =
    RecordKeyMismatch
  | BatchEncode codec_error
  | RecordTooLarge string nat
  | BatchPanic codec_error

text \<open>The inner loop: halve the batch until its payload fits.\<close>

partial_function (option) fit_batch :: "recordGroup \<Rightarrow> nat \<Rightarrow> nat \<Rightarrow> (batch_error + nat \<times> bytes) option" where
  "fit_batch grp start stop =
     (case group_encode grp (take (stop - start) (drop start (group_values grp))) of
        Inl e \<Rightarrow> Some (Inl (BatchEncode e))
      | Inr payload \<Rightarrow>
          if length payload \<le> MaximumPayloadBytes then Some (Inr (stop, payload))
          else if stop - start = 1 then Some (Inl (RecordTooLarge (group_keys grp ! start) (length payload)))
          else fit_batch grp start (start + (stop - start) div 2))"

declare fit_batch.simps [code]

definition make_batch ::
  "geth \<Rightarrow> recordGroup \<Rightarrow> u64 \<Rightarrow> nat \<Rightarrow> nat \<Rightarrow> bytes \<Rightarrow> bytes \<Rightarrow> PlanBatch" where
  "make_batch g grp sequence start stop payload root =
     \<lparr>Batch_Sequence = sequence, Batch_Kind = group_kind grp, Batch_KindCode = group_kindCode grp,
      Batch_Count = word_of_nat (stop - start), Batch_ItemKeys = take (stop - start) (drop start (group_keys grp)),
      Batch_Payload = hexBytes payload, Batch_PayloadHash = Hash_Hex g (Keccak256Hash g payload),
      Batch_RollingRoot = Hash_Hex g root\<rparr>"

definition add_batch :: "ModulePlan \<Rightarrow> PlanBatch \<Rightarrow> ModulePlan" where
  "add_batch module batch =
     module\<lparr>Module_Batches := Module_Batches module @ [batch],
            Module_ExpectedCount := Module_ExpectedCount module + Batch_Count batch\<rparr>"

text \<open>The outer loop over the values of the group.\<close>

partial_function (option) batch_loop ::
  "geth \<Rightarrow> recordGroup \<Rightarrow> int \<Rightarrow> bytes \<Rightarrow> nat \<Rightarrow> ModulePlan \<Rightarrow> bytes \<Rightarrow> (batch_error + ModulePlan \<times> bytes) option" where
  "batch_loop g grp batchSize moduleID start module root =
     (if \<not> start < length (group_values grp) then Some (Inr (module, root))
      else
        Option.bind (fit_batch grp start (min (nat (int start + batchSize)) (length (group_values grp)))) (\<lambda>r.
        case r of
          Inl e \<Rightarrow> Some (Inl e)
        | Inr (stop, payload) \<Rightarrow>
            (case rollingStep g root moduleID (word_of_nat (length (Module_Batches module))) (word_of_nat (stop - start))
                (Keccak256Hash g payload) of
               Inl e \<Rightarrow> Some (Inl (BatchPanic e))
             | Inr root' \<Rightarrow>
                 batch_loop g grp batchSize moduleID stop
                   (add_batch module (make_batch g grp (word_of_nat (length (Module_Batches module))) start stop payload root'))
                   root')))"

declare batch_loop.simps [code]

definition appendRecordBatches ::
  "geth \<Rightarrow> ModulePlan \<Rightarrow> recordGroup \<Rightarrow> int \<Rightarrow> bytes \<Rightarrow> bytes \<Rightarrow> (batch_error + ModulePlan \<times> bytes) option" where
  "appendRecordBatches g module grp batchSize moduleID root =
     (if length (group_values grp) \<noteq> length (group_keys grp) then Some (Inl RecordKeyMismatch)
      else batch_loop g grp batchSize moduleID 0 module root)"


section \<open>Validation of a plan\<close>

datatype batch_check =
    BatchSequenceCount nat
  | BatchKeyEmpty nat nat
  | BatchCodec codec_error
  | BatchPayloadSize nat nat
  | BatchDecodedCount nat u64 u64
  | BatchKindMismatch nat
  | BatchKindOrder nat
  | BatchKindNotContiguous nat
  | BatchPayloadHashMismatch nat
  | BatchRollingRootMismatch nat

record batch_state =
  bs_root :: bytes
  bs_count :: u64
  bs_lastKind :: u8
  bs_seenKinds :: "u8 list"
  bs_kindCounts :: "(string, u64) gomap"

definition check_batch_shape :: "int \<Rightarrow> nat \<Rightarrow> PlanBatch \<Rightarrow> batch_check + unit" where
  "check_batch_shape batchSize index batch =
     bind_res (guard_err (Batch_Sequence batch \<noteq> word_of_nat index \<or> Batch_Count batch = 0 \<or>
       Batch_Count batch > word_of_int MaximumBatchItems \<or> Batch_Count batch > word_of_int batchSize \<or>
       int (length (Batch_ItemKeys batch)) \<noteq> sint (Batch_Count batch)) (BatchSequenceCount index)) (\<lambda>_.
     for_check (\<lambda>(itemIndex, key). guard_err (trim_space key = '''') (BatchKeyEmpty index itemIndex))
       (enumerate 0 (Batch_ItemKeys batch)))"

definition check_batch_payload :: "geth \<Rightarrow> string \<Rightarrow> nat \<Rightarrow> PlanBatch \<Rightarrow> batch_check + bytes" where
  "check_batch_payload g moduleName index batch =
     bind_res (map_err BatchCodec (parseHexBytes ''batch payload'' (Batch_Payload batch))) (\<lambda>payload.
     bind_res (guard_err (length payload = 0 \<or> length payload > MaximumPayloadBytes)
       (BatchPayloadSize index (length payload))) (\<lambda>_.
     bind_res (map_err BatchCodec (decodePayloadCount g moduleName (Batch_KindCode batch) payload)) (\<lambda>actualCount.
     bind_res (guard_err (actualCount \<noteq> Batch_Count batch) (BatchDecodedCount index actualCount (Batch_Count batch))) (\<lambda>_.
     Inr payload))))"

definition check_batch ::
  "geth \<Rightarrow> int \<Rightarrow> string \<Rightarrow> bytes \<Rightarrow> nat \<times> PlanBatch \<Rightarrow> batch_state \<Rightarrow> batch_check + batch_state" where
  "check_batch g batchSize moduleName moduleID = (\<lambda>(index, batch) st.
     bind_res (check_batch_shape batchSize index batch) (\<lambda>_.
     bind_res (check_batch_payload g moduleName index batch) (\<lambda>payload.
     bind_res (guard_err (kindName moduleName (Batch_KindCode batch) \<noteq> Some (Batch_Kind batch)) (BatchKindMismatch index)) (\<lambda>_.
     bind_res (guard_err (index \<noteq> 0 \<and> Batch_KindCode batch < bs_lastKind st) (BatchKindOrder index)) (\<lambda>_.
     bind_res (guard_err (Batch_KindCode batch \<in> set (bs_seenKinds st) \<and> Batch_KindCode batch \<noteq> bs_lastKind st)
       (BatchKindNotContiguous index)) (\<lambda>_.
     bind_res (guard_err (Batch_PayloadHash batch \<noteq> Hash_Hex g (Keccak256Hash g payload)) (BatchPayloadHashMismatch index)) (\<lambda>_.
     bind_res (map_err BatchCodec (rollingStep g (bs_root st) moduleID (Batch_Sequence batch) (Batch_Count batch)
       (Keccak256Hash g payload))) (\<lambda>root.
     bind_res (guard_err (Batch_RollingRoot batch \<noteq> Hash_Hex g root) (BatchRollingRootMismatch index)) (\<lambda>_.
     let key = moduleName @ ''/'' @ Batch_Kind batch in
     Inr \<lparr>bs_root = root, bs_count = bs_count st + Batch_Count batch, bs_lastKind = Batch_KindCode batch,
          bs_seenKinds = Batch_KindCode batch # bs_seenKinds st,
          bs_kindCounts = gm_put key (gm_get 0 (bs_kindCounts st) key + Batch_Count batch) (bs_kindCounts st)\<rparr>)))))))))"

datatype plan_check =
    PlanUnsupported
  | PlanSnapshotSchema string
  | PlanCodec codec_error
  | PlanRootMismatch
  | PlanSourceHeight
  | PlanSourceRequired
  | PlanTargetInvalid
  | PlanTargetsEqual
  | PlanPolicy policy_error
  | PlanEscrow escrow_error
  | PlanLimitsMismatch
  | PlanEvidenceMismatch

datatype module_check =
    ModuleCount nat
  | ModuleNotCanonical nat string
  | ModuleBatch string batch_check
  | ModulePanic codec_error
  | ModuleTotals string
  | SummaryBatches
  | SummaryItems u64 int
  | SummaryKind string int u64

definition validate_plan_snapshot :: "geth \<Rightarrow> Plan \<Rightarrow> plan_check + bytes" where
  "validate_plan_snapshot g plan =
    (let sn = Plan_Snapshot plan in
     bind_res (guard_err (Plan_Schema plan \<noteq> PlanSchema \<or> \<not> Plan_Executable plan) PlanUnsupported) (\<lambda>_.
     bind_res (guard_err (PlanSnapshot_Schema sn \<noteq> SnapshotSchema) (PlanSnapshotSchema (PlanSnapshot_Schema sn))) (\<lambda>_.
     bind_res (map_err PlanCodec (rawSHA256 ''snapshot SHA-256'' (PlanSnapshot_SHA256 sn))) (\<lambda>snapshotDigest.
     bind_res (map_err PlanCodec (parseHash ''snapshot root'' (PlanSnapshot_Root sn))) (\<lambda>snapshotRoot.
     bind_res (guard_err (snapshotRoot \<noteq> BytesToHash g snapshotDigest) PlanRootMismatch) (\<lambda>_.
     bind_res (guard_err (PlanSnapshot_SourceHeight sn = 0) PlanSourceHeight) (\<lambda>_.
     bind_res (guard_err (trim_space (PlanSnapshot_SourceChainID sn) = '''' \<or> trim_space (PlanSnapshot_SourceContract sn) = '''')
       PlanSourceRequired) (\<lambda>_.
     bind_res (map_err PlanCodec (check_block_hash (PlanSnapshot_SourceChainID sn) (PlanSnapshot_SourceContract sn)
       (PlanSnapshot_SourceHeight sn) (PlanSnapshot_SourceBlockHash sn))) (\<lambda>_.
     bind_res (map_err PlanCodec (check_evidence_digests (PlanSnapshot_InventorySHA256 sn) (PlanSnapshot_TxSearchSHA256 sn)
       (PlanSnapshot_BlockEvidenceSHA256 sn) (PlanSnapshot_EventCommitmentSHA256 sn))) (\<lambda>_.
     Inr snapshotRoot))))))))))"

definition validate_plan_target :: "geth \<Rightarrow> Plan \<Rightarrow> plan_check + unit" where
  "validate_plan_target g plan =
    (let target = Plan_Target plan; limits = Plan_Limits plan in
     bind_res (guard_err (Target_ChainID target = 0 \<or> Target_SuiteVersion target \<noteq> SuiteVersion) PlanTargetInvalid) (\<lambda>_.
     bind_res (map_err PlanCodec (canonicalAddress g ''SuiteDirectory'' (Target_Directory target))) (\<lambda>_.
     bind_res (map_err PlanCodec (canonicalAddress g ''BootstrapCoordinator'' (Target_Coordinator target))) (\<lambda>_.
     bind_res (guard_err (Target_Directory target = Target_Coordinator target) PlanTargetsEqual) (\<lambda>_.
     bind_res (map_err PlanPolicy (validateContractPolicy g (Plan_ContractPolicy plan))) (\<lambda>_.
     bind_res (map_err PlanEscrow (validateEscrowRelease (Plan_UsernameEscrowRelease plan)
       (PlanSnapshot_SourceContract (Plan_Snapshot plan)) (PlanSnapshot_SourceHeight (Plan_Snapshot plan)))) (\<lambda>_.
     bind_res (guard_err (Limits_BatchSize limits < 1 \<or> Limits_BatchSize limits > MaximumBatchItems \<or>
       Limits_MaxBatchItems limits \<noteq> MaximumBatchItems \<or> Limits_MaxPayloadBytes limits \<noteq> int MaximumPayloadBytes)
       PlanLimitsMismatch) (\<lambda>_.
     bind_res (map_err PlanCodec (parseHash ''username escrow evidence hash'' (Plan_UsernameEscrowEvidenceHash plan))) (\<lambda>_.
     guard_err (Plan_UsernameEscrowEvidenceHash plan \<noteq> ''0x'' @ Escrow_EvidenceSHA256 (Plan_UsernameEscrowRelease plan))
       PlanEvidenceMismatch)))))))))"

record totals_state =
  ts_total :: u64
  ts_batches :: int
  ts_kindCounts :: "(string, u64) gomap"

definition validate_module ::
  "geth \<Rightarrow> Plan \<Rightarrow> bytes \<Rightarrow> nat \<times> moduleSpec \<Rightarrow> totals_state \<Rightarrow> module_check + totals_state" where
  "validate_module g plan snapshotRoot = (\<lambda>(order, spec) ts.
    (let md = Plan_Modules plan ! order in
     bind_res (guard_err (Module_Order md \<noteq> int order \<or> Module_Name md \<noteq> spec_name spec \<or>
       Module_ID md \<noteq> to_lower (Hash_Hex g (spec_id spec))) (ModuleNotCanonical order (spec_name spec))) (\<lambda>_.
     bind_res (map_err ModulePanic (rollingSeed g (spec_id spec) snapshotRoot)) (\<lambda>root.
     bind_res (map_err (ModuleBatch (Module_Name md))
       (for_res (check_batch g (Limits_BatchSize (Plan_Limits plan)) (Module_Name md) (spec_id spec))
         (enumerate 0 (Module_Batches md))
         \<lparr>bs_root = root, bs_count = 0, bs_lastKind = 0, bs_seenKinds = [], bs_kindCounts = ts_kindCounts ts\<rparr>)) (\<lambda>st.
     bind_res (guard_err (Module_ExpectedCount md \<noteq> bs_count st \<or>
       Module_ExpectedBatches md \<noteq> word_of_nat (length (Module_Batches md)) \<or>
       Module_ExpectedRoot md \<noteq> Hash_Hex g (bs_root st)) (ModuleTotals (Module_Name md))) (\<lambda>_.
     Inr \<lparr>ts_total = ts_total ts + bs_count st, ts_batches = ts_batches ts + int (length (Module_Batches md)),
          ts_kindCounts = bs_kindCounts st\<rparr>))))))"

definition validate_modules :: "geth \<Rightarrow> Plan \<Rightarrow> bytes \<Rightarrow> module_check + totals_state" where
  "validate_modules g plan snapshotRoot =
     bind_res (guard_err (int (length (Plan_Modules plan)) \<noteq> RequiredModuleCount)
       (ModuleCount (length (Plan_Modules plan)))) (\<lambda>_.
     for_res (validate_module g plan snapshotRoot) (enumerate 0 (requiredModules g))
       \<lparr>ts_total = 0, ts_batches = 0, ts_kindCounts = []\<rparr>)"

definition expectedItems :: "PlanSummary \<Rightarrow> int" where
  "expectedItems s =
     Summary_RepositoryCount s + Summary_AliasCount s + Summary_RefCount s + Summary_CollaboratorCount s +
     Summary_GuardianConfigCount s + Summary_ModerationStatusCount s + Summary_ModerationReportCount s +
     Summary_ModerationTrailCount s + Summary_EconomicSplitCount s + Summary_EconomicTotalCount s +
     Summary_UsernameOwnerCount s + Summary_ReservedNameCount s + Summary_BadgeCount s + Summary_ReleaseArtifactCount s"

definition expectedKindCounts :: "PlanSummary \<Rightarrow> (string \<times> int) list" where
  "expectedKindCounts s =
     [(''repository-core/repositories'', Summary_RepositoryCount s),
      (''repository-core/aliases'', Summary_AliasCount s),
      (''repository-core/refs'', Summary_RefCount s),
      (''repository-core/collaborators'', Summary_CollaboratorCount s),
      (''recovery/guardian-configs'', Summary_GuardianConfigCount s),
      (''moderation/final-statuses'', Summary_ModerationStatusCount s),
      (''moderation/reports'', Summary_ModerationReportCount s),
      (''moderation/status-trails'', Summary_ModerationTrailCount s),
      (''economic/splits'', Summary_EconomicSplitCount s),
      (''economic/all-denom-totals'', Summary_EconomicTotalCount s),
      (''username/original-owners'', Summary_UsernameOwnerCount s),
      (''username/reserved-names'', Summary_ReservedNameCount s),
      (''badge/badges'', Summary_BadgeCount s),
      (''release/artifacts'', Summary_ReleaseArtifactCount s)]"

definition validate_summary :: "PlanSummary \<Rightarrow> totals_state \<Rightarrow> module_check + unit" where
  "validate_summary s ts =
     bind_res (guard_err (Summary_BatchCount s \<noteq> ts_batches ts \<or>
       Summary_TransactionCount s \<noteq> 2 * RequiredModuleCount + ts_batches ts + 2) SummaryBatches) (\<lambda>_.
     bind_res (guard_err (ts_total ts \<noteq> word_of_int (expectedItems s)) (SummaryItems (ts_total ts) (expectedItems s))) (\<lambda>_.
     for_check (\<lambda>(key, expected).
       guard_err (expected < 0 \<or> gm_get 0 (ts_kindCounts ts) key \<noteq> word_of_int expected)
         (SummaryKind key expected (gm_get 0 (ts_kindCounts ts) key))) (expectedKindCounts s)))"

datatype validate_error =
    InvalidHeader plan_check
  | InvalidModules module_check

definition ValidatePlan :: "geth \<Rightarrow> Plan \<Rightarrow> validate_error + unit" where
  "ValidatePlan g plan =
     bind_res (map_err InvalidHeader (validate_plan_snapshot g plan)) (\<lambda>snapshotRoot.
     bind_res (map_err InvalidHeader (validate_plan_target g plan)) (\<lambda>_.
     bind_res (map_err InvalidModules (validate_modules g plan snapshotRoot)) (\<lambda>ts.
     map_err InvalidModules (validate_summary (Plan_Summary plan) ts))))"


section \<open>Building a plan\<close>

datatype build_error =
    SnapshotEmpty
  | SnapshotDecode string
  | SnapshotInvalid snapshot_error
  | TargetChainZero
  | TargetAddress codec_error
  | TargetsMustDiffer
  | BatchSizeRange
  | BuildBatches string string batch_error
  | BuildPanic codec_error
  | GeneratedPlanInvalid validate_error

definition totalBatches :: "ModulePlan list \<Rightarrow> int" where
  "totalBatches modules = foldl (\<lambda>total md. total + int (length (Module_Batches md))) 0 modules"

fun append_groups ::
  "geth \<Rightarrow> int \<Rightarrow> moduleSpec \<Rightarrow> recordGroup list \<Rightarrow> ModulePlan \<Rightarrow> bytes \<Rightarrow> (build_error + ModulePlan \<times> bytes) option" where
  "append_groups g batchSize spec [] md root = Some (Inr (md, root))"
| "append_groups g batchSize spec (grp # grps) md root =
     Option.bind (appendRecordBatches g md grp batchSize (spec_id spec) root) (\<lambda>r.
     case r of
       Inl e \<Rightarrow> Some (Inl (BuildBatches (spec_name spec) (group_kind grp) e))
     | Inr (md', root') \<Rightarrow> append_groups g batchSize spec grps md' root')"

definition build_module ::
  "geth \<Rightarrow> int \<Rightarrow> bytes \<Rightarrow> (string, recordGroup list) gomap \<Rightarrow> nat \<times> moduleSpec \<Rightarrow> (build_error + ModulePlan) option" where
  "build_module g batchSize snapshotRoot moduleRecords = (\<lambda>(order, spec).
     case rollingSeed g (spec_id spec) snapshotRoot of
       Inl e \<Rightarrow> Some (Inl (BuildPanic e))
     | Inr root \<Rightarrow>
         Option.bind (append_groups g batchSize spec (gm_get [] moduleRecords (spec_name spec))
           \<lparr>Module_Order = int order, Module_Name = spec_name spec, Module_ID = to_lower (Hash_Hex g (spec_id spec)),
            Module_ExpectedCount = 0, Module_ExpectedBatches = 0, Module_ExpectedRoot = '''', Module_Batches = []\<rparr> root) (\<lambda>r.
         case r of
           Inl e \<Rightarrow> Some (Inl e)
         | Inr (md, root') \<Rightarrow>
             Some (Inr (md\<lparr>Module_ExpectedBatches := word_of_nat (length (Module_Batches md)),
                            Module_ExpectedRoot := Hash_Hex g root'\<rparr>))))"

fun build_modules ::
  "geth \<Rightarrow> int \<Rightarrow> bytes \<Rightarrow> (string, recordGroup list) gomap \<Rightarrow> (nat \<times> moduleSpec) list \<Rightarrow> (build_error + ModulePlan list) option" where
  "build_modules g batchSize snapshotRoot moduleRecords [] = Some (Inr [])"
| "build_modules g batchSize snapshotRoot moduleRecords (spec # specs) =
     Option.bind (build_module g batchSize snapshotRoot moduleRecords spec) (\<lambda>r.
     case r of
       Inl e \<Rightarrow> Some (Inl e)
     | Inr md \<Rightarrow>
         Option.bind (build_modules g batchSize snapshotRoot moduleRecords specs) (\<lambda>rs.
         Some (bind_res rs (\<lambda>mds. Inr (md # mds)))))"

definition check_options :: "geth \<Rightarrow> BuildOptions \<Rightarrow> build_error + (bytes \<times> bytes \<times> int)" where
  "check_options g options =
     bind_res (guard_err (Options_TargetChainID options = 0) TargetChainZero) (\<lambda>_.
     bind_res (map_err TargetAddress (canonicalAddress g ''SuiteDirectory'' (Options_Directory options))) (\<lambda>directory.
     bind_res (map_err TargetAddress (canonicalAddress g ''BootstrapCoordinator'' (Options_Coordinator options))) (\<lambda>coordinator.
     bind_res (guard_err (directory = coordinator) TargetsMustDiffer) (\<lambda>_.
     let batchSize = (if Options_BatchSize options = 0 then DefaultBatchSize else Options_BatchSize options) in
     bind_res (guard_err (batchSize < 1 \<or> batchSize > MaximumBatchItems) BatchSizeRange) (\<lambda>_.
     Inr (directory, coordinator, batchSize))))))"

definition plan_header ::
  "geth \<Rightarrow> bytes \<Rightarrow> Snapshot \<Rightarrow> BuildOptions \<Rightarrow> bytes \<times> bytes \<times> int \<Rightarrow> ModulePlan list \<Rightarrow> PlanSummary \<Rightarrow> Plan" where
  "plan_header g snapshotSHA s options = (\<lambda>(directory, coordinator, batchSize) mds summary.
     \<lparr>Plan_Schema = PlanSchema, Plan_Executable = True,
      Plan_Snapshot =
        \<lparr>PlanSnapshot_Schema = Snapshot_Schema s, PlanSnapshot_SHA256 = hex_encode snapshotSHA,
         PlanSnapshot_Root = Hash_Hex g (BytesToHash g snapshotSHA),
         PlanSnapshot_SourceChainID = Source_ChainID (Snapshot_Source s),
         PlanSnapshot_SourceContract = Source_Contract (Snapshot_Source s),
         PlanSnapshot_SourceHeight = Source_Height (Snapshot_Source s),
         PlanSnapshot_SourceBlockHash = Source_BlockHash (Snapshot_Source s),
         PlanSnapshot_InventorySHA256 = Source_InventorySHA256 (Snapshot_Source s),
         PlanSnapshot_TxSearchSHA256 = Source_TxSearchSHA256 (Snapshot_Source s),
         PlanSnapshot_BlockEvidenceSHA256 = Source_BlockEvidenceSHA256 (Snapshot_Source s),
         PlanSnapshot_EventCommitmentSHA256 = Source_EventCommitmentSHA256 (Snapshot_Source s)\<rparr>,
      Plan_Target =
        \<lparr>Target_ChainID = Options_TargetChainID options, Target_SuiteVersion = SuiteVersion,
         Target_Directory = to_lower (Address_Hex g directory), Target_Coordinator = to_lower (Address_Hex g coordinator)\<rparr>,
      Plan_ContractPolicy = Snapshot_ContractPolicy s,
      Plan_UsernameEscrowRelease = Username_EscrowRelease (Snapshot_Username s),
      Plan_UsernameEscrowEvidenceHash = ''0x'' @ Escrow_EvidenceSHA256 (Username_EscrowRelease (Snapshot_Username s)),
      Plan_Limits =
        \<lparr>Limits_BatchSize = batchSize, Limits_MaxBatchItems = MaximumBatchItems, Limits_MaxPayloadBytes = int MaximumPayloadBytes\<rparr>,
      Plan_Modules = mds, Plan_Summary = summary\<rparr>)"

definition finish_summary :: "PlanSummary \<Rightarrow> ModulePlan list \<Rightarrow> PlanSummary" where
  "finish_summary summary mds =
     summary\<lparr>Summary_BatchCount := totalBatches mds,
             Summary_TransactionCount := 2 * RequiredModuleCount + totalBatches mds + 2\<rparr>"

definition build_from_snapshot ::
  "geth \<Rightarrow> bytes \<Rightarrow> Snapshot \<Rightarrow> BuildOptions \<Rightarrow> bytes \<times> bytes \<times> int \<Rightarrow> (build_error + Plan) option" where
  "build_from_snapshot g snapshotSHA s options checked =
     Option.bind (snapshotModuleRecords g s) (\<lambda>(moduleRecords, summary).
     Option.bind (build_modules g (snd (snd checked)) (BytesToHash g snapshotSHA) moduleRecords
       (enumerate 0 (requiredModules g))) (\<lambda>r.
     case r of
       Inl e \<Rightarrow> Some (Inl e)
     | Inr mds \<Rightarrow>
         let plan = plan_header g snapshotSHA s options checked mds (finish_summary summary mds) in
         Some (bind_res (map_err GeneratedPlanInvalid (ValidatePlan g plan)) (\<lambda>_. Inr plan))))"

definition BuildPlan ::
  "geth \<Rightarrow> (bytes \<Rightarrow> string + Snapshot) \<Rightarrow> bytes \<Rightarrow> BuildOptions \<Rightarrow> (build_error + Plan) option" where
  "BuildPlan g decode raw options =
     (case bind_res (guard_err (length raw = 0) SnapshotEmpty) (\<lambda>_.
           bind_res (map_err SnapshotDecode (decode raw)) (\<lambda>snapshot.
           bind_res (map_err SnapshotInvalid (validateSnapshot g snapshot)) (\<lambda>_.
           bind_res (check_options g options) (\<lambda>checked. Inr (snapshot, checked))))) of
        Inl e \<Rightarrow> Some (Inl e)
      | Inr (snapshot, checked) \<Rightarrow> build_from_snapshot g (Sum256 raw) snapshot options checked)"

end
