(* ===== verification/Plan_Batches.thy ===== *)
theory Plan_Batches
  imports Plan_Build
begin

text \<open>
  The batch builder of \<^verbatim>\<open>plan.go\<close>: its loops return for every positive batch size, and what
  it appends to a module passes the batch checks of \<^verbatim>\<open>ValidatePlan\<close>, in order, with the
  commitment, the item count and the counts per kind that validation recomputes.
\<close>

section \<open>The inner loop\<close>

abbreviation slice :: "nat \<Rightarrow> nat \<Rightarrow> 'a list \<Rightarrow> 'a list" where
  "slice i j xs \<equiv> take (j - i) (drop i xs)"

definition fit_result :: "recordGroup \<Rightarrow> nat \<Rightarrow> nat \<Rightarrow> batch_error + nat \<times> bytes \<Rightarrow> bool" where
  "fit_result G start stop r \<longleftrightarrow>
     (case r of
        Inr (j, p) \<Rightarrow> start < j \<and> j \<le> stop \<and> group_encode G (slice start j (group_values G)) = Inr p \<and>
          length p \<le> MaximumPayloadBytes
      | Inl e \<Rightarrow> (\<exists>j c. start < j \<and> j \<le> stop \<and> e = BatchEncode c \<and>
            group_encode G (slice start j (group_values G)) = Inl c) \<or>
          (\<exists>p. e = RecordTooLarge (group_keys G ! start) (length p) \<and> length p > MaximumPayloadBytes \<and>
            group_encode G (slice start (Suc start) (group_values G)) = Inr p))"

lemma fit_result_mono: "fit_result G start j r \<Longrightarrow> j \<le> stop \<Longrightarrow> fit_result G start stop r"
  unfolding fit_result_def by (fastforce split: sum.splits prod.splits)

lemma fit_batch_returns:
  "start < stop \<Longrightarrow> \<exists>r. fit_batch G start stop = Some r \<and> fit_result G start stop r"
proof (induction "stop - start" arbitrary: stop rule: less_induct)
  case less
  let ?enc = "group_encode G (slice start stop (group_values G))"
  show ?case
  proof (cases "\<exists>p. ?enc = Inr p \<and> length p > MaximumPayloadBytes \<and> stop - start \<noteq> 1")
    case True
    then obtain p where p: "?enc = Inr p" "length p > MaximumPayloadBytes" "stop - start \<noteq> 1" by blast
    let ?half = "start + (stop - start) div 2"
    have "start < ?half" "?half - start < stop - start" "?half \<le> stop" using less.prems p(3) by auto
    moreover have "fit_batch G start stop = fit_batch G start ?half"
      using p by (subst fit_batch.simps) simp
    ultimately show ?thesis using less.hyps[of ?half] fit_result_mono by metis
  next
    case False
    show ?thesis
    proof (cases ?enc)
      case (Inl c)
      then show ?thesis using less.prems
        by (subst fit_batch.simps) (auto simp: fit_result_def)
    next
      case (Inr p)
      then show ?thesis
      proof (cases "length p \<le> MaximumPayloadBytes")
        case True
        then show ?thesis using Inr less.prems by (subst fit_batch.simps) (simp add: fit_result_def)
      next
        case big: False
        then have one: "stop - start = 1" using False Inr by auto
        then have "stop = Suc start" by simp
        with big Inr show ?thesis by (subst fit_batch.simps) (auto simp: fit_result_def)
      qed
    qed
  qed
qed

lemma slice_subset: "set (slice i j xs) \<subseteq> set xs"
  by (meson order_trans set_drop_subset set_take_subset)

text \<open>The only error for a group that fits: the record at position \<open>i\<close> is too large on its own.\<close>

definition oversize :: "recordGroup \<Rightarrow> nat \<Rightarrow> batch_error \<Rightarrow> bool" where
  "oversize G i e \<longleftrightarrow> i < length (group_values G) \<and>
     (\<exists>p. group_encode G [group_values G ! i] = Inr p \<and> length p > MaximumPayloadBytes \<and>
       e = RecordTooLarge (group_keys G ! i) (length p))"

lemma slice_one: "i < length xs \<Longrightarrow> slice i (Suc i) xs = [xs ! i]"
  by (simp add: take_Suc_conv_app_nth hd_drop_conv_nth take_Suc)

lemma fit_result_fits:
  assumes "group_fits g nm G" "fit_result G start stop r" "start < stop" "stop \<le> length (group_values G)"
  shows "(\<exists>e. r = Inl e \<and> oversize G start e) \<or>
    (\<exists>j p. r = Inr (j, p) \<and> start < j \<and> j \<le> stop \<and> length p \<le> MaximumPayloadBytes \<and> p \<noteq> [] \<and>
      decodePayloadCount g nm (group_kindCode G) p = Inr (word_of_nat (j - start)))"
proof -
  have enc: "\<exists>p. group_encode G (slice start j (group_values G)) = Inr p \<and> p \<noteq> [] \<and>
      decodePayloadCount g nm (group_kindCode G) p = Inr (word_of_nat (length (slice start j (group_values G))))" for j
    using assms(1) slice_subset[where i = start and j = j and xs = "group_values G"] by (simp only: group_fits_def)
  have noerr: "group_encode G (slice start j (group_values G)) \<noteq> Inl c" for j c
    using enc[of j] by auto
  have len: "length (slice start j (group_values G)) = j - start" if "j \<le> stop" for j
    using that assms(4) by simp
  show ?thesis
  proof (cases r)
    case (Inl e)
    have "start < length (group_values G)" using assms(3,4) by simp
    then have "oversize G start e"
      using assms(2) noerr Inl slice_one[of start "group_values G"] unfolding fit_result_def oversize_def by auto
    then show ?thesis using Inl by blast
  next
    case (Inr x)
    obtain j p where x: "x = (j, p)" by (cases x)
    have "start < j" "j \<le> stop" "group_encode G (slice start j (group_values G)) = Inr p" "length p \<le> MaximumPayloadBytes"
      using assms(2) Inr x by (auto simp: fit_result_def)
    then show ?thesis using enc[of j] len[of j] Inr x by auto
  qed
qed

section \<open>One batch\<close>

text \<open>The state of the batch checks after one more batch of a group.\<close>

definition next_state :: "string \<Rightarrow> recordGroup \<Rightarrow> nat \<Rightarrow> bytes \<Rightarrow> batch_state \<Rightarrow> batch_state" where
  "next_state nm G n root st =
    (let key = nm @ ''/'' @ group_kind G in
     \<lparr>bs_root = root, bs_count = bs_count st + word_of_nat n, bs_lastKind = group_kindCode G,
      bs_seenKinds = group_kindCode G # bs_seenKinds st,
      bs_kindCounts = gm_put key (gm_get 0 (bs_kindCounts st) key + word_of_nat n) (bs_kindCounts st)\<rparr>)"

definition kinds_upto :: "u8 \<Rightarrow> batch_state \<Rightarrow> bool" where
  "kinds_upto code st \<longleftrightarrow> bs_lastKind st \<le> code \<and> (\<forall>c \<in> set (bs_seenKinds st). c \<le> bs_lastKind st)"

lemma word_of_count:
  assumes "0 < n" "n \<le> m" "m \<le> 128"
  shows "word_of_nat n \<noteq> (0 :: u64)" "\<not> word_of_nat n > (word_of_int 128 :: u64)"
    "\<not> word_of_nat n > (word_of_nat m :: u64)" "sint (word_of_nat n :: u64) = int n"
proof -
  have u: "unat (word_of_nat k :: u64) = k" if "k \<le> 128" for k
    using that by (simp add: unat_of_nat take_bit_eq_mod)
  show "word_of_nat n \<noteq> (0 :: u64)" using u[of n] assms by (metis gr_implies_not0 le_trans unat_0)
  have "(word_of_int 128 :: u64) = word_of_nat 128" by simp
  then show "\<not> word_of_nat n > (word_of_int 128 :: u64)" "\<not> word_of_nat n > (word_of_nat m :: u64)"
    using u[of n] u[of m] u[of 128] assms by (auto simp: word_less_nat_alt not_less)
  show "sint (word_of_nat n :: u64) = int n"
    using assms by (simp add: signed_of_nat signed_take_bit_int_eq_self)
qed

lemma for_check_enumerate:
  "(\<And>i x. x \<in> set xs \<Longrightarrow> f (i, x) = Inr ()) \<Longrightarrow> for_check f (enumerate n xs) = Inr ()"
  by (auto simp: for_check_Inr_iff enumerate_eq_zip dest: set_zip_rightD)

lemma check_shape_made:
  assumes fits: "group_fits g nm G" and n: "start < j" "j \<le> length (group_values G)"
    and size: "int (j - start) \<le> batchSize" "batchSize \<le> 128"
  shows "check_batch_shape batchSize i (make_batch g G (word_of_nat i) start j p root) = Inr ()"
proof -
  let ?keys = "slice start j (group_keys G)"
  obtain m where m: "batchSize = int m" using size n(1) by (cases batchSize) auto
  have len: "length ?keys = j - start" using fits n by (simp add: group_fits_def)
  have nonblank: "trim_space k \<noteq> ''''" if "k \<in> set ?keys" for k
    using fits that slice_subset[of j start "group_keys G"] by (auto simp: group_fits_def)
  have "for_check (\<lambda>(itemIndex, key). guard_err (trim_space key = '''') (BatchKeyEmpty i itemIndex)) (enumerate 0 ?keys) = Inr ()"
    using nonblank by (intro for_check_enumerate) simp
  then show ?thesis
    using word_of_count[of "j - start" m] m n size len
    by (simp add: check_batch_shape_def make_batch_def MaximumBatchItems_def)
qed

lemma check_payload_made:
  assumes "p \<noteq> []" "length p \<le> MaximumPayloadBytes"
    and "decodePayloadCount g nm (group_kindCode G) p = Inr (word_of_nat (j - start))"
  shows "check_batch_payload g nm i (make_batch g G (word_of_nat i) start j p root) = Inr p"
  using assms by (simp add: check_batch_payload_def make_batch_def)

lemma check_batch_made:
  assumes fits: "group_fits g nm G" and n: "start < j" "j \<le> length (group_values G)"
    and size: "int (j - start) \<le> batchSize" "batchSize \<le> 128"
    and p: "p \<noteq> []" "length p \<le> MaximumPayloadBytes"
      "decodePayloadCount g nm (group_kindCode G) p = Inr (word_of_nat (j - start))"
    and kinds: "kinds_upto (group_kindCode G) st"
    and step: "rollingStep g (bs_root st) mid (word_of_nat i) (word_of_nat (j - start)) (Keccak256Hash g p) = Inr root"
  shows "check_batch g batchSize nm mid (i, make_batch g G (word_of_nat i) start j p root) st =
    Inr (next_state nm G (j - start) root st)"
proof -
  let ?b = "make_batch g G (word_of_nat i) start j p root"
  have sel: "Batch_KindCode ?b = group_kindCode G" "Batch_Kind ?b = group_kind G"
    "Batch_Sequence ?b = word_of_nat i" "Batch_Count ?b = word_of_nat (j - start)"
    "Batch_PayloadHash ?b = Hash_Hex g (Keccak256Hash g p)" "Batch_RollingRoot ?b = Hash_Hex g root"
    by (simp_all add: make_batch_def)
  have order: "(i \<noteq> 0 \<and> group_kindCode G < bs_lastKind st) = False"
    "(group_kindCode G \<in> set (bs_seenKinds st) \<and> group_kindCode G \<noteq> bs_lastKind st) = False"
    using kinds by (auto simp: kinds_upto_def)
  have kind: "kindName nm (group_kindCode G) = Some (group_kind G)"
    using fits by (simp add: group_fits_def)
  show ?thesis
    unfolding check_batch_def prod.case check_shape_made[OF fits n size] check_payload_made[OF p] sel kind order
    by (simp add: step next_state_def Let_def)
qed

lemma next_state_sel [simp]:
  "bs_root (next_state nm G n root st) = root"
  "bs_count (next_state nm G n root st) = bs_count st + word_of_nat n"
  "kinds_upto (group_kindCode G) (next_state nm G n root st) \<longleftrightarrow> (\<forall>c \<in> set (bs_seenKinds st). c \<le> group_kindCode G)"
  by (auto simp: next_state_def kinds_upto_def Let_def)

lemma kinds_upto_next: "kinds_upto (group_kindCode G) st \<Longrightarrow> kinds_upto (group_kindCode G) (next_state nm G n root st)"
  by (auto simp: kinds_upto_def next_state_def Let_def)

lemma next_state_kinds:
  "gm_get 0 (bs_kindCounts (next_state nm G n root st)) key =
     gm_get 0 (bs_kindCounts st) key + (if key = nm @ ''/'' @ group_kind G then word_of_nat n else 0)"
  by (simp add: next_state_def gm_get_put Let_def)

section \<open>The outer loop\<close>

text \<open>
  The builder's state (module so far, rolling root) matches the state \<open>st\<close> that the batch
  checks reach from \<open>st0\<close> on the batches built so far.
\<close>

definition checked ::
  "geth \<Rightarrow> int \<Rightarrow> string \<Rightarrow> bytes \<Rightarrow> batch_state \<Rightarrow> ModulePlan \<Rightarrow> bytes \<Rightarrow> batch_state \<Rightarrow> bool" where
  "checked g batchSize nm mid st0 md root st \<longleftrightarrow>
     for_res (check_batch g batchSize nm mid) (enumerate 0 (Module_Batches md)) st0 = Inr st \<and>
     bs_root st = root \<and> length root = 32 \<and> Module_ExpectedCount md = bs_count st"

lemma checked_add:
  assumes "checked g batchSize nm mid st0 md root st"
    and "check_batch g batchSize nm mid (length (Module_Batches md), b) st = Inr st'"
    and "bs_root st' = root'" "length root' = 32" "bs_count st' = bs_count st + Batch_Count b"
  shows "checked g batchSize nm mid st0 (add_batch md b) root' st'"
  using assms by (simp add: checked_def add_batch_def enumerate_append_eq for_res_snoc_Inr)

text \<open>What a module keeps while batches are appended to it, and what the appended batches hold.\<close>

definition extends_by :: "ModulePlan \<Rightarrow> ModulePlan \<Rightarrow> string list \<Rightarrow> bool" where
  "extends_by md md' keys \<longleftrightarrow>
     Module_Order md' = Module_Order md \<and> Module_Name md' = Module_Name md \<and> Module_ID md' = Module_ID md \<and>
     (\<exists>bs. Module_Batches md' = Module_Batches md @ bs \<and> concat (map Batch_ItemKeys bs) = keys)"

lemma extends_by_refl [simp]: "extends_by md md []"
  by (auto simp: extends_by_def intro: exI[of _ "[]"])

lemma extends_by_trans: "extends_by a b ks \<Longrightarrow> extends_by b c ls \<Longrightarrow> extends_by a c (ks @ ls)"
  unfolding extends_by_def by (metis append.assoc concat_append map_append)

lemma extends_by_add: "extends_by md (add_batch md b) (Batch_ItemKeys b)"
  by (auto simp: extends_by_def add_batch_def intro: exI[of _ "[b]"])

text \<open>The item counts of \<open>n\<close> more records of a group.\<close>

definition counts_more :: "string \<Rightarrow> recordGroup \<Rightarrow> nat \<Rightarrow> batch_state \<Rightarrow> batch_state \<Rightarrow> bool" where
  "counts_more nm G n st st' \<longleftrightarrow>
     bs_count st' = bs_count st + word_of_nat n \<and>
     (\<forall>key. gm_get 0 (bs_kindCounts st') key =
        gm_get 0 (bs_kindCounts st) key + (if key = nm @ ''/'' @ group_kind G then word_of_nat n else 0))"

lemma counts_more_0 [simp]: "counts_more nm G 0 st st"
  by (simp add: counts_more_def)

lemma counts_more_add: "counts_more nm G m a b \<Longrightarrow> counts_more nm G n b c \<Longrightarrow> counts_more nm G (m + n) a c"
  by (simp add: counts_more_def)

lemma counts_more_next: "counts_more nm G n st (next_state nm G n root st)"
  by (simp add: counts_more_def next_state_kinds)

definition loop_result ::
  "geth \<Rightarrow> int \<Rightarrow> string \<Rightarrow> bytes \<Rightarrow> batch_state \<Rightarrow> recordGroup \<Rightarrow> nat \<Rightarrow> ModulePlan \<Rightarrow> batch_state \<Rightarrow>
    batch_error + ModulePlan \<times> bytes \<Rightarrow> bool" where
  "loop_result g batchSize nm mid st0 G start md st r \<longleftrightarrow>
     (case r of
        Inl e \<Rightarrow> \<exists>i. oversize G i e
      | Inr (md', root') \<Rightarrow>
          extends_by md md' (drop start (group_keys G)) \<and>
          (\<exists>st'. checked g batchSize nm mid st0 md' root' st' \<and> kinds_upto (group_kindCode G) st' \<and>
             counts_more nm G (length (group_values G) - start) st st'))"

lemma loop_result_step:
  assumes "loop_result g batchSize nm mid st0 G j (add_batch md b) (next_state nm G (j - start) root st) r"
    and "start < j" "j \<le> length (group_values G)" "Batch_ItemKeys b = slice start j (group_keys G)"
  shows "loop_result g batchSize nm mid st0 G start md st r"
proof (cases r)
  case (Inl e)
  then show ?thesis using assms(1) by (simp add: loop_result_def)
next
  case (Inr x)
  obtain md' root' where x: "x = (md', root')" by (cases x)
  have ext: "extends_by (add_batch md b) md' (drop j (group_keys G))"
    using assms(1) Inr x by (simp add: loop_result_def)
  have keys: "Batch_ItemKeys b @ drop j (group_keys G) = drop start (group_keys G)"
    using assms(2,4) by (metis add_diff_inverse_nat append_take_drop_id drop_drop less_imp_not_less add.commute)
  have n: "(j - start) + (length (group_values G) - j) = length (group_values G) - start"
    using assms(2,3) by simp
  obtain st' where "checked g batchSize nm mid st0 md' root' st'" "kinds_upto (group_kindCode G) st'"
      "counts_more nm G (length (group_values G) - j) (next_state nm G (j - start) root st) st'"
    using assms(1) Inr x by (auto simp: loop_result_def)
  moreover from this(3) have "counts_more nm G (length (group_values G) - start) st st'"
    using counts_more_add[OF counts_more_next] n by fastforce
  ultimately show ?thesis
    using extends_by_trans[OF extends_by_add ext] Inr x unfolding keys loop_result_def by auto
qed

lemma batch_loop_returns:
  assumes g: "geth_ok g" and fits: "group_fits g nm G" and size: "1 \<le> batchSize" "batchSize \<le> 128"
    and mid: "length mid = 32"
  shows "start \<le> length (group_values G) \<Longrightarrow> checked g batchSize nm mid st0 md root st \<Longrightarrow>
    kinds_upto (group_kindCode G) st \<Longrightarrow>
    \<exists>r. batch_loop g G batchSize mid start md root = Some r \<and> loop_result g batchSize nm mid st0 G start md st r"
proof (induction "length (group_values G) - start" arbitrary: start md root st rule: less_induct)
  case less
  show ?case
  proof (cases "start < length (group_values G)")
    case False
    then have "length (group_keys G) \<le> start" "length (group_values G) - start = 0"
      using fits by (auto simp: group_fits_def)
    then show ?thesis using False less.prems
      by (subst batch_loop.simps) (auto simp: loop_result_def)
  next
    case True
    let ?stop = "min (nat (int start + batchSize)) (length (group_values G))"
    have stop: "start < ?stop" "?stop \<le> length (group_values G)" using True size(1) by auto
    then obtain r where r: "fit_batch G start ?stop = Some r" "fit_result G start ?stop r"
      using fit_batch_returns by blast
    from fit_result_fits[OF fits r(2) stop] consider
      (large) e where "r = Inl e" "oversize G start e"
    | (fit) j p where "r = Inr (j, p)" "start < j" "j \<le> ?stop" "length p \<le> MaximumPayloadBytes" "p \<noteq> []"
        "decodePayloadCount g nm (group_kindCode G) p = Inr (word_of_nat (j - start))" by blast
    then show ?thesis
    proof cases
      case large
      then show ?thesis using True r
        by (subst batch_loop.simps) (auto simp: loop_result_def)
    next
      case fit
      have root: "bs_root st = root" "length root = 32" using less.prems(2) by (auto simp: checked_def)
      let ?i = "length (Module_Batches md)"
      obtain root' where step: "rollingStep g root mid (word_of_nat ?i) (word_of_nat (j - start)) (Keccak256Hash g p) = Inr root'"
          and l: "length root' = 32"
        by (rule rollingStep_ok[OF g root(2) mid length_keccak[OF g]])
      let ?b = "make_batch g G (word_of_nat ?i) start j p root'" and ?st = "next_state nm G (j - start) root' st"
      have j: "j \<le> length (group_values G)" "int (j - start) \<le> batchSize" using fit(2,3) size by auto
      have "check_batch g batchSize nm mid (?i, ?b) st = Inr ?st"
        using check_batch_made[OF fits fit(2) j(1) j(2) size(2) fit(5,4,6) less.prems(3)] root(1) step by simp
      then have chk: "checked g batchSize nm mid st0 (add_batch md ?b) root' ?st"
        by (rule checked_add[OF less.prems(2)]) (simp_all add: l make_batch_def)
      obtain q where q: "batch_loop g G batchSize mid j (add_batch md ?b) root' = Some q"
          "loop_result g batchSize nm mid st0 G j (add_batch md ?b) ?st q"
        using less.hyps[OF diff_less_mono2[OF fit(2) True] j(1) chk kinds_upto_next[OF less.prems(3)]] by blast
      have "batch_loop g G batchSize mid start md root = Some q"
        using True r fit step q(1) by (subst batch_loop.simps) simp
      moreover have "loop_result g batchSize nm mid st0 G start md st q"
        by (rule loop_result_step[OF q(2) fit(2) j(1)]) (simp add: make_batch_def)
      ultimately show ?thesis by blast
    qed
  qed
qed

end
