(* ===== verification/Plan_Modules.thy ===== *)
theory Plan_Modules
  imports Plan_Batches
begin

text \<open>
  The module loop of \<^verbatim>\<open>BuildPlan\<close> against the module loop of \<^verbatim>\<open>ValidatePlan\<close>: every module that
  is built passes validation, its batches list the keys of its groups in order, and the totals
  that validation accumulates are the numbers of records of the groups.
\<close>

section \<open>The groups of one module\<close>

definition groups_ok :: "geth \<Rightarrow> string \<Rightarrow> recordGroup list \<Rightarrow> bool" where
  "groups_ok g nm Gs \<longleftrightarrow> (\<forall>G \<in> set Gs. group_fits g nm G) \<and> sorted (map group_kindCode Gs)"

lemma groups_ok_Cons:
  "groups_ok g nm (G # Gs) \<longleftrightarrow> group_fits g nm G \<and> (\<forall>H \<in> set Gs. group_kindCode G \<le> group_kindCode H) \<and> groups_ok g nm Gs"
  by (auto simp: groups_ok_def)

text \<open>How many records of each kind the groups hold.\<close>

definition census :: "recordGroup list \<Rightarrow> (string \<times> nat) list" where
  "census Gs = map (\<lambda>G. (group_kind G, length (group_values G))) Gs"

definition kind_sum :: "string \<Rightarrow> (string \<times> nat) list \<Rightarrow> string \<Rightarrow> u64" where
  "kind_sum nm cs key = sum_list (map (\<lambda>(k, n). if key = nm @ ''/'' @ k then word_of_nat n else 0) cs)"

definition item_sum :: "(string \<times> nat) list \<Rightarrow> u64" where
  "item_sum cs = sum_list (map (\<lambda>(k, n). word_of_nat n) cs)"

lemma census_simps [simp]:
  "census [] = []" "census (G # Gs) = (group_kind G, length (group_values G)) # census Gs"
  by (simp_all add: census_def)

lemma kind_sum_simps [simp]:
  "kind_sum nm [] key = 0"
  "kind_sum nm ((k, n) # cs) key = (if key = nm @ ''/'' @ k then word_of_nat n else 0) + kind_sum nm cs key"
  by (simp_all add: kind_sum_def)

lemma item_sum_simps [simp]: "item_sum [] = 0" "item_sum ((k, n) # cs) = word_of_nat n + item_sum cs"
  by (simp_all add: item_sum_def)

definition counts_all :: "string \<Rightarrow> (string \<times> nat) list \<Rightarrow> batch_state \<Rightarrow> batch_state \<Rightarrow> bool" where
  "counts_all nm cs st st' \<longleftrightarrow> bs_count st' = bs_count st + item_sum cs \<and>
     (\<forall>key. gm_get 0 (bs_kindCounts st') key = gm_get 0 (bs_kindCounts st) key + kind_sum nm cs key)"

lemma counts_all_Nil [simp]: "counts_all nm [] st st"
  by (simp add: counts_all_def)

lemma counts_all_Cons:
  "counts_more nm G (length (group_values G)) a b \<Longrightarrow> counts_all nm (census Gs) b c \<Longrightarrow> counts_all nm (census (G # Gs)) a c"
  by (simp add: counts_all_def counts_more_def)

definition too_large :: "string \<Rightarrow> recordGroup list \<Rightarrow> build_error \<Rightarrow> bool" where
  "too_large nm Gs e \<longleftrightarrow> (\<exists>G i b. G \<in> set Gs \<and> oversize G i b \<and> e = BuildBatches nm (group_kind G) b)"

definition groups_result ::
  "geth \<Rightarrow> int \<Rightarrow> string \<Rightarrow> bytes \<Rightarrow> batch_state \<Rightarrow> recordGroup list \<Rightarrow> ModulePlan \<Rightarrow> batch_state \<Rightarrow>
    build_error + ModulePlan \<times> bytes \<Rightarrow> bool" where
  "groups_result g batchSize nm mid st0 Gs md st r \<longleftrightarrow>
     (case r of
        Inl e \<Rightarrow> too_large nm Gs e
      | Inr (md', root') \<Rightarrow> extends_by md md' (concat (map group_keys Gs)) \<and>
          (\<exists>st'. checked g batchSize nm mid st0 md' root' st' \<and> counts_all nm (census Gs) st st'))"

lemma kinds_upto_mono: "kinds_upto c st \<Longrightarrow> c \<le> d \<Longrightarrow> kinds_upto d st"
  by (auto simp: kinds_upto_def)

lemma append_groups_returns:
  assumes g: "geth_ok g" and size: "1 \<le> batchSize" "batchSize \<le> 128" and mid: "length (spec_id spec) = 32"
    and nm: "spec_name spec = nm"
  shows "groups_ok g nm Gs \<Longrightarrow> checked g batchSize nm (spec_id spec) st0 md root st \<Longrightarrow>
    \<forall>G \<in> set Gs. kinds_upto (group_kindCode G) st \<Longrightarrow>
    \<exists>r. append_groups g batchSize spec Gs md root = Some r \<and> groups_result g batchSize nm (spec_id spec) st0 Gs md st r"
proof (induction Gs arbitrary: md root st)
  case Nil
  then show ?case by (auto simp: groups_result_def)
next
  case (Cons G Gs)
  have fits: "group_fits g nm G" and rest: "groups_ok g nm Gs" and codes: "\<forall>H \<in> set Gs. group_kindCode G \<le> group_kindCode H"
    using Cons.prems(1) by (simp_all add: groups_ok_Cons)
  obtain r where r: "batch_loop g G batchSize (spec_id spec) 0 md root = Some r"
      "loop_result g batchSize nm (spec_id spec) st0 G 0 md st r"
    using batch_loop_returns[OF g fits size mid _ Cons.prems(2)] Cons.prems(3) by auto
  have app: "appendRecordBatches g md G batchSize (spec_id spec) root = Some r"
    using fits r(1) by (simp add: appendRecordBatches_def group_fits_def)
  show ?case
  proof (cases r)
    case (Inl e)
    then have "too_large nm (G # Gs) (BuildBatches nm (group_kind G) e)"
      using r(2) by (auto simp: loop_result_def too_large_def)
    then show ?thesis using app Inl by (simp add: groups_result_def nm)
  next
    case (Inr x)
    obtain md' root' where x: "x = (md', root')" by (cases x)
    obtain st' where st': "checked g batchSize nm (spec_id spec) st0 md' root' st'" "kinds_upto (group_kindCode G) st'"
        "counts_more nm G (length (group_values G)) st st'" and ext: "extends_by md md' (group_keys G)"
      using r(2) Inr x by (auto simp: loop_result_def)
    obtain q where q: "append_groups g batchSize spec Gs md' root' = Some q"
        "groups_result g batchSize nm (spec_id spec) st0 Gs md' st' q"
      using Cons.IH[OF rest st'(1)] kinds_upto_mono[OF st'(2)] codes by blast
    have "groups_result g batchSize nm (spec_id spec) st0 (G # Gs) md st q"
    proof (cases q)
      case (Inl e)
      then show ?thesis using q(2) by (auto simp: groups_result_def too_large_def)
    next
      case (Inr y)
      then show ?thesis
        using q(2) extends_by_trans[OF ext] counts_all_Cons[OF st'(3)] by (fastforce simp: groups_result_def simp del: census_simps)
    qed
    then show ?thesis using app Inr x q(1) by simp
  qed
qed

section \<open>One module\<close>

text \<open>
  What the module \<open>md\<close>, built for position \<open>i\<close>, guarantees: its identity, its keys, and that the
  module step of validation accepts it in any plan that holds it, whatever was accumulated before.
\<close>

definition module_valid ::
  "geth \<Rightarrow> int \<Rightarrow> bytes \<Rightarrow> nat \<times> moduleSpec \<Rightarrow> recordGroup list \<Rightarrow> ModulePlan \<Rightarrow> bool" where
  "module_valid g batchSize snapshotRoot ispec Gs md \<longleftrightarrow>
     Module_Name md = spec_name (snd ispec) \<and>
     concat (map Batch_ItemKeys (Module_Batches md)) = concat (map group_keys Gs) \<and>
     (\<forall>plan ts. Plan_Modules plan ! fst ispec = md \<longrightarrow> Limits_BatchSize (Plan_Limits plan) = batchSize \<longrightarrow>
        (\<exists>kc. validate_module g plan snapshotRoot ispec ts =
            Inr \<lparr>ts_total = ts_total ts + item_sum (census Gs),
                 ts_batches = ts_batches ts + int (length (Module_Batches md)), ts_kindCounts = kc\<rparr> \<and>
          (\<forall>key. gm_get 0 kc key = gm_get 0 (ts_kindCounts ts) key + kind_sum (spec_name (snd ispec)) (census Gs) key)))"

abbreviation start_state :: "bytes \<Rightarrow> (string, u64) gomap \<Rightarrow> batch_state" where
  "start_state root kc \<equiv> \<lparr>bs_root = root, bs_count = 0, bs_lastKind = 0, bs_seenKinds = [], bs_kindCounts = kc\<rparr>"

abbreviation empty_module :: "geth \<Rightarrow> nat \<Rightarrow> moduleSpec \<Rightarrow> ModulePlan" where
  "empty_module g i spec \<equiv>
     \<lparr>Module_Order = int i, Module_Name = spec_name spec, Module_ID = to_lower (Hash_Hex g (spec_id spec)),
      Module_ExpectedCount = 0, Module_ExpectedBatches = 0, Module_ExpectedRoot = '''', Module_Batches = []\<rparr>"

lemma module_validI:
  assumes root: "rollingSeed g (spec_id spec) snapshotRoot = Inr root"
    and ext: "extends_by (empty_module g i spec) md (concat (map group_keys Gs))"
    and st: "\<And>kc. \<exists>st'. checked g batchSize (spec_name spec) (spec_id spec) (start_state root kc) md root' st' \<and>
      counts_all (spec_name spec) (census Gs) (start_state root kc) st'"
  shows "module_valid g batchSize snapshotRoot (i, spec) Gs
    (md\<lparr>Module_ExpectedBatches := word_of_nat (length (Module_Batches md)), Module_ExpectedRoot := Hash_Hex g root'\<rparr>)"
    (is "module_valid _ _ _ _ _ ?md")
  unfolding module_valid_def
proof (intro conjI allI impI)
  show "Module_Name ?md = spec_name (snd (i, spec))"
    "concat (map Batch_ItemKeys (Module_Batches ?md)) = concat (map group_keys Gs)"
    using ext by (simp_all add: extends_by_def)
  fix plan :: Plan and ts :: totals_state
  assume plan: "Plan_Modules plan ! fst (i, spec) = ?md" "Limits_BatchSize (Plan_Limits plan) = batchSize"
  obtain st' where st': "checked g batchSize (spec_name spec) (spec_id spec) (start_state root (ts_kindCounts ts)) md root' st'"
      "counts_all (spec_name spec) (census Gs) (start_state root (ts_kindCounts ts)) st'"
    using st by blast
  have "validate_module g plan snapshotRoot (i, spec) ts =
      Inr \<lparr>ts_total = ts_total ts + item_sum (census Gs),
           ts_batches = ts_batches ts + int (length (Module_Batches ?md)), ts_kindCounts = bs_kindCounts st'\<rparr>"
    using plan st' root ext by (simp add: validate_module_def checked_def counts_all_def extends_by_def)
  then show "\<exists>kc. validate_module g plan snapshotRoot (i, spec) ts =
      Inr \<lparr>ts_total = ts_total ts + item_sum (census Gs),
           ts_batches = ts_batches ts + int (length (Module_Batches ?md)), ts_kindCounts = kc\<rparr> \<and>
      (\<forall>key. gm_get 0 kc key = gm_get 0 (ts_kindCounts ts) key + kind_sum (spec_name (snd (i, spec))) (census Gs) key)"
    using st'(2) by (auto simp: counts_all_def)
qed

lemma build_module_returns:
  assumes g: "geth_ok g" and size: "1 \<le> batchSize" "batchSize \<le> 128"
    and ids: "length (spec_id spec) = 32" "length snapshotRoot = 32"
    and Gs: "gm_get [] m (spec_name spec) = Gs" "groups_ok g (spec_name spec) Gs"
  shows "\<exists>r. build_module g batchSize snapshotRoot m (i, spec) = Some r \<and>
    (case r of Inl e \<Rightarrow> too_large (spec_name spec) Gs e | Inr md \<Rightarrow> module_valid g batchSize snapshotRoot (i, spec) Gs md)"
proof -
  let ?nm = "spec_name spec" and ?mid = "spec_id spec" and ?md = "empty_module g i spec"
  obtain root where root: "rollingSeed g ?mid snapshotRoot = Inr root" "length root = 32"
    by (rule rollingSeed_ok[OF g ids])
  have run: "\<exists>r. append_groups g batchSize spec Gs ?md root = Some r \<and>
      groups_result g batchSize ?nm ?mid (start_state root kc) Gs ?md (start_state root kc) r" for kc
    by (rule append_groups_returns[OF g size ids(1) refl Gs(2)]) (simp_all add: checked_def root(2) kinds_upto_def)
  then obtain r where r: "append_groups g batchSize spec Gs ?md root = Some r" by blast
  have res: "groups_result g batchSize ?nm ?mid (start_state root kc) Gs ?md (start_state root kc) r" for kc
    using run[of kc] r by simp
  show ?thesis
  proof (cases r)
    case (Inl e)
    then show ?thesis using res r by (simp add: build_module_def root(1) Gs(1) groups_result_def)
  next
    case (Inr x)
    obtain md root' where x: "x = (md, root')" by (cases x)
    have ext: "extends_by ?md md (concat (map group_keys Gs))"
      using res Inr x by (simp add: groups_result_def)
    have st: "\<exists>st'. checked g batchSize ?nm ?mid (start_state root kc) md root' st' \<and>
        counts_all ?nm (census Gs) (start_state root kc) st'" for kc
      using res[of kc] Inr x by (simp add: groups_result_def)
    show ?thesis
      using r Inr x module_validI[OF root(1) ext st] by (simp add: build_module_def root(1) Gs(1))
  qed
qed

section \<open>All modules\<close>

text \<open>The totals over a list of modules.\<close>

fun total_items :: "(string, recordGroup list) gomap \<Rightarrow> moduleSpec list \<Rightarrow> u64" where
  "total_items m [] = 0"
| "total_items m (spec # specs) = item_sum (census (gm_get [] m (spec_name spec))) + total_items m specs"

fun total_kind :: "(string, recordGroup list) gomap \<Rightarrow> moduleSpec list \<Rightarrow> string \<Rightarrow> u64" where
  "total_kind m [] key = 0"
| "total_kind m (spec # specs) key =
     kind_sum (spec_name spec) (census (gm_get [] m (spec_name spec))) key + total_kind m specs key"

lemma totalBatches_foldl:
  "foldl (\<lambda>total md. total + int (length (Module_Batches md))) k mds = k + sum_list (map (\<lambda>md. int (length (Module_Batches md))) mds)"
  by (induction mds arbitrary: k) simp_all

lemma totalBatches_simps [simp]:
  "totalBatches [] = 0" "totalBatches (md # mds) = int (length (Module_Batches md)) + totalBatches mds"
  by (simp_all add: totalBatches_def totalBatches_foldl)

definition modules_valid ::
  "geth \<Rightarrow> int \<Rightarrow> bytes \<Rightarrow> (string, recordGroup list) gomap \<Rightarrow> nat \<Rightarrow> moduleSpec list \<Rightarrow> ModulePlan list \<Rightarrow> bool" where
  "modules_valid g batchSize snapshotRoot m n specs mds \<longleftrightarrow>
     length mds = length specs \<and>
     (\<forall>i < length specs. module_valid g batchSize snapshotRoot (n + i, specs ! i) (gm_get [] m (spec_name (specs ! i))) (mds ! i))"

lemma modules_valid_Cons:
  "modules_valid g batchSize snapshotRoot m n (spec # specs) (md # mds) \<longleftrightarrow>
   module_valid g batchSize snapshotRoot (n, spec) (gm_get [] m (spec_name spec)) md \<and>
   modules_valid g batchSize snapshotRoot m (Suc n) specs mds"
  by (auto simp: modules_valid_def All_less_Suc2)

lemma build_modules_returns:
  assumes g: "geth_ok g" and size: "1 \<le> batchSize" "batchSize \<le> 128" and root: "length snapshotRoot = 32"
  shows "(\<forall>spec \<in> set specs. length (spec_id spec) = 32 \<and> groups_ok g (spec_name spec) (gm_get [] m (spec_name spec))) \<Longrightarrow>
    \<exists>r. build_modules g batchSize snapshotRoot m (enumerate n specs) = Some r \<and>
      (case r of
         Inl e \<Rightarrow> \<exists>spec \<in> set specs. too_large (spec_name spec) (gm_get [] m (spec_name spec)) e
       | Inr mds \<Rightarrow> modules_valid g batchSize snapshotRoot m n specs mds)"
proof (induction specs arbitrary: n)
  case Nil
  then show ?case by (simp add: modules_valid_def)
next
  case (Cons spec specs)
  obtain r where r: "build_module g batchSize snapshotRoot m (n, spec) = Some r"
      "case r of Inl e \<Rightarrow> too_large (spec_name spec) (gm_get [] m (spec_name spec)) e
       | Inr md \<Rightarrow> module_valid g batchSize snapshotRoot (n, spec) (gm_get [] m (spec_name spec)) md"
    using build_module_returns[OF g size _ root refl, of spec m n] Cons.prems by auto
  obtain q where q: "build_modules g batchSize snapshotRoot m (enumerate (Suc n) specs) = Some q"
      "case q of Inl e \<Rightarrow> \<exists>spec \<in> set specs. too_large (spec_name spec) (gm_get [] m (spec_name spec)) e
       | Inr mds \<Rightarrow> modules_valid g batchSize snapshotRoot m (Suc n) specs mds"
    using Cons.IH[of "Suc n"] Cons.prems by auto
  show ?case
    using r q by (cases r; cases q) (auto simp: modules_valid_Cons)
qed

lemma validate_loop:
  assumes "modules_valid g batchSize snapshotRoot m n specs mds"
    and "\<forall>i < length mds. Plan_Modules plan ! (n + i) = mds ! i" "Limits_BatchSize (Plan_Limits plan) = batchSize"
  shows "\<exists>kc. for_res (validate_module g plan snapshotRoot) (enumerate n specs) ts =
      Inr \<lparr>ts_total = ts_total ts + total_items m specs, ts_batches = ts_batches ts + totalBatches mds, ts_kindCounts = kc\<rparr> \<and>
    (\<forall>key. gm_get 0 kc key = gm_get 0 (ts_kindCounts ts) key + total_kind m specs key)"
  using assms(1,2)
proof (induction specs arbitrary: n mds ts)
  case Nil
  then have "mds = []" by (simp add: modules_valid_def)
  then show ?case by (auto intro!: exI[of _ "ts_kindCounts ts"])
next
  case (Cons spec specs)
  obtain md mds' where mds: "mds = md # mds'" using Cons.prems(1) by (cases mds) (auto simp: modules_valid_def)
  let ?Gs = "gm_get [] m (spec_name spec)"
  have head: "module_valid g batchSize snapshotRoot (n, spec) ?Gs md"
    and tail: "modules_valid g batchSize snapshotRoot m (Suc n) specs mds'"
    using Cons.prems(1) mds by (auto simp: modules_valid_Cons)
  have "Plan_Modules plan ! n = md" using Cons.prems(2) mds by force
  then obtain kc where kc: "validate_module g plan snapshotRoot (n, spec) ts =
      Inr \<lparr>ts_total = ts_total ts + item_sum (census ?Gs),
           ts_batches = ts_batches ts + int (length (Module_Batches md)), ts_kindCounts = kc\<rparr>"
      "\<forall>key. gm_get 0 kc key = gm_get 0 (ts_kindCounts ts) key + kind_sum (spec_name spec) (census ?Gs) key"
    using head assms(3) unfolding module_valid_def fst_conv snd_conv by blast
  let ?ts = "\<lparr>ts_total = ts_total ts + item_sum (census ?Gs),
           ts_batches = ts_batches ts + int (length (Module_Batches md)), ts_kindCounts = kc\<rparr>"
  have "\<forall>i < length mds'. Plan_Modules plan ! (Suc n + i) = mds' ! i"
    using Cons.prems(2) mds by (metis Suc_less_eq add_Suc_shift length_Cons nth_Cons_Suc)
  from Cons.IH[OF tail this, of ?ts] kc show ?case
    unfolding mds by (auto simp: add.assoc)
qed

end
