(* ===== verification/Plan_Correct.thy ===== *)
theory Plan_Correct
  imports Plan_Modules
begin

text \<open>
  \<^verbatim>\<open>BuildPlan\<close> as a whole: it returns on every input, what it returns passes \<^verbatim>\<open>ValidatePlan\<close>, and
  the only failure left after an accepted snapshot and accepted options is a record that does
  not fit into a payload on its own.
\<close>

section \<open>The groups of an accepted snapshot\<close>

lemma group_kinds [simp]:
  "group_kind (alias_group g as) = ''aliases''" "group_kindCode (alias_group g as) = 1"
  "group_kind (ref_group g rf) = ''refs''" "group_kindCode (ref_group g rf) = 2"
  "group_kind (collaborator_group g cs) = ''collaborators''" "group_kindCode (collaborator_group g cs) = 3"
  "group_kind (guardian_group g gs) = ''guardian-configs''" "group_kindCode (guardian_group g gs) = 0"
  "group_kind (status_group g ss) = ''final-statuses''" "group_kindCode (status_group g ss) = 0"
  "group_kind (report_group g rp) = ''reports''" "group_kindCode (report_group g rp) = 1"
  "group_kind (status_trail_group g tr) = ''status-trails''" "group_kindCode (status_trail_group g tr) = 2"
  "group_kind (split_group g sp) = ''splits''" "group_kindCode (split_group g sp) = 0"
  "group_kind (total_group g tt) = ''all-denom-totals''" "group_kindCode (total_group g tt) = 1"
  "group_kind (owner_group g ow) = ''original-owners''" "group_kindCode (owner_group g ow) = 0"
  "group_kind (reserved_group g rn) = ''reserved-names''" "group_kindCode (reserved_group g rn) = 1"
  "group_kind (badge_group g bs) = ''badges''" "group_kindCode (badge_group g bs) = 0"
  "group_kind (release_group g rl) = ''artifacts''" "group_kindCode (release_group g rl) = 0"
  by (simp_all add: alias_group_def ref_group_def collaborator_group_def guardian_group_def status_group_def
      report_group_def status_trail_group_def split_group_def total_group_def owner_group_def reserved_group_def
      badge_group_def release_group_def Let_def)

lemma group_lengths [simp]:
  "length (group_values (alias_group g as)) = length as" "length (group_values (ref_group g rf)) = length rf"
  "length (group_values (collaborator_group g cs)) = length cs" "length (group_values (guardian_group g gs)) = length gs"
  "length (group_values (status_group g ss)) = length ss" "length (group_values (report_group g rp)) = length rp"
  "length (group_values (status_trail_group g tr)) = length tr" "length (group_values (split_group g sp)) = length sp"
  "length (group_values (total_group g tt)) = length tt" "length (group_values (owner_group g ow)) = length ow"
  "length (group_values (reserved_group g rn)) = length rn" "length (group_values (badge_group g bs)) = length bs"
  "length (group_values (release_group g rl)) = length rl"
  by (simp_all add: alias_group_def ref_group_def collaborator_group_def guardian_group_def status_group_def
      report_group_def status_trail_group_def split_group_def total_group_def owner_group_def reserved_group_def
      badge_group_def release_group_def Let_def)

definition records_with :: "geth \<Rightarrow> Snapshot \<Rightarrow> recordGroup \<Rightarrow> (string, recordGroup list) gomap" where
  "records_with g s G =
     [(''repository-core'', [G, alias_group g (Snapshot_Aliases s), ref_group g (Snapshot_Refs s),
         collaborator_group g (Snapshot_Collaborators s)]),
      (''recovery'', [guardian_group g (Snapshot_GuardianConfigs s)]),
      (''moderation'', [status_group g (Moderation_FinalStatuses (Snapshot_Moderation s)),
         report_group g (Moderation_Reports (Snapshot_Moderation s)),
         status_trail_group g (Moderation_StatusTrails (Snapshot_Moderation s))]),
      (''economic'', [split_group g (Economic_Splits (Snapshot_Economic s)), total_group g (Economic_Totals (Snapshot_Economic s))]),
      (''username'', [owner_group g (Username_OriginalOwners (Snapshot_Username s)),
         reserved_group g (Username_ReservedNames (Snapshot_Username s))]),
      (''badge'', [badge_group g (Snapshot_Badges s)]),
      (''release'', [release_group g (Snapshot_Releases s)])]"

lemma snapshot_records:
  assumes g: "geth_ok g" and s: "snapshot_ok s"
  obtains G where "snapshotModuleRecords g s = Some (records_with g s G, snapshot_summary s)"
    "group_kind G = ''repositories''" "length (group_values G) = length (Snapshot_Repositories s)"
    "\<forall>(nm, Gs) \<in> set (records_with g s G). groups_ok g nm Gs"
proof -
  have ok: "repositories_ok (Snapshot_Repositories s)" "forks_ok (Snapshot_Repositories s)"
    using s by (simp_all add: snapshot_ok_def)
  obtain G where G: "repository_group g (Snapshot_Repositories s) = Some G" "group_fits g ''repository-core'' G"
      "group_kindCode G = 0" "length (group_values G) = length (Snapshot_Repositories s)"
    by (rule repository_group_fits[OF g ok])
  have "kindName ''repository-core'' (group_kindCode G) = Some (group_kind G)"
    using G(2) by (simp only: group_fits_def)
  then have kind: "group_kind G = ''repositories''" by (simp add: G(3) kind_name_table)
  have "snapshotModuleRecords g s = Some (records_with g s G, snapshot_summary s)"
    using G(1) by (simp add: snapshotModuleRecords_def records_with_def)
  then show thesis
    by (rule that[OF _ kind G(4)])
      (use s in \<open>simp add: records_with_def snapshot_ok_def economic_ok_def groups_ok_def G(2,3) alias_group_fits[OF g, where rs = "Snapshot_Repositories s"] ref_group_fits[OF g ok(1)]
         collaborator_group_fits[OF g ok(1)] guardian_group_fits[OF g ok(1)] status_group_fits[OF g ok(1)] report_group_fits[OF g, where rs = "Snapshot_Repositories s"]
         status_trail_group_fits[OF g ok(1), where sts = "Moderation_FinalStatuses (Snapshot_Moderation s)" and reps = "Moderation_Reports (Snapshot_Moderation s)"] split_group_fits[OF g ok(1)] total_group_fits[OF g ok(1)]
         owner_group_fits[OF g] reserved_group_fits[OF g] badge_group_fits[OF g, where rs = "Snapshot_Repositories s" and ix = "Snapshot_BadgeIndexes s"] release_group_fits[OF g, where vs = "Snapshot_ReleaseVersions s"]\<close>)
qed

section \<open>The header of a built plan\<close>

lemma check_options_ok:
  assumes "geth_ok g" "check_options g options = Inr (d, c, n)"
  shows "Options_TargetChainID options \<noteq> 0" "length d = 20" "length c = 20" "d \<noteq> c"
    "Options_Directory options = hexBytes d" "d \<noteq> replicate 20 0"
    "Options_Coordinator options = hexBytes c" "c \<noteq> replicate 20 0"
    "1 \<le> n" "n \<le> 128"
    "n = (if Options_BatchSize options = 0 then DefaultBatchSize else Options_BatchSize options)"
  using assms by (auto simp: check_options_def res_simps canonicalAddress_Inr_iff MaximumBatchItems_def Let_def)

lemma digest_hash_text: "digest_text t \<Longrightarrow> is_ok (parseHash l (''0x'' @ t))"
  by (auto simp: digest_text_def is_ok_iff parseHash_Inr_iff hexBytes_def)

lemma header_snapshot:
  assumes g: "geth_ok g" and s: "snapshot_ok s" and sha: "length sha = 32"
  shows "validate_plan_snapshot g (plan_header g sha s options chk mds sm) =
    (if sha = zeroHash then Inl (PlanCodec (DigestZero ''snapshot SHA-256'')) else Inr sha)"
proof -
  let ?src = "Snapshot_Source s"
  have src: "Snapshot_Schema s = SnapshotSchema" "source_ok ?src" using s by (simp_all add: snapshot_ok_def)
  have block: "check_block_hash (Source_ChainID ?src) (Source_Contract ?src) (Source_Height ?src) (Source_BlockHash ?src) = Inr ()"
    "check_evidence_digests (Source_InventorySHA256 ?src) (Source_TxSearchSHA256 ?src) (Source_BlockEvidenceSHA256 ?src)
       (Source_EventCommitmentSHA256 ?src) = Inr ()"
    using src(2) by (auto simp: source_ok_def block_hash_exact evidence_exact)
  have root: "parseHash l (Hash_Hex g sha) = Inr sha" for l
    using sha by (simp add: parseHash_Inr_iff hash_hex_text[OF g] hexBytes_def)
  have digest: "rawSHA256 l (hex_encode sha) = (if sha = zeroHash then Inl (DigestZero l) else Inr sha)" for l
  proof (cases "sha = zeroHash")
    case True
    have "hex_decode (hex_encode sha) = Some sha" "to_lower (hex_encode sha) = hex_encode sha" by simp_all
    then show ?thesis using sha True by (simp add: rawSHA256_def zeroHash_def)
  next
    case False
    then show ?thesis using sha by (simp add: rawSHA256_Inr_iff)
  qed
  show ?thesis
    using src(2) by (cases chk) (simp add: validate_plan_snapshot_def plan_header_def src(1) source_ok_def
        bytes_to_hash_id[OF g sha] root digest block Let_def)
qed

lemma header_target:
  assumes g: "geth_ok g" and s: "snapshot_ok s" and chk: "check_options g options = Inr chk"
  shows "validate_plan_target g (plan_header g sha s options chk mds sm) = Inr ()"
proof -
  obtain d c n where chk': "chk = (d, c, n)" by (cases chk)
  note o = check_options_ok[OF g chk[unfolded chk']]
  have addr: "to_lower (Address_Hex g d) = hexBytes d" "to_lower (Address_Hex g c) = hexBytes c"
    using o by (simp_all add: lower_address_text[OF g] hexBytes_def)
  have can: "canonicalAddress g l (hexBytes d) = Inr d" "canonicalAddress g l (hexBytes c) = Inr c" for l
    using o by (simp_all add: canonicalAddress_Inr_iff[OF g])
  have pol: "validateContractPolicy g (Snapshot_ContractPolicy s) = Inr ()"
    "validateEscrowRelease (Username_EscrowRelease (Snapshot_Username s)) (Source_Contract (Snapshot_Source s))
       (Source_Height (Snapshot_Source s)) = Inr ()"
    using s by (simp_all add: policy_exact[OF g] escrow_exact snapshot_ok_def)
  have "digest_text (Escrow_EvidenceSHA256 (Username_EscrowRelease (Snapshot_Username s)))"
    using s by (simp add: snapshot_ok_def escrow_ok_def)
  then obtain h where "parseHash ''username escrow evidence hash'' (''0x'' @ Escrow_EvidenceSHA256 (Username_EscrowRelease (Snapshot_Username s))) = Inr h"
    using digest_hash_text unfolding is_ok_iff by blast
  then show ?thesis
    using o(1,4,9,10) by (simp add: validate_plan_target_def plan_header_def chk' addr can pol MaximumBatchItems_def Let_def)
qed

section \<open>The summary of a built plan\<close>

lemma required_names: "map spec_name (requiredModules g) =
    [''repository-core'', ''recovery'', ''moderation'', ''economic'', ''username'', ''badge'', ''release'']"
  by (simp add: requiredModules_def module_spec_def)

lemma required_ids: "geth_ok g \<Longrightarrow> spec \<in> set (requiredModules g) \<Longrightarrow> length (spec_id spec) = 32"
  by (auto simp: requiredModules_def module_spec_def length_keccak)

lemma length_required [simp]: "length (requiredModules g) = 7"
  by (simp add: requiredModules_def)

lemma module_records:
  assumes g: "geth_ok g" and s: "snapshot_ok s"
  obtains m where "snapshotModuleRecords g s = Some (m, snapshot_summary s)"
    "\<forall>spec \<in> set (requiredModules g). groups_ok g (spec_name spec) (gm_get [] m (spec_name spec))"
    "total_items m (requiredModules g) = word_of_int (expectedItems (snapshot_summary s))"
    "\<forall>(key, n) \<in> set (expectedKindCounts (snapshot_summary s)). total_kind m (requiredModules g) key = word_of_int n"
proof -
  obtain G where G: "snapshotModuleRecords g s = Some (records_with g s G, snapshot_summary s)"
    "group_kind G = ''repositories''" "length (group_values G) = length (Snapshot_Repositories s)"
    "\<forall>(nm, Gs) \<in> set (records_with g s G). groups_ok g nm Gs"
    by (rule snapshot_records[OF g s])
  let ?m = "records_with g s G"
  note unfold = requiredModules_def module_spec_def gm_get_def records_with_def
  show thesis
  proof (rule that[OF G(1)])
    show "\<forall>spec \<in> set (requiredModules g). groups_ok g (spec_name spec) (gm_get [] ?m (spec_name spec))"
      using G(4) by (simp add: unfold)
    show "total_items ?m (requiredModules g) = word_of_int (expectedItems (snapshot_summary s))"
      by (simp add: unfold G(3) expectedItems_def snapshot_summary_def)
    show "\<forall>(key, n) \<in> set (expectedKindCounts (snapshot_summary s)). total_kind ?m (requiredModules g) key = word_of_int n"
      by (simp add: unfold G(2,3) expectedKindCounts_def snapshot_summary_def)
  qed
qed

lemma finish_summary_sel [simp]:
  "Summary_BatchCount (finish_summary sm mds) = totalBatches mds"
  "Summary_TransactionCount (finish_summary sm mds) = 2 * RequiredModuleCount + totalBatches mds + 2"
  "expectedItems (finish_summary sm mds) = expectedItems sm"
  "expectedKindCounts (finish_summary sm mds) = expectedKindCounts sm"
  by (simp_all add: finish_summary_def expectedItems_def expectedKindCounts_def)

lemma summary_nonneg: "(key, n) \<in> set (expectedKindCounts (snapshot_summary s)) \<Longrightarrow> 0 \<le> n"
  by (auto simp: expectedKindCounts_def snapshot_summary_def)

lemma summary_valid:
  assumes total: "ts_total ts = word_of_int (expectedItems (snapshot_summary s))" and batches: "ts_batches ts = totalBatches mds"
    and kinds: "\<forall>(key, n) \<in> set (expectedKindCounts (snapshot_summary s)). gm_get 0 (ts_kindCounts ts) key = word_of_int n"
  shows "validate_summary (finish_summary (snapshot_summary s) mds) ts = Inr ()"
proof -
  have "guard_err (n < 0 \<or> gm_get 0 (ts_kindCounts ts) key \<noteq> word_of_int n) e = Inr ()"
    if "(key, n) \<in> set (expectedKindCounts (snapshot_summary s))" for key n and e :: module_check
    using that kinds summary_nonneg[of key n s] by (auto simp: guard_err_Inr_iff)
  then show ?thesis
    unfolding validate_summary_def finish_summary_sel total batches
    by (auto simp: bind_guard for_check_Inr_iff)
qed

section \<open>Building a plan\<close>

text \<open>What building from an accepted snapshot returns.\<close>

definition built :: "geth \<Rightarrow> bytes \<Rightarrow> Snapshot \<Rightarrow> BuildOptions \<Rightarrow> bytes \<times> bytes \<times> int \<Rightarrow> build_error + Plan \<Rightarrow> bool" where
  "built g sha s options chk r \<longleftrightarrow>
     (\<exists>m. snapshotModuleRecords g s = Some (m, snapshot_summary s) \<and>
       (case r of
          Inl e \<Rightarrow> (\<exists>spec \<in> set (requiredModules g). too_large (spec_name spec) (gm_get [] m (spec_name spec)) e) \<or>
            (sha = zeroHash \<and> e = GeneratedPlanInvalid (InvalidHeader (PlanCodec (DigestZero ''snapshot SHA-256''))))
        | Inr plan \<Rightarrow> \<exists>mds. plan = plan_header g sha s options chk mds (finish_summary (snapshot_summary s) mds) \<and>
            modules_valid g (snd (snd chk)) sha m 0 (requiredModules g) mds \<and> ValidatePlan g plan = Inr ()))"

lemma plan_header_sel [simp]:
  "Plan_Modules (plan_header g sha s options chk mds sm) = mds"
  "Plan_Summary (plan_header g sha s options chk mds sm) = sm"
  "Limits_BatchSize (Plan_Limits (plan_header g sha s options chk mds sm)) = snd (snd chk)"
  by (cases chk; simp add: plan_header_def)+

lemma built_plan_valid:
  assumes g: "geth_ok g" and s: "snapshot_ok s" and sha: "length sha = 32" and chk: "check_options g options = Inr chk"
    and items: "total_items m (requiredModules g) = word_of_int (expectedItems (snapshot_summary s))"
    and kinds: "\<forall>(key, n) \<in> set (expectedKindCounts (snapshot_summary s)). total_kind m (requiredModules g) key = word_of_int n"
    and valid: "modules_valid g (snd (snd chk)) sha m 0 (requiredModules g) mds"
  shows "ValidatePlan g (plan_header g sha s options chk mds (finish_summary (snapshot_summary s) mds)) =
    (if sha = zeroHash then Inl (InvalidHeader (PlanCodec (DigestZero ''snapshot SHA-256''))) else Inr ())"
proof -
  let ?plan = "plan_header g sha s options chk mds (finish_summary (snapshot_summary s) mds)"
  let ?ts = "\<lambda>kc. \<lparr>ts_total = total_items m (requiredModules g), ts_batches = totalBatches mds, ts_kindCounts = kc\<rparr>"
  obtain kc where kc: "for_res (validate_module g ?plan sha) (enumerate 0 (requiredModules g))
      \<lparr>ts_total = 0, ts_batches = 0, ts_kindCounts = []\<rparr> = Inr (?ts kc)"
      "\<forall>key. gm_get 0 kc key = total_kind m (requiredModules g) key"
    using validate_loop[OF valid, of ?plan "\<lparr>ts_total = 0, ts_batches = 0, ts_kindCounts = []\<rparr>"] by (auto simp: gm_get_def)
  have "length mds = 7" using valid by (simp add: modules_valid_def)
  then have "validate_modules g ?plan sha = Inr (?ts kc)"
    by (simp add: validate_modules_def kc(1) RequiredModuleCount_def)
  then show ?thesis
    unfolding ValidatePlan_def header_snapshot[OF g s sha]
    using summary_valid items kinds kc(2) by (simp add: header_target[OF g s chk])
qed

lemma build_from_snapshot_returns:
  assumes g: "geth_ok g" and s: "snapshot_ok s" and sha: "length sha = 32" and chk: "check_options g options = Inr chk"
  shows "\<exists>r. build_from_snapshot g sha s options chk = Some r \<and> built g sha s options chk r"
proof -
  obtain m where m: "snapshotModuleRecords g s = Some (m, snapshot_summary s)"
    "\<forall>spec \<in> set (requiredModules g). groups_ok g (spec_name spec) (gm_get [] m (spec_name spec))"
    "total_items m (requiredModules g) = word_of_int (expectedItems (snapshot_summary s))"
    "\<forall>(key, n) \<in> set (expectedKindCounts (snapshot_summary s)). total_kind m (requiredModules g) key = word_of_int n"
    by (rule module_records[OF g s])
  let ?n = "snd (snd chk)"
  have size: "1 \<le> ?n" "?n \<le> 128" using check_options_ok[OF g] chk by (metis prod.collapse)+
  obtain r where r: "build_modules g ?n sha m (enumerate 0 (requiredModules g)) = Some r"
      "case r of Inl e \<Rightarrow> \<exists>spec \<in> set (requiredModules g). too_large (spec_name spec) (gm_get [] m (spec_name spec)) e
       | Inr mds \<Rightarrow> modules_valid g ?n sha m 0 (requiredModules g) mds"
    using build_modules_returns[OF g size sha, of "requiredModules g" m 0] m(2) required_ids[OF g] by blast
  show ?thesis
  proof (cases r)
    case (Inl e)
    then show ?thesis using r m(1) by (auto simp: build_from_snapshot_def built_def bytes_to_hash_id[OF g sha])
  next
    case (Inr mds)
    then have valid: "modules_valid g ?n sha m 0 (requiredModules g) mds" using r(2) by simp
    let ?plan = "plan_header g sha s options chk mds (finish_summary (snapshot_summary s) mds)"
    have build: "build_from_snapshot g sha s options chk =
        Some (bind_res (map_err GeneratedPlanInvalid (ValidatePlan g ?plan)) (\<lambda>_. Inr ?plan))"
      using r(1) Inr m(1) by (simp add: build_from_snapshot_def bytes_to_hash_id[OF g sha] Let_def)
    from built_plan_valid[OF g s sha chk m(3,4) valid] show ?thesis
      using build m(1) valid by (auto simp: built_def)
  qed
qed

text \<open>The guards before the snapshot is turned into batches.\<close>

definition build_inputs ::
  "geth \<Rightarrow> (bytes \<Rightarrow> string + Snapshot) \<Rightarrow> bytes \<Rightarrow> BuildOptions \<Rightarrow> Snapshot \<Rightarrow> bytes \<times> bytes \<times> int \<Rightarrow> bool" where
  "build_inputs g decode raw options s chk \<longleftrightarrow>
     raw \<noteq> [] \<and> decode raw = Inr s \<and> snapshot_ok s \<and> check_options g options = Inr chk"

lemma build_plan_inputs:
  assumes g: "geth_ok g" and inputs: "build_inputs g decode raw options s chk"
  shows "BuildPlan g decode raw options = build_from_snapshot g (Sum256 raw) s options chk"
  using inputs sections_exact[OF g, of s] by (simp add: BuildPlan_def build_inputs_def)

lemma build_plan_no_inputs:
  assumes g: "geth_ok g" and none: "\<nexists>s chk. build_inputs g decode raw options s chk"
  shows "\<exists>e. BuildPlan g decode raw options = Some (Inl e) \<and> \<not> (\<exists>f. e = GeneratedPlanInvalid f)"
proof -
  let ?r = "bind_res (guard_err (length raw = 0) SnapshotEmpty) (\<lambda>_.
           bind_res (map_err SnapshotDecode (decode raw)) (\<lambda>snapshot.
           bind_res (map_err SnapshotInvalid (validateSnapshot g snapshot)) (\<lambda>_.
           bind_res (check_options g options) (\<lambda>checked. Inr (snapshot, checked)))))"
  have "?r \<noteq> Inr x" for x
    using none sections_exact[OF g] by (cases x) (auto simp: res_simps build_inputs_def)
  then obtain e where e: "?r = Inl e" by (cases ?r) auto
  moreover have "e \<noteq> GeneratedPlanInvalid f" for f
    using e by (auto simp: bind_guard check_options_def bind_res_def map_err_def guard_err_def Let_def
        split: sum.splits if_splits)
  ultimately show ?thesis unfolding BuildPlan_def by auto
qed

lemma build_plan_returns:
  assumes g: "geth_ok g" and inputs: "build_inputs g decode raw options s chk"
  obtains r where "BuildPlan g decode raw options = Some r" "built g (Sum256 raw) s options chk r"
  using build_from_snapshot_returns[OF g, of s "Sum256 raw" options chk] inputs build_plan_inputs[OF assms]
  by (auto simp: build_inputs_def)

end
