(* ===== verification/Calldata_Manifest.thy ===== *)
theory Calldata_Manifest
  imports Plan_Correct
begin

text \<open>
  \<^verbatim>\<open>cli/internal/suitemigration/manifest.go\<close> and \<^verbatim>\<open>PlanSHA256\<close> of \<^verbatim>\<open>plan.go\<close>: the transactions of a
  suite import as calldata for the coordinator contract. The methods and events of the
  coordinator are those of \<^verbatim>\<open>abi/BootstrapCoordinator.json\<close>; the JSON text of a plan is the
  parameter \<open>marshal\<close>. The library finds a method by its selector, so the hypothesis
  \<open>selectors_distinct\<close> says that no two selectors of this contract agree.
\<close>

section \<open>The coordinator contract\<close>

record abi_method =
  Method_Name :: string
  Method_Sig :: string
  Method_Inputs :: "abi_type list"

definition coordinatorMethods :: "abi_method list" where
  "coordinatorMethods =
     [\<lparr>Method_Name = ''activateSuite'', Method_Sig = ''activateSuite()'', Method_Inputs = []\<rparr>,
      \<lparr>Method_Name = ''activated'', Method_Sig = ''activated()'', Method_Inputs = []\<rparr>,
      \<lparr>Method_Name = ''attestUsernameEscrowReleased'', Method_Sig = ''attestUsernameEscrowReleased(bytes32)'',
       Method_Inputs = [T_bytes32]\<rparr>,
      \<lparr>Method_Name = ''beginNextModule'', Method_Sig = ''beginNextModule(bytes32,uint256,uint256,bytes32)'',
       Method_Inputs = [T_bytes32, T_uint256, T_uint256, T_bytes32]\<rparr>,
      \<lparr>Method_Name = ''finalizeCurrentModule'', Method_Sig = ''finalizeCurrentModule(bytes32)'', Method_Inputs = [T_bytes32]\<rparr>,
      \<lparr>Method_Name = ''importBatch'', Method_Sig = ''importBatch(bytes32,uint256,uint256,bytes32,bytes)'',
       Method_Inputs = [T_bytes32, T_uint256, T_uint256, T_bytes32, T_bytes]\<rparr>,
      \<lparr>Method_Name = ''moduleProgress'', Method_Sig = ''moduleProgress(bytes32)'', Method_Inputs = [T_bytes32]\<rparr>,
      \<lparr>Method_Name = ''nextModuleIndex'', Method_Sig = ''nextModuleIndex()'', Method_Inputs = []\<rparr>,
      \<lparr>Method_Name = ''operator'', Method_Sig = ''operator()'', Method_Inputs = []\<rparr>,
      \<lparr>Method_Name = ''readyForActivation'', Method_Sig = ''readyForActivation()'', Method_Inputs = []\<rparr>,
      \<lparr>Method_Name = ''registerModule'', Method_Sig = ''registerModule(bytes32,address,bytes32)'',
       Method_Inputs = [T_bytes32, T_address, T_bytes32]\<rparr>,
      \<lparr>Method_Name = ''snapshotRoot'', Method_Sig = ''snapshotRoot()'', Method_Inputs = []\<rparr>,
      \<lparr>Method_Name = ''suiteDirectory'', Method_Sig = ''suiteDirectory()'', Method_Inputs = []\<rparr>,
      \<lparr>Method_Name = ''usernameEscrowEvidenceHash'', Method_Sig = ''usernameEscrowEvidenceHash()'', Method_Inputs = []\<rparr>]"

definition coordinatorEvents :: "(string \<times> string) list" where
  "coordinatorEvents =
     [(''ModuleBatchImported'', ''ModuleBatchImported(bytes32,uint256,uint256,bytes32,bytes32)''),
      (''ModuleImportFinalized'', ''ModuleImportFinalized(bytes32,uint256,uint256,bytes32)''),
      (''ModuleImportStarted'', ''ModuleImportStarted(bytes32,uint256,uint256,bytes32)''),
      (''ModuleRegistered'', ''ModuleRegistered(bytes32,address,bytes32)''),
      (''SuiteActivationRequested'', ''SuiteActivationRequested(bytes32)''),
      (''UsernameEscrowReleaseAttested'', ''UsernameEscrowReleaseAttested(bytes32)'')]"

definition Method_ID :: "geth \<Rightarrow> abi_method \<Rightarrow> bytes" where
  "Method_ID g m = take 4 (Keccak256Hash g (bytes_of (Method_Sig m)))"

definition Event_ID :: "geth \<Rightarrow> string \<Rightarrow> bytes" where
  "Event_ID g name = (case map_of coordinatorEvents name of Some sig \<Rightarrow> Keccak256Hash g (bytes_of sig) | None \<Rightarrow> zeroHash)"

definition method_named :: "string \<Rightarrow> abi_method option" where
  "method_named name = find (\<lambda>m. Method_Name m = name) coordinatorMethods"

definition MethodById :: "geth \<Rightarrow> bytes \<Rightarrow> abi_method option" where
  "MethodById g sigdata = find (\<lambda>m. Method_ID g m = sigdata) coordinatorMethods"

definition selectors_distinct :: "geth \<Rightarrow> bool" where
  "selectors_distinct g \<longleftrightarrow> distinct (map (Method_ID g) coordinatorMethods)"

section \<open>Transactions\<close>

datatype manifest_error =
    ManifestPlanInvalid validate_error
  | ManifestMarshal string
  | EncodeFunction string string
  | TransactionTotal nat int
  | CalldataParse codec_error
  | CalldataShort
  | CalldataNoMethod
  | CalldataUnpack string
  | CalldataNotCanonical
  | VerifyTransaction nat manifest_error
  | TransactionMetadata nat
  | ManifestUnsupported
  | ManifestMismatch

definition abi_Pack :: "geth \<Rightarrow> string \<Rightarrow> abi_value list \<Rightarrow> string + bytes" where
  "abi_Pack g name args =
     (case method_named name of
        None \<Rightarrow> Inl (''method '' @ name @ '' not found'')
      | Some m \<Rightarrow> bind_res (Pack g (Method_Inputs m) args) (\<lambda>arguments. Inr (Method_ID g m @ arguments)))"

definition method_sig :: "string \<Rightarrow> string" where
  "method_sig name = (case method_named name of Some m \<Rightarrow> Method_Sig m | None \<Rightarrow> '''')"

type_synonym tx_state = "int \<times> ManifestTransaction list"

definition appendTransaction ::
  "geth \<Rightarrow> Plan \<Rightarrow> ModulePlan option \<Rightarrow> u64 option \<Rightarrow> string \<Rightarrow> string \<Rightarrow> string \<Rightarrow> abi_value list \<Rightarrow> tx_state \<Rightarrow> manifest_error + tx_state" where
  "appendTransaction g plan md sequence phase functionName eventName arguments = (\<lambda>(order, txs).
     bind_res (map_err (EncodeFunction functionName) (abi_Pack g functionName arguments)) (\<lambda>data.
     Inr (order + 1, txs @
       [\<lparr>Tx_Order = order, Tx_ModuleOrder = map_option Module_Order md,
         Tx_Module = (case md of Some m \<Rightarrow> Module_Name m | None \<Rightarrow> ''''),
         Tx_ModuleID = (case md of Some m \<Rightarrow> Module_ID m | None \<Rightarrow> ''''), Tx_Sequence = sequence, Tx_Phase = phase,
         Tx_Function = method_sig functionName, Tx_ExpectedEvent = eventName,
         Tx_ExpectedTopic = Hash_Hex g (Event_ID g eventName), Tx_To = Target_Coordinator (Plan_Target plan),
         Tx_Value = ''0x0'', Tx_Data = hexBytes data\<rparr>])))"

definition begin_arguments :: "ModulePlan \<Rightarrow> abi_value list" where
  "begin_arguments md =
     [V_bytes32 (ignore_err zeroHash (parseHash ''module ID'' (Module_ID md))), V_big (uint (Module_ExpectedCount md)),
      V_big (uint (Module_ExpectedBatches md)), V_bytes32 (ignore_err zeroHash (parseHash ''module root'' (Module_ExpectedRoot md)))]"

definition import_arguments :: "ModulePlan \<Rightarrow> PlanBatch \<Rightarrow> abi_value list" where
  "import_arguments md batch =
     [V_bytes32 (ignore_err zeroHash (parseHash ''module ID'' (Module_ID md))), V_big (uint (Batch_Sequence batch)),
      V_big (uint (Batch_Count batch)), V_bytes32 (ignore_err zeroHash (parseHash ''batch payload hash'' (Batch_PayloadHash batch))),
      V_bytes (ignore_err [] (parseHexBytes ''batch payload'' (Batch_Payload batch)))]"

definition append_module :: "geth \<Rightarrow> Plan \<Rightarrow> ModulePlan \<Rightarrow> tx_state \<Rightarrow> manifest_error + tx_state" where
  "append_module g plan md st =
     bind_res (appendTransaction g plan (Some md) None ''begin_module'' ''beginNextModule'' ''ModuleImportStarted''
       (begin_arguments md) st) (\<lambda>st.
     bind_res (for_res (\<lambda>batch. appendTransaction g plan (Some md) (Some (Batch_Sequence batch)) ''import_batch'' ''importBatch''
       ''ModuleBatchImported'' (import_arguments md batch)) (Module_Batches md) st) (\<lambda>st.
     bind_res (if Module_Name md = ''username''
       then appendTransaction g plan (Some md) None ''attest_username_escrow'' ''attestUsernameEscrowReleased''
         ''UsernameEscrowReleaseAttested''
         [V_bytes32 (ignore_err zeroHash (parseHash ''username escrow evidence hash'' (Plan_UsernameEscrowEvidenceHash plan)))] st
       else Inr st) (\<lambda>st.
     appendTransaction g plan (Some md) None ''finalize_module'' ''finalizeCurrentModule'' ''ModuleImportFinalized''
       [V_bytes32 (ignore_err zeroHash (parseHash ''module ID'' (Module_ID md)))] st)))"

section \<open>Reading calldata back\<close>

definition calldataMethod :: "geth \<Rightarrow> string \<Rightarrow> manifest_error + abi_method \<times> abi_value list" where
  "calldataMethod g data =
     bind_res (map_err CalldataParse (parseHexBytes ''transaction calldata'' data)) (\<lambda>raw.
     bind_res (guard_err (length raw < 4) CalldataShort) (\<lambda>_.
     case MethodById g (take 4 raw) of
       None \<Rightarrow> Inl CalldataNoMethod
     | Some m \<Rightarrow>
         bind_res (map_err CalldataUnpack (Unpack g (Method_Inputs m) (drop 4 raw))) (\<lambda>values.
         if Pack g (Method_Inputs m) values = Inr (drop 4 raw) then Inr (m, values) else Inl CalldataNotCanonical)))"

definition verify_transaction :: "geth \<Rightarrow> Plan \<Rightarrow> nat \<times> ManifestTransaction \<Rightarrow> manifest_error + unit" where
  "verify_transaction g plan = (\<lambda>(index, tx).
     bind_res (map_err (VerifyTransaction index) (calldataMethod g (Tx_Data tx))) (\<lambda>(m, _).
     guard_err (Tx_Order tx \<noteq> int index \<or> Tx_Function tx \<noteq> Method_Sig m \<or>
       Tx_To tx \<noteq> Target_Coordinator (Plan_Target plan) \<or> Tx_Value tx \<noteq> ''0x0'') (TransactionMetadata index)))"

section \<open>The manifest\<close>

definition MarshalPlan :: "geth \<Rightarrow> (Plan \<Rightarrow> string + bytes) \<Rightarrow> Plan \<Rightarrow> manifest_error + bytes" where
  "MarshalPlan g marshal plan =
     bind_res (map_err ManifestPlanInvalid (ValidatePlan g plan)) (\<lambda>_. map_err ManifestMarshal (marshal plan))"

definition PlanSHA256 :: "geth \<Rightarrow> (Plan \<Rightarrow> string + bytes) \<Rightarrow> Plan \<Rightarrow> manifest_error + string" where
  "PlanSHA256 g marshal plan = bind_res (MarshalPlan g marshal plan) (\<lambda>raw. Inr (hex_encode (Sum256 raw)))"

definition BuildCalldataManifest ::
  "geth \<Rightarrow> (Plan \<Rightarrow> string + bytes) \<Rightarrow> Plan \<Rightarrow> manifest_error + CalldataManifest" where
  "BuildCalldataManifest g marshal plan =
     bind_res (map_err ManifestPlanInvalid (ValidatePlan g plan)) (\<lambda>_.
     bind_res (PlanSHA256 g marshal plan) (\<lambda>planSHA.
     bind_res (for_res (append_module g plan) (Plan_Modules plan) (0, [])) (\<lambda>st.
     bind_res (appendTransaction g plan None None ''activate_suite'' ''activateSuite'' ''SuiteActivationRequested'' [] st) (\<lambda>(_, txs).
     bind_res (guard_err (int (length txs) \<noteq> Summary_TransactionCount (Plan_Summary plan))
       (TransactionTotal (length txs) (Summary_TransactionCount (Plan_Summary plan)))) (\<lambda>_.
     bind_res (for_check (verify_transaction g plan) (enumerate 0 txs)) (\<lambda>_.
     Inr \<lparr>Manifest_Schema = ManifestSchema, Manifest_CalldataReady = True, Manifest_Signed = False, Manifest_Broadcast = False,
          Manifest_PlanSHA256 = planSHA, Manifest_SnapshotRoot = PlanSnapshot_Root (Plan_Snapshot plan),
          Manifest_Target = Plan_Target plan, Manifest_Transactions = txs\<rparr>))))))"

definition ValidateCalldataManifest ::
  "geth \<Rightarrow> (Plan \<Rightarrow> string + bytes) \<Rightarrow> Plan \<Rightarrow> CalldataManifest \<Rightarrow> manifest_error + unit" where
  "ValidateCalldataManifest g marshal plan manifest =
     bind_res (guard_err (Manifest_Schema manifest \<noteq> ManifestSchema \<or> \<not> Manifest_CalldataReady manifest \<or>
       Manifest_Signed manifest \<or> Manifest_Broadcast manifest) ManifestUnsupported) (\<lambda>_.
     bind_res (BuildCalldataManifest g marshal plan) (\<lambda>expected.
     guard_err (manifest \<noteq> expected) ManifestMismatch))"

definition MarshalCalldataManifest ::
  "geth \<Rightarrow> (Plan \<Rightarrow> string + bytes) \<Rightarrow> (CalldataManifest \<Rightarrow> string + bytes) \<Rightarrow> Plan \<Rightarrow> CalldataManifest \<Rightarrow> manifest_error + bytes" where
  "MarshalCalldataManifest g marshal marshalManifest plan manifest =
     bind_res (ValidateCalldataManifest g marshal plan manifest) (\<lambda>_. map_err ManifestMarshal (marshalManifest manifest))"

section \<open>The script of a plan\<close>

text \<open>
  The specification of the transaction list: the calls a plan stands for, module by module.
  A module begins, imports its batches in order, attests the escrow release if it is the user
  name module, and is finalised; the suite is activated last.
\<close>

record call =
  Call_Module :: "ModulePlan option"
  Call_Sequence :: "u64 option"
  Call_Phase :: string
  Call_Function :: string
  Call_Event :: string
  Call_Arguments :: "abi_value list"

definition module_calls :: "Plan \<Rightarrow> ModulePlan \<Rightarrow> call list" where
  "module_calls plan md =
     [\<lparr>Call_Module = Some md, Call_Sequence = None, Call_Phase = ''begin_module'', Call_Function = ''beginNextModule'',
       Call_Event = ''ModuleImportStarted'', Call_Arguments = begin_arguments md\<rparr>] @
     map (\<lambda>batch. \<lparr>Call_Module = Some md, Call_Sequence = Some (Batch_Sequence batch), Call_Phase = ''import_batch'',
       Call_Function = ''importBatch'', Call_Event = ''ModuleBatchImported'', Call_Arguments = import_arguments md batch\<rparr>)
       (Module_Batches md) @
     (if Module_Name md = ''username''
      then [\<lparr>Call_Module = Some md, Call_Sequence = None, Call_Phase = ''attest_username_escrow'',
             Call_Function = ''attestUsernameEscrowReleased'', Call_Event = ''UsernameEscrowReleaseAttested'',
             Call_Arguments = [V_bytes32 (ignore_err zeroHash (parseHash ''username escrow evidence hash'' (Plan_UsernameEscrowEvidenceHash plan)))]\<rparr>]
      else []) @
     [\<lparr>Call_Module = Some md, Call_Sequence = None, Call_Phase = ''finalize_module'', Call_Function = ''finalizeCurrentModule'',
       Call_Event = ''ModuleImportFinalized'', Call_Arguments = [V_bytes32 (ignore_err zeroHash (parseHash ''module ID'' (Module_ID md)))]\<rparr>]"

definition activate_call :: call where
  "activate_call = \<lparr>Call_Module = None, Call_Sequence = None, Call_Phase = ''activate_suite'', Call_Function = ''activateSuite'',
     Call_Event = ''SuiteActivationRequested'', Call_Arguments = []\<rparr>"

definition plan_calls :: "Plan \<Rightarrow> call list" where
  "plan_calls plan = concat (map (module_calls plan) (Plan_Modules plan)) @ [activate_call]"

definition append_call :: "geth \<Rightarrow> Plan \<Rightarrow> call \<Rightarrow> tx_state \<Rightarrow> manifest_error + tx_state" where
  "append_call g plan c = appendTransaction g plan (Call_Module c) (Call_Sequence c) (Call_Phase c) (Call_Function c)
     (Call_Event c) (Call_Arguments c)"

lemma for_res_map: "for_res f (map h xs) s = for_res (\<lambda>x. f (h x)) xs s"
  by (induction xs arbitrary: s) (simp_all cong: bind_res_cong)

lemma for_res_single: "for_res f [x] = f x"
  by (rule ext) (simp add: bind_res_def split: sum.split)

lemma append_module_calls: "append_module g plan md st = for_res (append_call g plan) (module_calls plan md) st"
  by (simp add: append_module_def module_calls_def append_call_def for_res_append for_res_map bind_res_assoc cong: bind_res_cong if_cong)

lemma append_modules_calls:
  "for_res (append_module g plan) mds st = for_res (append_call g plan) (concat (map (module_calls plan) mds)) st"
  by (induction mds arbitrary: st) (simp_all add: for_res_append append_module_calls cong: bind_res_cong)

text \<open>The transaction of one call.\<close>

definition tx_of :: "geth \<Rightarrow> Plan \<Rightarrow> nat \<times> call \<Rightarrow> ManifestTransaction" where
  "tx_of g plan = (\<lambda>(i, c).
     \<lparr>Tx_Order = int i, Tx_ModuleOrder = map_option Module_Order (Call_Module c),
      Tx_Module = (case Call_Module c of Some m \<Rightarrow> Module_Name m | None \<Rightarrow> ''''),
      Tx_ModuleID = (case Call_Module c of Some m \<Rightarrow> Module_ID m | None \<Rightarrow> ''''), Tx_Sequence = Call_Sequence c,
      Tx_Phase = Call_Phase c, Tx_Function = method_sig (Call_Function c), Tx_ExpectedEvent = Call_Event c,
      Tx_ExpectedTopic = Hash_Hex g (Event_ID g (Call_Event c)), Tx_To = Target_Coordinator (Plan_Target plan),
      Tx_Value = ''0x0'', Tx_Data = hexBytes (ignore_err [] (abi_Pack g (Call_Function c) (Call_Arguments c)))\<rparr>)"

definition call_typed :: "call \<Rightarrow> bool" where
  "call_typed c \<longleftrightarrow> (case method_named (Call_Function c) of
     Some m \<Rightarrow> abi_args_typed (Method_Inputs m) (Call_Arguments c) | None \<Rightarrow> False)"

lemma call_encodes:
  assumes "geth_ok g" "call_typed c"
  obtains m b where "method_named (Call_Function c) = Some m" "abi_Pack g (Call_Function c) (Call_Arguments c) = Inr (Method_ID g m @ b)"
    "Pack g (Method_Inputs m) (Call_Arguments c) = Inr b" "Unpack g (Method_Inputs m) b = Inr (Call_Arguments c)"
proof -
  obtain m where m: "method_named (Call_Function c) = Some m" "abi_args_typed (Method_Inputs m) (Call_Arguments c)"
    using assms(2) by (auto simp: call_typed_def split: option.splits)
  obtain b where b: "Pack g (Method_Inputs m) (Call_Arguments c) = Inr b" "Unpack g (Method_Inputs m) b = Inr (Call_Arguments c)"
    by (rule pack_unpack[OF assms(1) m(2)])
  then show thesis using that m(1) by (simp add: abi_Pack_def)
qed

lemma append_calls:
  assumes g: "geth_ok g"
  shows "\<forall>c \<in> set cs. call_typed c \<Longrightarrow>
    for_res (append_call g plan) cs (int n, txs) = Inr (int (n + length cs), txs @ map (tx_of g plan) (enumerate n cs))"
proof (induction cs arbitrary: n txs)
  case (Cons c cs)
  obtain m b where "abi_Pack g (Call_Function c) (Call_Arguments c) = Inr (Method_ID g m @ b)"
    using call_encodes[OF g] Cons.prems by (metis list.set_intros(1))
  then have "append_call g plan c (int n, txs) = Inr (int (Suc n), txs @ [tx_of g plan (n, c)])"
    by (simp add: append_call_def appendTransaction_def tx_of_def)
  then show ?case
    using Cons.IH[of "Suc n" "txs @ [tx_of g plan (n, c)]"] Cons.prems by (simp del: of_nat_Suc)
qed simp

lemma method_table:
  "method_named ''beginNextModule'' = Some (coordinatorMethods ! 3)"
  "method_named ''importBatch'' = Some (coordinatorMethods ! 5)"
  "method_named ''attestUsernameEscrowReleased'' = Some (coordinatorMethods ! 2)"
  "method_named ''finalizeCurrentModule'' = Some (coordinatorMethods ! 4)"
  "method_named ''activateSuite'' = Some (coordinatorMethods ! 0)"
  by (simp_all add: method_named_def coordinatorMethods_def)

lemma length_parsed [simp]: "length (ignore_err zeroHash (parseHash l t)) = 32"
proof (cases "parseHash l t")
  case (Inr b)
  then have "length b = 32" by (simp add: parseHash_Inr_iff)
  with Inr show ?thesis by simp
qed (simp add: zeroHash_def)

lemma plan_calls_typed: "c \<in> set (plan_calls plan) \<Longrightarrow> call_typed c"
  by (auto simp: plan_calls_def module_calls_def activate_call_def call_typed_def method_table coordinatorMethods_def
      abi_args_typed_def begin_arguments_def import_arguments_def uint64_range[simplified] split: if_splits)

section \<open>Every transaction passes the final checks\<close>

lemma find_distinct: "distinct (map f xs) \<Longrightarrow> x \<in> set xs \<Longrightarrow> find (\<lambda>y. f y = f x) xs = Some x"
  by (induction xs) (auto simp: rev_image_eqI)

lemma method_named_set: "method_named n = Some m \<Longrightarrow> m \<in> set coordinatorMethods \<and> Method_Name m = n"
  unfolding method_named_def find_Some_iff by (metis nth_mem)

lemma length_Method_ID: "geth_ok g \<Longrightarrow> length (Method_ID g m) = 4"
  by (simp add: Method_ID_def length_keccak)

lemma tx_decodes:
  assumes g: "geth_ok g" and sel: "selectors_distinct g" and c: "call_typed c"
  obtains m where "method_named (Call_Function c) = Some m"
    "calldataMethod g (Tx_Data (tx_of g plan (i, c))) = Inr (m, Call_Arguments c)"
proof -
  obtain m b where m: "method_named (Call_Function c) = Some m" "abi_Pack g (Call_Function c) (Call_Arguments c) = Inr (Method_ID g m @ b)"
      "Pack g (Method_Inputs m) (Call_Arguments c) = Inr b" "Unpack g (Method_Inputs m) b = Inr (Call_Arguments c)"
    by (rule call_encodes[OF g c])
  have "MethodById g (Method_ID g m) = Some m"
    using find_distinct[of "Method_ID g" coordinatorMethods m] sel method_named_set[OF m(1)]
    by (simp add: MethodById_def selectors_distinct_def)
  then show thesis
    using m that by (simp add: tx_of_def calldataMethod_def length_Method_ID[OF g])
qed

lemma tx_verifies:
  assumes "geth_ok g" "selectors_distinct g" "call_typed c"
  shows "verify_transaction g plan (i, tx_of g plan (i, c)) = Inr ()"
proof -
  obtain m where "method_named (Call_Function c) = Some m"
    "calldataMethod g (Tx_Data (tx_of g plan (i, c))) = Inr (m, Call_Arguments c)"
    by (rule tx_decodes[OF assms])
  then show ?thesis by (simp add: verify_transaction_def) (simp add: tx_of_def method_sig_def)
qed

section \<open>What an accepted plan looks like\<close>

lemma check_batch_bounds:
  assumes c: "check_batch g n nm mid (i, b) st = Inr st'" and n: "1 \<le> n" "n \<le> 128"
  shows "Batch_Sequence b = word_of_nat i" "1 \<le> unat (Batch_Count b)" "int (unat (Batch_Count b)) \<le> n"
    "length (Batch_ItemKeys b) = unat (Batch_Count b)"
    "\<exists>p. Batch_Payload b = hexBytes p \<and> 0 < length p \<and> length p \<le> MaximumPayloadBytes \<and>
       Batch_PayloadHash b = Hash_Hex g (Keccak256Hash g p) \<and>
       decodePayloadCount g nm (Batch_KindCode b) p = Inr (Batch_Count b)"
    "kindName nm (Batch_KindCode b) = Some (Batch_Kind b)"
proof -
  obtain p where sh: "check_batch_shape n i b = Inr ()" and p: "check_batch_payload g nm i b = Inr p"
    and k: "kindName nm (Batch_KindCode b) = Some (Batch_Kind b)" and h: "Batch_PayloadHash b = Hash_Hex g (Keccak256Hash g p)"
    using c by (auto simp: check_batch_def res_simps)
  have shape: "Batch_Sequence b = word_of_nat i" "Batch_Count b \<noteq> 0" "Batch_Count b \<le> word_of_int n"
    "int (length (Batch_ItemKeys b)) = sint (Batch_Count b)"
    using sh by (auto simp: check_batch_shape_def res_simps)
  obtain k where k: "n = int k" "k \<le> 128" using n by (cases n) auto
  have "unat (word_of_nat k :: u64) = k" using k(2) by (simp add: unat_of_nat take_bit_eq_mod)
  then have le: "unat (Batch_Count b) \<le> k" using shape(3) k(1) by (simp add: word_le_nat_alt)
  show "Batch_Sequence b = word_of_nat i" by (rule shape(1))
  have inv: "word_of_nat (unat (Batch_Count b)) = Batch_Count b" by simp
  have pos: "0 < unat (Batch_Count b)" using shape(2) unat_gt_0[of "Batch_Count b"] by blast
  then show "1 \<le> unat (Batch_Count b)" by simp
  show "int (unat (Batch_Count b)) \<le> n" unfolding k(1) using le by (simp only: of_nat_le_iff)
  have "sint (Batch_Count b) = int (unat (Batch_Count b))"
    using word_of_count(4)[of "unat (Batch_Count b)" k] le k(2) pos inv by simp
  then show "length (Batch_ItemKeys b) = unat (Batch_Count b)" using shape(4) by (simp only: of_nat_eq_iff)
  show "\<exists>p. Batch_Payload b = hexBytes p \<and> 0 < length p \<and> length p \<le> MaximumPayloadBytes \<and>
       Batch_PayloadHash b = Hash_Hex g (Keccak256Hash g p) \<and>
       decodePayloadCount g nm (Batch_KindCode b) p = Inr (Batch_Count b)"
    using p h by (auto simp: check_batch_payload_def res_simps parseHexBytes_Inr_iff)
qed (use c in \<open>auto simp: check_batch_def res_simps\<close>)

lemma for_res_step:
  assumes "for_res f xs s = Inr t" "x \<in> set xs"
  shows "\<exists>s t. f x s = Inr t"
  using for_res_all[OF assms(1), of "\<lambda>x. \<exists>s t. f x s = Inr t"] assms(2) by blast

lemma valid_plan_batches:
  assumes "ValidatePlan g plan = Inr ()" "md \<in> set (Plan_Modules plan)" "i < length (Module_Batches md)"
  obtains mid st st' where "check_batch g (Limits_BatchSize (Plan_Limits plan)) (Module_Name md) mid (i, Module_Batches md ! i) st = Inr st'"
    "1 \<le> Limits_BatchSize (Plan_Limits plan)" "Limits_BatchSize (Plan_Limits plan) \<le> 128"
proof -
  obtain root ts where mods: "validate_modules g plan root = Inr ts" and tgt: "validate_plan_target g plan = Inr ()"
    using assms(1) by (auto simp: ValidatePlan_def res_simps)
  have size: "1 \<le> Limits_BatchSize (Plan_Limits plan)" "Limits_BatchSize (Plan_Limits plan) \<le> 128"
    using tgt by (auto simp: validate_plan_target_def res_simps Let_def MaximumBatchItems_def)
  obtain j where j: "j < 7" "md = Plan_Modules plan ! j"
    using mods assms(2) by (auto simp: validate_modules_def res_simps RequiredModuleCount_def in_set_conv_nth)
  have "(j, requiredModules g ! j) \<in> set (enumerate 0 (requiredModules g))"
    using j(1) by (simp add: in_set_enumerate_eq)
  then obtain s t where "validate_module g plan root (j, requiredModules g ! j) s = Inr t"
    using mods for_res_step by (fastforce simp: validate_modules_def res_simps)
  then obtain s t where loop: "for_res (check_batch g (Limits_BatchSize (Plan_Limits plan)) (Module_Name md) (spec_id (requiredModules g ! j)))
      (enumerate 0 (Module_Batches md)) s = Inr t"
    using j(2) by (auto simp: validate_module_def Let_def res_simps)
  have "(i, Module_Batches md ! i) \<in> set (enumerate 0 (Module_Batches md))"
    using assms(3) by (simp add: in_set_enumerate_eq)
  from for_res_step[OF loop this] show thesis using that size by blast
qed

lemma validate_module_shape:
  assumes "validate_module g plan root (i, spec) ts = Inr ts'"
  shows "Module_Name (Plan_Modules plan ! i) = spec_name spec" "Module_Order (Plan_Modules plan ! i) = int i"
    "ts_batches ts' = ts_batches ts + int (length (Module_Batches (Plan_Modules plan ! i)))"
  using assms by (auto simp: validate_module_def Let_def res_simps)

lemma validate_loop_shape:
  assumes "for_res (validate_module g plan root) (enumerate n specs) ts = Inr ts'" "n + length specs = length (Plan_Modules plan)"
  shows "map Module_Name (drop n (Plan_Modules plan)) = map spec_name specs \<and>
    ts_batches ts' = ts_batches ts + totalBatches (drop n (Plan_Modules plan))"
  using assms
proof (induction specs arbitrary: n ts)
  case (Cons spec specs)
  have d: "drop n (Plan_Modules plan) = Plan_Modules plan ! n # drop (Suc n) (Plan_Modules plan)"
    using Cons.prems(2) by (simp add: Cons_nth_drop_Suc)
  obtain ts1 where ts1: "validate_module g plan root (n, spec) ts = Inr ts1"
      "for_res (validate_module g plan root) (enumerate (Suc n) specs) ts1 = Inr ts'"
    using Cons.prems(1) by (auto simp: res_simps)
  show ?case
    using Cons.IH[OF ts1(2)] validate_module_shape[OF ts1(1)] Cons.prems(2) by (simp add: d)
qed simp

lemma valid_plan_shape:
  assumes "ValidatePlan g plan = Inr ()"
  shows "map Module_Name (Plan_Modules plan) = map spec_name (requiredModules g)"
    "Summary_BatchCount (Plan_Summary plan) = totalBatches (Plan_Modules plan)"
    "Summary_TransactionCount (Plan_Summary plan) = 2 * RequiredModuleCount + totalBatches (Plan_Modules plan) + 2"
proof -
  obtain root ts where "validate_modules g plan root = Inr ts" and sm: "validate_summary (Plan_Summary plan) ts = Inr ()"
    using assms by (auto simp: ValidatePlan_def res_simps)
  then have len: "length (Plan_Modules plan) = 7"
    and loop: "for_res (validate_module g plan root) (enumerate 0 (requiredModules g)) \<lparr>ts_total = 0, ts_batches = 0, ts_kindCounts = []\<rparr> = Inr ts"
    by (auto simp: validate_modules_def res_simps RequiredModuleCount_def)
  note shape = validate_loop_shape[OF loop]
  show "map Module_Name (Plan_Modules plan) = map spec_name (requiredModules g)" using shape len by simp
  show "Summary_BatchCount (Plan_Summary plan) = totalBatches (Plan_Modules plan)"
    "Summary_TransactionCount (Plan_Summary plan) = 2 * RequiredModuleCount + totalBatches (Plan_Modules plan) + 2"
    using shape len sm by (simp_all add: validate_summary_def res_simps)
qed

lemma length_calls:
  "int (length (concat (map (module_calls plan) mds))) =
    2 * int (length mds) + totalBatches mds + int (length (filter (\<lambda>md. Module_Name md = ''username'') mds))"
  by (induction mds) (simp_all add: module_calls_def)

lemma filter_names: "length (filter (\<lambda>md. Module_Name md = n) mds) = length (filter (\<lambda>k. k = n) (map Module_Name mds))"
  by (induction mds) simp_all

lemma length_plan_calls:
  assumes "ValidatePlan g plan = Inr ()"
  shows "int (length (plan_calls plan)) = Summary_TransactionCount (Plan_Summary plan)"
proof -
  have "length (Plan_Modules plan) = 7"
    using arg_cong[OF valid_plan_shape(1)[OF assms], of length] by simp
  moreover have "length (filter (\<lambda>md. Module_Name md = ''username'') (Plan_Modules plan)) = 1"
    unfolding filter_names valid_plan_shape(1)[OF assms] required_names by simp
  ultimately show ?thesis
    using valid_plan_shape(3)[OF assms] length_calls[of plan "Plan_Modules plan"]
    by (simp add: plan_calls_def RequiredModuleCount_def)
qed

section \<open>The manifest of an accepted plan\<close>

lemma build_manifest:
  assumes g: "geth_ok g" and sel: "selectors_distinct g" and plan: "ValidatePlan g plan = Inr ()" and raw: "marshal plan = Inr raw"
  shows "BuildCalldataManifest g marshal plan =
    Inr \<lparr>Manifest_Schema = ManifestSchema, Manifest_CalldataReady = True, Manifest_Signed = False, Manifest_Broadcast = False,
         Manifest_PlanSHA256 = hex_encode (Sum256 raw), Manifest_SnapshotRoot = PlanSnapshot_Root (Plan_Snapshot plan),
         Manifest_Target = Plan_Target plan, Manifest_Transactions = map (tx_of g plan) (enumerate 0 (plan_calls plan))\<rparr>"
proof -
  let ?cs = "plan_calls plan"
  have "\<forall>c \<in> set ?cs. call_typed c" using plan_calls_typed by blast
  from append_calls[OF g this, of plan 0 "[]"]
  have "bind_res (for_res (append_module g plan) (Plan_Modules plan) (0, []))
      (\<lambda>st. append_call g plan activate_call st) = Inr (int (length ?cs), map (tx_of g plan) (enumerate 0 ?cs))"
    by (simp add: append_modules_calls plan_calls_def for_res_append for_res_single del: for_res.simps)
  then have txs: "bind_res (for_res (append_module g plan) (Plan_Modules plan) (0, []))
      (\<lambda>st. bind_res (append_call g plan activate_call st) F) = F (int (length ?cs), map (tx_of g plan) (enumerate 0 ?cs))" for F
    by (simp add: bind_res_assoc[symmetric])
  have act: "appendTransaction g plan None None ''activate_suite'' ''activateSuite'' ''SuiteActivationRequested'' [] = append_call g plan activate_call"
    by (simp add: append_call_def activate_call_def)
  have "verify_transaction g plan p = Inr ()" if "p \<in> set (enumerate 0 (map (tx_of g plan) (enumerate 0 ?cs)))" for p
  proof -
    have i: "fst p < length ?cs" "snd p = tx_of g plan (fst p, ?cs ! fst p)"
      using that by (auto simp: in_set_enumerate_eq nth_enumerate_eq)
    have "verify_transaction g plan (fst p, snd p) = Inr ()"
      unfolding i(2) using tx_verifies[OF g sel plan_calls_typed[OF nth_mem[OF i(1)]]] .
    then show ?thesis by simp
  qed
  then have "for_check (verify_transaction g plan) (enumerate 0 (map (tx_of g plan) (enumerate 0 ?cs))) = Inr ()"
    by (simp add: for_check_Inr_iff)
  then show ?thesis
    unfolding BuildCalldataManifest_def act txs
    using plan raw length_plan_calls[OF plan] by (simp add: txs PlanSHA256_def MarshalPlan_def)
qed

end
