(* ===== verification/Geth_Sample.thy ===== *)
theory Geth_Sample
  imports Geth_Interface
begin

text \<open>
  A concrete library that satisfies \<open>geth_ok\<close>: the hash is four weighted sums of the
  bytes followed by the beginning of the input, the text
  functions do what their documentation says, and packing writes a self-delimiting tagged
  form that unpacking reads back. It shows that the hypotheses on go-ethereum can hold and
  evaluates in the examples.
\<close>

section \<open>Self-delimiting byte strings\<close>

fun put_bytes :: "bytes \<Rightarrow> bytes" where
  "put_bytes [] = [0]"
| "put_bytes (x # xs) = 1 # x # put_bytes xs"

fun get_bytes :: "bytes \<Rightarrow> (bytes \<times> bytes) option" where
  "get_bytes [] = None"
| "get_bytes [t] = (if t = 0 then Some ([], []) else None)"
| "get_bytes (t # x # r) =
     (if t = 0 then Some ([], x # r)
      else case get_bytes r of None \<Rightarrow> None | Some (xs, r') \<Rightarrow> Some (x # xs, r'))"

lemma get_put_bytes [simp]: "get_bytes (put_bytes b @ r) = Some (b, r)"
  by (induction b) (cases r; simp)+

fun digits256 :: "nat \<Rightarrow> bytes" where
  "digits256 n = (if n = 0 then [] else word_of_nat n # digits256 (n div 256))"

declare digits256.simps [simp del]

fun value256 :: "bytes \<Rightarrow> nat" where
  "value256 [] = 0"
| "value256 (x # xs) = unat x + 256 * value256 xs"

lemma value_digits256 [simp]: "value256 (digits256 n) = n"
proof (induction n rule: digits256.induct)
  case (1 n)
  then show ?case
    by (subst digits256.simps) (simp add: unat_of_nat take_bit_eq_mod)
qed

section \<open>Packing\<close>

fun put_value :: "abi_value \<Rightarrow> bytes"
  and put_values :: "abi_value list \<Rightarrow> bytes" where
  "put_value (V_bytes32 b) = 1 # put_bytes b"
| "put_value (V_address b) = 2 # put_bytes b"
| "put_value (V_string s) = 3 # put_bytes (map (\<lambda>c. word_of_nat (of_char c)) s)"
| "put_value (V_bytes b) = 4 # put_bytes b"
| "put_value (V_bool b) = [if b then 5 else 6]"
| "put_value (V_uint8 w) = 7 # put_bytes (digits256 (unat w))"
| "put_value (V_uint16 w) = 8 # put_bytes (digits256 (unat w))"
| "put_value (V_uint64 w) = 9 # put_bytes (digits256 (unat w))"
| "put_value (V_big n) = (if n < 0 then 10 else 11) # put_bytes (digits256 (nat (abs n)))"
| "put_value (V_slice vs) = 12 # put_values vs"
| "put_value (V_tuple vs) = 13 # put_values vs"
| "put_values [] = [0]"
| "put_values (v # vs) = 1 # put_value v @ put_values vs"

definition scalar :: "u8 \<Rightarrow> bytes \<Rightarrow> abi_value option" where
  "scalar t b =
     (if t = 1 then Some (V_bytes32 b) else if t = 2 then Some (V_address b)
      else if t = 3 then Some (V_string (map (\<lambda>x. char_of (unat x)) b)) else if t = 4 then Some (V_bytes b)
      else if t = 7 then Some (V_uint8 (word_of_nat (value256 b)))
      else if t = 8 then Some (V_uint16 (word_of_nat (value256 b)))
      else if t = 9 then Some (V_uint64 (word_of_nat (value256 b)))
      else if t = 10 then Some (V_big (- int (value256 b)))
      else if t = 11 then Some (V_big (int (value256 b))) else None)"

fun get_value :: "nat \<Rightarrow> bytes \<Rightarrow> (abi_value \<times> bytes) option"
  and get_values :: "nat \<Rightarrow> bytes \<Rightarrow> (abi_value list \<times> bytes) option" where
  "get_value 0 b = None"
| "get_value (Suc n) [] = None"
| "get_value (Suc n) (t # r) =
     (if t = 5 then Some (V_bool True, r) else if t = 6 then Some (V_bool False, r)
      else if t = 12 then map_option (\<lambda>(vs, r'). (V_slice vs, r')) (get_values n r)
      else if t = 13 then map_option (\<lambda>(vs, r'). (V_tuple vs, r')) (get_values n r)
      else Option.bind (get_bytes r) (\<lambda>(b, r'). map_option (\<lambda>v. (v, r')) (scalar t b)))"
| "get_values 0 b = None"
| "get_values (Suc n) [] = None"
| "get_values (Suc n) (t # r) =
     (if t = 0 then Some ([], r)
      else Option.bind (get_value n r) (\<lambda>(v, r').
           map_option (\<lambda>(vs, r''). (v # vs, r'')) (get_values n r')))"

lemma char_byte [simp]: "char_of (unat (word_of_nat (of_char c) :: u8)) = c"
proof -
  have "of_char c < (256 :: nat)" by simp
  then show ?thesis by (simp add: unat_of_nat take_bit_eq_mod)
qed

lemma put_get_value:
  "length (put_value v) < n \<Longrightarrow> get_value n (put_value v @ r) = Some (v, r)"
  "length (put_values vs) < n \<Longrightarrow> get_values n (put_values vs @ r) = Some (vs, r)"
proof (induction v and vs arbitrary: n r and n r rule: put_value_put_values.induct)
  case (9 k)
  then show ?case by (cases n; cases "k < 0") (simp_all add: scalar_def)
next
  case (10 vs)
  then show ?case by (cases n) simp_all
next
  case (11 vs)
  then show ?case by (cases n) simp_all
next
  case (13 v vs)
  then show ?case by (cases n) simp_all
qed (case_tac n; simp add: scalar_def comp_def; fail)+

definition sample_pack :: "abi_type list \<Rightarrow> abi_value list \<Rightarrow> string + bytes" where
  "sample_pack ts vs = (if abi_args_typed ts vs then Inr (put_values vs) else Inl ''abi: cannot use value as argument'')"

definition sample_unpack :: "abi_type list \<Rightarrow> bytes \<Rightarrow> string + abi_value list" where
  "sample_unpack ts b =
     (case get_values (Suc (length b)) b of
        Some (vs, []) \<Rightarrow> if abi_args_typed ts vs then Inr vs else Inl ''abi: cannot unmarshal''
      | _ \<Rightarrow> Inl ''abi: improperly formatted output'')"

section \<open>The library\<close>

definition fit_left :: "nat \<Rightarrow> bytes \<Rightarrow> bytes" where
  "fit_left n b = (if length b > n then drop (length b - n) b else replicate (n - length b) 0 @ b)"

definition strip_0x :: "string \<Rightarrow> string" where
  "strip_0x s = (if prefix ''0x'' s \<or> prefix ''0X'' s then drop 2 s else s)"

text \<open>Four sums of the bytes with different weights, then the beginning of the input.\<close>

definition sample_hash32 :: "bytes \<Rightarrow> bytes" where
  "sample_hash32 b =
     take 32 (map (\<lambda>k. foldl (\<lambda>h x. k * h + x) k b) [3, 5, 7, 11] @ b @ replicate 28 0)"

definition sample_geth :: geth where
  "sample_geth =
     \<lparr>Keccak256Hash = sample_hash32,
      IsHexAddress = (\<lambda>s. length (strip_0x s) = 40 \<and> hex_decode (strip_0x s) \<noteq> None),
      HexToAddress = (\<lambda>s. fit_left 20 (case hex_decode (strip_0x s) of Some a \<Rightarrow> a | None \<Rightarrow> [])),
      Hash_Hex = (\<lambda>h. ''0x'' @ hex_encode h),
      Address_Hex = (\<lambda>a. ''0x'' @ hex_encode a),
      BytesToHash = fit_left 32, Pack = sample_pack, Unpack = sample_unpack\<rparr>"

lemma fit_left_id [simp]: "length b = n \<Longrightarrow> fit_left n b = b"
  by (simp add: fit_left_def)

lemma strip_hex [simp]: "strip_0x (CHR ''0'' # CHR ''x'' # t) = t"
  by (simp add: strip_0x_def)

lemma put_values_nonempty: "put_values vs \<noteq> []"
  by (cases vs) simp_all

lemma strip_shape:
  assumes "length (strip_0x s) = 40" "length s = 42"
  obtains t where "s = CHR ''0'' # t" "hd t \<in> {CHR ''x'', CHR ''X''}" "strip_0x s = tl t"
proof -
  have "prefix ''0x'' s \<or> prefix ''0X'' s" using assms by (auto simp: strip_0x_def split: if_splits)
  then obtain c u where "s = CHR ''0'' # c # u" "c \<in> {CHR ''x'', CHR ''X''}" by (auto simp: prefix_def)
  then show thesis using that[of "c # u"] by (auto simp: strip_0x_def)
qed

lemma sample_geth_ok: "geth_ok sample_geth"
proof -
  have addr: "\<exists>t a. s = CHR ''0'' # t \<and> hd t \<in> {CHR ''x'', CHR ''X''} \<and> hex_decode (tl t) = Some a \<and> length a = 20"
    if s: "length (strip_0x s) = 40" "hex_decode (strip_0x s) \<noteq> None" "length s = 42" for s
  proof -
    obtain t where t: "s = CHR ''0'' # t" "hd t \<in> {CHR ''x'', CHR ''X''}" "strip_0x s = tl t"
      by (rule strip_shape[OF s(1,3)])
    obtain a where a: "hex_decode (strip_0x s) = Some a" using s(2) by auto
    have "length a = 20" using length_hex_encode[of a] hex_encode_decode[OF a] s(1) by simp
    then show ?thesis using t a by auto
  qed
  have "address_law sample_geth"
    unfolding address_law_def AddressLength_def using addr by (simp add: sample_geth_def lower_char_def)
  moreover have "abi_law sample_geth"
    unfolding abi_law_def
    using put_get_value(2)[where r = "[]"] by (auto simp: sample_geth_def sample_pack_def sample_unpack_def put_values_nonempty)
  ultimately show ?thesis
    by (simp add: geth_ok_def keccak_law_def hash_hex_law_def HashLength_def) (simp add: sample_geth_def sample_hash32_def min_def)
qed

end
