(* ===== verification/Suite_Sample.thy ===== *)
theory Suite_Sample
  imports Calldata_Manifest Geth_Sample
begin

text \<open>
  A small snapshot with a repository, a fork of it, an alias, a reference and a user name,
  together with build options: the inputs on which the properties of the plan builder are
  shown to apply.
\<close>

definition sample_digest :: "u8 \<Rightarrow> string" where
  "sample_digest b = hex_encode (replicate 32 b)"

definition sample_hash :: "u8 \<Rightarrow> string" where
  "sample_hash b = hexBytes (replicate 32 b)"

definition sample_address :: "u8 \<Rightarrow> string" where
  "sample_address b = hexBytes (replicate 20 b)"

definition sample_repository :: "u8 \<Rightarrow> string \<Rightarrow> string \<Rightarrow> SnapshotRepository" where
  "sample_repository b name parent =
     \<lparr>Repository_ID = sample_hash b, Repository_Owner = sample_address b, Repository_Name = name,
      Repository_Description = '''', Repository_DefaultBranch = ''main'', Repository_ForkedFrom = parent,
      Repository_CreatedAt = 1, Repository_UpdatedAt = 2\<rparr>"

definition sample_snapshot :: Snapshot where
  "sample_snapshot =
     \<lparr>Snapshot_Schema = SnapshotSchema,
      Snapshot_Source = \<lparr>Source_ChainID = ''injective-888'', Source_Contract = ''inj1contract'', Source_Height = 7,
        Source_BlockHash = sample_digest 1, Source_InventorySHA256 = sample_digest 2, Source_TxSearchSHA256 = sample_digest 3,
        Source_BlockEvidenceSHA256 = sample_digest 4, Source_EventCommitmentSHA256 = sample_digest 5\<rparr>,
      Snapshot_ContractPolicy = \<lparr>Policy_Admin = sample_address 1, Policy_Treasury = sample_address 2,
        Policy_Committee = sample_address 3, Policy_ReleaseAuthority = sample_address 4,
        Policy_UsernamePolicyAdmin = sample_address 5, Policy_PlatformFeeBPS = 250\<rparr>,
      Snapshot_Repositories = [sample_repository 9 ''fork'' (sample_hash 8), sample_repository 8 ''base'' ''''],
      Snapshot_Aliases = [\<lparr>Alias_RepoID = sample_hash 8, Alias_Owner = sample_address 8, Alias_Name = ''old''\<rparr>],
      Snapshot_Refs = [], Snapshot_Collaborators = [], Snapshot_GuardianConfigs = [],
      Snapshot_Moderation = \<lparr>Moderation_FinalStatuses =
          [\<lparr>FinalStatus_RepoID = sample_hash 8, FinalStatus_Status = ''active''\<rparr>,
           \<lparr>FinalStatus_RepoID = sample_hash 9, FinalStatus_Status = ''active''\<rparr>],
        Moderation_Reports = [], Moderation_StatusTrails = []\<rparr>,
      Snapshot_Economic = \<lparr>Economic_Splits = [], Economic_Totals = []\<rparr>,
      Snapshot_Username = \<lparr>Username_OriginalOwners = [\<lparr>OriginalUsername_Name = ''alice'', OriginalUsername_Owner = sample_address 8\<rparr>],
        Username_ReservedNames = [],
        Username_EscrowRelease = \<lparr>Escrow_AllReleased = True, Escrow_Contract = ''inj1contract'', Escrow_Height = 7,
          Escrow_BlockHash = sample_digest 6, Escrow_Denom = ''inj'', Escrow_EscrowBalance = ''0'', Escrow_EvidenceSHA256 = sample_digest 7\<rparr>\<rparr>,
      Snapshot_Badges = [], Snapshot_BadgeIndexes = \<lparr>BadgeIndexes_ByRecipient = [], BadgeIndexes_ByRepository = []\<rparr>,
      Snapshot_Releases = [], Snapshot_ReleaseVersions = []\<rparr>"

definition sample_options :: BuildOptions where
  "sample_options = \<lparr>Options_TargetChainID = 1439, Options_Directory = sample_address 21,
     Options_Coordinator = sample_address 22, Options_BatchSize = 0\<rparr>"

lemma sample_validates: "validateSnapshot sample_geth sample_snapshot = Inr ()"
  by code_simp

lemma sample_snapshot_ok: "snapshot_ok sample_snapshot"
  using sample_validates sections_exact[OF sample_geth_ok] by simp

lemma sample_selectors: "selectors_distinct sample_geth"
  by code_simp

lemma sample_checked: "check_options sample_geth sample_options = Inr (replicate 20 21, replicate 20 22, 64)"
  by code_simp

text \<open>Every record of the sample encodes to far less than the limit.\<close>

definition encodes_below :: "nat \<Rightarrow> recordGroup \<Rightarrow> bool" where
  "encodes_below n G \<longleftrightarrow> list_all (\<lambda>v. case group_encode G [v] of Inl e \<Rightarrow> True | Inr p \<Rightarrow> length p < n) (group_values G)"

lemma encodes_below_not_oversize: "encodes_below n G \<Longrightarrow> n \<le> MaximumPayloadBytes \<Longrightarrow> \<not> oversize G i e"
  by (auto simp: encodes_below_def oversize_def list_all_length)

lemma sample_records_small:
  "case snapshotModuleRecords sample_geth sample_snapshot of
     None \<Rightarrow> False
   | Some (m, _) \<Rightarrow> list_all (\<lambda>(nm, Gs). list_all (encodes_below 1000) Gs) m"
  by code_simp

abbreviation sample_targets :: "bytes \<times> bytes \<times> int" where
  "sample_targets \<equiv> (replicate 20 21, replicate 20 22, 64)"

definition sample_plan :: Plan where
  "sample_plan = projr (the (build_from_snapshot sample_geth (replicate 32 1) sample_snapshot sample_options sample_targets))"

lemma map_of_list_all: "list_all (\<lambda>(k, v). P v) m \<Longrightarrow> P [] \<Longrightarrow> P (gm_get [] m k)"
  by (auto simp: gm_get_def list_all_iff split: option.split dest: map_of_SomeD)

lemma sample_not_too_large:
  assumes "snapshotModuleRecords sample_geth sample_snapshot = Some (m, sm)"
  shows "\<not> too_large nm (gm_get [] m k) e"
proof -
  have "list_all (\<lambda>(nm, Gs). list_all (encodes_below 1000) Gs) m"
    using sample_records_small assms by simp
  then have "list_all (encodes_below 1000) (gm_get [] m k)" by (rule map_of_list_all) simp
  then show ?thesis
    using encodes_below_not_oversize by (fastforce simp: too_large_def list_all_iff MaximumPayloadBytes_def)
qed

lemma sample_plan_built:
  "build_from_snapshot sample_geth (replicate 32 1) sample_snapshot sample_options sample_targets = Some (Inr sample_plan)"
  "ValidatePlan sample_geth sample_plan = Inr ()"
proof -
  have "length (replicate 32 1 :: bytes) = 32" by simp
  from build_from_snapshot_returns[OF sample_geth_ok sample_snapshot_ok this sample_checked]
  obtain r where r: "build_from_snapshot sample_geth (replicate 32 1) sample_snapshot sample_options sample_targets = Some r"
      "built sample_geth (replicate 32 1) sample_snapshot sample_options sample_targets r" by blast
  have "replicate 32 1 \<noteq> zeroHash" by (simp add: zeroHash_def)
  then obtain plan where "r = Inr plan" "ValidatePlan sample_geth plan = Inr ()"
    using r(2) sample_not_too_large by (cases r) (auto simp: built_def)
  then show "build_from_snapshot sample_geth (replicate 32 1) sample_snapshot sample_options sample_targets = Some (Inr sample_plan)"
    "ValidatePlan sample_geth sample_plan = Inr ()"
    using r(1) by (simp_all add: sample_plan_def)
qed

lemma sample_plan_batch:
  obtains md where "md \<in> set (Plan_Modules sample_plan)" "0 < length (Module_Batches md)"
proof -
  have "built sample_geth (replicate 32 1) sample_snapshot sample_options sample_targets (Inr sample_plan)"
    using build_from_snapshot_returns[OF sample_geth_ok sample_snapshot_ok _ sample_checked, of "replicate 32 1"]
      sample_plan_built(1) by simp
  then obtain m mds where m: "snapshotModuleRecords sample_geth sample_snapshot = Some (m, snapshot_summary sample_snapshot)"
      "modules_valid sample_geth 64 (replicate 32 1) m 0 (requiredModules sample_geth) mds"
      and plan: "sample_plan = plan_header sample_geth (replicate 32 1) sample_snapshot sample_options sample_targets mds
        (finish_summary (snapshot_summary sample_snapshot) mds)"
    by (auto simp: built_def)
  have mds: "Plan_Modules sample_plan = mds" unfolding plan by simp
  obtain G where "snapshotModuleRecords sample_geth sample_snapshot = Some (records_with sample_geth sample_snapshot G, snapshot_summary sample_snapshot)"
    using snapshot_records[OF sample_geth_ok sample_snapshot_ok] by metis
  then have "gm_get [] m ''repository-core'' = [G, alias_group sample_geth (Snapshot_Aliases sample_snapshot),
      ref_group sample_geth (Snapshot_Refs sample_snapshot), collaborator_group sample_geth (Snapshot_Collaborators sample_snapshot)]"
    using m(1) by (simp add: records_with_def gm_get_def)
  moreover have "group_keys (alias_group sample_geth (Snapshot_Aliases sample_snapshot)) \<noteq> []"
    by (simp add: alias_group_def sample_snapshot_def)
  ultimately have "concat (map group_keys (gm_get [] m ''repository-core'')) \<noteq> []" by simp
  then have "Module_Batches (mds ! 0) \<noteq> []" "length mds = 7"
    using m(2) by (auto simp: modules_valid_def module_valid_def requiredModules_def module_spec_def)
  then show thesis using that[of "mds ! 0"] mds by simp
qed

end
