(* ===== verification/Migration_Properties.thy ===== *)
theory Migration_Properties
  imports Suite_Sample
begin

text \<open>
  The properties of the suite migration package: which snapshots are accepted, that plan
  building terminates and only builds plans that validate, what the batches of a plan hold,
  and which transactions the calldata manifest lists.
\<close>

section \<open>Snapshots\<close>

text \<open>C2: \<^verbatim>\<open>validateSnapshot\<close> accepts a snapshot exactly if it satisfies the specification
  \<open>snapshot_ok\<close>: canonical identifiers, unique keys, an acyclic fork relation whose parents
  exist, and the consistency rules between the sections. Nothing else is rejected, nothing
  else is let through.\<close>

theorem validate_snapshot_exact:
  assumes "geth_ok g"
  shows "validateSnapshot g s = Inr () \<longleftrightarrow> snapshot_ok s"
  by (rule sections_exact[OF assms])

theorem validate_snapshot_exact_witness:
  "validateSnapshot sample_geth sample_snapshot = Inr () \<longleftrightarrow> snapshot_ok sample_snapshot"
  by (rule validate_snapshot_exact[OF sample_geth_ok])

text \<open>C15: on an accepted snapshot the sort of the repositories by fork depth returns, it returns
  a permutation of the repositories, and every fork comes after the repository it was forked
  from. \<^verbatim>\<open>forkDepth\<close> is recursive without a bound, so that it returns is part of the claim.\<close>

theorem repositories_parents_first:
  assumes "snapshot_ok s"
  shows "\<exists>rs. sorted_repositories (Snapshot_Repositories s) = Some rs \<and>
    mset rs = mset (Snapshot_Repositories s) \<and>
    (\<forall>us r vs. rs = us @ r # vs \<longrightarrow> Repository_ForkedFrom r \<noteq> '''' \<longrightarrow>
       Repository_ForkedFrom r \<in> Repository_ID ` set us)"
  using sorted_repositories_returns assms unfolding snapshot_ok_def by metis

theorem repositories_parents_first_witness:
  "\<exists>rs. sorted_repositories (Snapshot_Repositories sample_snapshot) = Some rs \<and>
    mset rs = mset (Snapshot_Repositories sample_snapshot) \<and>
    (\<forall>us r vs. rs = us @ r # vs \<longrightarrow> Repository_ForkedFrom r \<noteq> '''' \<longrightarrow>
       Repository_ForkedFrom r \<in> Repository_ID ` set us)"
  by (rule repositories_parents_first[OF sample_snapshot_ok])

section \<open>Plans\<close>

text \<open>C14: \<^verbatim>\<open>BuildPlan\<close> returns on every input: neither the recursion over forks nor the two
  batching loops can run forever, whatever the snapshot and the options are.\<close>

theorem build_plan_terminates:
  assumes "geth_ok g"
  shows "\<exists>r. BuildPlan g decode raw options = Some r"
  using build_plan_returns[OF assms] build_plan_no_inputs[OF assms] by metis

theorem build_plan_terminates_witness:
  "\<exists>r. BuildPlan sample_geth (\<lambda>_. Inr sample_snapshot) [0] sample_options = Some r"
  by (rule build_plan_terminates[OF sample_geth_ok])



text \<open>C7: the batches of a built plan are a partition of the snapshot. The modules are the required
  ones in their order, and the item keys of a module's batches, read in sequence, are the keys
  of the module's record groups: no record is lost, repeated or moved.\<close>

theorem build_plan_partition:
  assumes "geth_ok g" "snapshot_ok s" "length sha = 32" "check_options g options = Inr chk"
    and "build_from_snapshot g sha s options chk = Some (Inr plan)"
  shows "\<exists>m. snapshotModuleRecords g s = Some (m, snapshot_summary s) \<and>
    map (\<lambda>md. (Module_Name md, concat (map Batch_ItemKeys (Module_Batches md)))) (Plan_Modules plan) =
    map (\<lambda>spec. (spec_name spec, concat (map group_keys (gm_get [] m (spec_name spec))))) (requiredModules g)"
proof -
  have "built g sha s options chk (Inr plan)"
    using build_from_snapshot_returns[OF assms(1-4)] assms(5) by simp
  then obtain m mds where m: "snapshotModuleRecords g s = Some (m, snapshot_summary s)" "Plan_Modules plan = mds"
      "modules_valid g (snd (snd chk)) sha m 0 (requiredModules g) mds"
    by (auto simp: built_def)
  have "map (\<lambda>md. (Module_Name md, concat (map Batch_ItemKeys (Module_Batches md)))) mds =
    map (\<lambda>spec. (spec_name spec, concat (map group_keys (gm_get [] m (spec_name spec))))) (requiredModules g)"
    using m(3) by (intro nth_equalityI) (simp_all add: modules_valid_def module_valid_def)
  then show ?thesis using m by blast
qed

theorem build_plan_partition_witness:
  "\<exists>m. snapshotModuleRecords sample_geth sample_snapshot = Some (m, snapshot_summary sample_snapshot) \<and>
    map (\<lambda>md. (Module_Name md, concat (map Batch_ItemKeys (Module_Batches md)))) (Plan_Modules sample_plan) =
    map (\<lambda>spec. (spec_name spec, concat (map group_keys (gm_get [] m (spec_name spec))))) (requiredModules sample_geth)"
  by (rule build_plan_partition[OF sample_geth_ok sample_snapshot_ok _ sample_checked sample_plan_built(1)]) simp

section \<open>Calldata\<close>

text \<open>C8: the calldata manifest of an accepted plan is the script of the plan. Building it never
  fails, the transactions are numbered from zero, they go to the coordinator with value zero,
  and the i-th one has the phase, module and sequence of the i-th call of \<open>plan_calls\<close> and
  calldata that decodes to exactly that function with exactly those arguments. Modules come
  in order, every batch is imported between the begin and the end of its module, the escrow
  release is attested before the user name module is finalised, and activation is last.\<close>

theorem manifest_follows_script:
  assumes "geth_ok g" "selectors_distinct g" "ValidatePlan g plan = Inr ()" "marshal plan = Inr raw"
  shows "\<exists>mf. BuildCalldataManifest g marshal plan = Inr mf \<and>
    length (Manifest_Transactions mf) = length (plan_calls plan) \<and>
    (\<forall>i < length (plan_calls plan).
       let tx = Manifest_Transactions mf ! i; c = plan_calls plan ! i in
       Tx_Order tx = int i \<and> Tx_To tx = Target_Coordinator (Plan_Target plan) \<and> Tx_Value tx = ''0x0'' \<and>
       Tx_Phase tx = Call_Phase c \<and> Tx_ModuleOrder tx = map_option Module_Order (Call_Module c) \<and>
       Tx_Sequence tx = Call_Sequence c \<and>
       (\<exists>m. method_named (Call_Function c) = Some m \<and> Tx_Function tx = Method_Sig m \<and>
          calldataMethod g (Tx_Data tx) = Inr (m, Call_Arguments c)))"
proof -
  let ?txs = "map (tx_of g plan) (enumerate 0 (plan_calls plan))"
  have "\<exists>m. method_named (Call_Function c) = Some m \<and> Tx_Function (tx_of g plan (i, c)) = Method_Sig m \<and>
      calldataMethod g (Tx_Data (tx_of g plan (i, c))) = Inr (m, Call_Arguments c)"
    if "c \<in> set (plan_calls plan)" for c i
  proof -
    note c = plan_calls_typed[OF that]
    obtain m where "method_named (Call_Function c) = Some m"
      "calldataMethod g (Tx_Data (tx_of g plan (i, c))) = Inr (m, Call_Arguments c)"
      by (rule tx_decodes[OF assms(1,2) c])
    then show ?thesis by (simp add: tx_of_def method_sig_def)
  qed
  moreover have "?txs ! i = tx_of g plan (i, plan_calls plan ! i)" if "i < length (plan_calls plan)" for i
    using that by (simp add: nth_enumerate_eq)
  ultimately show ?thesis
    unfolding build_manifest[where marshal = marshal, OF assms] by (simp add: Let_def nth_enumerate_eq) (simp add: tx_of_def)
qed

theorem manifest_follows_script_witness:
  "\<exists>mf. BuildCalldataManifest sample_geth (\<lambda>_. Inr [0]) sample_plan = Inr mf \<and>
    length (Manifest_Transactions mf) = length (plan_calls sample_plan)"
  using manifest_follows_script[OF sample_geth_ok sample_selectors sample_plan_built(2), of "\<lambda>_. Inr [0]" "[0]"] by auto

text \<open>C16: the bounds of an accepted plan. Whoever wrote the plan, the i-th batch of every module has
  sequence number i, between one and the plan's batch size of records (never more than 128), one
  key per record, a kind that belongs to the module, and a payload of at most 96000 bytes that
  hashes to the stated hash and decodes to the stated number of records.\<close>

theorem valid_plan_bounds:
  assumes "ValidatePlan g plan = Inr ()" "md \<in> set (Plan_Modules plan)" "i < length (Module_Batches md)"
  shows "let b = Module_Batches md ! i in
    Batch_Sequence b = word_of_nat i \<and> 1 \<le> unat (Batch_Count b) \<and>
    int (unat (Batch_Count b)) \<le> Limits_BatchSize (Plan_Limits plan) \<and> Limits_BatchSize (Plan_Limits plan) \<le> 128 \<and>
    length (Batch_ItemKeys b) = unat (Batch_Count b) \<and>
    kindName (Module_Name md) (Batch_KindCode b) = Some (Batch_Kind b) \<and>
    (\<exists>p. Batch_Payload b = hexBytes p \<and> 0 < length p \<and> length p \<le> 96000 \<and>
       Batch_PayloadHash b = Hash_Hex g (Keccak256Hash g p) \<and>
       decodePayloadCount g (Module_Name md) (Batch_KindCode b) p = Inr (Batch_Count b))"
proof -
  obtain mid st st' where c: "check_batch g (Limits_BatchSize (Plan_Limits plan)) (Module_Name md) mid (i, Module_Batches md ! i) st = Inr st'"
    and n: "1 \<le> Limits_BatchSize (Plan_Limits plan)" "Limits_BatchSize (Plan_Limits plan) \<le> 128"
    by (rule valid_plan_batches[OF assms])
  show ?thesis
    unfolding Let_def using check_batch_bounds[OF c n] n(2) by (simp only: MaximumPayloadBytes_def)
qed

theorem valid_plan_bounds_witness:
  "\<exists>md \<in> set (Plan_Modules sample_plan). 0 < length (Module_Batches md) \<and> 1 \<le> unat (Batch_Count (Module_Batches md ! 0))"
  using sample_plan_batch valid_plan_bounds[OF sample_plan_built(2)] unfolding Let_def by metis

end
