(* ===== verification/Go_Runes.thy ===== *)
theory Go_Runes
  imports Go_Codec
begin

text \<open>
  Strings as sequences of code points: \<^verbatim>\<open>utf8.DecodeRuneInString\<close>, the loop
  \<^verbatim>\<open>for i, char := range s\<close>, and \<^verbatim>\<open>strings.ToLower\<close> on arbitrary strings. The case table of
  the package \<^verbatim>\<open>unicode\<close> is the parameter \<open>lower_rune\<close> (\<^verbatim>\<open>unicode.ToLower\<close>); on ASCII the
  function needs no table.
\<close>

definition rune_error :: nat where
  "rune_error = 0xFFFD"

definition cont :: "nat \<Rightarrow> nat \<Rightarrow> char \<Rightarrow> bool" where
  "cont lo hi c \<longleftrightarrow> lo \<le> of_char c \<and> of_char c \<le> hi"

definition low6 :: "char \<Rightarrow> nat" where
  "low6 c = of_char c mod 64"

text \<open>The code point at the start of a string and the number of bytes it takes.\<close>

definition decode_rune :: "string \<Rightarrow> nat \<times> nat" where
  "decode_rune s =
     (case s of
        [] \<Rightarrow> (rune_error, 0)
      | c # r \<Rightarrow>
         (let b = of_char c :: nat in
          if b < 0x80 then (b, 1)
          else if 0xC2 \<le> b \<and> b \<le> 0xDF then
            (case r of
               c1 # _ \<Rightarrow> if cont 0x80 0xBF c1 then ((b mod 32) * 64 + low6 c1, 2) else (rune_error, 1)
             | [] \<Rightarrow> (rune_error, 1))
          else if 0xE0 \<le> b \<and> b \<le> 0xEF then
            (case r of
               c1 # c2 # _ \<Rightarrow>
                 if cont (if b = 0xE0 then 0xA0 else 0x80) (if b = 0xED then 0x9F else 0xBF) c1 \<and> cont 0x80 0xBF c2
                 then ((b mod 16) * 4096 + low6 c1 * 64 + low6 c2, 3) else (rune_error, 1)
             | _ \<Rightarrow> (rune_error, 1))
          else if 0xF0 \<le> b \<and> b \<le> 0xF4 then
            (case r of
               c1 # c2 # c3 # _ \<Rightarrow>
                 if cont (if b = 0xF0 then 0x90 else 0x80) (if b = 0xF4 then 0x8F else 0xBF) c1 \<and>
                    cont 0x80 0xBF c2 \<and> cont 0x80 0xBF c3
                 then ((b mod 8) * 262144 + low6 c1 * 4096 + low6 c2 * 64 + low6 c3, 4) else (rune_error, 1)
             | _ \<Rightarrow> (rune_error, 1))
          else (rune_error, 1)))"

lemma decode_rune_width: "s \<noteq> [] \<Longrightarrow> 0 < snd (decode_rune s)"
  by (cases s) (auto simp: decode_rune_def Let_def split: list.splits)

text \<open>The loop over a string: byte offset and code point of every character.\<close>

function range_from :: "nat \<Rightarrow> string \<Rightarrow> (nat \<times> nat) list" where
  "range_from i s =
     (if s = [] then []
      else (i, fst (decode_rune s)) # range_from (i + snd (decode_rune s)) (drop (snd (decode_rune s)) s))"
  by pat_completeness auto
termination
  by (relation "measure (\<lambda>(i, s). length s)") (auto simp: decode_rune_width)

declare range_from.simps [simp del]

definition range_string :: "string \<Rightarrow> (nat \<times> nat) list" where
  "range_string s = range_from 0 s"

definition ascii :: "string \<Rightarrow> bool" where
  "ascii s \<longleftrightarrow> (\<forall>c \<in> set s. of_char c < (128 :: nat))"

lemma range_from_append:
  "ascii s \<Longrightarrow> range_from i (s @ t) = map (\<lambda>(j, c). (j, of_char c)) (enumerate i s) @ range_from (i + length s) t"
proof (induction s arbitrary: i)
  case (Cons c s)
  then have "decode_rune (c # s @ t) = (of_char c, 1)" "ascii s" by (simp_all add: ascii_def decode_rune_def)
  with Cons.IH[of "Suc i"] show ?case by (subst range_from.simps) simp
qed simp

lemma range_from_Nil [simp]: "range_from i [] = []"
  by (simp add: range_from.simps)

lemma range_from_ascii: "ascii s \<Longrightarrow> range_from i s = map (\<lambda>(j, c). (j, of_char c)) (enumerate i s)"
  using range_from_append[of s i "[]"] by simp

lemma range_string_ascii: "ascii s \<Longrightarrow> range_string s = map (\<lambda>(j, c). (j, of_char c)) (enumerate 0 s)"
  by (simp add: range_string_def range_from_ascii)

definition encode_rune :: "nat \<Rightarrow> string" where
  "encode_rune r =
    (let r = (if r > 0x10FFFF \<or> (0xD800 \<le> r \<and> r \<le> 0xDFFF) then rune_error else r) in
     if r < 0x80 then [char_of r]
     else if r < 0x800 then [char_of (0xC0 + r div 64), char_of (0x80 + r mod 64)]
     else if r < 0x10000 then [char_of (0xE0 + r div 4096), char_of (0x80 + r div 64 mod 64), char_of (0x80 + r mod 64)]
     else [char_of (0xF0 + r div 262144), char_of (0x80 + r div 4096 mod 64), char_of (0x80 + r div 64 mod 64),
           char_of (0x80 + r mod 64)])"

lemma encode_rune_ascii: "of_char c < (128 :: nat) \<Longrightarrow> encode_rune (of_char c) = [c]"
  by (simp add: encode_rune_def Let_def)

lemma encode_runes_ascii:
  "ascii s \<Longrightarrow> concat (map (\<lambda>(i, r). encode_rune r) (map (\<lambda>(j, c). (j, of_char c)) (enumerate i s))) = s"
  by (induction s arbitrary: i) (simp_all add: encode_rune_ascii ascii_def)

definition ToLower :: "(nat \<Rightarrow> nat) \<Rightarrow> string \<Rightarrow> string" where
  "ToLower lower_rune s =
     (if ascii s then to_lower s else concat (map (\<lambda>(i, r). encode_rune (lower_rune r)) (range_string s)))"

lemma ToLower_ascii [simp]: "ascii s \<Longrightarrow> ToLower lr s = to_lower s"
  by (simp add: ToLower_def)

lemma ascii_simps [simp]: "ascii []" "ascii (c # s) \<longleftrightarrow> of_char c < (128 :: nat) \<and> ascii s" "ascii (s @ t) \<longleftrightarrow> ascii s \<and> ascii t"
  by (auto simp: ascii_def)

lemma range_codes: "ascii s \<Longrightarrow> map snd (range_string s) = map of_char s"
proof -
  have "map snd (map (\<lambda>(j, c). (j, of_char c)) (enumerate i s)) = map of_char s" for i
    by (induction s arbitrary: i) auto
  then show "ascii s \<Longrightarrow> ?thesis" by (simp only: range_string_ascii)
qed

lemma all_codes: "ascii s \<Longrightarrow> (\<forall>x \<in> set (range_string s). P (snd x)) \<longleftrightarrow> (\<forall>c \<in> set s. P (of_char c))"
proof -
  assume "ascii s"
  then have "snd ` set (range_string s) = of_char ` set s" by (metis range_codes set_map)
  then have "(\<forall>r \<in> snd ` set (range_string s). P r) \<longleftrightarrow> (\<forall>r \<in> of_char ` set s. P r)" by simp
  then show ?thesis by (simp only: ball_simps)
qed

lemma rune_multibyte: "128 \<le> (of_char c :: nat) \<Longrightarrow> 128 \<le> fst (decode_rune (c # r))"
proof -
  assume h: "128 \<le> (of_char c :: nat)"
  have two: "128 \<le> (b mod 32) * 64 + k" if "0xC2 \<le> b" "b \<le> 0xDF" for b k :: nat
  proof -
    have "2 \<le> b mod 32" using that by presburger
    then show ?thesis by simp
  qed
  have three: "128 \<le> (b mod 16) * 4096 + low6 c1 * 64 + k"
    if "0xE0 \<le> b" "b \<le> 0xEF" "cont (if b = 0xE0 then 0xA0 else 0x80) hi c1" "hi \<le> 0xBF" for b k hi :: nat and c1
  proof (cases "b = 0xE0")
    case True
    then have "low6 c1 = of_char c1 - 128" using that by (auto simp: low6_def cont_def mod_if)
    moreover have "32 \<le> of_char c1 - (128 :: nat)" using that True by (auto simp: cont_def)
    ultimately show ?thesis by simp
  next
    case False
    then have "1 \<le> b mod 16" using that by presburger
    then show ?thesis by simp
  qed
  have four: "128 \<le> (b mod 8) * 262144 + low6 c1 * 4096 + k"
    if "0xF0 \<le> b" "b \<le> 0xF4" "cont (if b = 0xF0 then 0x90 else 0x80) hi c1" "hi \<le> 0xBF" for b k hi :: nat and c1
  proof (cases "b = 0xF0")
    case True
    then have "low6 c1 = of_char c1 - 128" using that by (auto simp: low6_def cont_def mod_if)
    moreover have "16 \<le> of_char c1 - (128 :: nat)" using that True by (auto simp: cont_def)
    ultimately show ?thesis by simp
  next
    case False
    then have "1 \<le> b mod 8" using that by presburger
    then show ?thesis by simp
  qed
  let ?b = "of_char c :: nat"
  have "decode_rune (c # r) = (rune_error, 1)"
    if "\<not> (0xC2 \<le> ?b \<and> ?b \<le> 0xDF)" "\<not> (0xE0 \<le> ?b \<and> ?b \<le> 0xEF)" "\<not> (0xF0 \<le> ?b \<and> ?b \<le> 0xF4)"
    using h that by (simp only: decode_rune_def Let_def list.case if_False if_True not_less[symmetric])
  then consider "0xC2 \<le> ?b" "?b \<le> 0xDF" | "0xE0 \<le> ?b" "?b \<le> 0xEF" | "0xF0 \<le> ?b" "?b \<le> 0xF4"
    | "decode_rune (c # r) = (rune_error, 1)"
    by blast
  then show ?thesis
  proof cases
    case 1
    then show ?thesis using two[OF 1] by (simp add: decode_rune_def Let_def rune_error_def split: list.split)
  next
    case 2
    obtain lo hi :: nat where lo: "lo = (if ?b = 0xE0 then 0xA0 else 0x80)" and hi: "hi = (if ?b = 0xED then 0x9F else 0xBF)" by blast
    have d: "decode_rune (c # r) =
      (case r of c1 # c2 # _ \<Rightarrow> if cont lo hi c1 \<and> cont 0x80 0xBF c2
          then ((?b mod 16) * 4096 + low6 c1 * 64 + low6 c2, 3) else (rune_error, 1)
       | _ \<Rightarrow> (rune_error, 1))"
      using 2 unfolding lo hi decode_rune_def Let_def by simp
    have "hi \<le> 0xBF" unfolding hi by simp
    with three[OF 2, folded lo] show ?thesis unfolding d by (auto simp: rune_error_def split: list.split)
  next
    case 3
    obtain lo hi :: nat where lo: "lo = (if ?b = 0xF0 then 0x90 else 0x80)" and hi: "hi = (if ?b = 0xF4 then 0x8F else 0xBF)" by blast
    have d: "decode_rune (c # r) =
      (case r of c1 # c2 # c3 # _ \<Rightarrow> if cont lo hi c1 \<and> cont 0x80 0xBF c2 \<and> cont 0x80 0xBF c3
          then ((?b mod 8) * 262144 + low6 c1 * 4096 + low6 c2 * 64 + low6 c3, 4) else (rune_error, 1)
       | _ \<Rightarrow> (rune_error, 1))"
      using 3 unfolding lo hi decode_rune_def Let_def by simp
    have "hi \<le> 0xBF" unfolding hi by simp
    with four[OF 3, folded lo] show ?thesis unfolding d by (auto simp: rune_error_def add.assoc split: list.split)
  next
    case 4
    then show ?thesis by (simp add: rune_error_def)
  qed
qed

lemma ascii_runes: "(\<forall>(j, r) \<in> set (range_from i s). r < 128) \<Longrightarrow> ascii s"
proof (induction "length s" arbitrary: i s rule: less_induct)
  case less
  show ?case
  proof (cases s)
    case (Cons c r)
    have "fst (decode_rune s) < 128" using less.prems Cons by (subst (asm) range_from.simps) simp
    then have c: "of_char c < (128 :: nat)" using rune_multibyte[of c r] Cons by (meson not_le)
    then have "decode_rune s = (of_char c, 1)" by (simp add: decode_rune_def Cons)
    then have "\<forall>(j, r) \<in> set (range_from (i + 1) r). r < 128"
      using less.prems Cons by (subst (asm) range_from.simps) simp
    with less.hyps[of r "i + 1"] c Cons show ?thesis by simp
  qed simp
qed

end
