(* ===== verification/Evm_Address.thy ===== *)
theory Evm_Address
  imports Go_Runes
begin

text \<open>
  \<^verbatim>\<open>cli/internal/chain/evm_address.go\<close> and \<^verbatim>\<open>evm_codec.go\<close>: account addresses as hexadecimal and
  as bech32 text. The checksum works on 32-bit words and the bit regrouping on a 64-bit
  accumulator that is allowed to wrap, as in the code.
\<close>

unbundle bit_operations_syntax

datatype address_error =
    InvalidBech32
  | UnsupportedPrefix string
  | InvalidBech32Char nat
  | InvalidChecksum
  | BitConversion nat nat
  | ValueExceedsBits byte nat
  | InvalidPadding
  | NonZeroPadding
  | PayloadLength nat
  | AddressBytes
  | AddressHex

section \<open>Checksum\<close>

definition bech32Charset :: string where
  "bech32Charset = ''qpzry9x8gf2tvdw0s3jn54khce6mua7l''"

definition bech32HrpExpand :: "string \<Rightarrow> bytes" where
  "bech32HrpExpand p =
     map (\<lambda>(i, char). word_of_nat (char div 32)) (range_string p) @ [0] @
     map (\<lambda>(i, char). word_of_nat (char mod 32)) (range_string p)"

definition generators :: "u32 list" where
  "generators = [0x3b6a57b2, 0x26508e6d, 0x1ea119fa, 0x3d4233dd, 0x2a1462b3]"

definition polymod_mix :: "u32 \<Rightarrow> u32 \<Rightarrow> u32" where
  "polymod_mix high checksum =
     foldl (\<lambda>c (i, gen). if (drop_bit i high) AND 1 \<noteq> 0 then c XOR gen else c) checksum (enumerate 0 generators)"

definition polymod_step :: "u32 \<Rightarrow> byte \<Rightarrow> u32" where
  "polymod_step checksum val =
    (let high = drop_bit 25 checksum in
     polymod_mix high (push_bit 5 (checksum AND 0x1ffffff) XOR ucast val))"

definition bech32Polymod :: "bytes \<Rightarrow> u32" where
  "bech32Polymod values = foldl polymod_step 1 values"

definition bech32Checksum :: "string \<Rightarrow> bytes \<Rightarrow> bytes" where
  "bech32Checksum p values =
    (let m = bech32Polymod (bech32HrpExpand p @ values @ replicate 6 0) XOR 1 in
     map (\<lambda>i. ucast (drop_bit (5 * (5 - i)) m AND 31)) [0..<6])"

definition bech32VerifyChecksum :: "string \<Rightarrow> bytes \<Rightarrow> bool" where
  "bech32VerifyChecksum p values \<longleftrightarrow> bech32Polymod (bech32HrpExpand p @ values) = 1"

section \<open>Regrouping bits\<close>

definition maxValue :: "nat \<Rightarrow> byte" where
  "maxValue toBits = word_of_nat (2 ^ toBits - 1)"

text \<open>The inner loop: emit groups while enough bits are pending.\<close>

fun emit_groups :: "nat \<Rightarrow> u64 \<Rightarrow> nat \<Rightarrow> bytes \<Rightarrow> nat \<times> bytes" where
  "emit_groups toBits acc bits res =
     (if toBits = 0 \<or> bits < toBits then (bits, res)
      else emit_groups toBits acc (bits - toBits)
        (res @ [ucast (drop_bit (bits - toBits) acc AND ucast (maxValue toBits))]))"

declare emit_groups.simps [simp del]

definition convert_step :: "nat \<Rightarrow> nat \<Rightarrow> byte \<Rightarrow> u64 \<times> nat \<times> bytes \<Rightarrow> address_error + u64 \<times> nat \<times> bytes" where
  "convert_step fromBits toBits val = (\<lambda>(acc, bits, res).
     if drop_bit fromBits val \<noteq> 0 then Inl (ValueExceedsBits val fromBits)
     else
       let acc' = push_bit fromBits acc OR ucast val;
           (bits', res') = emit_groups toBits acc' (bits + fromBits) res
       in Inr (acc', bits', res'))"

definition bech32ConvertBits :: "bytes \<Rightarrow> nat \<Rightarrow> nat \<Rightarrow> bool \<Rightarrow> address_error + bytes" where
  "bech32ConvertBits data fromBits toBits pad =
     (if fromBits = 0 \<or> toBits = 0 \<or> fromBits > 8 \<or> toBits > 8 then Inl (BitConversion fromBits toBits)
      else bind_res (for_res (convert_step fromBits toBits) data (0, 0, [])) (\<lambda>(acc, bits, res).
        if pad then
          if bits > 0 then Inr (res @ [ucast (push_bit (toBits - bits) acc AND ucast (maxValue toBits))]) else Inr res
        else if bits \<ge> fromBits then Inl InvalidPadding
        else if push_bit (toBits - bits) acc AND ucast (maxValue toBits) \<noteq> 0 then Inl NonZeroPadding
        else Inr res))"

section \<open>Addresses\<close>

definition index_byte :: "string \<Rightarrow> char \<Rightarrow> int" where
  \<comment> \<open>\<^verbatim>\<open>strings.IndexByte\<close>\<close>
  "index_byte s c = (case find (\<lambda>i. s ! i = c) [0..<length s] of Some i \<Rightarrow> int i | None \<Rightarrow> -1)"

definition last_index_byte :: "string \<Rightarrow> char \<Rightarrow> int" where
  \<comment> \<open>\<^verbatim>\<open>strings.LastIndexByte\<close>\<close>
  "last_index_byte s c = (case find (\<lambda>i. s ! i = c) (rev [0..<length s]) of Some i \<Rightarrow> int i | None \<Rightarrow> -1)"

definition decode_char :: "nat \<times> nat \<Rightarrow> bytes \<Rightarrow> address_error + bytes" where
  \<comment> \<open>\<^verbatim>\<open>byte(char)\<close> keeps the low eight bits of the code point\<close>
  "decode_char = (\<lambda>(i, char) values.
    (let index = index_byte bech32Charset (char_of (char mod 256)) in
     if index < 0 then Inl (InvalidBech32Char char) else Inr (values[i := word_of_int index])))"

definition decodeBech32Address :: "(nat \<Rightarrow> nat) \<Rightarrow> string \<Rightarrow> address_error + bytes" where
  "decodeBech32Address lower_rune val =
     (if val = '''' \<or> ToLower lower_rune val \<noteq> val then Inl InvalidBech32
      else let separator = last_index_byte val CHR ''1'' in
      if separator \<le> 0 \<or> separator + 7 > int (length val) then Inl InvalidBech32
      else let p = take (nat separator) val in
      if p \<noteq> ''inj'' then Inl (UnsupportedPrefix p)
      else let encoded = drop (nat separator + 1) val in
      bind_res (for_res decode_char (range_string encoded) (replicate (length encoded) 0)) (\<lambda>values.
      if \<not> bech32VerifyChecksum p values then Inl InvalidChecksum
      else bind_res (bech32ConvertBits (take (length values - 6) values) 5 8 False) (\<lambda>converted.
      if length converted \<noteq> 20 then Inl (PayloadLength (length converted)) else Inr converted)))"

definition encodeBech32Address :: "string \<Rightarrow> bytes \<Rightarrow> string" where
  "encodeBech32Address p payload =
     (case bech32ConvertBits payload 8 5 True of
        Inl _ \<Rightarrow> ''''
      | Inr converted \<Rightarrow>
          p @ ''1'' @ map (\<lambda>v. bech32Charset ! unat v) (converted @ bech32Checksum p converted))"

definition parseEVMAddress :: "(nat \<Rightarrow> nat) \<Rightarrow> string \<Rightarrow> address_error + bytes" where
  "parseEVMAddress lower_rune val =
    (let trimmed = trim_space val in
     if prefix ''0x'' trimmed \<or> prefix ''0X'' trimmed then
       (let digits = drop 2 trimmed in
        if length digits \<noteq> 40 then Inl AddressBytes
        else case hex_decode digits of None \<Rightarrow> Inl AddressHex | Some decoded \<Rightarrow> Inr decoded)
     else decodeBech32Address lower_rune trimmed)"

definition normalizeEVMAddress :: "(nat \<Rightarrow> nat) \<Rightarrow> string \<Rightarrow> address_error + string" where
  "normalizeEVMAddress lower_rune val =
     bind_res (parseEVMAddress lower_rune val) (\<lambda>decoded. Inr (''0x'' @ hex_encode decoded))"

definition userAddressFromEVM :: "(nat \<Rightarrow> nat) \<Rightarrow> string \<Rightarrow> address_error + string" where
  "userAddressFromEVM lower_rune val =
     bind_res (parseEVMAddress lower_rune val) (\<lambda>decoded. Inr (encodeBech32Address ''inj'' decoded))"


end
