(* ===== verification/Bech32_Checksum.thy ===== *)
theory Bech32_Checksum
  imports Evm_Address
begin

text \<open>
  The bech32 checksum is linear over XOR, so the six checksum values that the encoder appends
  always pass the verification of the decoder, for every prefix and every payload.
\<close>

unbundle bit_operations_syntax

section \<open>One step of the polynomial\<close>

definition mix :: "u32 \<Rightarrow> u32" where
  "mix t = (if bit t 0 then 0x3b6a57b2 else 0) XOR (if bit t 1 then 0x26508e6d else 0) XOR
     (if bit t 2 then 0x1ea119fa else 0) XOR (if bit t 3 then 0x3d4233dd else 0) XOR (if bit t 4 then 0x2a1462b3 else 0)"

lemma bit_test: "(drop_bit i (w :: u32)) AND 1 \<noteq> 0 \<longleftrightarrow> bit w i"
  by (simp add: bit_iff_odd_drop_bit and_one_eq mod_2_eq_odd)

lemma polymod_mix_xor: "polymod_mix t c = c XOR mix t"
proof -
  have "polymod_mix t c = foldl (\<lambda>c (i, gen). c XOR (if bit t i then gen else 0)) c (enumerate 0 generators)"
    unfolding polymod_mix_def by (rule foldl_cong[OF refl refl]) (auto simp: bit_test)
  also have "enumerate 0 generators = [(0, 0x3b6a57b2), (1, 0x26508e6d), (2, 0x1ea119fa), (3, 0x3d4233dd), (4, 0x2a1462b3)]"
    by (simp add: generators_def)
  finally show ?thesis by (simp only: foldl.simps prod.case mix_def xor.assoc)
qed

lemma sel_xor: "(if p \<noteq> q then (g :: u32) else 0) = (if p then g else 0) XOR (if q then g else 0)"
  by simp

lemma mix_xor: "mix (s XOR t) = mix s XOR mix t"
  unfolding mix_def bit_xor_iff sel_xor by (simp only: xor.assoc xor.left_commute)

lemma mix_0 [simp]: "mix 0 = 0"
  by (simp add: mix_def)

lemma step_eq: "polymod_step c v = push_bit 5 (c AND 0x1ffffff) XOR ucast v XOR mix (drop_bit 25 c)"
  by (simp add: polymod_step_def polymod_mix_xor Let_def xor.assoc)

lemma step_value: "polymod_step c v = polymod_step c 0 XOR ucast v"
  by (simp add: step_eq ac_simps)

lemma step_xor: "polymod_step (a XOR b) 0 = polymod_step a 0 XOR polymod_step b 0"
proof -
  have "push_bit 5 ((a XOR b) AND 0x1ffffff) = push_bit 5 (a AND 0x1ffffff) XOR push_bit 5 (b AND 0x1ffffff)"
    by (simp only: push_bit_xor[symmetric]) (simp add: bit_eq_iff bit_simps; blast)
  then show ?thesis
    by (simp add: step_eq drop_bit_xor mix_xor ac_simps)
qed

lemma mask25: "(0x1ffffff :: u32) = mask 25"
  by (simp add: mask_eq_exp_minus_1)

lemma step_small: "drop_bit 25 c = 0 \<Longrightarrow> polymod_step c 0 = push_bit 5 c"
proof -
  assume c: "drop_bit 25 c = 0"
  have "c AND 0x1ffffff = take_bit 25 c" by (simp add: mask25 take_bit_eq_mask)
  also have "\<dots> = c" using c bits_ident[of 25 c] by simp
  finally show ?thesis by (simp add: step_eq c)
qed

lemma step_bound: "take_bit 30 (polymod_step c v) = polymod_step c v"
proof -
  have "take_bit 30 (push_bit 5 (c AND 0x1ffffff)) = push_bit 5 (c AND 0x1ffffff)"
    by (rule bit_word_eqI) (auto simp: bit_simps mask25)
  moreover have "take_bit 30 (ucast v :: u32) = ucast v"
    by (rule bit_word_eqI) (auto simp: bit_simps dest: bit_imp_le_length)
  moreover have "take_bit 30 (mix t) = mix t" for t
    unfolding mix_def take_bit_xor by (simp split: if_splits)
  ultimately show ?thesis by (simp add: step_eq take_bit_xor)
qed

section \<open>Six checksum values\<close>

abbreviation steps :: "u32 \<Rightarrow> bytes \<Rightarrow> u32" where
  "steps c vs \<equiv> foldl polymod_step c vs"

lemma steps_zero_xor: "steps (a XOR b) (replicate n 0) = steps a (replicate n 0) XOR steps b (replicate n 0)"
  by (induction n arbitrary: a b) (simp_all add: step_xor)

text \<open>A five-bit value followed by at most five zeros is only shifted.\<close>

lemma steps_shift: "unat (v :: byte) < 32 \<Longrightarrow> n \<le> 5 \<Longrightarrow> steps (ucast v) (replicate n 0) = push_bit (5 * n) (ucast v)"
proof (induction n)
  case (Suc n)
  have v: "\<not> bit v k" if "5 \<le> k" for k
  proof -
    have "take_bit 5 v = v" using Suc.prems(1) by (simp add: word_unat_eq_iff take_bit_eq_mod unat_mod)
    then show ?thesis using that by (metis bit_take_bit_iff not_less)
  qed
  have "drop_bit 25 (push_bit (5 * n) (ucast v :: u32)) = 0"
    using Suc.prems(2) v by (intro bit_word_eqI) (auto simp: bit_simps)
  then have "polymod_step (push_bit (5 * n) (ucast v)) 0 = push_bit 5 (push_bit (5 * n) (ucast v))" by (rule step_small)
  moreover have "replicate (Suc n) (0 :: byte) = replicate n 0 @ [0]" by (simp add: replicate_append_same)
  ultimately show ?case using Suc by (simp add: push_bit_push_bit algebra_simps)
qed simp

lemma steps_cons:
  assumes "unat v < 32" "length vs \<le> 5"
  shows "steps c (v # vs) = steps (polymod_step c 0) vs XOR push_bit (5 * length vs) (ucast v)"
  using assms
proof -
  have lin: "steps (a XOR b) vs = steps a vs XOR steps b (replicate (length vs) 0)" for a b
  proof (induction vs arbitrary: a b)
    case (Cons w ws)
    have "polymod_step (a XOR b) w = polymod_step a w XOR polymod_step b 0"
      unfolding step_value[of "a XOR b" w] step_value[of a w] step_xor by (simp add: ac_simps)
    then show ?case using Cons by simp
  qed simp
  show ?thesis
    unfolding foldl.simps step_value[of c v] lin steps_shift[OF assms(1,2)] ..
qed

lemma group_bits: "push_bit k (drop_bit k (m :: u32) AND 31) = take_bit (k + 5) m XOR take_bit k m"
proof (rule bit_word_eqI)
  fix n assume n: "n < LENGTH(32)"
  have mask: "(31 :: u32) = mask 5" by (simp add: mask_eq_exp_minus_1)
  show "bit (push_bit k (drop_bit k m AND 31)) n = bit (take_bit (k + 5) m XOR take_bit k m) n"
    unfolding mask using n by (cases "k \<le> n") (auto simp: bit_simps)
qed

lemma join_groups:
  fixes m :: u32
  assumes "take_bit 30 m = m"
  shows "push_bit 25 (drop_bit 25 m AND 31) XOR push_bit 20 (drop_bit 20 m AND 31) XOR push_bit 15 (drop_bit 15 m AND 31) XOR
    push_bit 10 (drop_bit 10 m AND 31) XOR push_bit 5 (drop_bit 5 m AND 31) XOR push_bit 0 (drop_bit 0 m AND 31) = m"
  unfolding group_bits using assms by (simp add: xor.assoc xor.left_commute)

lemma checksum_values:
  "map (\<lambda>i. ucast (drop_bit (5 * (5 - i)) (m :: u32) AND 31) :: byte) [0..<6] =
     [ucast (drop_bit 25 m AND 31), ucast (drop_bit 20 m AND 31), ucast (drop_bit 15 m AND 31),
      ucast (drop_bit 10 m AND 31), ucast (drop_bit 5 m AND 31), ucast (drop_bit 0 m AND 31)]"
  by (simp add: upt_rec)

lemma five_bits: "unat (ucast ((w :: u32) AND 31) :: byte) < 32" "(ucast (ucast (w AND 31) :: byte) :: u32) = w AND 31"
proof -
  have m: "w AND 31 = take_bit 5 w" by (simp add: take_bit_eq_mask mask_eq_exp_minus_1)
  show "unat (ucast (w AND 31) :: byte) < 32"
    unfolding m by (simp add: unsigned_ucast_eq take_bit_eq_mod unat_mod)
  show "(ucast (ucast (w AND 31) :: byte) :: u32) = w AND 31"
    unfolding m by (rule bit_word_eqI) (auto simp: bit_simps)
qed

lemma steps_checksum:
  fixes m :: u32
  assumes "take_bit 30 m = m"
  shows "steps c (map (\<lambda>i. ucast (drop_bit (5 * (5 - i)) m AND 31)) [0..<6]) = steps c (replicate 6 0) XOR m"
proof -
  have zeros: "replicate 6 (0 :: byte) = [0, 0, 0, 0, 0, 0]" by (simp add: numeral_eq_Suc)
  have "steps c (map (\<lambda>i. ucast (drop_bit (5 * (5 - i)) m AND 31)) [0..<6]) =
      steps c (replicate 6 0) XOR (push_bit 0 (drop_bit 0 m AND 31) XOR push_bit 5 (drop_bit 5 m AND 31) XOR
        push_bit 10 (drop_bit 10 m AND 31) XOR push_bit 15 (drop_bit 15 m AND 31) XOR push_bit 20 (drop_bit 20 m AND 31) XOR
        push_bit 25 (drop_bit 25 m AND 31))"
    unfolding checksum_values zeros by (simp add: steps_cons five_bits xor.assoc del: foldl_Cons)
  also have "\<dots> = steps c (replicate 6 0) XOR m"
    using join_groups[OF assms] by (simp only: xor.commute xor.left_commute xor.assoc)
  finally show ?thesis .
qed

lemma checksum_verifies: "bech32VerifyChecksum p (values @ bech32Checksum p values)"
proof -
  let ?c = "bech32Polymod (bech32HrpExpand p @ values)"
  let ?m = "steps ?c (replicate 6 0) XOR 1"
  have m: "bech32Checksum p values = map (\<lambda>i. ucast (drop_bit (5 * (5 - i)) ?m AND 31)) [0..<6]"
    by (simp add: bech32Checksum_def bech32Polymod_def)
  have "steps ?c (replicate 6 0) = polymod_step (steps ?c (replicate 5 0)) 0"
    by (simp add: numeral_eq_Suc replicate_append_same[symmetric])
  then have "take_bit 30 (steps ?c (replicate 6 0)) = steps ?c (replicate 6 0)" by (simp add: step_bound)
  then have "take_bit 30 ?m = ?m" by (simp add: take_bit_xor)
  then have "steps ?c (bech32Checksum p values) = steps ?c (replicate 6 0) XOR ?m" unfolding m by (rule steps_checksum)
  also have "\<dots> = 1" by (simp add: xor.assoc[symmetric])
  finally show ?thesis by (simp add: bech32VerifyChecksum_def bech32Polymod_def)
qed

end
