(* ===== verification/Bech32_Bits.thy ===== *)
theory Bech32_Bits
  imports Evm_Address
begin

text \<open>
  Regrouping bits: read as a number, the groups that \<^verbatim>\<open>bech32ConvertBits\<close> emits together with the
  pending bits are the input. It follows that regrouping from eight to five bits with padding
  and back without it is the identity on every byte string. The accumulator may wrap: only its
  pending bits count.
\<close>

unbundle bit_operations_syntax

section \<open>Groups as numbers\<close>

definition groups_value :: "nat \<Rightarrow> bytes \<Rightarrow> nat" where
  "groups_value b xs = foldl (\<lambda>a d. a * 2 ^ b + unat d) 0 xs"

definition small_groups :: "nat \<Rightarrow> bytes \<Rightarrow> bool" where
  "small_groups b xs \<longleftrightarrow> (\<forall>x \<in> set xs. unat x < 2 ^ b)"

lemma groups_value_snoc [simp]: "groups_value b (xs @ [x]) = groups_value b xs * 2 ^ b + unat x"
  by (simp add: groups_value_def)

lemma groups_value_Nil [simp]: "groups_value b [] = 0"
  by (simp add: groups_value_def)

lemma small_groups_simps [simp]: "small_groups b []" "small_groups b (xs @ [x]) \<longleftrightarrow> small_groups b xs \<and> unat x < 2 ^ b"
  by (auto simp: small_groups_def)

lemma groups_value_inj:
  "length xs = length ys \<Longrightarrow> small_groups b xs \<Longrightarrow> small_groups b ys \<Longrightarrow> groups_value b xs = groups_value b ys \<Longrightarrow> xs = ys"
proof (induction xs arbitrary: ys rule: rev_induct)
  case (snoc x xs)
  obtain y zs where ys: "ys = zs @ [y]" using snoc.prems(1) by (cases ys rule: rev_cases) auto
  have "unat x = unat y"
    using arg_cong[OF snoc.prems(4), of "\<lambda>n. n mod 2 ^ b"] snoc.prems(2,3) ys by simp
  moreover have "groups_value b xs = groups_value b zs"
    using snoc.prems(4) ys calculation by simp
  ultimately show ?case using snoc.IH[of zs] snoc.prems ys by (simp add: unsigned_word_eqI)
qed simp

section \<open>Emitting groups\<close>

lemma unat_maxValue:
  assumes "t \<le> 8"
  shows "(ucast (maxValue t) :: u64) = mask t"
proof -
  have "maxValue t = mask t" by (simp add: maxValue_def of_nat_diff mask_eq_exp_minus_1)
  then show ?thesis using assms by (intro bit_word_eqI) (auto simp: bit_simps)
qed

lemma group_digit:
  assumes "t \<le> 8"
  shows "unat (ucast ((w :: u64) AND ucast (maxValue t)) :: byte) = unat w mod 2 ^ t"
proof -
  have "w AND ucast (maxValue t) = take_bit t w" by (simp add: unat_maxValue[OF assms] take_bit_eq_mask)
  moreover have "unat (take_bit t w) = unat w mod 2 ^ t" unfolding unsigned_take_bit_eq by (rule take_bit_eq_mod)
  moreover have "unat w mod 2 ^ t < 256"
    using power_increasing[OF assms, of "2 :: nat"] less_le_trans[OF mod_less_divisor[of "2 ^ t" "unat w"]] by simp
  ultimately show ?thesis by (simp add: unsigned_ucast_eq take_bit_eq_mod[where 'a = nat])
qed

lemma unat_drop_bit_div: "unat (drop_bit n (w :: u64)) = unat w div 2 ^ n"
  unfolding unat_drop_bit_eq by (rule drop_bit_eq_div)

lemma mod_split: "(a :: nat) mod 2 ^ (k + t) = (a div 2 ^ k) mod 2 ^ t * 2 ^ k + a mod 2 ^ k"
  by (simp add: power_add mod_mult2_eq mult.commute)

lemma emit_groups_value:
  assumes "0 < t" "t \<le> 8" "small_groups t res" "emit_groups t acc bits res = (bits', res')"
  shows "bits' < t \<and> small_groups t res' \<and> length res' * t + bits' = length res * t + bits \<and>
    groups_value t res' * 2 ^ bits' + unat acc mod 2 ^ bits' = groups_value t res * 2 ^ bits + unat acc mod 2 ^ bits"
  using assms
proof (induction t acc bits res rule: emit_groups.induct)
  case (1 t acc bits res)
  show ?case
  proof (cases "bits < t")
    case True
    then show ?thesis using "1.prems" by (subst (asm) emit_groups.simps) auto
  next
    case False
    let ?d = "ucast (drop_bit (bits - t) acc AND ucast (maxValue t)) :: byte"
    have d: "unat ?d = unat acc div 2 ^ (bits - t) mod 2 ^ t"
      using group_digit[OF "1.prems"(2)] by (simp add: unat_drop_bit_div)
    have eq: "emit_groups t acc (bits - t) (res @ [?d]) = (bits', res')"
      using "1.prems"(1,4) False by (subst (asm) emit_groups.simps) simp
    have "unat acc mod 2 ^ bits = unat ?d * 2 ^ (bits - t) + unat acc mod 2 ^ (bits - t)"
      using mod_split[of "unat acc" "bits - t" t] False d by simp
    moreover have "(2 :: nat) ^ bits = 2 ^ t * 2 ^ (bits - t)"
      using False by (simp add: power_add[symmetric])
    ultimately have "groups_value t (res @ [?d]) * 2 ^ (bits - t) + unat acc mod 2 ^ (bits - t) =
        groups_value t res * 2 ^ bits + unat acc mod 2 ^ bits"
      by (simp add: algebra_simps)
    moreover have "small_groups t (res @ [?d])" using "1.prems"(3) d by simp
    ultimately show ?thesis
      using "1.IH"[OF _ "1.prems"(1,2) _ eq] "1.prems"(1) False by (simp add: algebra_simps)
  qed
qed

section \<open>Taking in a value\<close>

lemma fits_bits: "drop_bit f (v :: byte) = 0 \<longleftrightarrow> unat v < 2 ^ f"
proof -
  have "unat (drop_bit f v) = unat v div 2 ^ f" unfolding unat_drop_bit_eq by (rule drop_bit_eq_div)
  then have "drop_bit f v = 0 \<longleftrightarrow> unat v div 2 ^ f = 0" by (metis unat_0 unsigned_word_eqI)
  then show ?thesis by (simp add: div_eq_0_iff)
qed

lemma shift_in:
  assumes "bits + f \<le> 64" "unat (v :: byte) < 2 ^ f"
  shows "unat (push_bit f acc OR (ucast v :: u64)) mod 2 ^ (bits + f) = (unat acc mod 2 ^ bits) * 2 ^ f + unat v"
proof -
  have v: "\<not> bit v n" if "f \<le> n" for n
  proof -
    have "bit (drop_bit f v) (n - f) = bit v n" using that by (simp add: bit_drop_bit_eq)
    moreover have "drop_bit f v = 0" using assms(2) fits_bits by blast
    ultimately show ?thesis by simp
  qed
  have "push_bit f acc OR (ucast v :: u64) = push_bit f acc + ucast v"
    by (rule disjunctive_add[symmetric]) (use v in \<open>auto simp: bit_simps\<close>)
  also have "\<dots> = word_of_nat (unat acc * 2 ^ f + unat v)"
    by (simp add: push_bit_eq_mult of_nat_unat)
  finally have "unat (push_bit f acc OR (ucast v :: u64)) = unat (word_of_nat (unat acc * 2 ^ f + unat v) :: u64)"
    by (simp only:)
  also have "\<dots> = (unat acc * 2 ^ f + unat v) mod 2 ^ 64" unfolding unat_of_nat take_bit_eq_mod by simp
  finally have whole: "unat (push_bit f acc OR (ucast v :: u64)) = (unat acc * 2 ^ f + unat v) mod 2 ^ 64" .
  have "unat (push_bit f acc OR (ucast v :: u64)) mod 2 ^ (bits + f) = (unat acc * 2 ^ f + unat v) mod 2 ^ (bits + f)"
    unfolding whole by (rule mod_mod_cancel[OF le_imp_power_dvd[OF assms(1)]])
  also have "\<dots> = (unat acc mod 2 ^ bits) * 2 ^ f + unat v"
    using assms(2) mod_split[of "unat acc * 2 ^ f + unat v" f bits] by (simp add: add.commute)
  finally show ?thesis .
qed

section \<open>Converting\<close>

lemma byte_less: "unat (x :: byte) < 2 ^ 8"
proof -
  have "unat x < 2 ^ LENGTH(8)" by (rule unsigned_less)
  then show ?thesis by simp
qed

definition regrouped :: "nat \<Rightarrow> nat \<Rightarrow> bytes \<Rightarrow> u64 \<times> nat \<times> bytes \<Rightarrow> bool" where
  "regrouped f t ds = (\<lambda>(acc, bits, res).
     bits < t \<and> small_groups t res \<and> length res * t + bits = length ds * f \<and>
     groups_value t res * 2 ^ bits + unat acc mod 2 ^ bits = groups_value f ds)"

lemma convert_step_value:
  assumes f: "f \<le> 8" and t: "0 < t" "t \<le> 8" and st: "regrouped f t ds st" and v: "unat v < 2 ^ f"
  shows "\<exists>st'. convert_step f t v st = Inr st' \<and> regrouped f t (ds @ [v]) st'"
proof -
  obtain acc bits res where s: "st = (acc, bits, res)" by (cases st)
  have inv: "bits < t" "small_groups t res" "length res * t + bits = length ds * f"
    "groups_value t res * 2 ^ bits + unat acc mod 2 ^ bits = groups_value f ds"
    using st s by (auto simp: regrouped_def)
  let ?acc = "push_bit f acc OR (ucast v :: u64)"
  obtain bits' res' where e: "emit_groups t ?acc (bits + f) res = (bits', res')" by fastforce
  have "unat ?acc mod 2 ^ (bits + f) = (unat acc mod 2 ^ bits) * 2 ^ f + unat v"
    using shift_in[OF _ v, of bits] inv(1) f t by simp
  then have "groups_value t res * 2 ^ (bits + f) + unat ?acc mod 2 ^ (bits + f) = groups_value f (ds @ [v])"
    using inv(4) by (simp add: power_add algebra_simps flip: inv(4))
  then have "regrouped f t (ds @ [v]) (?acc, bits', res')"
    using emit_groups_value[OF t inv(2) e] inv(3) by (simp add: regrouped_def)
  moreover have "convert_step f t v st = Inr (?acc, bits', res')"
    using v fits_bits[of f v] e by (simp add: s convert_step_def Let_def)
  ultimately show ?thesis by blast
qed

lemma convert_loop_value:
  assumes "f \<le> 8" "0 < t" "t \<le> 8" "small_groups f ds"
  shows "\<exists>st. for_res (convert_step f t) ds (0, 0, []) = Inr st \<and> regrouped f t ds st"
proof (rule for_res_success)
  show "regrouped f t [] (0, 0, [])" using assms by (simp add: regrouped_def)
  fix ys y zs r assume "ds = ys @ y # zs" "regrouped f t ys r"
  then show "\<exists>r'. convert_step f t y r = Inr r' \<and> regrouped f t (ys @ [y]) r'"
    using convert_step_value[OF assms(1-3)] assms(4) by (simp add: small_groups_def)
qed

text \<open>Eight bits to five with padding.\<close>

lemma convert_pad:
  obtains res k where "bech32ConvertBits ds 8 5 True = Inr res" "k < 5" "small_groups 5 res"
    "length res * 5 = length ds * 8 + k" "groups_value 5 res = groups_value 8 ds * 2 ^ k"
proof -
  have small: "small_groups 8 ds" unfolding small_groups_def using byte_less by blast
  obtain acc bits res where run: "for_res (convert_step 8 5) ds (0, 0, []) = Inr (acc, bits, res)"
    and inv: "bits < 5" "small_groups 5 res" "length res * 5 + bits = length ds * 8"
      "groups_value 5 res * 2 ^ bits + unat acc mod 2 ^ bits = groups_value 8 ds"
    using convert_loop_value[of 8 5 ds] small by (auto simp: regrouped_def)
  show thesis
  proof (cases "bits = 0")
    case True
    then show thesis using that[of res 0] run inv by (simp add: bech32ConvertBits_def)
  next
    case False
    let ?k = "5 - bits" and ?d = "ucast (push_bit (5 - bits) acc AND ucast (maxValue 5)) :: byte"
    have d: "unat ?d = (unat acc mod 2 ^ bits) * 2 ^ ?k"
    proof -
      have "unat (push_bit ?k acc OR (ucast (0 :: byte) :: u64)) mod 2 ^ (bits + ?k) = unat acc mod 2 ^ bits * 2 ^ ?k + unat (0 :: byte)"
        by (rule shift_in) (use inv(1) in auto)
      then show ?thesis using group_digit[of 5 "push_bit ?k acc"] inv(1) by simp
    qed
    have "(2 :: nat) ^ bits * 2 ^ ?k = 2 ^ 5" using inv(1) by (simp flip: power_add)
    then have "groups_value 5 (res @ [?d]) = groups_value 8 ds * 2 ^ ?k"
      unfolding groups_value_snoc d inv(4)[symmetric] by (simp add: algebra_simps)
    moreover have "unat ?d < 2 ^ 5" using group_digit[of 5 "push_bit ?k acc"] by simp
    ultimately show thesis
      using that[of "res @ [?d]" ?k] run inv False by (simp add: bech32ConvertBits_def)
  qed
qed

text \<open>Five bits to eight without padding, on groups that hold whole bytes and at most four zero bits.\<close>

lemma convert_unpad:
  assumes small: "small_groups 5 ds" and len: "length ds * 5 = length xs * 8 + k" and k: "k < 5"
    and val: "groups_value 5 ds = groups_value 8 xs * 2 ^ k"
  shows "bech32ConvertBits ds 5 8 False = Inr xs"
proof -
  obtain acc bits res where run: "for_res (convert_step 5 8) ds (0, 0, []) = Inr (acc, bits, res)"
    and inv: "bits < 8" "small_groups 8 res" "length res * 8 + bits = length ds * 5"
      "groups_value 8 res * 2 ^ bits + unat acc mod 2 ^ bits = groups_value 5 ds"
    using convert_loop_value[of 5 8 ds] small by (auto simp: regrouped_def)
  have whole: "length res * 8 + bits = length xs * 8 + k" using inv(3) len by simp
  have "(length res * 8 + bits) mod 8 = (length xs * 8 + k) mod 8" by (simp only: whole)
  then have "bits = k" using inv(1) k by simp
  with whole have b: "bits = k" "length res = length xs" by simp_all
  have "groups_value 8 res * 2 ^ k + unat acc mod 2 ^ k = groups_value 8 xs * 2 ^ k" using inv(4) val b by simp
  then have eq: "groups_value 8 res * 2 ^ k + unat acc mod 2 ^ k = groups_value 8 xs * 2 ^ k" .
  have z: "unat acc mod 2 ^ k = 0" using arg_cong[OF eq, of "\<lambda>n. n mod 2 ^ k"] by simp
  then have g: "groups_value 8 res = groups_value 8 xs" using eq by simp
  have "small_groups 8 xs" unfolding small_groups_def using byte_less by blast
  then have "res = xs" using groups_value_inj[OF b(2) inv(2)] g by simp
  moreover have "push_bit (8 - k) acc AND ucast (maxValue 8) = 0"
  proof -
    have "unat (push_bit (8 - k) acc OR (ucast (0 :: byte) :: u64)) mod 2 ^ (k + (8 - k)) = unat acc mod 2 ^ k * 2 ^ (8 - k) + unat (0 :: byte)"
      by (rule shift_in) (use k in auto)
    then have "unat (take_bit 8 (push_bit (8 - k) acc)) = 0"
      using z k unfolding unsigned_take_bit_eq take_bit_eq_mod[where 'a = nat] by simp
    then show ?thesis by (simp add: unat_maxValue take_bit_eq_mask unat_eq_zero)
  qed
  ultimately show ?thesis using run b k by (simp add: bech32ConvertBits_def)
qed

end
