(* ===== verification/Bech32_Text.thy ===== *)
theory Bech32_Text
  imports Bech32_Checksum Bech32_Bits
begin

text \<open>
  Addresses as text: the bech32 form of a 20-byte address decodes to the address, and the
  normal forms that \<^verbatim>\<open>normalizeEVMAddress\<close> and \<^verbatim>\<open>userAddressFromEVM\<close> produce are read back to the
  same address.
\<close>

section \<open>The character set\<close>

lemma charset_length [simp]: "length bech32Charset = 32"
  by (simp add: bech32Charset_def)

lemma charset_table:
  "\<forall>k \<in> set [0..<32]. index_byte bech32Charset (bech32Charset ! k) = int k \<and> bech32Charset ! k \<noteq> CHR ''1'' \<and>
     lower_char (bech32Charset ! k) = bech32Charset ! k \<and> visible (bech32Charset ! k)"
  by code_simp

lemma charset:
  assumes "k < 32"
  shows "index_byte bech32Charset (bech32Charset ! k) = int k" "bech32Charset ! k \<noteq> CHR ''1''"
    "lower_char (bech32Charset ! k) = bech32Charset ! k" "visible (bech32Charset ! k)"
  using charset_table assms by simp_all

lemma visible_ascii: "visible c \<Longrightarrow> of_char c < (128 :: nat)"
  by (auto simp: visible_def less_eq_char_def)

abbreviation chars :: "bytes \<Rightarrow> string" where
  "chars vs \<equiv> map (\<lambda>v. bech32Charset ! unat v) vs"

lemma chars_facts:
  assumes "small_groups 5 vs"
  shows "ascii (chars vs)" "to_lower (chars vs) = chars vs" "CHR ''1'' \<notin> set (chars vs)"
proof -
  have v: "unat v < 32" if "v \<in> set vs" for v using assms that by (simp add: small_groups_def)
  show "ascii (chars vs)" using visible_ascii[OF charset(4)[OF v]] by (auto simp: ascii_def)
  show "to_lower (chars vs) = chars vs" using charset(3)[OF v] by (simp add: to_lower_def)
  show "CHR ''1'' \<notin> set (chars vs)" 
  proof
    assume "CHR ''1'' \<in> set (chars vs)"
    then obtain w where w: "w \<in> set vs" "bech32Charset ! unat w = CHR ''1''" by force
    show False using charset(2)[OF v[OF w(1)]] w(2) by simp
  qed
qed

lemma decode_chars_from:
  "small_groups 5 ws \<Longrightarrow>
    for_res decode_char (map (\<lambda>(j, c). (j, of_char c)) (enumerate (length us) (chars ws))) (us @ replicate (length ws) 0) = Inr (us @ ws)"
proof (induction ws arbitrary: us)
  case (Cons w ws)
  then have w: "unat w < 32" and ws: "small_groups 5 ws" by (auto simp: small_groups_def)
  have "word_of_int (int (unat w)) = w" by simp
  then have "decode_char (length us, of_char (bech32Charset ! unat w)) (us @ 0 # replicate (length ws) 0) = Inr ((us @ [w]) @ replicate (length ws) 0)"
    using charset(1)[OF w] by (simp add: decode_char_def)
  then show ?case using Cons.IH[OF ws, of "us @ [w]"] by simp
qed simp

lemma decode_chars:
  "small_groups 5 vs \<Longrightarrow> for_res decode_char (range_string (chars vs)) (replicate (length vs) 0) = Inr vs"
  using decode_chars_from[of vs "[]"] chars_facts(1) by (simp add: range_string_ascii)

section \<open>Decoding what was encoded\<close>

lemma small_checksum: "small_groups 5 (bech32Checksum p vs)"
  by (auto simp: small_groups_def bech32Checksum_def Let_def five_bits(1))

lemma length_checksum [simp]: "length (bech32Checksum p vs) = 6"
  by (simp add: bech32Checksum_def Let_def)

lemma find_skip: "find P xs = None \<Longrightarrow> find P (xs @ ys) = find P ys"
  by (induction xs) (auto split: if_splits)

lemma find_rev_append:
  assumes "\<forall>c \<in> set t. c \<noteq> d"
  shows "last_index_byte (p @ d # t) d = int (length p)"
proof -
  have "find (\<lambda>i. (p @ d # t) ! i = d) (rev [0..<length (p @ d # t)]) = Some (length p)"
  proof -
    have split: "rev [0..<length (p @ d # t)] = rev [Suc (length p)..<length (p @ d # t)] @ length p # rev [0..<length p]"
    proof -
      have "[0..<length p + Suc (length t)] = [0..<length p] @ length p # [Suc (length p)..<length p + Suc (length t)]"
        using upt_add_eq_append[of 0 "length p" "Suc (length t)"] upt_conv_Cons[of "length p" "length p + Suc (length t)"] by simp
      then show ?thesis by simp
    qed
    have "find (\<lambda>i. (p @ d # t) ! i = d) (rev [Suc (length p)..<length (p @ d # t)]) = None"
      using assms by (auto simp: find_None_iff nth_append nth_Cons')
    then show ?thesis unfolding split by (simp add: find_skip)
  qed
  then show ?thesis by (simp add: last_index_byte_def)
qed

lemma decode_encode_address:
  assumes "length a = 20"
  shows "decodeBech32Address lr (encodeBech32Address ''inj'' a) = Inr a"
proof -
  obtain res k where c: "bech32ConvertBits a 8 5 True = Inr res" "k < 5" "small_groups 5 res"
    "length res * 5 = length a * 8 + k" "groups_value 5 res = groups_value 8 a * 2 ^ k"
    by (rule convert_pad)
  let ?vs = "res @ bech32Checksum ''inj'' res"
  have vs: "small_groups 5 ?vs" using c(3) small_checksum by (auto simp: small_groups_def)
  have shown: "encodeBech32Address ''inj'' a = ''inj'' @ CHR ''1'' # chars ?vs"
    using c(1) by (simp add: encodeBech32Address_def)
  have low: "ToLower lr (''inj'' @ CHR ''1'' # chars ?vs) = ''inj'' @ CHR ''1'' # chars ?vs"
    using chars_facts[OF vs] by (simp add: lower_char_def del: map_append)
  have sep: "last_index_byte (''inj'' @ CHR ''1'' # chars ?vs) CHR ''1'' = 3"
    using find_rev_append[of "chars ?vs" "CHR ''1''" "''inj''"] chars_facts(3)[OF vs] by auto
  have "bech32ConvertBits (take (length ?vs - 6) ?vs) 5 8 False = Inr a"
    using convert_unpad[OF c(3,4,2,5)] by simp
  then show ?thesis
    unfolding decodeBech32Address_def shown low sep
    using decode_chars[OF vs] checksum_verifies[of "''inj''" res] assms c(4) by (simp add: Let_def del: map_append)
qed

section \<open>Properties\<close>

text \<open>C22: the bech32 text of every 20-byte address is accepted and decodes to that address: the
  checksum computed by the encoder passes the decoder's test and regrouping the bits loses
  nothing, whatever the Unicode case table says.\<close>

theorem bech32_roundtrip:
  assumes "length a = 20"
  shows "decodeBech32Address lower_rune (encodeBech32Address ''inj'' a) = Inr a"
  by (rule decode_encode_address[OF assms])

theorem bech32_roundtrip_witness: "decodeBech32Address id (encodeBech32Address ''inj'' (replicate 20 7)) = Inr (replicate 20 7)"
  by (rule bech32_roundtrip) simp

lemma parse_length:
  assumes "parseEVMAddress lr v = Inr a"
  shows "length a = 20"
  using assms by (auto simp: parseEVMAddress_def decodeBech32Address_def Let_def res_simps length_hex_decode
      dest: length_hex_decode split: if_splits option.splits)

lemma hex_form_trim: "trim_space (''0x'' @ hex_encode a) = ''0x'' @ hex_encode a"
proof (rule visible_trim)
  show "visible (last (''0x'' @ hex_encode a))"
    using hex_encode_visible[OF last_in_set[of "hex_encode a"]] by (cases "hex_encode a = []") (simp_all add: visible_def)
qed (simp_all add: visible_def)

lemma bech32_form_trim:
  assumes "length a = 20"
  shows "trim_space (encodeBech32Address ''inj'' a) = encodeBech32Address ''inj'' a"
    "\<not> prefix ''0x'' (encodeBech32Address ''inj'' a)" "\<not> prefix ''0X'' (encodeBech32Address ''inj'' a)"
proof -
  obtain res k where c: "bech32ConvertBits a 8 5 True = Inr res" "small_groups 5 res"
    using convert_pad[of a] by metis
  let ?vs = "res @ bech32Checksum ''inj'' res"
  have vs: "small_groups 5 ?vs" "?vs \<noteq> []" using c(2) small_checksum length_checksum
    by (auto simp: small_groups_def) (metis length_checksum list.size(3) zero_neq_numeral)
  have shown: "encodeBech32Address ''inj'' a = ''inj1'' @ chars ?vs"
    using c(1) by (simp add: encodeBech32Address_def)
  have "last (''inj1'' @ chars ?vs) = bech32Charset ! unat (last ?vs)"
    using vs(2) by (simp only: last_appendR last_map map_is_Nil_conv not_False_eq_True)
  moreover have "unat (last ?vs) < 32" using bspec[OF vs(1)[unfolded small_groups_def] last_in_set[OF vs(2)]] by simp
  ultimately have "visible (last (''inj1'' @ chars ?vs))" using charset(4) by metis
  then show "trim_space (encodeBech32Address ''inj'' a) = encodeBech32Address ''inj'' a"
    unfolding shown by (intro visible_trim) (simp_all add: visible_def)
  show "\<not> prefix ''0x'' (encodeBech32Address ''inj'' a)" "\<not> prefix ''0X'' (encodeBech32Address ''inj'' a)"
    unfolding shown by simp_all
qed

text \<open>C23: the two normal forms of an account address denote the same account. Whatever text an
  address was read from, its hexadecimal normal form and its bech32 user form are both read
  back to the same 20 bytes, and normalising a second time changes nothing.\<close>

theorem address_forms_agree:
  assumes "parseEVMAddress lower_rune v = Inr a"
  shows "\<exists>h u. normalizeEVMAddress lower_rune v = Inr h \<and> userAddressFromEVM lower_rune v = Inr u \<and>
    parseEVMAddress lower_rune h = Inr a \<and> parseEVMAddress lower_rune u = Inr a \<and>
    normalizeEVMAddress lower_rune h = Inr h \<and> normalizeEVMAddress lower_rune u = Inr h"
proof -
  have len: "length a = 20" by (rule parse_length[OF assms])
  have "parseEVMAddress lower_rune (''0x'' @ hex_encode a) = Inr a"
    unfolding parseEVMAddress_def hex_form_trim using len by (simp add: Let_def)
  moreover have "parseEVMAddress lower_rune (encodeBech32Address ''inj'' a) = Inr a"
    unfolding parseEVMAddress_def bech32_form_trim(1)[OF len] using bech32_form_trim(2,3)[OF len] decode_encode_address[OF len]
    by (simp add: Let_def)
  ultimately show ?thesis
    using assms by (simp add: normalizeEVMAddress_def userAddressFromEVM_def)
qed

theorem address_forms_agree_witness:
  "\<exists>h u. normalizeEVMAddress id (''0X'' @ replicate 40 CHR ''A'') = Inr h \<and>
     userAddressFromEVM id (''0X'' @ replicate 40 CHR ''A'') = Inr u \<and> normalizeEVMAddress id u = Inr h"
proof -
  have "parseEVMAddress id (''0X'' @ replicate 40 CHR ''A'') = Inr (replicate 20 0xAA)" by code_simp
  from address_forms_agree[OF this] show ?thesis by blast
qed

text \<open>
  The decoder ranges over code points but keeps only their low byte, and writes at byte
  offsets. A text with the letter U+0171 (two bytes, low byte \<open>q\<close>) in place of two \<open>q\<close> passes as
  the address of the zero account.
\<close>

definition twisted_address :: string where
  "twisted_address = ''inj1'' @ [CHR 0xC5, CHR 0xB1] @ replicate 30 CHR ''q'' @ ''e2hm49''"

definition twisted_rest :: bytes where
  "twisted_rest = replicate 30 0 @ [25, 10, 23, 27, 21, 5]"

lemma twisted_text: "twisted_address = ''inj'' @ CHR ''1'' # CHR 0xC5 # CHR 0xB1 # chars twisted_rest"
  by (simp add: twisted_address_def twisted_rest_def bech32Charset_def)

lemma twisted_rest: "small_groups 5 twisted_rest" "length twisted_rest = 36"
  by (simp_all add: small_groups_def twisted_rest_def)

lemmas twisted_chars = chars_facts[OF twisted_rest(1)]

lemma range_twisted: "range_from i (CHR 0xC5 # CHR 0xB1 # chars twisted_rest) =
    (i, 0x171) # map (\<lambda>(j, c). (j, of_char c)) (enumerate (i + 2) (chars twisted_rest))"
proof -
  have "decode_rune (CHR 0xC5 # CHR 0xB1 # chars twisted_rest) = (0x171, 2)"
    by (simp add: decode_rune_def cont_def low6_def)
  then show ?thesis
    using range_from_ascii[OF twisted_chars(1), of "i + 2"] by (subst range_from.simps) simp
qed

lemma q_index: "index_byte bech32Charset (char_of (369 mod 256 :: nat)) = 0" "index_byte bech32Charset (char_of (369 :: nat)) = 0"
proof -
  have "char_of (113 :: nat) = CHR ''q''" "char_of (369 :: nat) = CHR ''q''" "bech32Charset ! 0 = CHR ''q''"
    by code_simp+
  then show "index_byte bech32Charset (char_of (369 mod 256 :: nat)) = 0" "index_byte bech32Charset (char_of (369 :: nat)) = 0"
    using charset(1)[of 0] by simp_all
qed

lemma twisted_decodes:
  "for_res decode_char (range_string (CHR 0xC5 # CHR 0xB1 # chars twisted_rest)) (replicate 38 0) = Inr (0 # 0 # twisted_rest)"
proof -
  have r: "replicate 38 (0 :: byte) = [0, 0] @ replicate (length twisted_rest) 0"
    unfolding twisted_rest(2) by (simp add: replicate_add[of 2 36, simplified] numeral_2_eq_2)
  have "decode_char (0, 0x171) ([0, 0] @ replicate (length twisted_rest) 0) = Inr ([0, 0] @ replicate (length twisted_rest) 0)"
    using q_index by (simp add: decode_char_def Let_def)
  then show ?thesis
    unfolding r using decode_chars_from[OF twisted_rest(1), of "[0, 0]"]
    by (simp add: range_string_def range_twisted numeral_2_eq_2)
qed

lemma twisted_checks:
  "bech32VerifyChecksum ''inj'' (0 # 0 # twisted_rest)" "bech32ConvertBits (take 32 (0 # 0 # twisted_rest)) 5 8 False = Inr (replicate 20 0)"
  by code_simp+

lemma non_ascii_twisted: "\<not> ascii twisted_address"
  unfolding twisted_text by simp

lemma twisted_lower:
  assumes "\<forall>(i, r) \<in> set (range_string twisted_address). lower_rune r = r"
  shows "ToLower lower_rune twisted_address = twisted_address"
proof -
  have "ascii ''inj1''" by simp
  from range_from_append[OF this, of 0 "CHR 0xC5 # CHR 0xB1 # chars twisted_rest"]
  have range: "range_string twisted_address = map (\<lambda>(j, c). (j, of_char c)) (enumerate 0 ''inj1'') @
      (length ''inj1'', 0x171) # map (\<lambda>(j, c). (j, of_char c)) (enumerate (length ''inj1'' + 2) (chars twisted_rest))"
    unfolding range_string_def twisted_text range_twisted by simp
  have "concat (map (\<lambda>(i, r). encode_rune (lower_rune r)) (range_string twisted_address)) =
      concat (map (\<lambda>(i, r). encode_rune r) (range_string twisted_address))"
    using assms by (intro arg_cong[where f = concat] map_cong[OF refl]) auto
  also have "\<dots> = twisted_address"
    unfolding range map_append concat_append encode_runes_ascii[OF \<open>ascii ''inj1''\<close>] list.map concat.simps
      encode_runes_ascii[OF twisted_chars(1)]
    unfolding twisted_text by (simp add: encode_rune_def char_of_def bit_0)
  finally show ?thesis unfolding ToLower_def using non_ascii_twisted by simp
qed

text \<open>C36: a text that is not bech32 is accepted: for every Unicode case table that leaves the code
  points of \<open>twisted_address\<close> alone (U+0171 is a lower-case letter), the decoder takes it for the
  zero address, although it contains bytes outside ASCII.\<close>

theorem non_ascii_address_accepted:
  assumes "\<forall>(i, r) \<in> set (range_string twisted_address). lower_rune r = r"
  shows "decodeBech32Address lower_rune twisted_address = Inr (replicate 20 0) \<and> \<not> ascii twisted_address"
proof -
  have sep: "last_index_byte twisted_address CHR ''1'' = 3"
  proof -
    have "CHR ''1'' \<notin> set (CHR 0xC5 # CHR 0xB1 # chars twisted_rest)" using twisted_chars(3) by simp
    then show ?thesis
      unfolding twisted_text using find_rev_append[of "CHR 0xC5 # CHR 0xB1 # chars twisted_rest" "CHR ''1''" "''inj''"] by force
  qed
  have parts: "take 3 twisted_address = ''inj''" "drop 4 twisted_address = CHR 0xC5 # CHR 0xB1 # chars twisted_rest"
    "length twisted_address = 42" "twisted_address \<noteq> ''''" "\<not> ascii twisted_address"
    unfolding twisted_text using twisted_rest(2) by simp_all
  show ?thesis
    unfolding decodeBech32Address_def twisted_lower[OF assms] sep
    using parts twisted_decodes twisted_checks twisted_rest(2) by (simp add: Let_def)
qed

theorem non_ascii_address_accepted_witness:
  "decodeBech32Address id twisted_address = Inr (replicate 20 0) \<and> \<not> ascii twisted_address"
  by (rule non_ascii_address_accepted) simp

end
