(* ===== verification/Evm_Quantity.thy ===== *)
theory Evm_Quantity
  imports Evm_Address
begin

text \<open>
  Quantities and codes in text form: the hexadecimal helpers at the end of
  \<^verbatim>\<open>cli/internal/chain/evm_rpc.go\<close>, \<^verbatim>\<open>evm_gas.go\<close>, \<^verbatim>\<open>evm_suite_values.go\<close>,
  \<^verbatim>\<open>moderation_values.go\<close> and the gas price floor of \<^verbatim>\<open>evm_transactor.go\<close>.
\<close>

unbundle bit_operations_syntax

section \<open>Hexadecimal quantities\<close>

datatype quantity_error =
    QuantityOverflow
  | QuantityInvalid
  | HexOddLength
  | HexInvalid
  | QuantityEmpty

definition strip_hex_prefix :: "string \<Rightarrow> string" where
  "strip_hex_prefix raw = trim_prefix ''0X'' (trim_prefix ''0x'' (trim_space raw))"

definition normalizeOddHex :: "string \<Rightarrow> string" where
  "normalizeOddHex s = (if length s mod 2 = 1 then ''0'' @ s else s)"

definition parseHexUint :: "string \<Rightarrow> quantity_error + u64" where
  "parseHexUint raw =
    (let digits = strip_hex_prefix raw in
     if digits = '''' then Inr 0
     else if length digits > 16 then Inl QuantityOverflow
     else case hex_decode (normalizeOddHex digits) of
            None \<Rightarrow> Inl QuantityInvalid
          | Some parsed \<Rightarrow> Inr (foldl (\<lambda>out b. push_bit 8 out OR ucast b) 0 parsed))"

definition decodeHexBytes :: "string \<Rightarrow> quantity_error + bytes" where
  "decodeHexBytes raw =
    (let digits = strip_hex_prefix raw in
     if digits = '''' then Inr []
     else if length digits mod 2 \<noteq> 0 then Inl HexOddLength
     else case hex_decode digits of None \<Rightarrow> Inl HexInvalid | Some decoded \<Rightarrow> Inr decoded)"

definition normalizeHex :: "string \<Rightarrow> string" where
  "normalizeHex raw =
    (let s = trim_space raw in
     if s = '''' then ''0x''
     else if prefix ''0x'' s \<or> prefix ''0X'' s then ''0x'' @ drop 2 s
     else ''0x'' @ s)"

section \<open>Gas\<close>

datatype gas_error = GasOverflow u64

definition AdjustEVMGasLimit :: "u64 \<Rightarrow> u64 \<Rightarrow> gas_error + u64" where
  "AdjustEVMGasLimit estimated headroom =
    (let quotient = estimated div 10; remainder = estimated mod 10 in
     if quotient > (- 1) div 14 then Inl (GasOverflow estimated)
     else let scaled = quotient * 14; extra = remainder * 14 div 10 in
     if scaled > (- 1) - extra then Inl (GasOverflow estimated)
     else let scaled = scaled + extra in
     if scaled > (- 1) - headroom then Inl (GasOverflow estimated)
     else Inr (scaled + headroom))"

definition injectiveMinGasPriceWei :: u64 where
  "injectiveMinGasPriceWei = 160000000"

definition injectiveLegacyGasPrice :: "u64 \<Rightarrow> string \<Rightarrow> quantity_error + string" where
  "injectiveLegacyGasPrice chainID gasPrice =
     bind_res (parseHexUint gasPrice) (\<lambda>price.
     let price = (if (chainID = 1439 \<or> chainID = 1776) \<and> price < injectiveMinGasPriceWei then injectiveMinGasPriceWei else price) in
     Inr (''0x'' @ nat_text 16 (unat price)))"

section \<open>Codes\<close>

datatype value_error =
    InvalidRole string
  | InvalidRoleValue u64
  | AmountUnit
  | AmountInvalid string
  | BlockTagInvalid
  | BlockTagNotCanonical
  | InvalidStatus string
  | InvalidStatusValue u64

definition collaboratorRoleValue :: "(nat \<Rightarrow> nat) \<Rightarrow> string \<Rightarrow> value_error + u64" where
  "collaboratorRoleValue lower_rune role =
    (let r = ToLower lower_rune (trim_space role) in
     if r = '''' \<or> r = ''none'' then Inr 0
     else if r = ''maintainer'' then Inr 1
     else if r = ''reader'' then Inr 2
     else Inl (InvalidRole role))"

definition collaboratorRoleName :: "u64 \<Rightarrow> value_error + string" where
  "collaboratorRoleName role =
     (if role = 1 then Inr ''maintainer'' else if role = 2 then Inr ''reader'' else Inl (InvalidRoleValue role))"

definition evmINJValue :: "string \<Rightarrow> value_error + string" where
  "evmINJValue amount =
    (let v = trim_space amount in
     if \<not> suffix ''inj'' v then Inl AmountUnit
     else case set_string 10 (trim_suffix ''inj'' v) of
            None \<Rightarrow> Inl (AmountInvalid amount)
          | Some n \<Rightarrow> if n \<le> 0 then Inl (AmountInvalid amount) else Inr (''0x'' @ nat_text 16 (nat n)))"

definition requireFixedEVMBlockTag :: "string \<Rightarrow> value_error + unit" where
  "requireFixedEVMBlockTag blockTag =
     bind_res (guard_err (blockTag = '''' \<or> blockTag \<noteq> trim_space blockTag \<or> \<not> prefix ''0x'' blockTag \<or> length blockTag = 2)
       BlockTagInvalid) (\<lambda>_.
     let digits = drop 2 blockTag in
     bind_res (guard_err (length digits > 1 \<and> hd digits = CHR ''0'') BlockTagNotCanonical) (\<lambda>_.
     for_check (\<lambda>(i, digit). guard_err ((digit < 0x30 \<or> digit > 0x39) \<and> (digit < 0x61 \<or> digit > 0x66)) BlockTagInvalid)
       (range_string digits)))"

definition moderationStatusCode :: "(nat \<Rightarrow> nat) \<Rightarrow> string \<Rightarrow> value_error + u64" where
  "moderationStatusCode lower_rune status =
    (let s = ToLower lower_rune (trim_space status) in
     if s = ''active'' then Inr 0
     else if s = ''frozen'' then Inr 1
     else if s = ''delisted'' then Inr 2
     else Inl (InvalidStatus status))"

definition moderationStatusName :: "u64 \<Rightarrow> value_error + string" where
  "moderationStatusName status =
     (if status = 0 then Inr ''active'' else if status = 1 then Inr ''frozen'' else if status = 2 then Inr ''delisted''
      else Inl (InvalidStatusValue status))"

definition reportStatusName :: "u64 \<Rightarrow> value_error + string" where
  "reportStatusName status =
     (if status = 0 then Inr ''open'' else if status = 1 then Inr ''resolved'' else if status = 2 then Inr ''appealed''
      else if status = 3 then Inr ''appeal_resolved'' else Inl (InvalidStatusValue status))"

section \<open>Gas never wraps\<close>

lemma word_max_div14: "(- 1 :: u64) div 14 = 1317624576693539401"
  by (simp add: word_eq_iff_unsigned unsigned_minus_1_eq_mask mask_eq_exp_minus_1 unat_div)

lemma no_room_iff: "x < M \<Longrightarrow> M - 1 - x < y \<longleftrightarrow> \<not> y + x < (M :: nat)"
  by auto

lemma gas_exact:
  "AdjustEVMGasLimit e h =
    (if 14 * unat e div 10 + unat h < 2 ^ 64 then Inr (word_of_nat (14 * unat e div 10 + unat h)) else Inl (GasOverflow e))"
proof -
  let ?q = "unat e div 10" and ?r = "unat e mod 10"
  have e: "unat e < 2 ^ 64" and hb: "unat h < 2 ^ 64" using unsigned_less[of e, where ?'a = nat] unsigned_less[of h, where ?'a = nat] by simp_all
  have split: "14 * unat e div 10 = ?q * 14 + ?r * 14 div 10"
  proof -
    have "14 * unat e = 14 * ?r + 14 * ?q * 10" using div_mult_mod_eq[of "unat e" 10] by linarith
    then show ?thesis by (simp add: mult.commute)
  qed
  have q: "unat (e div 10) = ?q" by (simp add: unat_div)
  have r: "unat (e mod 10) = ?r" by (simp add: unat_mod)
  have r14: "unat (e mod 10 * 14 div 10) = ?r * 14 div 10"
    by (simp add: unat_div unat_word_ariths r unat_mod)
  have m: "unat (- 1 - w :: u64) = 2 ^ 64 - 1 - unat w" for w :: u64
  proof -
    have "w \<le> - 1" by simp
    then show ?thesis by (simp add: unat_sub unsigned_minus_1_eq_mask mask_eq_exp_minus_1)
  qed
  show ?thesis
  proof (cases "?q > 1317624576693539401")
    case True
    then have "e div 10 > (- 1) div 14" unfolding word_less_nat_alt word_max_div14 q by simp
    moreover have "\<not> 14 * unat e div 10 + unat h < 2 ^ 64" using True split by simp
    ultimately show ?thesis by (simp only: AdjustEVMGasLimit_def Let_def if_True if_False)
  next
    case False
    then have s: "unat (e div 10 * 14) = ?q * 14" by (simp add: unat_word_ariths q)
    have c1: "\<not> e div 10 > (- 1) div 14" using False unfolding word_less_nat_alt word_max_div14 q by simp
    let ?x = "e mod 10 * 14 div 10"
    have r10: "?r * 14 div 10 < 13" by auto
    have c2: "e div 10 * 14 > - 1 - ?x \<longleftrightarrow> \<not> ?q * 14 + ?r * 14 div 10 < 2 ^ 64"
      unfolding word_less_nat_alt s m r14 using r10 by (intro no_room_iff) simp
    have t: "unat (e div 10 * 14 + ?x) = ?q * 14 + ?r * 14 div 10" if "?q * 14 + ?r * 14 div 10 < 2 ^ 64"
      using that by (simp add: unat_word_ariths s r14)
    have c3: "e div 10 * 14 + ?x > - 1 - h \<longleftrightarrow> \<not> 14 * unat e div 10 + unat h < 2 ^ 64"
      if "?q * 14 + ?r * 14 div 10 < 2 ^ 64"
      unfolding word_less_nat_alt t[OF that] m split using hb by (rule no_room_iff)
    have "e div 10 * 14 + ?x + h = word_of_nat (14 * unat e div 10 + unat h)" if "?q * 14 + ?r * 14 div 10 < 2 ^ 64"
      unfolding split t[OF that, symmetric] of_nat_add by simp
    then show ?thesis using c1 c2 c3 split by (auto simp: AdjustEVMGasLimit_def Let_def simp del: of_nat_add)
  qed
qed

section \<open>Quantities are read exactly\<close>

lemma hex_decode_digits:
  "even (length s) \<Longrightarrow> map_option (foldl (\<lambda>a b. a * 256 + unat b) acc) (hex_decode s) = digits_val 16 acc s"
proof (induction s arbitrary: acc rule: hex_decode.induct)
  case (3 c d s)
  show ?case
  proof (cases "hex_val c = None \<or> hex_val d = None")
    case False
    then obtain h l where hl: "hex_val c = Some h" "hex_val d = Some l" by auto
    then have b: "h < 16" "l < 16" by (auto dest: hex_val_less)
    then have "unat (word_of_nat (16 * h + l) :: byte) = 16 * h + l" by (simp add: unsigned_of_nat take_bit_nat_eq_self del: of_nat_add of_nat_mult)
    then show ?thesis using 3 hl b by (simp add: option.map_comp comp_def algebra_simps)
  qed (auto split: option.splits)
qed auto

lemma shift_in_byte:
  "push_bit 8 (w :: u64) OR ucast (b :: byte) = w * 256 + ucast b"
proof -
  have "push_bit 8 w AND (ucast b :: u64) = 0"
    by (rule bit_eqI) (auto simp: bit_simps dest: bit_imp_le_length)
  then have "push_bit 8 w OR ucast b = push_bit 8 w + ucast b" by (simp add: disjunctive_add_eq_or)
  then show ?thesis by (simp add: push_bit_eq_mult)
qed

lemma foldl_shift:
  "foldl (\<lambda>out b. push_bit 8 out OR ucast b) (word_of_nat a :: u64) bs = word_of_nat (foldl (\<lambda>a b. a * 256 + unat (b :: byte)) a bs)"
proof (induction bs arbitrary: a)
  case (Cons b bs)
  have "push_bit 8 (word_of_nat a :: u64) OR ucast b = word_of_nat (a * 256 + unat b)"
    by (simp add: shift_in_byte)
  with Cons.IH show ?case by (simp del: of_nat_add of_nat_mult)
qed simp

lemma digits_val_zero: "digits_val 16 0 (normalizeOddHex s) = digits_val 16 0 s"
  by (simp add: normalizeOddHex_def hex_val_def)

lemma digits_val_bound: "digits_val 16 acc s = Some n \<Longrightarrow> n < (acc + 1) * 16 ^ length s"
proof (induction s arbitrary: acc)
  case (Cons c s)
  then obtain d where d: "d < 16" "digits_val 16 (acc * 16 + d) s = Some n"
    by (auto split: option.splits if_splits)
  have "n < (acc * 16 + d + 1) * 16 ^ length s" using Cons.IH d by simp
  also have "\<dots> \<le> ((acc + 1) * 16) * 16 ^ length s" using d(1) by (intro mult_right_mono) auto
  finally show ?case by (simp only: length_Cons power_Suc mult.assoc)
qed simp

lemma parseHexUint_exact:
  "parseHexUint raw =
    (let digits = strip_hex_prefix raw in
     if digits = '''' then Inr 0
     else if length digits > 16 then Inl QuantityOverflow
     else case parse_nat 16 digits of None \<Rightarrow> Inl QuantityInvalid | Some n \<Rightarrow> Inr (word_of_nat n))"
proof -
  have "(case hex_decode (normalizeOddHex d) of None \<Rightarrow> Inl QuantityInvalid
          | Some parsed \<Rightarrow> Inr (foldl (\<lambda>out b. push_bit 8 out OR ucast b) 0 parsed))
     = (case digits_val 16 0 d of None \<Rightarrow> Inl QuantityInvalid | Some n \<Rightarrow> Inr (word_of_nat n :: u64))" for d
  proof -
    have "even (length (normalizeOddHex d))" by (simp add: normalizeOddHex_def) presburger
    from hex_decode_digits[OF this, of 0, unfolded digits_val_zero]
    show ?thesis using foldl_shift[of 0] by (cases "hex_decode (normalizeOddHex d)") (auto simp: eq_commute[of "Some _"])
  qed
  then show ?thesis by (simp add: parseHexUint_def parse_nat_def Let_def)
qed

lemma parse_nat_bound: "parse_nat 16 s = Some n \<Longrightarrow> n < 16 ^ length s"
  using digits_val_bound[of 0 s n] by (auto simp: parse_nat_def split: if_splits)

lemma nat_text_length: "2 \<le> b \<Longrightarrow> n < b ^ k \<Longrightarrow> 0 < k \<Longrightarrow> length (nat_text b n) \<le> k"
proof (induction k arbitrary: n)
  case (Suc k)
  show ?case
  proof (cases "n < b")
    case False
    then have "0 < k" using Suc.prems by (cases k) auto
    moreover have "n div b < b ^ k" using Suc.prems by (simp add: less_mult_imp_div_less mult.commute)
    ultimately show ?thesis using Suc False by (simp add: nat_text_step)
  qed (simp add: nat_text_digit)
qed simp

lemma hex_digit_chars: "n < 16 \<Longrightarrow> hex_digit n \<in> set ''0123456789abcdef''"
proof -
  assume "n < 16"
  then have "n \<in> set [0..<16]" by simp
  moreover have "list_all (\<lambda>n. hex_digit n \<in> set ''0123456789abcdef'') [0..<16]" by code_simp
  ultimately show ?thesis unfolding list_all_iff by blast
qed

lemma nat_text_chars: "c \<in> set (nat_text 16 n) \<Longrightarrow> c \<in> set ''0123456789abcdef''"
proof (induction n rule: less_induct)
  case (less n)
  show ?case
  proof (cases "n < 16")
    case True
    then show ?thesis using less.prems hex_digit_chars[of n] by (simp only: nat_text_digit) force
  next
    case False
    then consider "c \<in> set (nat_text 16 (n div 16))" | "c = hex_digit (n mod 16)"
      using less.prems by (auto simp: nat_text_step)
    then show ?thesis
      using less.IH[of "n div 16"] False hex_digit_chars[of "n mod 16"] by cases (auto simp del: set_simps)
  qed
qed

lemma quantity_text_visible: "\<forall>c \<in> set (''0x'' @ nat_text 16 n). visible c"
proof -
  have "list_all visible ''x0123456789abcdef''" by code_simp
  then show ?thesis using nat_text_chars unfolding list_all_iff by fastforce
qed

lemma strip_quantity_text: "strip_hex_prefix (''0x'' @ nat_text 16 n) = nat_text 16 n"
proof -
  have "trim_space (''0x'' @ nat_text 16 n) = ''0x'' @ nat_text 16 n"
  proof (rule visible_trim)
    show "visible (hd (''0x'' @ nat_text 16 n))" "visible (last (''0x'' @ nat_text 16 n))"
      by (rule bspec[OF quantity_text_visible[of n]], simp)+
  qed simp
  moreover have "\<not> prefix ''0X'' (nat_text 16 n)"
  proof
    assume "prefix ''0X'' (nat_text 16 n)"
    then have "CHR ''X'' \<in> set (nat_text 16 n)" by (auto simp: prefix_def)
    from nat_text_chars[OF this] show False by simp
  qed
  ultimately show ?thesis by (simp add: strip_hex_prefix_def trim_prefix_def)
qed

lemma parseHexUint_text: "parseHexUint (''0x'' @ nat_text 16 (unat n)) = Inr n"
proof -
  have "length (nat_text 16 (unat n)) \<le> 16"
    using unsigned_less[of n, where ?'a = nat] by (intro nat_text_length) simp_all
  then show ?thesis
    by (simp only: parseHexUint_exact strip_quantity_text Let_def parse_nat_text) simp
qed

section \<open>Fixed block tags are the canonical quantities\<close>

lemma hd_nat_text: "0 < n \<Longrightarrow> hd (nat_text 16 n) \<noteq> CHR ''0''"
proof (induction n rule: less_induct)
  case (less n)
  show ?case
  proof (cases "n < 16")
    case True
    then have "n \<in> set [1..<16]" using less.prems by simp
    moreover have "list_all (\<lambda>n. hex_digit n \<noteq> CHR ''0'') [1..<16]" by code_simp
    ultimately show ?thesis unfolding list_all_iff using True by (simp add: nat_text_digit)
  next
    case False
    then show ?thesis using less.IH[of "n div 16"] by (simp add: nat_text_step)
  qed
qed

definition lower_hex :: "char \<Rightarrow> bool" where
  "lower_hex c \<longleftrightarrow> c \<in> set ''0123456789abcdef''"

lemma lower_hex_val: "lower_hex c \<Longrightarrow> \<exists>d < 16. hex_val c = Some d \<and> hex_digit d = c \<and> (d = 0 \<longrightarrow> c = CHR ''0'')"
proof -
  have "list_all (\<lambda>c. case hex_val c of Some d \<Rightarrow> d < 16 \<and> hex_digit d = c \<and> (d = 0 \<longrightarrow> c = CHR ''0'') | None \<Rightarrow> False) ''0123456789abcdef''"
    by code_simp
  then show "lower_hex c \<Longrightarrow> ?thesis" unfolding lower_hex_def list_all_iff by (fastforce split: option.splits)
qed

definition block_digit :: "nat \<Rightarrow> bool" where
  "block_digit r \<longleftrightarrow> \<not> ((r < 0x30 \<or> r > 0x39) \<and> (r < 0x61 \<or> r > 0x66))"

lemma lower_hex_code: "lower_hex c \<longleftrightarrow> block_digit (of_char c)"
proof -
  have codes: "map of_char ''0123456789abcdef'' = [48..<58] @ [97..<103 :: nat]" by code_simp
  show ?thesis unfolding lower_hex_def mem_codes codes set_append set_upt block_digit_def by auto
qed

lemma canonical_digits:
  assumes "s \<noteq> []" "\<forall>c \<in> set s. lower_hex c" "length s = 1 \<or> hd s \<noteq> CHR ''0''"
  shows "\<exists>n. s = nat_text 16 n \<and> (hd s \<noteq> CHR ''0'' \<longrightarrow> 0 < n)"
  using assms
proof (induction s rule: rev_induct)
  case (snoc c s)
  obtain d where d: "d < 16" "hex_digit d = c" "d = 0 \<longrightarrow> c = CHR ''0''" using lower_hex_val[of c] snoc.prems by auto
  show ?case
  proof (cases "s = []")
    case True
    then show ?thesis using d by (intro exI[of _ d]) (auto simp: nat_text_digit)
  next
    case False
    then have h: "hd s \<noteq> CHR ''0''" using snoc.prems by (cases s) auto
    then obtain n where n: "s = nat_text 16 n" "0 < n" using snoc False by auto
    then have "nat_text 16 (16 * n + d) = s @ [c]" using d by (simp add: nat_text_step)
    then show ?thesis using n by (intro exI[of _ "16 * n + d"]) auto
  qed
qed simp

lemma block_tag_conditions:
  "requireFixedEVMBlockTag t = Inr () \<longleftrightarrow>
     t \<noteq> '''' \<and> trim_space t = t \<and> prefix ''0x'' t \<and> length t \<noteq> 2 \<and>
     \<not> (length (drop 2 t) > 1 \<and> hd (drop 2 t) = CHR ''0'') \<and> (\<forall>x \<in> set (range_string (drop 2 t)). block_digit (snd x))"
  unfolding requireFixedEVMBlockTag_def Let_def bind_guard
  by (simp only: if_split_eq1 sum.simps for_check_Inr_iff guard_err_Inr_iff block_digit_def split_beta eq_commute[of t "trim_space t"]) blast

lemma block_tag_exact: "requireFixedEVMBlockTag t = Inr () \<longleftrightarrow> (\<exists>n. t = ''0x'' @ nat_text 16 n)"
proof
  assume ok: "requireFixedEVMBlockTag t = Inr ()"
  then have p: "prefix ''0x'' t" "length t \<noteq> 2" and z: "\<not> (length (drop 2 t) > 1 \<and> hd (drop 2 t) = CHR ''0'')"
    and c: "\<forall>x \<in> set (range_string (drop 2 t)). block_digit (snd x)"
    unfolding block_tag_conditions by blast+
  from p(1) obtain d where t: "t = ''0x'' @ d" by (rule prefixE)
  then have d: "drop 2 t = d" "d \<noteq> []" using p(2) by auto
  have "block_digit r \<Longrightarrow> r < 128" for r by (auto simp: block_digit_def)
  then have "ascii d" using c unfolding d by (intro ascii_runes[of 0]) (auto simp: range_string_def)
  then have "\<forall>c \<in> set d. lower_hex c"
    using c unfolding d by (simp add: all_codes lower_hex_code)
  then show "\<exists>n. t = ''0x'' @ nat_text 16 n"
    using canonical_digits[of d] d(2) z unfolding d t by (auto simp: not_less le_Suc_eq)
next
  assume "\<exists>n. t = ''0x'' @ nat_text 16 n"
  then obtain n where t: "t = ''0x'' @ nat_text 16 n" by blast
  have lo: "\<forall>c \<in> set (nat_text 16 n). lower_hex c" unfolding lower_hex_def using nat_text_chars by blast
  then have asc: "ascii (nat_text 16 n)" by (auto simp: ascii_def lower_hex_code block_digit_def)
  have trim: "trim_space t = t"
    unfolding t by (rule visible_trim) (use quantity_text_visible[of n] in simp_all)
  have z: "\<not> (length (nat_text 16 n) > 1 \<and> hd (nat_text 16 n) = CHR ''0'')"
    using hd_nat_text[of n] by (cases "n = 0") (auto simp: nat_text_digit)
  have "\<forall>x \<in> set (range_string (nat_text 16 n)). block_digit (snd x)"
    using lo by (simp add: all_codes[OF asc] lower_hex_code)
  then show "requireFixedEVMBlockTag t = Inr ()"
    using trim z unfolding t block_tag_conditions by auto
qed

end
