(* ===== verification/Go_State.thy ===== *)
theory Go_State
  imports Go_Prelude
begin

text \<open>
  Code that changes state and may fail: a computation maps a state to a result and the state
  after it. The error leaves the state as far as the code had come, as an early \<^verbatim>\<open>return\<close>
  does. A small Hoare logic with a postcondition for each of the two ways to return carries the
  proofs of the components written with it.
\<close>

type_synonym ('s, 'e, 'a) proc = "'s \<Rightarrow> ('e + 'a) \<times> 's"

definition ret_p :: "'a \<Rightarrow> ('s, 'e, 'a) proc" where
  "ret_p v = (\<lambda>s. (Inr v, s))"

definition fail_p :: "'e \<Rightarrow> ('s, 'e, 'a) proc" where
  "fail_p e = (\<lambda>s. (Inl e, s))"

definition lift_p :: "'e + 'a \<Rightarrow> ('s, 'e, 'a) proc" where
  "lift_p r = (\<lambda>s. (r, s))"

definition bind_p :: "('s, 'e, 'a) proc \<Rightarrow> ('a \<Rightarrow> ('s, 'e, 'b) proc) \<Rightarrow> ('s, 'e, 'b) proc" where
  "bind_p m f = (\<lambda>s. case m s of (Inl e, s) \<Rightarrow> (Inl e, s) | (Inr v, s) \<Rightarrow> f v s)"

definition err_p :: "('e \<Rightarrow> 'f) \<Rightarrow> ('s, 'e, 'a) proc \<Rightarrow> ('s, 'f, 'a) proc" where
  "err_p g m = (\<lambda>s. case m s of (Inl e, s) \<Rightarrow> (Inl (g e), s) | (Inr v, s) \<Rightarrow> (Inr v, s))"

definition guard_p :: "bool \<Rightarrow> 'e \<Rightarrow> ('s, 'e, unit) proc" where
  "guard_p bad e = lift_p (guard_err bad e)"

definition get_p :: "('s \<Rightarrow> 'a) \<Rightarrow> ('s, 'e, 'a) proc" where
  "get_p f = (\<lambda>s. (Inr (f s), s))"

definition put_p :: "('s \<Rightarrow> 's) \<Rightarrow> ('s, 'e, unit) proc" where
  "put_p f = (\<lambda>s. (Inr (), f s))"

definition try_p :: "('s, 'e, 'a) proc \<Rightarrow> ('s, 'f, 'e + 'a) proc" where
  \<comment> \<open>a call whose error the caller inspects\<close>
  "try_p m = (\<lambda>s. case m s of (r, s) \<Rightarrow> (Inr r, s))"

lemmas proc_defs = ret_p_def fail_p_def lift_p_def bind_p_def err_p_def guard_p_def get_p_def put_p_def try_p_def

lemma bind_ret_p [simp]: "bind_p (ret_p v) f = f v"
  by (simp add: proc_defs)

lemma bind_fail_p [simp]: "bind_p (fail_p e) f = fail_p e"
  by (simp add: proc_defs)

lemma bind_assoc_p: "bind_p (bind_p m f) g = bind_p m (\<lambda>v. bind_p (f v) g)"
  by (auto simp: bind_p_def fun_eq_iff split: prod.splits sum.splits)

lemma bind_p_cong [fundef_cong]:
  assumes "m s = m' s'" "\<And>v t. m' s' = (Inr v, t) \<Longrightarrow> f v t = f' v t" "s = s'"
  shows "bind_p m f s = bind_p m' f' s'"
  using assms by (auto simp: bind_p_def split: prod.splits sum.splits)

section \<open>Hoare triples\<close>

definition triple :: "('s \<Rightarrow> bool) \<Rightarrow> ('s, 'e, 'a) proc \<Rightarrow> ('a \<Rightarrow> 's \<Rightarrow> bool) \<Rightarrow> ('e \<Rightarrow> 's \<Rightarrow> bool) \<Rightarrow> bool" where
  "triple P m Q E \<longleftrightarrow> (\<forall>s. P s \<longrightarrow> (case m s of (Inr v, t) \<Rightarrow> Q v t | (Inl e, t) \<Rightarrow> E e t))"

named_theorems triple_rules

lemma triple_ok: "triple P m Q E \<Longrightarrow> P s \<Longrightarrow> m s = (Inr v, t) \<Longrightarrow> Q v t"
  by (fastforce simp: triple_def)

lemma triple_fail: "triple P m Q E \<Longrightarrow> P s \<Longrightarrow> m s = (Inl e, t) \<Longrightarrow> E e t"
  by (fastforce simp: triple_def)

lemma triple_bind:
  assumes "triple P m R E" "\<And>v. triple (R v) (f v) Q E"
  shows "triple P (bind_p m f) Q E"
  unfolding triple_def bind_p_def
proof (intro allI impI)
  fix s assume P: "P s"
  obtain r t where m: "m s = (r, t)" by fastforce
  show "case (case m s of (Inl e, s) \<Rightarrow> (Inl e, s) | (Inr v, s) \<Rightarrow> f v s) of (Inr v, t) \<Rightarrow> Q v t | (Inl e, t) \<Rightarrow> E e t"
  proof (cases r)
    case (Inl e)
    then show ?thesis using triple_fail[OF assms(1) P] m by simp
  next
    case (Inr v)
    then have "R v t" using triple_ok[OF assms(1) P] m by simp
    then show ?thesis using assms(2)[of v] m Inr by (simp add: triple_def)
  qed
qed

lemma triple_conseq:
  assumes "triple P m Q E" "\<And>s. P' s \<Longrightarrow> P s" "\<And>v s. Q v s \<Longrightarrow> Q' v s" "\<And>e s. E e s \<Longrightarrow> E' e s"
  shows "triple P' m Q' E'"
  using assms by (fastforce simp: triple_def split: prod.splits sum.splits)

lemma triple_ret [triple_rules]: "(\<And>s. P s \<Longrightarrow> Q v s) \<Longrightarrow> triple P (ret_p v) Q E"
  by (simp add: triple_def ret_p_def)

lemma triple_failed [triple_rules]: "(\<And>s. P s \<Longrightarrow> E e s) \<Longrightarrow> triple P (fail_p e) Q E"
  by (simp add: triple_def fail_p_def)

lemma triple_lift [triple_rules]:
  "(\<And>v s. P s \<Longrightarrow> r = Inr v \<Longrightarrow> Q v s) \<Longrightarrow> (\<And>e s. P s \<Longrightarrow> r = Inl e \<Longrightarrow> E e s) \<Longrightarrow> triple P (lift_p r) Q E"
  by (cases r) (simp_all add: triple_def lift_p_def)

lemma triple_guard [triple_rules]:
  "(\<And>s. P s \<Longrightarrow> \<not> bad \<Longrightarrow> Q () s) \<Longrightarrow> (\<And>s. P s \<Longrightarrow> bad \<Longrightarrow> E e s) \<Longrightarrow> triple P (guard_p bad e) Q E"
  unfolding guard_p_def by (rule triple_lift) (auto simp: guard_err_def split: if_splits)

lemma triple_err [triple_rules]: "triple P m Q (\<lambda>e. E (g e)) \<Longrightarrow> triple P (err_p g m) Q E"
  by (fastforce simp: triple_def err_p_def split: prod.splits sum.splits)

lemma triple_put [triple_rules]: "(\<And>s. P s \<Longrightarrow> Q () (f s)) \<Longrightarrow> triple P (put_p f) Q E"
  by (simp add: triple_def put_p_def)

lemma triple_get [triple_rules]: "(\<And>s. P s \<Longrightarrow> Q (f s) s) \<Longrightarrow> triple P (get_p f) Q E"
  by (simp add: triple_def get_p_def)

lemma triple_try: "triple P m (\<lambda>v. Q (Inr v)) (\<lambda>e. Q (Inl e)) \<Longrightarrow> triple P (try_p m) Q E"
proof -
  assume t: "triple P m (\<lambda>v. Q (Inr v)) (\<lambda>e. Q (Inl e))"
  have "Q (fst (m s)) (snd (m s))" if "P s" for s
    using triple_ok[OF t that] triple_fail[OF t that] by (cases "m s"; cases "fst (m s)") auto
  then show ?thesis by (simp add: triple_def try_p_def split_beta)
qed

text \<open>A computation that keeps a property of the state whichever way it returns.\<close>

abbreviation keeps :: "('s \<Rightarrow> bool) \<Rightarrow> ('s, 'e, 'a) proc \<Rightarrow> bool" where
  "keeps I m \<equiv> triple I m (\<lambda>_. I) (\<lambda>_. I)"

lemma keeps_bind [triple_rules]: "keeps I m \<Longrightarrow> (\<And>v. keeps I (f v)) \<Longrightarrow> keeps I (bind_p m f)"
  by (rule triple_bind)

lemma keeps_if [triple_rules]: "(b \<Longrightarrow> triple P m Q E) \<Longrightarrow> (\<not> b \<Longrightarrow> triple P n Q E) \<Longrightarrow> triple P (if b then m else n) Q E"
  by simp

lemma keeps_result:
  assumes "keeps I m" "I s"
  shows "I (snd (m s))"
  using triple_ok[OF assms] triple_fail[OF assms] by (cases "m s"; cases "fst (m s)") auto

section \<open>Success, step by step\<close>

named_theorems proc_ok

lemma bind_p_ok [proc_ok]: "bind_p m f s = (Inr v, t) \<longleftrightarrow> (\<exists>x u. m s = (Inr x, u) \<and> f x u = (Inr v, t))"
  by (auto simp: bind_p_def split: prod.splits sum.splits)

lemma ret_p_ok [proc_ok]: "ret_p x s = (Inr v, t) \<longleftrightarrow> v = x \<and> t = s"
  by (auto simp: ret_p_def)

lemma fail_p_ok [proc_ok]: "fail_p e s = (Inr v, t) \<longleftrightarrow> False"
  by (simp add: fail_p_def)

lemma lift_p_ok [proc_ok]: "lift_p x s = (Inr v, t) \<longleftrightarrow> x = Inr v \<and> t = s"
  by (auto simp: lift_p_def)

lemma guard_p_ok [proc_ok]: "guard_p bad e s = (Inr v, t) \<longleftrightarrow> \<not> bad \<and> t = s"
  by (auto simp: guard_p_def lift_p_def guard_err_def)

lemma err_p_ok [proc_ok]: "err_p g m s = (Inr v, t) \<longleftrightarrow> m s = (Inr v, t)"
  by (auto simp: err_p_def split: prod.splits sum.splits)

section \<open>Loops\<close>

fun for_p :: "('a \<Rightarrow> 'b \<Rightarrow> ('s, 'e, 'b) proc) \<Rightarrow> 'a list \<Rightarrow> 'b \<Rightarrow> ('s, 'e, 'b) proc" where
  "for_p f [] acc = ret_p acc"
| "for_p f (x # xs) acc = bind_p (f x acc) (for_p f xs)"

lemma for_p_keeps [triple_rules]: "(\<And>x acc. keeps I (f x acc)) \<Longrightarrow> keeps I (for_p f xs acc)"
  by (induction xs arbitrary: acc) (auto intro!: triple_rules)

section \<open>Computations that may not end\<close>

type_synonym ('s, 'e, 'a) oproc = "'s \<Rightarrow> (('e + 'a) \<times> 's) option"

definition run_p :: "('s, 'e, 'a) proc \<Rightarrow> ('s, 'e, 'a) oproc" where
  "run_p m = (\<lambda>s. Some (m s))"

definition bind_o :: "('s, 'e, 'a) oproc \<Rightarrow> ('a \<Rightarrow> ('s, 'e, 'b) oproc) \<Rightarrow> ('s, 'e, 'b) oproc" where
  "bind_o m f = (\<lambda>s. case m s of None \<Rightarrow> None | Some (Inl e, s) \<Rightarrow> Some (Inl e, s) | Some (Inr v, s) \<Rightarrow> f v s)"

fun for_o :: "('a \<Rightarrow> ('s, 'e, unit) oproc) \<Rightarrow> 'a list \<Rightarrow> ('s, 'e, unit) oproc" where
  "for_o f [] = run_p (ret_p ())"
| "for_o f (x # xs) = bind_o (f x) (\<lambda>_. for_o f xs)"

end
