(* ===== verification/Evm_Rpc.thy ===== *)
theory Evm_Rpc
  imports Evm_Quantity Go_State
begin

text \<open>
  The JSON-RPC transport of \<^verbatim>\<open>cli/internal/chain/evm_rpc.go\<close>.

  The network is the parameter \<open>net\<close>: the answer to a request, and whether the context ends
  while the client sleeps, are functions of everything the client has done so far (its list of
  events), so that every behaviour of a server over time is some \<open>net\<close>. A JSON text is a value
  that keeps the bytes it was read from, as \<^verbatim>\<open>json.RawMessage\<close> does; reading a
  \<^verbatim>\<open>receipt\<close> or a \<^verbatim>\<open>block\<close> object into its struct is a field of \<open>net\<close>.
\<close>

section \<open>Data\<close>

datatype json = Json (raw_json: string) (shape: shape)
  and shape = SNull | SString string | SObject "(string \<times> json) list" | SOther

record EVMCall =
  call_From :: string
  call_To :: string
  call_Gas :: string
  call_Value :: string
  call_Data :: string

record EVMLog =
  log_Address :: string
  log_Topics :: "string list"
  log_Data :: string
  log_BlockNumber :: string
  log_BlockHash :: string
  log_TransactionHash :: string
  log_Removed :: bool

record EVMReceipt =
  rc_TransactionHash :: string
  rc_BlockNumber :: string
  rc_BlockHash :: string
  rc_To :: string
  rc_ContractAddress :: string
  rc_Status :: string
  rc_GasUsed :: string
  rc_Logs :: "EVMLog list"

record EVMBlock =
  block_Number :: string
  block_Hash :: string

datatype param = PString string | PBool bool | PCall EVMCall

record rpcRequest =
  req_ID :: u64
  req_Method :: string
  req_Params :: "param list"

record rpcErrorBody =
  err_Code :: int
  err_Message :: string
  err_Data :: "json option"

datatype ctx_end = Canceled | DeadlineExceeded

datatype io_fault = CtxEnded ctx_end | OtherFault

datatype reply =
    Undecodable
  | Decoded "rpcErrorBody option" "json option"

datatype http_outcome =
    DoFailed io_fault
  | ReadFailed io_fault
  | CloseFailed io_fault
  | Answered int int string reply
    \<comment> \<open>length of the body, status code, body, and what \<^verbatim>\<open>json.Unmarshal\<close> makes of it\<close>

datatype event = Posted rpcRequest | Backoff nat | Slept

record net =
  endpoint_is_url :: bool
  respond :: "event list \<Rightarrow> http_outcome"
  ctx_ends :: "event list \<Rightarrow> ctx_end option"
  decode_receipt :: "json \<Rightarrow> EVMReceipt option"
  decode_block :: "json \<Rightarrow> EVMBlock option"
  lower_table :: "nat \<Rightarrow> nat"

record rpc_client =
  endpoint :: string
  nextID :: u64
  events :: "event list"

record RPCError =
  rpc_Method :: string
  rpc_Code :: int
  rpc_Message :: string
  rpc_Data :: string

datatype rpc_error =
    EndpointMissing
  | RequestInvalid
  | TransportError io_fault
  | ResponseTooLarge
  | HTTPError int string
  | ResponseUndecodable
  | NodeError RPCError
  | ResultUndecodable
  | RetryEnded ctx_end
  | AttemptsExhausted
  | NullResult string
  | QuantityError quantity_error
  | IncompleteBlock
  | AddressError address_error
  | EmptyQuantity
  | InvalidBalance string
  | EmptyHash
  | Reverted string string
  | WaitEnded string ctx_end

definition maxRPCAttempts :: nat where
  "maxRPCAttempts = 3"

definition maxRPCResponseBytes :: int where
  "maxRPCResponseBytes = 8388608"

definition maxReceiptRPCErrors :: nat where
  "maxReceiptRPCErrors = 3"

section \<open>One request\<close>

fun rpcErrorData :: "json \<Rightarrow> string" where
  "rpcErrorData (Json raw SNull) = ''''"
| "rpcErrorData (Json raw (SString val)) = val"
| "rpcErrorData (Json raw (SObject members)) =
    (let nested = map_of (rev (map (\<lambda>(key, j). (key, rpcErrorData j)) members));
         found = List.map_filter nested [''data'', ''originalError'', ''error''] in
     case find (\<lambda>s. s \<noteq> '''') found of Some s \<Rightarrow> s | None \<Rightarrow> trim_space raw)"
| "rpcErrorData (Json raw SOther) = trim_space raw"

definition NewEVMRPC :: "string \<Rightarrow> rpc_client" where
  "NewEVMRPC e = \<lparr>endpoint = trim_space e, nextID = 0, events = []\<rparr>"

definition nextRequestID :: "rpc_client \<Rightarrow> u64 \<times> rpc_client" where
  "nextRequestID r = (nextID r + 1, r\<lparr>nextID := nextID r + 1\<rparr>)"

definition record_event :: "event \<Rightarrow> rpc_client \<Rightarrow> rpc_client" where
  "record_event e r = r\<lparr>events := events r @ [e]\<rparr>"

definition callOnce ::
  "net \<Rightarrow> rpcRequest \<Rightarrow> (json \<Rightarrow> 'a option) \<Rightarrow> (rpc_client, rpc_error, 'a option) proc" where
  "callOnce net body decode_out r =
    (if \<not> endpoint_is_url net then (Inl RequestInvalid, r)
     else let r = record_event (Posted body) r in
     (case respond net (events r) of
        DoFailed fault \<Rightarrow> Inl (TransportError fault)
      | ReadFailed fault \<Rightarrow> Inl (TransportError fault)
      | CloseFailed fault \<Rightarrow> Inl (TransportError fault)
      | Answered len status responseBody decoded \<Rightarrow>
          if len > maxRPCResponseBytes then Inl ResponseTooLarge
          else if status < 200 \<or> status \<ge> 300 then Inl (HTTPError status (trim_space responseBody))
          else case decoded of
                 Undecodable \<Rightarrow> Inl ResponseUndecodable
               | Decoded (Some err) result \<Rightarrow>
                   Inl (NodeError \<lparr>rpc_Method = req_Method body, rpc_Code = err_Code err, rpc_Message = err_Message err,
                     rpc_Data = (case err_Data err of None \<Rightarrow> '''' | Some j \<Rightarrow> rpcErrorData j)\<rparr>)
               | Decoded None None \<Rightarrow> Inr None
               | Decoded None (Some result) \<Rightarrow>
                   if shape result = SNull then Inr None
                   else case decode_out result of None \<Rightarrow> Inl ResultUndecodable | Some out \<Rightarrow> Inr (Some out),
      r))"

definition retryableRPCError :: "rpc_error \<Rightarrow> bool" where
  "retryableRPCError err =
    (case err of
       HTTPError status _ \<Rightarrow> status = 408 \<or> status = 429 \<or> status \<ge> 500
     | TransportError fault \<Rightarrow> fault \<noteq> CtxEnded Canceled \<and> fault \<noteq> CtxEnded DeadlineExceeded
     | _ \<Rightarrow> False)"

definition waitRPCBackoff :: "net \<Rightarrow> nat \<Rightarrow> rpc_client \<Rightarrow> ctx_end option \<times> rpc_client" where
  "waitRPCBackoff net attempt r =
    (let r = record_event (Backoff (100 * 2 ^ attempt)) r in (ctx_ends net (events r), r))"

fun call_attempts ::
  "net \<Rightarrow> rpcRequest \<Rightarrow> (json \<Rightarrow> 'a option) \<Rightarrow> nat \<Rightarrow> nat \<Rightarrow> (rpc_client, rpc_error, 'a option) proc" where
  "call_attempts net body decode_out 0 attempt r = (Inl AttemptsExhausted, r)"
| "call_attempts net body decode_out (Suc left) attempt r =
    (case callOnce net body decode_out r of
       (Inr out, r) \<Rightarrow> (Inr out, r)
     | (Inl err, r) \<Rightarrow>
         if \<not> retryableRPCError err \<or> attempt = maxRPCAttempts - 1 then (Inl err, r)
         else case waitRPCBackoff net attempt r of
                (Some e, r) \<Rightarrow> (Inl (RetryEnded e), r)
              | (None, r) \<Rightarrow> call_attempts net body decode_out left (attempt + 1) r)"

definition Call ::
  "net \<Rightarrow> string \<Rightarrow> param list \<Rightarrow> (json \<Rightarrow> 'a option) \<Rightarrow> (rpc_client, rpc_error, 'a option) proc" where
  "Call net meth params decode_out r =
    (if trim_space (endpoint r) = '''' then (Inl EndpointMissing, r)
     else let (i, r) = nextRequestID r in
       call_attempts net \<lparr>req_ID = i, req_Method = meth, req_Params = params\<rparr> decode_out maxRPCAttempts 0 r)"

section \<open>The methods of the node\<close>

fun decode_text :: "json \<Rightarrow> string option" where
  "decode_text (Json raw (SString s)) = Some s"
| "decode_text _ = None"

definition call_text :: "net \<Rightarrow> string \<Rightarrow> param list \<Rightarrow> (rpc_client, rpc_error, string) proc" where
  \<comment> \<open>\<^verbatim>\<open>var raw string\<close> and a call that fills it: a null result leaves it empty\<close>
  "call_text net meth params =
     bind_p (Call net meth params decode_text) (\<lambda>out. ret_p (case out of None \<Rightarrow> '''' | Some s \<Rightarrow> s))"

definition non_null_text :: "net \<Rightarrow> string \<Rightarrow> param list \<Rightarrow> (rpc_client, rpc_error, string) proc" where
  "non_null_text net meth params =
     bind_p (call_text net meth params) (\<lambda>raw.
     bind_p (guard_p (trim_space raw = '''') (NullResult meth)) (\<lambda>_. ret_p raw))"

definition call_quantity :: "net \<Rightarrow> string \<Rightarrow> param list \<Rightarrow> (rpc_client, rpc_error, u64) proc" where
  "call_quantity net meth params =
     bind_p (non_null_text net meth params) (\<lambda>raw. lift_p (map_err QuantityError (parseHexUint raw)))"

definition ChainID :: "net \<Rightarrow> (rpc_client, rpc_error, u64) proc" where
  "ChainID net = call_quantity net ''eth_chainId'' []"

definition BlockNumber :: "net \<Rightarrow> (rpc_client, rpc_error, u64) proc" where
  "BlockNumber net = call_quantity net ''eth_blockNumber'' []"

definition default_tag :: "string \<Rightarrow> string \<Rightarrow> string" where
  "default_tag def tag = (if trim_space tag = '''' then def else tag)"

definition BlockByNumber :: "net \<Rightarrow> string \<Rightarrow> (rpc_client, rpc_error, EVMBlock) proc" where
  "BlockByNumber net blockTag =
     bind_p (Call net ''eth_getBlockByNumber'' [PString (default_tag ''latest'' blockTag), PBool False] (decode_block net)) (\<lambda>out.
       case out of
         None \<Rightarrow> fail_p IncompleteBlock
       | Some block \<Rightarrow>
           if trim_space (block_Number block) = '''' \<or> trim_space (block_Hash block) = '''' then fail_p IncompleteBlock
           else ret_p block)"

definition CodeAt :: "net \<Rightarrow> string \<Rightarrow> string \<Rightarrow> (rpc_client, rpc_error, bytes) proc" where
  "CodeAt net address blockTag =
     bind_p (lift_p (map_err AddressError (normalizeEVMAddress (lower_table net) address))) (\<lambda>address.
     bind_p (non_null_text net ''eth_getCode'' [PString address, PString (default_tag ''latest'' blockTag)]) (\<lambda>raw.
     lift_p (map_err QuantityError (decodeHexBytes raw))))"

definition CallContractAt :: "net \<Rightarrow> string \<Rightarrow> string \<Rightarrow> string \<Rightarrow> (rpc_client, rpc_error, bytes) proc" where
  "CallContractAt net to data blockTag =
     bind_p (non_null_text net ''eth_call''
       [PCall \<lparr>call_From = '''', call_To = to, call_Gas = '''', call_Value = '''', call_Data = normalizeHex data\<rparr>,
        PString (default_tag ''latest'' blockTag)]) (\<lambda>raw.
     lift_p (map_err QuantityError (decodeHexBytes raw)))"

definition CallContract :: "net \<Rightarrow> string \<Rightarrow> string \<Rightarrow> (rpc_client, rpc_error, bytes) proc" where
  "CallContract net to data = CallContractAt net to data ''latest''"

definition EstimateGas :: "net \<Rightarrow> EVMCall \<Rightarrow> (rpc_client, rpc_error, u64) proc" where
  "EstimateGas net call = call_quantity net ''eth_estimateGas'' [PCall call]"

definition TransactionCount :: "net \<Rightarrow> string \<Rightarrow> string \<Rightarrow> (rpc_client, rpc_error, u64) proc" where
  "TransactionCount net address blockTag =
     call_quantity net ''eth_getTransactionCount'' [PString address, PString (default_tag ''pending'' blockTag)]"

definition Balance :: "net \<Rightarrow> string \<Rightarrow> string \<Rightarrow> (rpc_client, rpc_error, int) proc" where
  "Balance net address blockTag =
     bind_p (lift_p (map_err AddressError (normalizeEVMAddress (lower_table net) address))) (\<lambda>normalized.
     bind_p (call_text net ''eth_getBalance'' [PString normalized, PString (default_tag ''latest'' blockTag)]) (\<lambda>raw.
     let digits = strip_hex_prefix raw in
     bind_p (guard_p (digits = '''') EmptyQuantity) (\<lambda>_.
     case set_string 16 digits of None \<Rightarrow> fail_p (InvalidBalance raw) | Some balance \<Rightarrow> ret_p balance)))"

definition GasPrice :: "net \<Rightarrow> (rpc_client, rpc_error, string) proc" where
  "GasPrice net =
     bind_p (call_text net ''eth_gasPrice'' []) (\<lambda>raw.
     bind_p (lift_p (map_err QuantityError (parseHexUint raw))) (\<lambda>_.
     ret_p (normalizeHex raw)))"

definition SendRawTransaction :: "net \<Rightarrow> string \<Rightarrow> (rpc_client, rpc_error, string) proc" where
  "SendRawTransaction net rawTx =
     bind_p (call_text net ''eth_sendRawTransaction'' [PString (normalizeHex rawTx)]) (\<lambda>hash.
     bind_p (guard_p (trim_space hash = '''') EmptyHash) (\<lambda>_. ret_p hash))"

definition TransactionReceipt :: "net \<Rightarrow> string \<Rightarrow> (rpc_client, rpc_error, EVMReceipt option) proc" where
  "TransactionReceipt net hash = Call net ''eth_getTransactionReceipt'' [PString hash] (decode_receipt net)"

section \<open>Waiting for a receipt\<close>

definition contains_text :: "string \<Rightarrow> string \<Rightarrow> bool" where
  "contains_text s part \<longleftrightarrow> (\<exists>i \<in> set [0..<Suc (length s)]. prefix part (drop i s))"

definition isTransientReceiptRPCError :: "net \<Rightarrow> rpc_error \<Rightarrow> bool" where
  "isTransientReceiptRPCError net err \<longleftrightarrow>
     retryableRPCError err \<or>
     (case err of
        NodeError e \<Rightarrow> rpc_Method e = ''eth_getTransactionReceipt'' \<and>
          (rpc_Code e = - 32603 \<or> contains_text (ToLower (lower_table net) (rpc_Message e)) ''internal error'')
      | _ \<Rightarrow> False)"

definition status_reverted :: "string \<Rightarrow> bool" where
  "status_reverted status \<longleftrightarrow> equal_fold (trim_space status) ''0x0'' \<or> trim_space status = ''0''"

text \<open>
  The loop of \<^verbatim>\<open>WaitReceipt\<close> ends only when the node answers or the context ends, so not
  ending is the value \<^const>\<open>None\<close>. It may return a receipt together with an error.
\<close>

partial_function (option) wait_loop ::
  "net \<Rightarrow> string \<Rightarrow> nat \<Rightarrow> rpc_client \<Rightarrow> ((rpc_error option \<times> EVMReceipt option) \<times> rpc_client) option" where
  "wait_loop net hash transientErrors r =
    (case TransactionReceipt net hash r of
       (Inl err, r) \<Rightarrow>
         if \<not> isTransientReceiptRPCError net err \<or> transientErrors \<ge> maxReceiptRPCErrors - 1 then Some ((Some err, None), r)
         else let r = record_event Slept r in
           (case ctx_ends net (events r) of
              Some e \<Rightarrow> Some ((Some (WaitEnded hash e), None), r)
            | None \<Rightarrow> wait_loop net hash (transientErrors + 1) r)
     | (Inr (Some receipt), r) \<Rightarrow>
         if status_reverted (rc_Status receipt) then Some ((Some (Reverted hash (rc_Status receipt)), Some receipt), r)
         else Some ((None, Some receipt), r)
     | (Inr None, r) \<Rightarrow>
         let r = record_event Slept r in
           (case ctx_ends net (events r) of
              Some e \<Rightarrow> Some ((Some (WaitEnded hash e), None), r)
            | None \<Rightarrow> wait_loop net hash 0 r))"

declare wait_loop.simps [code]

definition WaitReceipt ::
  "net \<Rightarrow> string \<Rightarrow> rpc_client \<Rightarrow> ((rpc_error option \<times> EVMReceipt option) \<times> rpc_client) option" where
  "WaitReceipt net hash r = wait_loop net hash 0 r"

section \<open>What a call sends\<close>

fun posted :: "event \<Rightarrow> rpcRequest list" where
  "posted (Posted q) = [q]"
| "posted _ = []"

definition posts :: "event list \<Rightarrow> rpcRequest list" where
  "posts evs = concat (map posted evs)"

lemma posts_simps [simp]: "posts [] = []" "posts (e # evs) = posted e @ posts evs" "posts (xs @ ys) = posts xs @ posts ys"
  by (simp_all add: posts_def)

lemma events_record [simp]: "events (record_event e r) = events r @ [e]"
  "endpoint (record_event e r) = endpoint r" "nextID (record_event e r) = nextID r"
  by (simp_all add: record_event_def)

lemma callOnce_state: "snd (callOnce net b d r) = (if endpoint_is_url net then record_event (Posted b) r else r)"
  by (simp add: callOnce_def Let_def)

lemma call_attempts_posts:
  "\<exists>evs k. events (snd (call_attempts net b d left attempt r)) = events r @ evs \<and> posts evs = replicate k b \<and>
     k \<le> left \<and> (endpoint_is_url net \<longrightarrow> 0 < left \<longrightarrow> 0 < k) \<and>
     endpoint (snd (call_attempts net b d left attempt r)) = endpoint r \<and>
     nextID (snd (call_attempts net b d left attempt r)) = nextID r"
proof (induction left arbitrary: attempt r)
  case (Suc left)
  obtain res r1 where o: "callOnce net b d r = (res, r1)" by fastforce
  with callOnce_state[of net b d r] have r1: "r1 = (if endpoint_is_url net then record_event (Posted b) r else r)" by simp
  let ?p = "if endpoint_is_url net then [Posted b] else []"
  show ?case
  proof (cases "\<exists>err. res = Inl err \<and> retryableRPCError err \<and> attempt \<noteq> maxRPCAttempts - 1 \<and> fst (waitRPCBackoff net attempt r1) = None")
    case False
    then have "snd (call_attempts net b d (Suc left) attempt r) \<in> {r1, snd (waitRPCBackoff net attempt r1)}"
      by (auto simp: o split: sum.split prod.split option.split)
    then show ?thesis
      by (intro exI[of _ "?p @ drop (length (events r1)) (events (snd (call_attempts net b d (Suc left) attempt r)))"]
          exI[of _ "if endpoint_is_url net then 1 else 0"]) (auto simp: r1 waitRPCBackoff_def Let_def)
  next
    case True
    then obtain err where e: "res = Inl err" "retryableRPCError err" "attempt \<noteq> maxRPCAttempts - 1"
      "fst (waitRPCBackoff net attempt r1) = None" by blast
    let ?r2 = "snd (waitRPCBackoff net attempt r1)"
    have c: "call_attempts net b d (Suc left) attempt r = call_attempts net b d left (attempt + 1) ?r2"
      using e by (auto simp: o split: prod.split)
    obtain evs k where ih: "events (snd (call_attempts net b d left (attempt + 1) ?r2)) = events ?r2 @ evs"
      "posts evs = replicate k b" "k \<le> left"
      "endpoint (snd (call_attempts net b d left (attempt + 1) ?r2)) = endpoint ?r2"
      "nextID (snd (call_attempts net b d left (attempt + 1) ?r2)) = nextID ?r2"
      using Suc.IH[of "attempt + 1" ?r2] by blast
    show ?thesis unfolding c
      by (intro exI[of _ "?p @ [Backoff (100 * 2 ^ attempt)] @ evs"] exI[of _ "if endpoint_is_url net then Suc k else k"])
        (use ih in \<open>auto simp: r1 waitRPCBackoff_def Let_def\<close>)
  qed
qed auto

definition request :: "rpc_client \<Rightarrow> string \<Rightarrow> param list \<Rightarrow> rpcRequest" where
  "request r meth params = \<lparr>req_ID = nextID r + 1, req_Method = meth, req_Params = params\<rparr>"

lemma Call_posts:
  "\<exists>evs k. events (snd (Call net meth params d r)) = events r @ evs \<and> posts evs = replicate k (request r meth params) \<and>
     k \<le> maxRPCAttempts \<and> endpoint (snd (Call net meth params d r)) = endpoint r \<and>
     (endpoint_is_url net \<longrightarrow> trim_space (endpoint r) \<noteq> '''' \<longrightarrow> 0 < k)"
proof (cases "trim_space (endpoint r) = ''''")
  case False
  let ?r = "r\<lparr>nextID := nextID r + 1\<rparr>"
  have "Call net meth params d r = call_attempts net (request r meth params) d maxRPCAttempts 0 ?r"
    using False by (simp add: Call_def nextRequestID_def request_def)
  then show ?thesis
    using call_attempts_posts[of net "request r meth params" d maxRPCAttempts 0 ?r] by (auto simp: maxRPCAttempts_def)
qed (auto simp: Call_def)

lemma Call_first:
  assumes "trim_space (endpoint r) \<noteq> ''''" "\<And>err. fst (callOnce net (request r meth params) d r) = Inl err \<Longrightarrow> \<not> retryableRPCError err"
  shows "Call net meth params d r =
    (fst (callOnce net (request r meth params) d r),
     snd (callOnce net (request r meth params) d (r\<lparr>nextID := nextID r + 1\<rparr>)))"
proof -
  let ?r = "r\<lparr>nextID := nextID r + 1\<rparr>"
  have f: "fst (callOnce net (request r meth params) d ?r) = fst (callOnce net (request r meth params) d r)"
    by (simp add: callOnce_def Let_def)
  have "Call net meth params d r = call_attempts net (request r meth params) d (Suc 2) 0 ?r"
    using assms(1) by (simp add: Call_def nextRequestID_def request_def maxRPCAttempts_def numeral_3_eq_3)
  also have "\<dots> = callOnce net (request r meth params) d ?r"
    unfolding call_attempts.simps using assms(2) f by (auto split: prod.split sum.split)
  finally show ?thesis using f by (metis prod.collapse)
qed

lemma call_grows: "length (events r) \<le> length (events (snd (Call net meth params d r)))"
  using Call_posts[of net meth params d r] by auto

section \<open>Waiting\<close>

lemma wait_loop_ends:
  assumes deadline: "\<And>evs. N \<le> length evs \<Longrightarrow> ctx_ends net evs \<noteq> None"
  shows "\<exists>y. wait_loop net hash n r = Some y"
proof (induction "N - length (events r)" arbitrary: n r rule: less_induct)
  case less
  obtain res r1 where t: "TransactionReceipt net hash r = (res, r1)" by fastforce
  have g: "length (events r) \<le> length (events r1)"
    using call_grows[of r net "''eth_getTransactionReceipt''" "[PString hash]" "decode_receipt net"] t
    by (simp add: TransactionReceipt_def)
  let ?r2 = "record_event Slept r1"
  have step: "\<exists>y. wait_loop net hash m ?r2 = Some y" if "ctx_ends net (events ?r2) = None" for m
  proof -
    have "length (events ?r2) < N" using deadline[of "events ?r2"] that by (meson not_le)
    then show ?thesis using g by (intro less) auto
  qed
  then show ?case
    by (subst wait_loop.simps) (auto simp: t Let_def split: sum.split option.split)
qed

definition wait_sound :: "(rpc_error option \<times> EVMReceipt option) \<Rightarrow> bool" where
  "wait_sound out \<longleftrightarrow>
     (case out of
        (None, Some receipt) \<Rightarrow> \<not> status_reverted (rc_Status receipt)
      | (None, None) \<Rightarrow> False
      | (Some (Reverted hash status), Some receipt) \<Rightarrow> status = rc_Status receipt \<and> status_reverted status
      | (Some err, receipt) \<Rightarrow> receipt = None)"

lemma wait_sound_simps [simp]:
  "wait_sound (Some err, None)"
  "wait_sound (None, Some receipt) \<longleftrightarrow> \<not> status_reverted (rc_Status receipt)"
  "wait_sound (Some (Reverted hash (rc_Status receipt)), Some receipt) \<longleftrightarrow> status_reverted (rc_Status receipt)"
  by (simp_all add: wait_sound_def split: rpc_error.split)

lemma wait_loop_sound: "wait_loop net hash n r = Some y \<Longrightarrow> wait_sound (fst y)"
  by (erule wait_loop.raw_induct[rotated])
    (fastforce simp: Let_def split: prod.splits sum.splits option.splits if_splits)

lemma wait_loop_gives_up:
  assumes fails: "\<And>r. \<exists>e t. TransactionReceipt net hash r = (Inl e, t)"
  shows "\<exists>e t. wait_loop net hash n r = Some ((Some e, None), t)"
proof (induction "maxReceiptRPCErrors - n" arbitrary: n r rule: less_induct)
  case less
  obtain e t where t: "TransactionReceipt net hash r = (Inl e, t)" using fails by blast
  have "\<exists>e u. wait_loop net hash (n + 1) (record_event Slept t) = Some ((Some e, None), u)" if "n < maxReceiptRPCErrors - 1"
    using that by (intro less) auto
  then show ?case
    by (subst wait_loop.simps) (auto simp: t Let_def split: option.split)
qed

end
