(* ===== verification/Rpc_Traffic.thy ===== *)
theory Rpc_Traffic
  imports Evm_Rpc
begin

text \<open>
  What the methods of the transport send. \<open>sends P m\<close> says that the computation only adds events,
  that every request it posts satisfies \<open>P\<close>, and that it leaves the endpoint alone; the rules follow
  the structure of the code.
\<close>

definition sends :: "(rpcRequest \<Rightarrow> bool) \<Rightarrow> (rpc_client, 'e, 'a) proc \<Rightarrow> bool" where
  "sends P m \<longleftrightarrow>
     (\<forall>r. \<exists>evs. events (snd (m r)) = events r @ evs \<and> list_all P (posts evs) \<and> endpoint (snd (m r)) = endpoint r)"

named_theorems sends_rules

definition calls :: "string \<Rightarrow> param list \<Rightarrow> rpcRequest \<Rightarrow> bool" where
  "calls meth params q \<longleftrightarrow> req_Method q = meth \<and> req_Params q = params"

lemma sends_mono: "sends P m \<Longrightarrow> (\<And>q. P q \<Longrightarrow> Q q) \<Longrightarrow> sends Q m"
  unfolding sends_def by (metis (mono_tags, lifting) list.pred_mono_strong)

lemma sends_Call: "(\<And>q. calls meth params q \<Longrightarrow> P q) \<Longrightarrow> sends P (Call net meth params d)"
proof -
  assume P: "\<And>q. calls meth params q \<Longrightarrow> P q"
  have "P (request r meth params)" for r by (rule P) (simp add: calls_def request_def)
  then show ?thesis
    unfolding sends_def list_all_iff
    using Call_posts[of net meth params d] by (metis in_set_replicate)
qed

lemma sends_ret [sends_rules]: "sends P (ret_p v)" "sends P (fail_p e)" "sends P (lift_p x)" "sends P (guard_p b e)"
  by (simp_all add: sends_def ret_p_def fail_p_def lift_p_def guard_p_def)

lemma sends_bind [sends_rules]:
  assumes "sends P m" "\<And>v. sends P (f v)"
  shows "sends P (bind_p m f)"
  unfolding sends_def
proof
  fix r
  obtain res t where m: "m r = (res, t)" by fastforce
  obtain evs where e: "events t = events r @ evs" "list_all P (posts evs)" "endpoint t = endpoint r"
    using assms(1) m unfolding sends_def by (metis snd_conv)
  show "\<exists>evs. events (snd (bind_p m f r)) = events r @ evs \<and> list_all P (posts evs) \<and> endpoint (snd (bind_p m f r)) = endpoint r"
  proof (cases res)
    case (Inr v)
    obtain evs' where "events (snd (f v t)) = events t @ evs'" "list_all P (posts evs')" "endpoint (snd (f v t)) = endpoint t"
      using assms(2)[of v] unfolding sends_def by metis
    then show ?thesis using e by (intro exI[of _ "evs @ evs'"]) (simp add: bind_p_def m Inr)
  qed (use e in \<open>auto simp: bind_p_def m\<close>)
qed

lemma sends_err [sends_rules]: "sends P m \<Longrightarrow> sends P (err_p g m)"
proof -
  have "snd (err_p g m r) = snd (m r)" for r by (auto simp: err_p_def split: prod.split sum.split)
  then show "sends P m \<Longrightarrow> sends P (err_p g m)" by (simp add: sends_def)
qed

lemma sends_text:
  assumes "\<And>q. calls meth params q \<Longrightarrow> P q"
  shows "sends P (call_text net meth params)" "sends P (non_null_text net meth params)" "sends P (call_quantity net meth params)"
proof -
  show t: "sends P (call_text net meth params)"
    unfolding call_text_def by (intro sends_rules sends_Call assms)
  then show n: "sends P (non_null_text net meth params)"
    unfolding non_null_text_def by (intro sends_rules)
  then show "sends P (call_quantity net meth params)"
    unfolding call_quantity_def by (intro sends_rules)
qed

definition no_raw :: "rpcRequest \<Rightarrow> bool" where
  "no_raw q \<longleftrightarrow> req_Method q \<noteq> ''eth_sendRawTransaction''"

lemma reads_send_no_raw [sends_rules]:
  "sends no_raw (ChainID net)" "sends no_raw (BlockNumber net)" "sends no_raw (EstimateGas net c)"
  "sends no_raw (TransactionCount net a tag)" "sends no_raw (GasPrice net)" "sends no_raw (TransactionReceipt net h)"
  unfolding ChainID_def BlockNumber_def EstimateGas_def TransactionCount_def GasPrice_def TransactionReceipt_def
  by (auto intro!: sends_rules sends_text sends_Call simp: no_raw_def calls_def)

lemma send_raw_sends:
  "sends (calls ''eth_sendRawTransaction'' [PString (normalizeHex rawTx)]) (SendRawTransaction net rawTx)"
  unfolding SendRawTransaction_def by (intro sends_rules sends_text)

definition grows :: "(rpcRequest \<Rightarrow> bool) \<Rightarrow> rpc_client \<Rightarrow> rpc_client \<Rightarrow> bool" where
  "grows P r t \<longleftrightarrow> (\<exists>evs. events t = events r @ evs \<and> list_all P (posts evs) \<and> endpoint t = endpoint r)"

lemma sends_grows: "sends P m \<Longrightarrow> m r = (res, t) \<Longrightarrow> grows P r t"
  unfolding sends_def grows_def by (metis snd_conv)

lemma grows_refl: "grows P r r"
  by (simp add: grows_def)

lemma grows_trans: "grows P r s \<Longrightarrow> grows P s t \<Longrightarrow> grows P r t"
  by (fastforce simp: grows_def)

lemma grows_sleep: "grows P r s \<Longrightarrow> grows P r (record_event Slept s)"
  by (fastforce simp: grows_def)

lemma wait_sends: "wait_loop net hash n r = Some y \<Longrightarrow> grows no_raw r (snd y)"
proof (erule wait_loop.raw_induct[rotated])
  fix wl :: "net \<Rightarrow> string \<Rightarrow> nat \<Rightarrow> rpc_client \<Rightarrow> ((rpc_error option \<times> EVMReceipt option) \<times> rpc_client) option"
    and net hash n r y
  assume IH: "\<And>net hash n r y. wl net hash n r = Some y \<Longrightarrow> grows no_raw r (snd y)"
  assume body: "(case TransactionReceipt net hash r of
       (Inl err, r) \<Rightarrow>
         if \<not> isTransientReceiptRPCError net err \<or> maxReceiptRPCErrors - 1 \<le> n then Some ((Some err, None), r)
         else let r = record_event Slept r in
           (case ctx_ends net (events r) of
              None \<Rightarrow> wl net hash (n + 1) r
            | Some e \<Rightarrow> Some ((Some (WaitEnded hash e), None), r))
     | (Inr None, r) \<Rightarrow>
         let r = record_event Slept r in
           (case ctx_ends net (events r) of
              None \<Rightarrow> wl net hash 0 r
            | Some e \<Rightarrow> Some ((Some (WaitEnded hash e), None), r))
     | (Inr (Some receipt), r) \<Rightarrow>
         if status_reverted (rc_Status receipt) then Some ((Some (Reverted hash (rc_Status receipt)), Some receipt), r)
         else Some ((None, Some receipt), r)) = Some y"
  obtain res t where t: "TransactionReceipt net hash r = (res, t)" by fastforce
  then have g: "grows no_raw r t" by (rule sends_grows[OF reads_send_no_raw(6)])
  from body have "snd y = t \<or> snd y = record_event Slept t \<or> (\<exists>k. wl net hash k (record_event Slept t) = Some y)"
    by (auto simp: t Let_def split: sum.splits option.splits if_splits)
  then show "grows no_raw r (snd y)"
    using g IH grows_sleep[OF g] grows_trans by metis
qed

end
