(* ===== verification/Evm_Errors.thy ===== *)
theory Evm_Errors
  imports Evm_Rpc Geth_Interface
begin

text \<open>
  Contract interfaces and decoded reverts: \<^verbatim>\<open>suite_abi.go\<close> and \<^verbatim>\<open>evm_errors.go\<close>.
  What go-ethereum makes of an embedded interface file is the parameter \<open>abi_file\<close> (packing and
  unpacking by method name and the custom errors), and its decoder of the built-in
  \<^verbatim>\<open>Error(string)\<close> revert is \<open>unpack_revert\<close>.
\<close>

section \<open>The embedded interfaces\<close>

datatype suiteABIName =
    suiteABIDirectory | suiteABICoordinator | suiteABICore | suiteABIRecovery | suiteABIModeration
  | suiteABIEconomic | suiteABIUsername | suiteABIBadge | suiteABIRelease

record abi_error =
  ae_Name :: string
  ae_ID :: bytes
  ae_Inputs :: "abi_type list"

record contract_abi =
  abi_Pack :: "string \<Rightarrow> abi_value list \<Rightarrow> string + bytes"
  abi_Unpack :: "string \<Rightarrow> bytes \<Rightarrow> string + abi_value list"
  abi_Errors :: "abi_error list"

definition all_suite_abis :: "suiteABIName list" where
  "all_suite_abis =
    [suiteABIDirectory, suiteABICoordinator, suiteABICore, suiteABIRecovery, suiteABIModeration,
     suiteABIEconomic, suiteABIUsername, suiteABIBadge, suiteABIRelease]"

record chain_env =
  the_net :: net
  the_geth :: geth
  abi_file :: "suiteABIName \<Rightarrow> string + contract_abi"
  unpack_revert :: "bytes \<Rightarrow> string option"

definition loadSuiteABI :: "chain_env \<Rightarrow> suiteABIName \<Rightarrow> string + contract_abi" where
  "loadSuiteABI env name =
     bind_res (for_check (\<lambda>key. bind_res (abi_file env key) (\<lambda>_. Inr ())) all_suite_abis) (\<lambda>_. abi_file env name)"

section \<open>Reverts\<close>

datatype revert =
    RevertData quantity_error
  | RevertReason string
  | RevertRaw string
  | RevertABI string
  | RevertUndecodable string string
  | RevertAddress address_error
  | LocatorNotFound string string
  | SuiteCustom string "abi_value list"
  | RevertSelector string

datatype chain_error =
    RpcFailed rpc_error
  | ContractRevert RPCError revert

definition custom_revert :: "chain_env \<Rightarrow> abi_error \<Rightarrow> bytes \<Rightarrow> revert" where
  \<comment> \<open>the body of the loop over the errors of one interface, for the error whose selector matches\<close>
  "custom_revert env custom raw =
    (case Unpack (the_geth env) (ae_Inputs custom) (drop 4 raw) of
       Inl e \<Rightarrow> RevertUndecodable (ae_Name custom) e
     | Inr vals \<Rightarrow>
        (case vals of
           [V_address owner, V_string locator] \<Rightarrow>
             if ae_Name custom = ''LocatorNotFound''
             then (case userAddressFromEVM (lower_table (the_net env)) (Address_Hex (the_geth env) owner) of
                     Inl e \<Rightarrow> RevertAddress e
                   | Inr user \<Rightarrow> LocatorNotFound user locator)
             else SuiteCustom (ae_Name custom) vals
         | _ \<Rightarrow> SuiteCustom (ae_Name custom) vals))"

fun find_custom :: "chain_env \<Rightarrow> suiteABIName list \<Rightarrow> bytes \<Rightarrow> revert option" where
  "find_custom env [] raw = None"
| "find_custom env (name # names) raw =
    (case loadSuiteABI env name of
       Inl e \<Rightarrow> Some (RevertABI e)
     | Inr abi \<Rightarrow>
        (case find (\<lambda>custom. take 4 (ae_ID custom) = take 4 raw) (abi_Errors abi) of
           Some custom \<Rightarrow> Some (custom_revert env custom raw)
         | None \<Rightarrow> find_custom env names raw))"

definition decodeSuiteRevert :: "chain_env \<Rightarrow> string \<Rightarrow> revert" where
  "decodeSuiteRevert env data =
    (case decodeHexBytes data of
       Inl e \<Rightarrow> RevertData e
     | Inr raw \<Rightarrow>
        (case unpack_revert env raw of
           Some reason \<Rightarrow> RevertReason reason
         | None \<Rightarrow>
            if length raw < 4 then RevertRaw (normalizeHex data)
            else case find_custom env all_suite_abis raw of
                   Some r \<Rightarrow> r
                 | None \<Rightarrow> RevertSelector (to_lower (hex_encode (take 4 raw)))))"

definition wrapEVMRPCError :: "chain_env \<Rightarrow> rpc_error \<Rightarrow> chain_error" where
  "wrapEVMRPCError env err =
    (case err of
       NodeError e \<Rightarrow> if rpc_Data e = '''' then RpcFailed err else ContractRevert e (decodeSuiteRevert env (rpc_Data e))
     | _ \<Rightarrow> RpcFailed err)"

end
