(* ===== verification/Nonce_Manager.thy ===== *)
theory Nonce_Manager
  imports Evm_Address Go_State
begin

text \<open>
  The nonce cache of \<^verbatim>\<open>cli/internal/chain/evm_nonce.go\<close>. The query of the pending
  transaction count is an argument of \<open>reserve\<close>, which runs it only when the cache does not fit
  the request; the lock makes every operation one step, and the interleavings of concurrent
  operations are the sequences of steps of \<open>nonce_step\<close>.
\<close>

section \<open>The manager\<close>

record evmNonceManager =
  nm_valid :: bool
  nm_endpoint :: string
  nm_chainID :: u64
  nm_from :: string
  nm_next :: u64
  nm_generation :: u64

record evmNonceReservation =
  rs_endpoint :: string
  rs_chainID :: u64
  rs_from :: string
  rs_generation :: u64
  rs_nonce :: u64

datatype 'e nonce_error =
    NonceAddress address_error
  | NonceQuery 'e
  | NonceOverflow

definition newEVMNonceManager :: evmNonceManager where
  "newEVMNonceManager =
     \<lparr>nm_valid = False, nm_endpoint = '''', nm_chainID = 0, nm_from = '''', nm_next = 0, nm_generation = 0\<rparr>"

definition cache_fits :: "string \<Rightarrow> u64 \<Rightarrow> string \<Rightarrow> evmNonceManager \<Rightarrow> bool" where
  "cache_fits e chainID from m \<longleftrightarrow> nm_valid m \<and> nm_endpoint m = e \<and> nm_chainID m = chainID \<and> nm_from m = from"

definition take_nonce :: "(evmNonceManager \<times> 'w, 'e nonce_error, u64 \<times> evmNonceReservation) proc" where
  \<comment> \<open>the end of \<^verbatim>\<open>reserve\<close>, once the cache fits the request\<close>
  "take_nonce = (\<lambda>(m, w).
     let nonce = nm_next m in
     if nm_next m = - 1 then (Inl NonceOverflow, (m\<lparr>nm_valid := False\<rparr>, w))
     else let m = m\<lparr>nm_next := nm_next m + 1\<rparr> in
       (Inr (nonce, \<lparr>rs_endpoint = nm_endpoint m, rs_chainID = nm_chainID m, rs_from = nm_from m,
                     rs_generation = nm_generation m, rs_nonce = nonce\<rparr>), (m, w)))"

definition reserve ::
  "(nat \<Rightarrow> nat) \<Rightarrow> string \<Rightarrow> (string \<Rightarrow> ('w, 'e, u64) proc) \<Rightarrow> u64 \<Rightarrow> string \<Rightarrow>
   (evmNonceManager \<times> 'w, 'e nonce_error, u64 \<times> evmNonceReservation) proc" where
  "reserve lower_rune e query chainID from = (\<lambda>(m, w).
     case normalizeEVMAddress lower_rune from of
       Inl err \<Rightarrow> (Inl (NonceAddress err), (m, w))
     | Inr normalized \<Rightarrow>
        let normalizedFrom = ToLower lower_rune normalized in
        if cache_fits e chainID normalizedFrom m then take_nonce (m, w)
        else case query normalizedFrom w of
               (Inl err, w) \<Rightarrow> (Inl (NonceQuery err), (m\<lparr>nm_valid := False\<rparr>, w))
             | (Inr pending, w) \<Rightarrow>
                 if pending = - 1 then (Inl NonceOverflow, (m, w))
                 else take_nonce
                   (m\<lparr>nm_endpoint := e, nm_chainID := chainID, nm_from := normalizedFrom, nm_next := pending,
                      nm_generation := nm_generation m + 1, nm_valid := True\<rparr>, w))"

definition invalidate :: "string \<Rightarrow> u64 \<Rightarrow> string \<Rightarrow> u64 \<Rightarrow> evmNonceManager \<Rightarrow> evmNonceManager" where
  "invalidate e chainID from generation m =
     (if nm_valid m \<and> nm_endpoint m = e \<and> nm_chainID m = chainID \<and> nm_from m = from \<and> nm_generation m = generation
      then m\<lparr>nm_valid := False, nm_generation := nm_generation m + 1\<rparr> else m)"

definition Invalidate :: "evmNonceReservation \<Rightarrow> evmNonceManager \<Rightarrow> evmNonceManager" where
  "Invalidate r m = invalidate (rs_endpoint r) (rs_chainID r) (rs_from r) (rs_generation r) m"

definition Release :: "evmNonceReservation \<Rightarrow> evmNonceManager \<Rightarrow> evmNonceManager" where
  "Release r m = Invalidate r m"

definition Commit :: "evmNonceReservation \<Rightarrow> evmNonceManager \<Rightarrow> evmNonceManager" where
  "Commit r m = m"

section \<open>Interleaved operations\<close>

text \<open>
  A state of the system is the manager and the reservations it has issued, the latest last. The
  node's answer to a query is arbitrary; a reservation may be invalidated at any time after it was
  issued, any number of times, whoever holds it.
\<close>

inductive nonce_step :: "evmNonceManager \<times> evmNonceReservation list \<Rightarrow> evmNonceManager \<times> evmNonceReservation list \<Rightarrow> bool" where
  step_reserve:
    "reserve lr e (\<lambda>_ w. (answer :: unit + u64, w)) chainID from (m, ()) = (Inr (nonce, rs), (m', ())) \<Longrightarrow> nonce_step (m, issued) (m', issued @ [rs])"
| step_refuse:
    "reserve lr e (\<lambda>_ w. (answer :: unit + u64, w)) chainID from (m, ()) = (Inl err, (m', ())) \<Longrightarrow> nonce_step (m, issued) (m', issued)"
| step_invalidate:
    "rs \<in> set issued \<Longrightarrow> nonce_step (m, issued) (Invalidate rs m, issued)"
| step_commit:
    "rs \<in> set issued \<Longrightarrow> nonce_step (m, issued) (Commit rs m, issued)"

inductive nonce_run :: "nat \<Rightarrow> evmNonceManager \<times> evmNonceReservation list \<Rightarrow> bool" where
  run_start: "nonce_run 0 (newEVMNonceManager, [])"
| run_step: "nonce_run n st \<Longrightarrow> nonce_step st st' \<Longrightarrow> nonce_run (Suc n) st'"

inductive_cases nonce_stepE: "nonce_step (m, issued) st'"

text \<open>The reservations of one generation, and the invariant.\<close>

definition of_generation :: "u64 \<Rightarrow> evmNonceReservation list \<Rightarrow> evmNonceReservation list" where
  "of_generation g issued = filter (\<lambda>rs. rs_generation rs = g) issued"

definition consecutive :: "nat list \<Rightarrow> bool" where
  "consecutive ns \<longleftrightarrow> (ns = [] \<or> ns = [hd ns ..< hd ns + length ns])"

definition rs_key :: "evmNonceReservation \<Rightarrow> string \<times> u64 \<times> string" where
  "rs_key rs = (rs_endpoint rs, rs_chainID rs, rs_from rs)"

definition nm_key :: "evmNonceManager \<Rightarrow> string \<times> u64 \<times> string" where
  "nm_key m = (nm_endpoint m, nm_chainID m, nm_from m)"

definition one_key :: "evmNonceReservation list \<Rightarrow> bool" where
  "one_key issued \<longleftrightarrow>
     (\<forall>r \<in> set issued. \<forall>s \<in> set issued. rs_generation r = rs_generation s \<longrightarrow> rs_key r = rs_key s)"

definition nonce_inv :: "nat \<Rightarrow> evmNonceManager \<times> evmNonceReservation list \<Rightarrow> bool" where
  "nonce_inv n = (\<lambda>(m, issued).
     unat (nm_generation m) \<le> n \<and>
     (\<forall>rs \<in> set issued. unat (rs_generation rs) \<le> unat (nm_generation m)) \<and>
     (\<forall>g. consecutive (map (unat \<circ> rs_nonce) (of_generation g issued))) \<and>
     one_key issued \<and>
     (nm_valid m \<longrightarrow> (\<forall>rs \<in> set (of_generation (nm_generation m) issued). rs_key rs = nm_key m) \<and>
        (of_generation (nm_generation m) issued \<noteq> [] \<longrightarrow> Suc (unat (rs_nonce (last (of_generation (nm_generation m) issued)))) = unat (nm_next m))))"

section \<open>Proofs\<close>

definition resync :: "string \<Rightarrow> u64 \<Rightarrow> string \<Rightarrow> u64 \<Rightarrow> evmNonceManager \<Rightarrow> evmNonceManager" where
  "resync e chainID from pending m =
     m\<lparr>nm_endpoint := e, nm_chainID := chainID, nm_from := from, nm_next := pending,
       nm_generation := nm_generation m + 1, nm_valid := True\<rparr>"

definition reservation :: "evmNonceManager \<Rightarrow> evmNonceReservation" where
  "reservation m = \<lparr>rs_endpoint = nm_endpoint m, rs_chainID = nm_chainID m, rs_from = nm_from m,
     rs_generation = nm_generation m, rs_nonce = nm_next m\<rparr>"

lemma take_nonce_eq:
  "take_nonce (m, w) =
    (if nm_next m = - 1 then (Inl NonceOverflow, (m\<lparr>nm_valid := False\<rparr>, w))
     else (Inr (nm_next m, reservation m), (m\<lparr>nm_next := nm_next m + 1\<rparr>, w)))"
  by (simp add: take_nonce_def reservation_def Let_def)

lemma reserve_ok:
  assumes "reserve lr e query chainID from (m, w) = (Inr (nonce, rs), (m', w'))"
  obtains (cached) "nm_valid m" "nm_next m \<noteq> - 1" "nonce = nm_next m" "rs = reservation m" "m' = m\<lparr>nm_next := nm_next m + 1\<rparr>" "w' = w"
    | (synced) pending normalized where
        "query normalized w = (Inr pending, w')" "pending \<noteq> - 1" "nonce = pending"
        "rs = reservation (resync e chainID normalized pending m)"
        "m' = (resync e chainID normalized pending m)\<lparr>nm_next := pending + 1\<rparr>"
  using assms
  by (auto simp: reserve_def take_nonce_eq Let_def cache_fits_def resync_def split: sum.splits prod.splits if_splits)

lemma reserve_failed:
  assumes "reserve lr e query chainID from (m, w) = (Inl err, (m', w'))"
  shows "m' = m \<or> m' = m\<lparr>nm_valid := False\<rparr>"
  using assms
  by (auto simp: reserve_def take_nonce_eq Let_def split: sum.splits prod.splits if_splits)

lemma consecutive_snoc: "consecutive ns \<Longrightarrow> (ns \<noteq> [] \<Longrightarrow> x = Suc (last ns)) \<Longrightarrow> consecutive (ns @ [x])"
proof -
  assume c: "consecutive ns" and x: "ns \<noteq> [] \<Longrightarrow> x = Suc (last ns)"
  show "consecutive (ns @ [x])"
  proof (cases "ns = []")
    case False
    then have ns: "ns = [hd ns ..< hd ns + length ns]" using c by (simp add: consecutive_def)
    then have "last ns = hd ns + length ns - 1" using False by (metis last_upt length_greater_0_conv less_add_same_cancel1)
    then have "x = hd ns + length ns" using x False by (cases ns) auto
    then have "ns @ [x] = [hd ns ..< Suc (hd ns + length ns)]" using ns by (metis le_add1 upt_Suc_append)
    then show ?thesis using False by (simp add: consecutive_def)
  qed (simp add: consecutive_def)
qed

lemma consecutive_Nil [simp]: "consecutive []"
  by (simp add: consecutive_def)

lemma consecutive_distinct: "consecutive ns \<Longrightarrow> distinct ns"
  unfolding consecutive_def by (metis distinct.simps(1) distinct_upt)

lemma of_generation_simps [simp]:
  "of_generation g [] = []"
  "of_generation g (xs @ [rs]) = of_generation g xs @ (if rs_generation rs = g then [rs] else [])"
  by (simp_all add: of_generation_def)

lemma unat_word_Suc: "unat w + 1 < 2 ^ 64 \<Longrightarrow> unat (w + 1 :: u64) = Suc (unat w)"
  by (simp add: unat_word_ariths)

lemma unat_max: "w \<noteq> - 1 \<Longrightarrow> unat (w :: u64) + 1 < 2 ^ 64"
proof -
  assume "w \<noteq> - 1"
  then have "unat w \<noteq> unat (- 1 :: u64)" by (simp only: word_unat_eq_iff[symmetric]) simp
  moreover have "unat (- 1 :: u64) = 2 ^ 64 - 1" by (simp add: unsigned_minus_1_eq_mask mask_eq_exp_minus_1)
  moreover have "unat w < 2 ^ 64" using unsigned_less[of w, where ?'a = nat] by simp
  ultimately show ?thesis by linarith
qed

lemma one_key_snoc:
  assumes "one_key issued" "\<And>r. r \<in> set issued \<Longrightarrow> rs_generation r = rs_generation s \<Longrightarrow> rs_key r = rs_key s"
  shows "one_key (issued @ [s])"
  unfolding one_key_def
proof (intro ballI impI)
  fix x y assume xy: "x \<in> set (issued @ [s])" "y \<in> set (issued @ [s])" and g: "rs_generation x = rs_generation y"
  from xy consider "x \<in> set issued" "y \<in> set issued" | "x = s" "y \<in> set issued" | "x \<in> set issued" "y = s" | "x = s" "y = s"
    by auto
  then show "rs_key x = rs_key y"
  proof cases
    case 1
    then show ?thesis using assms(1) g unfolding one_key_def by blast
  next
    case 2
    then show ?thesis using assms(2)[of y] g by simp
  next
    case 3
    then show ?thesis using assms(2)[of x] g by simp
  qed simp
qed

lemma nonce_inv_drop: "nonce_inv n (m, issued) \<Longrightarrow> nonce_inv (Suc n) (m\<lparr>nm_valid := False\<rparr>, issued)"
  by (simp add: nonce_inv_def)

lemma nonce_inv_bump:
  "nonce_inv n (m, issued) \<Longrightarrow> n + 1 < 2 ^ 64 \<Longrightarrow>
   nonce_inv (Suc n) (m\<lparr>nm_valid := False, nm_generation := nm_generation m + 1\<rparr>, issued)"
  using unat_word_Suc[of "nm_generation m"] by (auto simp: nonce_inv_def le_SucI)

lemma nonce_inv_cached:
  assumes inv: "nonce_inv n (m, issued)" and valid: "nm_valid m" and room: "nm_next m \<noteq> - 1"
  shows "nonce_inv (Suc n) (m\<lparr>nm_next := nm_next m + 1\<rparr>, issued @ [reservation m])"
proof -
  let ?own = "of_generation (nm_generation m) issued"
  have own: "\<forall>rs \<in> set ?own. rs_key rs = nm_key m"
    and last: "?own \<noteq> [] \<Longrightarrow> Suc (unat (rs_nonce (last ?own))) = unat (nm_next m)"
    using inv valid by (auto simp: nonce_inv_def)
  have "consecutive (map (unat \<circ> rs_nonce) ?own @ [unat (nm_next m)])"
    using inv last by (intro consecutive_snoc) (auto simp: nonce_inv_def last_map)
  moreover have "rs_key r = nm_key m" if "r \<in> set issued" "rs_generation r = nm_generation m" for r
    using own that by (auto simp: of_generation_def)
  then have "one_key (issued @ [reservation m])"
    using inv by (intro one_key_snoc) (simp_all add: nonce_inv_def reservation_def rs_key_def nm_key_def)
  ultimately show ?thesis
    using inv own unat_word_Suc[OF unat_max[OF room]]
    by (auto simp: nonce_inv_def reservation_def rs_key_def nm_key_def)
qed

lemma nonce_inv_synced:
  fixes e :: string and chainID :: u64 and "from" :: string
  assumes inv: "nonce_inv n (m, issued)" and n: "n + 1 < 2 ^ 64" and pending: "pending \<noteq> - 1"
  defines "m1 \<equiv> resync e chainID from pending m"
  shows "nonce_inv (Suc n) (m1\<lparr>nm_next := pending + 1\<rparr>, issued @ [reservation m1])"
proof -
  have g: "unat (nm_generation m + 1) = Suc (unat (nm_generation m))"
    using inv n by (intro unat_word_Suc) (auto simp: nonce_inv_def)
  have fresh: "rs_generation r \<noteq> nm_generation m + 1" if "r \<in> set issued" for r
    using inv that g by (fastforce simp: nonce_inv_def)
  then have "of_generation (nm_generation m + 1) issued = []" by (auto simp: of_generation_def filter_empty_conv)
  note own = this
  have old: "unat (nm_generation m) \<le> n" "\<forall>rs \<in> set issued. unat (rs_generation rs) \<le> unat (nm_generation m)"
    "\<And>g. consecutive (map (unat \<circ> rs_nonce) (of_generation g issued))"
    "one_key issued"
    using inv unfolding nonce_inv_def prod.case by blast+
  have m1: "nm_generation m1 = nm_generation m + 1" "nm_next m1 = pending"
    by (simp_all add: m1_def resync_def)
  have r: "rs_generation (reservation m1) = nm_generation m + 1" "rs_nonce (reservation m1) = pending"
    "rs_key (reservation m1) = nm_key (m1\<lparr>nm_next := x\<rparr>)" for x
    by (simp_all add: reservation_def m1 rs_key_def nm_key_def)
  have "consecutive (map (unat \<circ> rs_nonce) (of_generation g (issued @ [reservation m1])))" for g
    using old(3)[of g] own consecutive_snoc[of "[]" "unat pending"] by (auto simp: r)
  moreover have "one_key (issued @ [reservation m1])"
    using old(4) fresh by (intro one_key_snoc) (simp_all add: r(1))
  moreover have "\<forall>x \<in> set (issued @ [reservation m1]). unat (rs_generation x) \<le> Suc (unat (nm_generation m))"
    using old(2) g by (auto simp: r(1) le_SucI)
  ultimately show ?thesis
    using old(1) g unat_word_Suc[OF unat_max[OF pending]] own
    unfolding nonce_inv_def by (simp add: m1 r)
qed

lemma nonce_inv_step:
  assumes inv: "nonce_inv n (m, issued)" and n: "n + 1 < 2 ^ 64" and step: "nonce_step (m, issued) (m', issued')"
  shows "nonce_inv (Suc n) (m', issued')"
proof -
  have idle: "nonce_inv (Suc n) (m, issued)" using inv by (auto simp: nonce_inv_def)
  from step consider
      (reserved) lr e chainID sender nonce rs and answer :: "unit + u64" where
        "reserve lr e (\<lambda>_ w. (answer, w)) chainID sender (m, ()) = (Inr (nonce, rs), (m', ()))" "issued' = issued @ [rs]"
    | (refused) lr e chainID sender err and answer :: "unit + u64" where
        "reserve lr e (\<lambda>_ w. (answer, w)) chainID sender (m, ()) = (Inl err, (m', ()))" "issued' = issued"
    | (stale) rs where "m' = Invalidate rs m" "issued' = issued"
    | (idle) "m' = m" "issued' = issued"
    by (elim nonce_stepE) (auto simp: Commit_def)
  then show ?thesis
  proof cases
    case (reserved lr e chainID sender nonce rs answer)
    from reserved(1) show ?thesis
    proof (cases rule: reserve_ok)
      case cached
      then show ?thesis using nonce_inv_cached[OF inv cached(1,2)] reserved(2) by metis
    next
      case (synced pending normalized)
      then show ?thesis using nonce_inv_synced[OF inv n synced(2)] reserved(2) by metis
    qed
  next
    case (refused lr e chainID sender err answer)
    then show ?thesis using reserve_failed[OF refused(1)] idle nonce_inv_drop[OF inv] by metis
  next
    case (stale rs)
    then show ?thesis using idle nonce_inv_bump[OF inv n] by (auto simp: Invalidate_def invalidate_def)
  next
    case idle
    then show ?thesis using \<open>nonce_inv (Suc n) (m, issued)\<close> by simp
  qed
qed

lemma nonce_run_inv: "nonce_run n st \<Longrightarrow> n < 2 ^ 64 \<Longrightarrow> nonce_inv n st"
proof (induction rule: nonce_run.induct)
  case run_start
  then show ?case by (simp add: nonce_inv_def newEVMNonceManager_def one_key_def)
next
  case (run_step n st st')
  then show ?case using nonce_inv_step[of n "fst st" "snd st" "fst st'" "snd st'"] by simp
qed

section \<open>The interface of a nonce source\<close>

text \<open>
  What a client of the cache relies on. \<open>cached k m\<close> is the nonce that the next reservation for the
  account \<open>k\<close> will get without asking the node, if there is one.
\<close>

locale nonce_source =
  fixes acquire :: "'k \<Rightarrow> 'm \<times> 'w \<Rightarrow> ('e + u64 \<times> 'r) \<times> 'm \<times> 'w"
    and discard :: "'r \<Rightarrow> 'm \<Rightarrow> 'm"
    and cached :: "'k \<Rightarrow> 'm \<Rightarrow> u64 option"
  assumes acquired: "acquire k (m, w) = (Inr (n, r), (m', w')) \<Longrightarrow> cached k m' = Some (n + 1)"
    and discarded: "acquire k (m, w) = (Inr (n, r), (m', w')) \<Longrightarrow> cached k (discard r m') = None"
    and reused: "cached k m = Some n \<Longrightarrow> n \<noteq> - 1 \<Longrightarrow> \<exists>r m'. acquire k (m, w) = (Inr (n, r), (m', w))"
begin

lemma next_nonce:
  assumes "acquire k (m, w) = (Inr (n, r), (m', w'))" "n + 1 \<noteq> - 1"
  shows "\<exists>r' m''. acquire k (m', v) = (Inr (n + 1, r'), (m'', v))"
  using reused[OF acquired[OF assms(1)] assms(2)] by blast

lemma settled:
  assumes "acquire k (m, w) = (Inr (n, r), (m', w'))"
  shows "cached k (if ok then m' else discard r m') = (if ok then Some (n + 1) else None)"
  using acquired[OF assms] discarded[OF assms] by simp

end

definition cached_nonce :: "(nat \<Rightarrow> nat) \<Rightarrow> string \<times> u64 \<times> string \<Rightarrow> evmNonceManager \<Rightarrow> u64 option" where
  "cached_nonce lr k m =
    (case k of (e, chainID, from) \<Rightarrow>
       (case normalizeEVMAddress lr from of
          Inl _ \<Rightarrow> None
        | Inr normalized \<Rightarrow> if cache_fits e chainID (ToLower lr normalized) m then Some (nm_next m) else None))"

definition reserve_for ::
  "(nat \<Rightarrow> nat) \<Rightarrow> (string \<Rightarrow> ('w, 'e, u64) proc) \<Rightarrow> string \<times> u64 \<times> string \<Rightarrow>
   (evmNonceManager \<times> 'w, 'e nonce_error, u64 \<times> evmNonceReservation) proc" where
  "reserve_for lr query k = (case k of (e, chainID, from) \<Rightarrow> reserve lr e query chainID from)"

interpretation nonces: nonce_source "reserve_for lr query" Invalidate "cached_nonce lr" for lr query
proof
  fix k m w n r m' w'
  assume a: "reserve_for lr query k (m, w) = (Inr (n, r), (m', w'))"
  obtain e chainID sender where k: "k = (e, chainID, sender)" by (cases k)
  have r: "reserve lr e query chainID sender (m, w) = (Inr (n, r), (m', w'))" using a by (simp add: k reserve_for_def)
  show "cached_nonce lr k m' = Some (n + 1)"
    using r by (auto simp: reserve_def take_nonce_eq Let_def cached_nonce_def k cache_fits_def split: sum.splits prod.splits if_splits)
  show "cached_nonce lr k (Invalidate r m') = None"
    using r by (auto simp: reserve_def take_nonce_eq Let_def cached_nonce_def k cache_fits_def reservation_def
        Invalidate_def invalidate_def split: sum.splits prod.splits if_splits)
next
  fix k m n w
  assume "cached_nonce lr k m = Some n" "n \<noteq> - 1"
  then show "\<exists>r m'. reserve_for lr query k (m, w) = (Inr (n, r), (m', w))"
    by (auto simp: reserve_def take_nonce_eq Let_def cached_nonce_def reserve_for_def split: sum.splits prod.splits if_splits)
qed

end
