(* ===== verification/Cli_Config.thy ===== *)
theory Cli_Config
  imports Go_Runes Go_State
begin

text \<open>
  The configuration of the command line tool, \<^verbatim>\<open>cli/internal/config/config.go\<close>: the
  network profiles, the defaults, the effective values derived from a configuration, its
  validation, and reading and writing the file. The file system, the environment and the package
  \<^verbatim>\<open>encoding/json\<close> applied to this struct are the parameter \<open>host\<close>; the case table of
  \<^verbatim>\<open>unicode\<close> is the parameter \<open>lower_rune\<close>.
\<close>

section \<open>Data\<close>

record Gateway =
  gw_Name :: string
  gw_URL :: string

record Upload =
  up_Endpoint :: string
  up_AuthorizationEndpoint :: string
  up_Authorization :: string
  up_USPeer :: string
  up_HKPeer :: string

record Config =
  Network :: string
  EVMSuiteDirectoryAddress :: string
  ContractBackend :: string
  ContractVersion :: string
  ContractAddress :: string
  EVMRPC :: string
  EVMContractAddress :: string
  EVMBadgeModuleAddress :: string
  EVMEconomicModuleAddress :: string
  EVMModerationModuleAddress :: string
  EVMChainID :: u64
  EVMExplorer :: string
  EVMKeystoreDir :: string
  CfgChainID :: string
  LCDEndpoint :: string
  Node :: string
  KeyName :: string
  KeyringBackend :: string
  InjectivedBin :: string
  GasPrices :: string
  IPFSAPI :: string
  IPFSBin :: string
  IPFSGateway :: string
  Gateways :: "Gateway list"
  CfgUpload :: Upload
  PublicGatewayFallbacks :: "string list"

record NetworkProfile =
  np_Name :: string
  np_CosmosChainID :: string
  np_EVMChainID :: u64
  np_LCDEndpoint :: string
  np_CosmosRPC :: string
  np_EVMRPC :: string
  np_EVMExplorer :: string
  np_EVMSuiteDirectory :: string

datatype config_error =
    UnknownProfile string
  | PublishedDefaults string string
  | NoProfiles
  | ProfileKeyMismatch string string
  | PublishedDirectory string string
  | MissingKeyName
  | MissingEVMSuiteDirectory
  | InvalidEVMSuiteDirectory string
  | MissingEVMRPC
  | MissingEVMChainID
  | HostError string
  | ProtectDirectoryError string
  | ProtectFileError string
  | ParseError string
  | UpgradeError config_error
  | WriteError string

definition DefaultUSUploadPeer :: string where
  "DefaultUSUploadPeer = ''/ip4/162.35.187.224/tcp/4001/p2p/12D3KooWBGyxqNM3q6nHvacFfqnwoXP2uXxP36uSPab2p16ywfFS''"

definition DefaultHKUploadPeer :: string where
  "DefaultHKUploadPeer = ''/dns4/igit-hk.haohanyh.ovh/tcp/4001/p2p/12D3KooWRfRoRqEyC4Qsb4ow2yfGsSAAymTFSxj6vr2SYQnxk55W''"

definition no_Upload :: Upload where
  "no_Upload = \<lparr>up_Endpoint = '''', up_AuthorizationEndpoint = '''', up_Authorization = '''', up_USPeer = '''', up_HKPeer = ''''\<rparr>"

definition zero_Config :: Config where
  \<comment> \<open>\<^verbatim>\<open>Config{}\<close>\<close>
  "zero_Config =
    \<lparr>Network = '''', EVMSuiteDirectoryAddress = '''', ContractBackend = '''', ContractVersion = '''', ContractAddress = '''',
     EVMRPC = '''', EVMContractAddress = '''', EVMBadgeModuleAddress = '''', EVMEconomicModuleAddress = '''',
     EVMModerationModuleAddress = '''', EVMChainID = 0, EVMExplorer = '''', EVMKeystoreDir = '''', CfgChainID = '''',
     LCDEndpoint = '''', Node = '''', KeyName = '''', KeyringBackend = '''', InjectivedBin = '''', GasPrices = '''',
     IPFSAPI = '''', IPFSBin = '''', IPFSGateway = '''', Gateways = [], CfgUpload = no_Upload, PublicGatewayFallbacks = []\<rparr>"

section \<open>Network profiles\<close>

definition networkProfiles :: "(string, NetworkProfile) gomap" where
  "networkProfiles =
    [(''injective-testnet'',
      \<lparr>np_Name = ''injective-testnet'', np_CosmosChainID = ''injective-888'', np_EVMChainID = 1439,
       np_LCDEndpoint = ''https://k8s.testnet.lcd.injective.network'',
       np_CosmosRPC = ''https://k8s.testnet.tm.injective.network'',
       np_EVMRPC = ''https://k8s.testnet.json-rpc.injective.network'',
       np_EVMExplorer = ''https://testnet.blockscout.injective.network'', np_EVMSuiteDirectory = ''''\<rparr>),
     (''injective-mainnet'',
      \<lparr>np_Name = ''injective-mainnet'', np_CosmosChainID = ''injective-1'', np_EVMChainID = 1776,
       np_LCDEndpoint = ''https://lcd.injective.network'',
       np_CosmosRPC = ''https://tm.injective.network'',
       np_EVMRPC = ''https://sentry.evm-rpc.injective.network/'',
       np_EVMExplorer = ''https://blockscout.injective.network'', np_EVMSuiteDirectory = ''''\<rparr>)]"

definition NetworkProfileFor :: "(nat \<Rightarrow> nat) \<Rightarrow> string \<Rightarrow> NetworkProfile option" where
  "NetworkProfileFor lower_rune name = map_of networkProfiles (ToLower lower_rune (trim_space name))"

definition use_profile :: "NetworkProfile \<Rightarrow> Config \<Rightarrow> Config" where
  "use_profile profile cfg =
     cfg\<lparr>Network := np_Name profile, CfgChainID := np_CosmosChainID profile, LCDEndpoint := np_LCDEndpoint profile,
       Node := np_CosmosRPC profile, EVMRPC := np_EVMRPC profile, EVMChainID := np_EVMChainID profile,
       EVMExplorer := np_EVMExplorer profile, EVMSuiteDirectoryAddress := np_EVMSuiteDirectory profile,
       ContractBackend := ''evm'', ContractVersion := ''v3'', ContractAddress := '''', EVMContractAddress := '''',
       EVMBadgeModuleAddress := '''', EVMEconomicModuleAddress := '''', EVMModerationModuleAddress := ''''\<rparr>"

definition SelectNetworkProfile :: "(nat \<Rightarrow> nat) \<Rightarrow> Config \<Rightarrow> string \<Rightarrow> config_error + Config" where
  "SelectNetworkProfile lower_rune cfg name =
    (case NetworkProfileFor lower_rune name of
       None \<Rightarrow> Inl (UnknownProfile (trim_space name))
     | Some profile \<Rightarrow> Inr (use_profile profile cfg))"

definition fill :: "string \<Rightarrow> string \<Rightarrow> string" where
  \<comment> \<open>\<^verbatim>\<open>if field == "" { field = value }\<close>\<close>
  "fill field val = (if field = '''' then val else field)"

definition fill_profile :: "NetworkProfile \<Rightarrow> Config \<Rightarrow> Config" where
  "fill_profile profile cfg =
     cfg\<lparr>Network := np_Name profile,
       CfgChainID := fill (CfgChainID cfg) (np_CosmosChainID profile),
       LCDEndpoint := fill (LCDEndpoint cfg) (np_LCDEndpoint profile),
       Node := fill (Node cfg) (np_CosmosRPC profile),
       EVMRPC := fill (EVMRPC cfg) (np_EVMRPC profile),
       EVMChainID := (if EVMChainID cfg = 0 then np_EVMChainID profile else EVMChainID cfg),
       EVMExplorer := fill (EVMExplorer cfg) (np_EVMExplorer profile),
       EVMSuiteDirectoryAddress := fill (EVMSuiteDirectoryAddress cfg) (np_EVMSuiteDirectory profile),
       ContractBackend := ''evm'', ContractVersion := ''v3''\<rparr>"

definition ApplyNetworkProfile :: "(nat \<Rightarrow> nat) \<Rightarrow> Config \<Rightarrow> Config" where
  "ApplyNetworkProfile lower_rune cfg =
    (let name = ToLower lower_rune (trim_space (Network cfg));
         name = (if name = '''' then ''injective-testnet'' else name) in
     case NetworkProfileFor lower_rune name of
       None \<Rightarrow> cfg
     | Some profile \<Rightarrow> fill_profile profile cfg)"

definition Defaults :: "(nat \<Rightarrow> nat) \<Rightarrow> Config" where
  "Defaults lower_rune = ApplyNetworkProfile lower_rune (zero_Config
    \<lparr>Network := ''injective-testnet'', ContractBackend := ''evm'', ContractVersion := ''v3'', CfgChainID := ''injective-888'',
     LCDEndpoint := ''https://testnet.sentry.lcd.injective.network:443'',
     Node := ''https://testnet.sentry.tm.injective.network:443'',
     KeyringBackend := ''test'', InjectivedBin := ''injectived'', GasPrices := ''500000000inj'',
     IPFSAPI := ''http://127.0.0.1:5001'', IPFSBin := ''ipfs'', IPFSGateway := ''https://igit-hk.haohanyh.ovh'',
     Gateways := [\<lparr>gw_Name = ''hk'', gw_URL = ''https://igit-hk.haohanyh.ovh''\<rparr>,
                  \<lparr>gw_Name = ''us'', gw_URL = ''https://igit-us.haohanyh.ovh''\<rparr>],
     CfgUpload := no_Upload\<lparr>up_Endpoint := ''https://igit-us.haohanyh.ovh/v1/replications'',
       up_AuthorizationEndpoint := ''https://www.igit.xyz/api/upload-authorization'',
       up_USPeer := DefaultUSUploadPeer, up_HKPeer := DefaultHKUploadPeer\<rparr>,
     PublicGatewayFallbacks := [''https://ipfs.io'']\<rparr>)"

section \<open>Effective values\<close>

definition EffectiveContractBackend :: "Config \<Rightarrow> string" where
  "EffectiveContractBackend c = ''evm''"

definition EffectiveContractVersion :: "Config \<Rightarrow> string" where
  "EffectiveContractVersion c = ''v3''"

definition EffectiveEVMRPC :: "(nat \<Rightarrow> nat) \<Rightarrow> Config \<Rightarrow> string" where
  "EffectiveEVMRPC lower_rune c =
    (if trim_space (EVMRPC c) \<noteq> '''' then trim_right_char CHR ''/'' (trim_space (EVMRPC c))
     else case NetworkProfileFor lower_rune (Network c) of
            Some profile \<Rightarrow> trim_right_char CHR ''/'' (np_EVMRPC profile)
          | None \<Rightarrow> '''')"

definition EffectiveEVMSuiteDirectoryAddress :: "(nat \<Rightarrow> nat) \<Rightarrow> Config \<Rightarrow> string" where
  "EffectiveEVMSuiteDirectoryAddress lower_rune c =
    (if trim_space (EVMSuiteDirectoryAddress c) \<noteq> '''' then trim_space (EVMSuiteDirectoryAddress c)
     else case NetworkProfileFor lower_rune (Network c) of
            Some profile \<Rightarrow> trim_space (np_EVMSuiteDirectory profile)
          | None \<Rightarrow> '''')"

definition EffectiveEVMContractAddress :: "Config \<Rightarrow> string" where
  "EffectiveEVMContractAddress c = trim_space (EVMContractAddress c)"

definition EffectiveEVMBadgeModuleAddress :: "Config \<Rightarrow> string" where
  "EffectiveEVMBadgeModuleAddress c = trim_space (EVMBadgeModuleAddress c)"

definition EffectiveEVMEconomicModuleAddress :: "Config \<Rightarrow> string" where
  "EffectiveEVMEconomicModuleAddress c = trim_space (EVMEconomicModuleAddress c)"

definition EffectiveEVMModerationModuleAddress :: "Config \<Rightarrow> string" where
  "EffectiveEVMModerationModuleAddress c = trim_space (EVMModerationModuleAddress c)"

definition EffectiveEVMChainID :: "(nat \<Rightarrow> nat) \<Rightarrow> Config \<Rightarrow> u64" where
  "EffectiveEVMChainID lower_rune c =
    (if EVMChainID c \<noteq> 0 then EVMChainID c
     else case NetworkProfileFor lower_rune (Network c) of Some profile \<Rightarrow> np_EVMChainID profile | None \<Rightarrow> 0)"

definition EffectiveUploadPeers :: "Config \<Rightarrow> string list" where
  "EffectiveUploadPeers c =
    (let us = trim_space (up_USPeer (CfgUpload c)); us = (if us = '''' then DefaultUSUploadPeer else us);
         hk = trim_space (up_HKPeer (CfgUpload c)); hk = (if hk = '''' then DefaultHKUploadPeer else hk) in
     if hk \<noteq> us then [us, hk] else [us])"

definition clean_url :: "string \<Rightarrow> string" where
  "clean_url raw = trim_right_char CHR ''/'' (trim_space raw)"

fun add_fallbacks :: "string list \<Rightarrow> string list \<Rightarrow> string list" where
  "add_fallbacks urls [] = urls"
| "add_fallbacks urls (raw # rest) =
    (let url = clean_url raw in
     add_fallbacks (if url \<noteq> '''' \<and> url \<notin> set urls then urls @ [url] else urls) rest)"

definition EffectiveReadFallbacks :: "Config \<Rightarrow> string list" where
  "EffectiveReadFallbacks c = add_fallbacks [] (PublicGatewayFallbacks c)"

definition add_gateway :: "Gateway list \<Rightarrow> Gateway \<Rightarrow> Gateway list" where
  "add_gateway gateways g =
    (let g = g\<lparr>gw_URL := clean_url (gw_URL g)\<rparr> in
     if gw_URL g = '''' \<or> gw_URL g \<in> gw_URL ` set gateways then gateways else gateways @ [g])"

definition EffectiveGateways :: "Config \<Rightarrow> Gateway list" where
  "EffectiveGateways c =
    (let legacyURL = clean_url (IPFSGateway c);
         legacyNamed = list_ex (\<lambda>g. clean_url (gw_URL g) = legacyURL) (Gateways c);
         legacyPublic = list_ex (\<lambda>fallback. clean_url fallback = legacyURL) (PublicGatewayFallbacks c);
         gateways = foldl add_gateway [] (Gateways c) in
     if \<not> legacyNamed \<and> \<not> legacyPublic \<and> legacyURL \<noteq> ''''
     then \<lparr>gw_Name = ''custom'', gw_URL = clean_url legacyURL\<rparr> # gateways
     else gateways)"

section \<open>Validation\<close>

definition validEVMAddress :: "string \<Rightarrow> bool" where
  "validEVMAddress raw =
    (let s = trim_space raw in
     if length s \<noteq> 42 \<or> \<not> (prefix ''0x'' s \<or> prefix ''0X'' s) then False
     else hex_decode (drop 2 s) \<noteq> None)"

definition ValidateContract :: "(nat \<Rightarrow> nat) \<Rightarrow> Config \<Rightarrow> config_error + unit" where
  "ValidateContract lower_rune c =
    (let address = trim_space (EffectiveEVMSuiteDirectoryAddress lower_rune c) in
     bind_res (guard_err (address = '''') MissingEVMSuiteDirectory) (\<lambda>_.
     bind_res (guard_err (\<not> validEVMAddress address) (InvalidEVMSuiteDirectory address)) (\<lambda>_.
     bind_res (guard_err (EffectiveEVMRPC lower_rune c = '''') MissingEVMRPC) (\<lambda>_.
     guard_err (EffectiveEVMChainID lower_rune c = 0) MissingEVMChainID))))"

definition Validate :: "(nat \<Rightarrow> nat) \<Rightarrow> Config \<Rightarrow> config_error + unit" where
  "Validate lower_rune c =
     bind_res (ValidateContract lower_rune c) (\<lambda>_. guard_err (KeyName c = '''') MissingKeyName)"

definition ValidateBadgeModule :: "(nat \<Rightarrow> nat) \<Rightarrow> Config \<Rightarrow> config_error + unit" where
  "ValidateBadgeModule lower_rune c = ValidateContract lower_rune c"

definition ValidateEconomicModule :: "(nat \<Rightarrow> nat) \<Rightarrow> Config \<Rightarrow> config_error + unit" where
  "ValidateEconomicModule lower_rune c = ValidateContract lower_rune c"

definition ValidateModerationModule :: "(nat \<Rightarrow> nat) \<Rightarrow> Config \<Rightarrow> config_error + unit" where
  "ValidateModerationModule lower_rune c = ValidateContract lower_rune c"

definition check_profile :: "string \<times> NetworkProfile \<Rightarrow> config_error + unit" where
  "check_profile = (\<lambda>(name, profile).
     bind_res (guard_err (trim_space name = '''' \<or> np_Name profile \<noteq> name) (ProfileKeyMismatch name (np_Name profile))) (\<lambda>_.
     guard_err (trim_space (np_EVMSuiteDirectory profile) \<noteq> '''')
       (PublishedDirectory name (trim_space (np_EVMSuiteDirectory profile)))))"

definition ValidatePublishedSuiteProfiles :: "(nat \<Rightarrow> nat) \<Rightarrow> config_error + unit" where
  "ValidatePublishedSuiteProfiles lower_rune =
    (let cfg = Defaults lower_rune; backend = EffectiveContractBackend cfg; version = EffectiveContractVersion cfg in
     bind_res (guard_err (backend \<noteq> ''evm'' \<or> version \<noteq> ''v3'') (PublishedDefaults backend version)) (\<lambda>_.
     bind_res (guard_err (length networkProfiles = 0) NoProfiles) (\<lambda>_.
     for_check check_profile networkProfiles)))"

section \<open>The file\<close>

datatype file_state = FileMissing | FileFault string | FilePresent

record 'f host =
  igit_home :: string
  user_home :: "string + string"
  lstat :: "string \<Rightarrow> 'f \<Rightarrow> file_state"
  mkdir_all :: "string \<Rightarrow> 'f \<Rightarrow> (string + unit) \<times> 'f"
  protect_dir :: "string \<Rightarrow> 'f \<Rightarrow> (string + unit) \<times> 'f"
  protect_file :: "string \<Rightarrow> 'f \<Rightarrow> (string + unit) \<times> 'f"
  read_file :: "string \<Rightarrow> 'f \<Rightarrow> string + bytes"
  write_file :: "string \<Rightarrow> bytes \<Rightarrow> 'f \<Rightarrow> (string + unit) \<times> 'f"
  json_fields :: "bytes \<Rightarrow> string + (string, bytes) gomap"
  json_config :: "bytes \<Rightarrow> Config \<Rightarrow> string + Config"
  json_marshal :: "Config \<Rightarrow> string + bytes"
  path_join :: "string \<Rightarrow> string \<Rightarrow> string"
  path_dir :: "string \<Rightarrow> string"

definition Dir :: "'f host \<Rightarrow> config_error + string" where
  "Dir h =
    (if igit_home h \<noteq> '''' then Inr (igit_home h)
     else bind_res (map_err HostError (user_home h)) (\<lambda>home. Inr (path_join h home ''.igit'')))"

definition Path :: "'f host \<Rightarrow> config_error + string" where
  "Path h = bind_res (Dir h) (\<lambda>dir. Inr (path_join h dir ''config.json''))"

definition Save :: "'f host \<Rightarrow> Config \<Rightarrow> ('f, config_error, unit) proc" where
  "Save h cfg =
     bind_p (lift_p (Dir h)) (\<lambda>dir.
     bind_p (err_p HostError (mkdir_all h dir)) (\<lambda>_.
     bind_p (err_p ProtectDirectoryError (protect_dir h dir)) (\<lambda>_.
     bind_p (lift_p (map_err HostError (json_marshal h cfg))) (\<lambda>data.
     err_p WriteError (write_file h (path_join h dir ''config.json'') data)))))"

definition has_field :: "(string, bytes) gomap \<Rightarrow> string \<Rightarrow> bool" where
  \<comment> \<open>\<^verbatim>\<open>_, ok := raw[key]\<close>, whatever the value\<close>
  "has_field raw key \<longleftrightarrow> map_of raw key \<noteq> None"

definition switch_profile :: "(nat \<Rightarrow> nat) \<Rightarrow> (string, bytes) gomap \<Rightarrow> Config \<Rightarrow> Config" where
  \<comment> \<open>the profile-owned fields that the file does not set\<close>
  "switch_profile lower_rune raw cfg =
    (let base = ApplyNetworkProfile lower_rune (zero_Config\<lparr>Network := Network cfg\<rparr>);
         unset = (\<lambda>key val field. if \<not> has_field raw key then val else field) in
     cfg\<lparr>CfgChainID := unset ''chain_id'' (CfgChainID base) (CfgChainID cfg),
       LCDEndpoint := unset ''lcd_endpoint'' (LCDEndpoint base) (LCDEndpoint cfg),
       Node := unset ''node'' (Node base) (Node cfg),
       EVMRPC := unset ''evm_rpc'' (EVMRPC base) (EVMRPC cfg),
       EVMChainID := (if \<not> has_field raw ''evm_chain_id'' then EVMChainID base else EVMChainID cfg),
       EVMExplorer := unset ''evm_explorer'' (EVMExplorer base) (EVMExplorer cfg),
       EVMSuiteDirectoryAddress := unset ''evm_suite_directory_address'' (EVMSuiteDirectoryAddress base) (EVMSuiteDirectoryAddress cfg)\<rparr>)"

definition legacyKeys :: "string list" where
  "legacyKeys =
    [''contract_backend'', ''contract_version'', ''contract_address'', ''evm_contract_address'', ''evm_badge_module_address'',
     ''evm_economic_module_address'', ''evm_moderation_module_address'']"

definition upgrade_legacy :: "Config \<Rightarrow> Config" where
  "upgrade_legacy cfg = cfg\<lparr>ContractBackend := ''evm'', ContractVersion := ''v3'', ContractAddress := '''', EVMContractAddress := '''',
     EVMBadgeModuleAddress := '''', EVMEconomicModuleAddress := '''', EVMModerationModuleAddress := ''''\<rparr>"

definition effective_file :: "(nat \<Rightarrow> nat) \<Rightarrow> (string, bytes) gomap \<Rightarrow> Config \<Rightarrow> Config" where
  \<comment> \<open>what \<^verbatim>\<open>Load\<close> makes of the decoded file: the middle of the function, between decoding and saving\<close>
  "effective_file lower_rune raw decoded =
    (let cfg = ApplyNetworkProfile lower_rune decoded;
         cfg = (if Network cfg \<noteq> Network (Defaults lower_rune) then switch_profile lower_rune raw cfg else cfg)
     in upgrade_legacy cfg)"

definition Load :: "(nat \<Rightarrow> nat) \<Rightarrow> 'f host \<Rightarrow> ('f, config_error, Config) proc" where
  "Load lower_rune h =
     bind_p (lift_p (Path h)) (\<lambda>path.
     bind_p (get_p (lstat h path)) (\<lambda>state.
     case state of
       FileMissing \<Rightarrow> ret_p (Defaults lower_rune)
     | FileFault e \<Rightarrow> fail_p (HostError e)
     | FilePresent \<Rightarrow>
        bind_p (err_p ProtectDirectoryError (protect_dir h (path_dir h path))) (\<lambda>_.
        bind_p (err_p ProtectFileError (protect_file h path)) (\<lambda>_.
        bind_p (get_p (read_file h path)) (\<lambda>content.
        bind_p (lift_p (map_err HostError content)) (\<lambda>data.
        bind_p (lift_p (map_err ParseError (json_fields h data))) (\<lambda>raw.
        bind_p (lift_p (map_err ParseError (json_config h data (Defaults lower_rune)))) (\<lambda>decoded.
        let cfg = effective_file lower_rune raw decoded in
        if list_ex (has_field raw) legacyKeys
        then bind_p (err_p UpgradeError (Save h cfg)) (\<lambda>_. ret_p cfg)
        else ret_p cfg))))))))"

end
