(* ===== verification/Evm_Transactor.thy ===== *)
theory Evm_Transactor
  imports Evm_Errors Nonce_Manager Cli_Config
begin

text \<open>
  The write pipeline of \<^verbatim>\<open>cli/internal/chain/evm_transactor.go\<close>. The signer is a
  parameter, as the interface \<^verbatim>\<open>EVMSigner\<close> is: the account it resolves and the raw
  transaction it returns, which may depend on what it has signed before. The state holds the
  transport, the nonce cache and the list of the transactions given to the signer.
\<close>

section \<open>Data\<close>

record EVMTransaction =
  tx_ChainID :: u64
  tx_Nonce :: u64
  tx_To :: string
  tx_Data :: string
  tx_GasLimit :: u64
  tx_GasPrice :: string
  tx_Value :: string

record EVMSigner =
  OwnerAddress :: "string + string"
  SignTransaction :: "EVMTransaction list \<Rightarrow> EVMTransaction \<Rightarrow> string + string"

record EVMTransactionResult =
  tr_Hash :: string
  tr_Receipt :: "EVMReceipt option"

datatype tx_error =
    ErrEVMSignerUnavailable
  | TransportMissing
  | SignerFailed string
  | InvalidAddress address_error
  | RpcError rpc_error
  | ChainError chain_error
  | ChainIDMismatch u64 u64
  | NonceError "rpc_error nonce_error"
  | GasError gas_error
  | GasPriceError quantity_error
  | SignFailed string
  | RawTransactionInvalid quantity_error
  | TransactionReverted string string
  | ReceiptUnconfirmed string rpc_error
  | InitcodeEmpty
  | DeployNoReceipt
  | DeployAddressInvalid string

record EVMTransactor =
  t_cfg :: Config
  t_has_rpc :: bool
  t_signer :: "EVMSigner option"
  t_receiptTimeout :: int

record tx_state =
  ts_rpc :: rpc_client
  ts_nonces :: evmNonceManager
  ts_signed :: "EVMTransaction list"

definition defaultEVMReceiptTimeout :: int where
  "defaultEVMReceiptTimeout = 2 * 60 * 10 ^ 9"

definition newEVMTransactor :: "Config \<Rightarrow> bool \<Rightarrow> EVMSigner option \<Rightarrow> EVMTransactor" where
  "newEVMTransactor cfg has_rpc signer =
     \<lparr>t_cfg = cfg, t_has_rpc = has_rpc, t_signer = signer, t_receiptTimeout = defaultEVMReceiptTimeout\<rparr>"

definition SetReceiptTimeout :: "int \<Rightarrow> EVMTransactor \<Rightarrow> EVMTransactor" where
  "SetReceiptTimeout timeout t = t\<lparr>t_receiptTimeout := (if timeout \<le> 0 then defaultEVMReceiptTimeout else timeout)\<rparr>"

section \<open>The pipeline\<close>

definition on_rpc :: "(rpc_error \<Rightarrow> 'e) \<Rightarrow> (rpc_client, rpc_error, 'a) proc \<Rightarrow> (tx_state, 'e, 'a) proc" where
  "on_rpc f m = (\<lambda>s. case m (ts_rpc s) of (r, c) \<Rightarrow> (map_err f r, s\<lparr>ts_rpc := c\<rparr>))"

definition reserve_nonce ::
  "chain_env \<Rightarrow> u64 \<Rightarrow> string \<Rightarrow> (tx_state, tx_error, u64 \<times> evmNonceReservation) proc" where
  "reserve_nonce env chainID from = (\<lambda>s.
     case reserve (lower_table (the_net env)) (endpoint (ts_rpc s)) (\<lambda>account. TransactionCount (the_net env) account ''pending'')
            chainID from (ts_nonces s, ts_rpc s) of
       (r, (m, c)) \<Rightarrow> (map_err NonceError r, s\<lparr>ts_nonces := m, ts_rpc := c\<rparr>))"

definition sign_transaction :: "EVMSigner \<Rightarrow> EVMTransaction \<Rightarrow> (tx_state, tx_error, string) proc" where
  "sign_transaction signer tx = (\<lambda>s.
     (map_err SignFailed (SignTransaction signer (ts_signed s) tx), s\<lparr>ts_signed := ts_signed s @ [tx]\<rparr>))"

definition transact_begin ::
  "chain_env \<Rightarrow> EVMTransactor \<Rightarrow> (tx_state, tx_error, EVMSigner \<times> string \<times> u64 \<times> u64 \<times> evmNonceReservation) proc" where
  \<comment> \<open>\<^verbatim>\<open>transact\<close> up to the reservation of the nonce\<close>
  "transact_begin env t =
    (case t_signer t of
       None \<Rightarrow> fail_p ErrEVMSignerUnavailable
     | Some signer \<Rightarrow>
        bind_p (guard_p (\<not> t_has_rpc t) TransportMissing) (\<lambda>_.
        bind_p (lift_p (map_err SignerFailed (OwnerAddress signer))) (\<lambda>owner.
        bind_p (lift_p (map_err InvalidAddress (normalizeEVMAddress (lower_table (the_net env)) owner))) (\<lambda>from.
        bind_p (on_rpc RpcError (ChainID (the_net env))) (\<lambda>chainID.
        let expected = EffectiveEVMChainID (lower_table (the_net env)) (t_cfg t) in
        bind_p (guard_p (expected \<noteq> 0 \<and> expected \<noteq> chainID) (ChainIDMismatch chainID expected)) (\<lambda>_.
        bind_p (reserve_nonce env chainID from) (\<lambda>(nonce, rsv).
        ret_p (signer, from, chainID, nonce, rsv))))))))"

definition transact_send ::
  "chain_env \<Rightarrow> string \<Rightarrow> bytes \<Rightarrow> string \<Rightarrow> EVMSigner \<Rightarrow> string \<Rightarrow> u64 \<Rightarrow> u64 \<Rightarrow> (tx_state, tx_error, string) proc" where
  \<comment> \<open>from the reservation to the broadcast: the hash the node returned\<close>
  "transact_send env target data val signer from chainID nonce =
    (let calldata = ''0x'' @ hex_encode data in
     bind_p (on_rpc (\<lambda>e. ChainError (wrapEVMRPCError env e))
       (EstimateGas (the_net env) \<lparr>call_From = from, call_To = target, call_Gas = '''', call_Value = val, call_Data = calldata\<rparr>)) (\<lambda>gas.
     bind_p (lift_p (map_err GasError (AdjustEVMGasLimit gas 10000))) (\<lambda>gasLimit.
     bind_p (on_rpc RpcError (GasPrice (the_net env))) (\<lambda>nodePrice.
     bind_p (lift_p (map_err GasPriceError (injectiveLegacyGasPrice chainID nodePrice))) (\<lambda>gasPrice.
     bind_p (sign_transaction signer
       \<lparr>tx_ChainID = chainID, tx_Nonce = nonce, tx_To = target, tx_Data = calldata,
        tx_GasLimit = gasLimit, tx_GasPrice = gasPrice, tx_Value = val\<rparr>) (\<lambda>rawTx.
     bind_p (lift_p (map_err RawTransactionInvalid (decodeHexBytes rawTx))) (\<lambda>_.
     on_rpc (\<lambda>e. ChainError (wrapEVMRPCError env e)) (SendRawTransaction (the_net env) rawTx))))))))"

definition drop_reservation :: "evmNonceReservation \<Rightarrow> tx_state \<Rightarrow> tx_state" where
  "drop_reservation r s = s\<lparr>ts_nonces := Invalidate r (ts_nonces s)\<rparr>"

definition keep_reservation :: "evmNonceReservation \<Rightarrow> tx_state \<Rightarrow> tx_state" where
  "keep_reservation r s = s\<lparr>ts_nonces := Commit r (ts_nonces s)\<rparr>"

definition wait_error :: "string \<Rightarrow> rpc_error \<Rightarrow> tx_error" where
  "wait_error hash err = (case err of Reverted h status \<Rightarrow> TransactionReverted h status | _ \<Rightarrow> ReceiptUnconfirmed hash err)"

definition transact ::
  "chain_env \<Rightarrow> EVMTransactor \<Rightarrow> string \<Rightarrow> bytes \<Rightarrow> string \<Rightarrow> tx_state \<Rightarrow>
   ((tx_error \<times> EVMTransactionResult option + EVMTransactionResult) \<times> tx_state) option" where
  "transact env t target data val s =
    (case transact_begin env t s of
       (Inl e, s) \<Rightarrow> Some (Inl (e, None), s)
     | (Inr (signer, from, chainID, nonce, rsv), s) \<Rightarrow>
        (case transact_send env target data val signer from chainID nonce s of
           (Inl e, s) \<Rightarrow> Some (Inl (e, None), drop_reservation rsv s)
         | (Inr hash, s) \<Rightarrow>
            (case WaitReceipt (the_net env) hash (ts_rpc s) of
               None \<Rightarrow> None
             | Some ((err, receipt), c) \<Rightarrow>
                let s = s\<lparr>ts_rpc := c\<rparr>; result = \<lparr>tr_Hash = hash, tr_Receipt = receipt\<rparr> in
                (case err of
                   Some e \<Rightarrow> Some (Inl (wait_error hash e, Some result), drop_reservation rsv s)
                 | None \<Rightarrow> Some (Inr result, keep_reservation rsv s)))))"

definition Send ::
  "chain_env \<Rightarrow> EVMTransactor \<Rightarrow> string \<Rightarrow> bytes \<Rightarrow> string \<Rightarrow> tx_state \<Rightarrow>
   ((tx_error \<times> EVMTransactionResult option + EVMTransactionResult) \<times> tx_state) option" where
  "Send env t target data val s =
    (case normalizeEVMAddress (lower_table (the_net env)) target of
       Inl e \<Rightarrow> Some (Inl (InvalidAddress e, None), s)
     | Inr contract \<Rightarrow> transact env t contract data val s)"

definition zero_contract_text :: string where
  "zero_contract_text = ''0x'' @ replicate 40 CHR ''0''"

definition Deploy ::
  "chain_env \<Rightarrow> EVMTransactor \<Rightarrow> bytes \<Rightarrow> string \<Rightarrow> tx_state \<Rightarrow>
   ((tx_error \<times> EVMTransactionResult option + EVMTransactionResult) \<times> tx_state) option" where
  "Deploy env t initcode val s =
    (if length initcode = 0 then Some (Inl (InitcodeEmpty, None), s)
     else case transact env t '''' initcode val s of
       None \<Rightarrow> None
     | Some (Inl e, s) \<Rightarrow> Some (Inl e, s)
     | Some (Inr result, s) \<Rightarrow>
        (case tr_Receipt result of
           None \<Rightarrow> Some (Inl (DeployNoReceipt, Some result), s)
         | Some receipt \<Rightarrow>
            (case normalizeEVMAddress (lower_table (the_net env)) (rc_ContractAddress receipt) of
               Inl _ \<Rightarrow> Some (Inl (DeployAddressInvalid (rc_ContractAddress receipt), Some result), s)
             | Inr address \<Rightarrow>
                if address = zero_contract_text then Some (Inl (DeployAddressInvalid (rc_ContractAddress receipt), Some result), s)
                else Some (Inr (result\<lparr>tr_Receipt := Some (receipt\<lparr>rc_ContractAddress := address\<rparr>)\<rparr>), s))))"

end
