(* ===== verification/Transactor_Properties.thy ===== *)
theory Transactor_Properties
  imports Rpc_Traffic Evm_Transactor
begin

text \<open>What a transaction signs, sends and leaves behind.\<close>

section \<open>The steps\<close>

lemma on_rpc_ok: "on_rpc f m s = (Inr v, t) \<Longrightarrow> \<exists>c. m (ts_rpc s) = (Inr v, c) \<and> t = s\<lparr>ts_rpc := c\<rparr>"
  by (auto simp: on_rpc_def map_err_def split: prod.splits sum.splits)

lemma on_rpc_fail: "on_rpc f m s = (Inl e, t) \<Longrightarrow> \<exists>c e'. m (ts_rpc s) = (Inl e', c) \<and> t = s\<lparr>ts_rpc := c\<rparr>"
  by (auto simp: on_rpc_def map_err_def split: prod.splits sum.splits)

text \<open>A step that only uses the network: the nonce cache and the signer are untouched and the
  requests it posts satisfy \<open>P\<close>.\<close>

definition quiet :: "(rpcRequest \<Rightarrow> bool) \<Rightarrow> tx_state \<Rightarrow> tx_state \<Rightarrow> bool" where
  "quiet P s t \<longleftrightarrow> ts_nonces t = ts_nonces s \<and> ts_signed t = ts_signed s \<and> grows P (ts_rpc s) (ts_rpc t)"

lemma quiet_refl [simp]: "quiet P s s"
  by (simp add: quiet_def grows_refl)

lemma quiet_trans: "quiet P s t \<Longrightarrow> quiet P t u \<Longrightarrow> quiet P s u"
  by (auto simp: quiet_def intro: grows_trans)

lemma quiet_rpc: "sends P m \<Longrightarrow> quiet P s (snd (on_rpc f m s))"
  by (auto simp: quiet_def on_rpc_def split: prod.split dest: sends_grows)

lemma quiet_step: "on_rpc f m s = (r, u) \<Longrightarrow> sends P m \<Longrightarrow> quiet P s u"
  using quiet_rpc[of P m s f] by simp

lemma bind_p_cases:
  assumes "bind_p m f s = (r, t)"
  obtains (failed) e where "m s = (Inl e, t)" "r = Inl e" | (went) v u where "m s = (Inr v, u)" "f v u = (r, t)"
  using assms by (auto simp: bind_p_def split: prod.splits sum.splits)

lemma lift_p_bind: "bind_p (lift_p x) f s = (case x of Inl e \<Rightarrow> (Inl e, s) | Inr v \<Rightarrow> f v s)"
  by (simp add: bind_p_def lift_p_def)

lemma guard_p_bind: "bind_p (guard_p b e) f s = (if b then (Inl e, s) else f () s)"
  by (simp add: bind_p_def lift_p_def guard_p_def guard_err_def)

text \<open>The outcome of the first part.\<close>

definition expected_chain :: "chain_env \<Rightarrow> EVMTransactor \<Rightarrow> u64" where
  "expected_chain env t = EffectiveEVMChainID (lower_table (the_net env)) (t_cfg t)"

definition account_query :: "chain_env \<Rightarrow> string \<Rightarrow> (rpc_client, rpc_error, u64) proc" where
  "account_query env account = TransactionCount (the_net env) account ''pending''"

definition account_key :: "chain_env \<Rightarrow> tx_state \<Rightarrow> u64 \<Rightarrow> string \<Rightarrow> string \<times> u64 \<times> string" where
  "account_key env s chainID from = (endpoint (ts_rpc s), chainID, from)"

lemma reserve_sends:
  assumes "reserve lr e (account_query env) chainID from (m, c) = (res, (m', c'))"
  shows "grows no_raw c c'"
proof -
  have q: "account_query env a c = (x, c'') \<Longrightarrow> grows no_raw c c''" for a x c''
    unfolding account_query_def by (rule sends_grows[OF reads_send_no_raw(4)])
  show ?thesis
    using assms q
    by (auto simp: reserve_def take_nonce_eq Let_def grows_refl split: sum.splits prod.splits if_splits)
qed

lemma chain_id_step: "on_rpc RpcError (ChainID net) s = (r, u) \<Longrightarrow> quiet no_raw s u"
  using quiet_rpc[OF reads_send_no_raw(1), of s RpcError net] by simp

lemma reserve_step:
  assumes "reserve_nonce env chainID from s = (r, u)"
  shows "ts_signed u = ts_signed s \<and> grows no_raw (ts_rpc s) (ts_rpc u) \<and>
    reserve_for (lower_table (the_net env)) (account_query env) (account_key env s chainID from) (ts_nonces s, ts_rpc s)
      = (fst (reserve_for (lower_table (the_net env)) (account_query env) (account_key env s chainID from) (ts_nonces s, ts_rpc s)),
         (ts_nonces u, ts_rpc u)) \<and>
    r = map_err NonceError (fst (reserve_for (lower_table (the_net env)) (account_query env) (account_key env s chainID from)
        (ts_nonces s, ts_rpc s)))"
proof -
  obtain x m c where x: "reserve (lower_table (the_net env)) (endpoint (ts_rpc s)) (account_query env) chainID from (ts_nonces s, ts_rpc s)
      = (x, (m, c))" by (metis prod.collapse)
  then have q: "reserve (lower_table (the_net env)) (endpoint (ts_rpc s)) (\<lambda>account. TransactionCount (the_net env) account ''pending'')
      chainID from (ts_nonces s, ts_rpc s) = (x, (m, c))"
    by (simp add: account_query_def[abs_def])
  have "u = s\<lparr>ts_nonces := m, ts_rpc := c\<rparr>" "r = map_err NonceError x"
    using assms by (simp_all add: reserve_nonce_def q)
  then show ?thesis
    using reserve_sends[OF x] x by (simp add: reserve_for_def account_key_def)
qed

lemma begin_cases:
  assumes "transact_begin env t s = (r, u)"
  obtains (early) e where "r = Inl e" "u = s"
    | (asked) e where "r = Inl e" "quiet no_raw s u"
    | (reserved) signer owner "from" chainID s1 x where
        "t_signer t = Some signer" "OwnerAddress signer = Inr owner"
        "normalizeEVMAddress (lower_table (the_net env)) owner = Inr from" "quiet no_raw s s1" "on_rpc RpcError (ChainID (the_net env)) s = (Inr chainID, s1)"
        "expected_chain env t \<noteq> 0 \<longrightarrow> chainID = expected_chain env t"
        "reserve_nonce env chainID from s1 = (x, u)"
        "r = (case x of Inl e \<Rightarrow> Inl e | Inr (nonce, rsv) \<Rightarrow> Inr (signer, from, chainID, nonce, rsv))"
proof (cases "t_signer t")
  case None
  then show ?thesis using assms early by (auto simp: transact_begin_def fail_p_def)
next
  case (Some signer)
  note sg = Some
  show ?thesis
  proof (cases "\<not> t_has_rpc t \<or> \<not> is_ok (OwnerAddress signer) \<or>
      \<not> is_ok (bind_res (map_err SignerFailed (OwnerAddress signer)) (\<lambda>owner. map_err InvalidAddress (normalizeEVMAddress (lower_table (the_net env)) owner)))")
    case True
    then show ?thesis
      using assms Some early
      by (auto simp: transact_begin_def lift_p_bind guard_p_bind is_ok_def map_err_def bind_res_def split: sum.splits if_splits)
  next
    case False
    then obtain owner sender where os: "OwnerAddress signer = Inr owner"
      "normalizeEVMAddress (lower_table (the_net env)) owner = Inr sender" "t_has_rpc t"
      by (auto simp: is_ok_def map_err_def split: sum.splits)
    obtain y s1 where y: "on_rpc RpcError (ChainID (the_net env)) s = (y, s1)" by fastforce
    have q: "quiet no_raw s s1" using y by (rule chain_id_step)
    show ?thesis
    proof (cases y)
      case (Inl e)
      then show ?thesis
        using assms Some os y q asked by (auto simp: transact_begin_def proc_defs guard_err_def map_err_def)
    next
      case (Inr chainID)
      obtain x s2 where x: "reserve_nonce env chainID sender s1 = (x, s2)" by fastforce
      show ?thesis
      proof (cases "expected_chain env t \<noteq> 0 \<and> expected_chain env t \<noteq> chainID")
        case True
        then show ?thesis
          using assms Some os y q Inr asked
          by (auto simp: transact_begin_def expected_chain_def Let_def proc_defs guard_err_def map_err_def)
      next
        case False
        then have "s2 = u" "r = (case x of Inl e \<Rightarrow> Inl e | Inr (nonce, rsv) \<Rightarrow> Inr (signer, sender, chainID, nonce, rsv))"
          using assms Some os y x Inr unfolding expected_chain_def
          by (auto simp: transact_begin_def Let_def proc_defs guard_err_def map_err_def split: sum.splits prod.splits if_splits)
        then show ?thesis using reserved[of signer owner sender s1 chainID x] sg os q y Inr x False by auto
      qed
    qed
  qed
qed

definition good_tx :: "string \<Rightarrow> bytes \<Rightarrow> string \<Rightarrow> u64 \<Rightarrow> u64 \<Rightarrow> EVMTransaction \<Rightarrow> bool" where
  "good_tx target data val chainID nonce tx \<longleftrightarrow>
     tx_ChainID tx = chainID \<and> tx_Nonce tx = nonce \<and> tx_To tx = target \<and> tx_Data tx = ''0x'' @ hex_encode data \<and> tx_Value tx = val \<and>
     (\<exists>p. parseHexUint (tx_GasPrice tx) = Inr p \<and> (chainID \<in> {1439, 1776} \<longrightarrow> injectiveMinGasPriceWei \<le> p))"

lemma legacy_price:
  assumes "injectiveLegacyGasPrice chainID raw = Inr price"
  shows "\<exists>p. parseHexUint price = Inr p \<and> (chainID \<in> {1439, 1776} \<longrightarrow> injectiveMinGasPriceWei \<le> p)"
proof -
  obtain v where v: "parseHexUint raw = Inr v" using assms by (auto simp: injectiveLegacyGasPrice_def bind_res_def split: sum.splits)
  let ?p = "if (chainID = 1439 \<or> chainID = 1776) \<and> v < injectiveMinGasPriceWei then injectiveMinGasPriceWei else v"
  have "price = ''0x'' @ nat_text 16 (unat ?p)" using assms v by (simp add: injectiveLegacyGasPrice_def Let_def)
  then have "parseHexUint price = Inr ?p" by (simp only: parseHexUint_text)
  then show ?thesis by (intro exI[of _ ?p]) auto
qed

lemma sign_bind:
  "bind_p (sign_transaction signer tx) f s =
    (case SignTransaction signer (ts_signed s) tx of
       Inl e \<Rightarrow> (Inl (SignFailed e), s\<lparr>ts_signed := ts_signed s @ [tx]\<rparr>)
     | Inr rawTx \<Rightarrow> f rawTx (s\<lparr>ts_signed := ts_signed s @ [tx]\<rparr>))"
  by (simp add: bind_p_def sign_transaction_def map_err_def split: sum.split)

lemma sign_and_send:
  assumes "bind_p (sign_transaction signer tx) (\<lambda>rawTx.
      bind_p (lift_p (map_err RawTransactionInvalid (decodeHexBytes rawTx))) (\<lambda>_. on_rpc w (SendRawTransaction net rawTx))) s = (r, u)"
  shows "ts_signed u = ts_signed s @ [tx] \<and> ts_nonces u = ts_nonces s \<and>
    ((\<exists>e. r = Inl e) \<and> ts_rpc u = ts_rpc s \<or>
     (\<exists>rawTx. SignTransaction signer (ts_signed s) tx = Inr rawTx \<and>
        (r, ts_rpc u) = (map_err w (fst (SendRawTransaction net rawTx (ts_rpc s))), snd (SendRawTransaction net rawTx (ts_rpc s)))))"
proof (cases "SignTransaction signer (ts_signed s) tx")
  case (Inl e)
  then show ?thesis using assms unfolding sign_bind by auto
next
  case (Inr rawTx)
  then show ?thesis
    using assms unfolding sign_bind lift_p_bind
    by (cases "decodeHexBytes rawTx") (auto simp: on_rpc_def split_beta)
qed

lemma send_cases:
  assumes "transact_send env target data val signer from chainID nonce s = (r, u)"
  obtains (unsigned) e where "r = Inl e" "quiet no_raw s u"
    | (unsent) tx e where "r = Inl e" "ts_signed u = ts_signed s @ [tx]" "good_tx target data val chainID nonce tx"
        "ts_nonces u = ts_nonces s" "grows no_raw (ts_rpc s) (ts_rpc u)"
    | (sent) tx rawTx v where "ts_signed u = ts_signed s @ [tx]" "good_tx target data val chainID nonce tx"
        "ts_nonces u = ts_nonces s" "SignTransaction signer (ts_signed s) tx = Inr rawTx"
        "grows no_raw (ts_rpc s) v" "(r, ts_rpc u) = (map_err (\<lambda>e. ChainError (wrapEVMRPCError env e))
            (fst (SendRawTransaction (the_net env) rawTx v)), snd (SendRawTransaction (the_net env) rawTx v))"
proof -
  let ?wrap = "\<lambda>e. ChainError (wrapEVMRPCError env e)" and ?call = "''0x'' @ hex_encode data"
  let ?est = "on_rpc ?wrap (EstimateGas (the_net env)
      \<lparr>call_From = from, call_To = target, call_Gas = '''', call_Value = val, call_Data = ?call\<rparr>)"
  note steps = assms[unfolded transact_send_def Let_def]
  from steps show ?thesis
  proof (cases rule: bind_p_cases)
    case (failed e)
    show ?thesis using failed(2) quiet_step[OF failed(1) reads_send_no_raw(3)] by (rule unsigned)
  next
    case (went gas s1)
    have q1: "quiet no_raw s s1" by (rule quiet_step[OF went(1) reads_send_no_raw(3)])
    from went(2) show ?thesis
    proof (cases rule: bind_p_cases)
      case (failed e)
      then show ?thesis using unsigned q1 by (auto simp: lift_p_def)
    next
      case (went gasLimit s2)
      then have s2: "s2 = s1" by (simp add: lift_p_def)
      from went(2) show ?thesis
      proof (cases rule: bind_p_cases)
        case (failed e)
        show ?thesis using failed(2) quiet_trans[OF q1 quiet_step[OF failed(1)[unfolded s2] reads_send_no_raw(5)]] by (rule unsigned)
      next
        case (went nodePrice s3)
        have q3: "quiet no_raw s s3" by (rule quiet_trans[OF q1 quiet_step[OF went(1)[unfolded s2] reads_send_no_raw(5)]])
        from went(2) show ?thesis
        proof (cases rule: bind_p_cases)
          case (failed e)
          then show ?thesis using unsigned q3 by (auto simp: lift_p_def)
        next
          case (went price s4)
          then have s4: "s4 = s3" and price: "injectiveLegacyGasPrice chainID nodePrice = Inr price"
            by (auto simp: lift_p_def map_err_def split: sum.splits)
          let ?tx = "\<lparr>tx_ChainID = chainID, tx_Nonce = nonce, tx_To = target, tx_Data = ?call,
              tx_GasLimit = gasLimit, tx_GasPrice = price, tx_Value = val\<rparr>"
          have good: "good_tx target data val chainID nonce ?tx" using legacy_price[OF price] by (simp add: good_tx_def)
          have s3: "ts_signed s3 = ts_signed s" "ts_nonces s3 = ts_nonces s" "grows no_raw (ts_rpc s) (ts_rpc s3)"
            using q3 by (simp_all add: quiet_def)
          from sign_and_send[OF went(2)] show ?thesis
            unfolding s4 s3 using unsent[of _ ?tx] sent[of ?tx _ "ts_rpc s3"] good s3(3) by metis
        qed
      qed
    qed
  qed
qed

section \<open>What a transaction leaves behind\<close>

lemma begin_reserved:
  assumes "transact_begin env t s = (Inr (signer, from, chainID, nonce, rsv), u)"
  shows "t_signer t = Some signer \<and> (\<exists>owner. OwnerAddress signer = Inr owner \<and> normalizeEVMAddress (lower_table (the_net env)) owner = Inr from) \<and>
    ts_signed u = ts_signed s \<and> grows no_raw (ts_rpc s) (ts_rpc u) \<and>
    (expected_chain env t \<noteq> 0 \<longrightarrow> chainID = expected_chain env t) \<and>
    (\<exists>m c. reserve_for (lower_table (the_net env)) (account_query env) (endpoint (ts_rpc s), chainID, from) (m, c)
       = (Inr (nonce, rsv), (ts_nonces u, ts_rpc u)))"
  using assms
proof (cases rule: begin_cases)
  case (reserved signer' owner from' chainID' s1 x)
  then have x: "x = Inr (nonce, rsv)" and eq: "signer' = signer" "from' = from" "chainID' = chainID"
    by (auto split: sum.splits)
  note r = reserve_step[OF reserved(7)]
  have e: "endpoint (ts_rpc s1) = endpoint (ts_rpc s)" using reserved(4) by (auto simp: quiet_def grows_def)
  have "fst (reserve_for (lower_table (the_net env)) (account_query env) (account_key env s1 chainID from) (ts_nonces s1, ts_rpc s1)) = Inr (nonce, rsv)"
    using r x eq by (auto simp: map_err_Inr_iff eq_commute[of "Inr _"])
  then have "reserve_for (lower_table (the_net env)) (account_query env) (endpoint (ts_rpc s), chainID, from) (ts_nonces s1, ts_rpc s1)
      = (Inr (nonce, rsv), (ts_nonces u, ts_rpc u))"
    using r eq by (simp add: account_key_def e)
  moreover have "grows no_raw (ts_rpc s) (ts_rpc u)" using reserved(4) r by (auto simp: quiet_def intro: grows_trans)
  moreover have "ts_signed u = ts_signed s" using reserved(4) r by (simp add: quiet_def)
  ultimately show ?thesis using reserved eq by auto
qed auto

lemma begin_unsigned:
  assumes "transact_begin env t s = (Inl e, u)"
  shows "ts_signed u = ts_signed s \<and> grows no_raw (ts_rpc s) (ts_rpc u)"
  using assms
proof (cases rule: begin_cases)
  case (reserved signer owner from' chainID s1 x)
  then show ?thesis using reserve_step[OF reserved(7)] by (auto simp: quiet_def intro: grows_trans)
qed (auto simp: quiet_def grows_refl)

definition confirmed :: "EVMTransactionResult \<Rightarrow> bool" where
  "confirmed result \<longleftrightarrow> (case tr_Receipt result of None \<Rightarrow> False | Some receipt \<Rightarrow> \<not> status_reverted (rc_Status receipt))"

lemma transact_signed:
  assumes "transact env t target data val s = Some (out, u)" "ts_signed u \<noteq> ts_signed s \<or> is_ok out"
  shows "\<exists>tx from signer owner. ts_signed u = ts_signed s @ [tx] \<and> good_tx target data val (tx_ChainID tx) (tx_Nonce tx) tx \<and>
    t_signer t = Some signer \<and> OwnerAddress signer = Inr owner \<and> normalizeEVMAddress (lower_table (the_net env)) owner = Inr from \<and>
    (expected_chain env t \<noteq> 0 \<longrightarrow> tx_ChainID tx = expected_chain env t) \<and>
    cached_nonce (lower_table (the_net env)) (endpoint (ts_rpc s), tx_ChainID tx, from) (ts_nonces u)
      = (if is_ok out then Some (tx_Nonce tx + 1) else None) \<and>
    (\<forall>result. out = Inr result \<longrightarrow> confirmed result)"
proof -
  obtain r0 s0 where b: "transact_begin env t s = (r0, s0)" by fastforce
  show ?thesis
  proof (cases r0)
    case (Inl e)
    then show ?thesis using assms b begin_unsigned[of env t s e s0] by (auto simp: transact_def is_ok_def)
  next
    case (Inr five)
    then obtain signer sender chainID nonce rsv where r0: "r0 = Inr (signer, sender, chainID, nonce, rsv)" by (cases five) auto
    note B = begin_reserved[OF b[unfolded r0]]
    then obtain m c owner where rf: "reserve_for (lower_table (the_net env)) (account_query env) (endpoint (ts_rpc s), chainID, sender) (m, c)
       = (Inr (nonce, rsv), (ts_nonces s0, ts_rpc s0))" and ow: "OwnerAddress signer = Inr owner"
       "normalizeEVMAddress (lower_table (the_net env)) owner = Inr sender" by blast
    obtain r1 s1 where d: "transact_send env target data val signer sender chainID nonce s0 = (r1, s1)" by fastforce
    have no: "cached_nonce (lower_table (the_net env)) (endpoint (ts_rpc s), chainID, sender)
        (if ok then ts_nonces s0 else Invalidate rsv (ts_nonces s0)) = (if ok then Some (nonce + 1) else None)" for ok
      by (rule nonces.settled[OF rf])
    have outcome: "ts_signed u = ts_signed s1 \<and>
        ts_nonces u = (if is_ok out then ts_nonces s1 else Invalidate rsv (ts_nonces s1)) \<and>
        (is_ok out \<longrightarrow> is_ok r1) \<and> (\<forall>result. out = Inr result \<longrightarrow> confirmed result)"
    proof (cases r1)
      case (Inl e)
      then show ?thesis using assms(1) by (auto simp: transact_def b r0 d drop_reservation_def is_ok_def)
    next
      case (Inr hash)
      then obtain err receipt c' where w: "WaitReceipt (the_net env) hash (ts_rpc s1) = Some ((err, receipt), c')"
        using assms(1) by (auto simp: transact_def b r0 d split: option.splits)
      have "wait_sound (err, receipt)" using wait_loop_sound w unfolding WaitReceipt_def by fastforce
      then show ?thesis
        using assms(1) Inr w
        by (cases err) (auto simp: transact_def b r0 d drop_reservation_def keep_reservation_def Commit_def is_ok_def Let_def
            confirmed_def wait_sound_def split: option.splits)
    qed
    from d show ?thesis
    proof (cases rule: send_cases)
      case (unsigned e)
      then show ?thesis using assms(2) outcome B by (auto simp: quiet_def is_ok_def)
    next
      case (unsent tx e)
      then show ?thesis using outcome B ow no[of False] by (auto simp: is_ok_def good_tx_def)
    next
      case (sent tx rawTx v)
      then show ?thesis using outcome B ow no[of "is_ok out"] by (auto simp: good_tx_def)
    qed
  qed
qed

section \<open>What a transaction sends\<close>

definition raw_posts :: "event list \<Rightarrow> rpcRequest list" where
  "raw_posts evs = filter (\<lambda>q. \<not> no_raw q) (posts evs)"

lemma raw_posts_simps [simp]: "raw_posts (xs @ ys) = raw_posts xs @ raw_posts ys" "list_all no_raw (posts evs) \<Longrightarrow> raw_posts evs = []"
  by (auto simp: raw_posts_def list_all_iff)

lemma grows_raw: "grows no_raw r t \<Longrightarrow> \<exists>evs. events t = events r @ evs \<and> raw_posts evs = []"
  by (auto simp: grows_def)

lemma SendRaw_posts:
  "\<exists>evs k q. events (snd (SendRawTransaction net rawTx r)) = events r @ evs \<and> raw_posts evs = replicate k q \<and> k \<le> maxRPCAttempts \<and>
     req_Method q = ''eth_sendRawTransaction'' \<and> req_Params q = [PString (normalizeHex rawTx)]"
proof -
  let ?m = "''eth_sendRawTransaction''" and ?p = "[PString (normalizeHex rawTx)]"
  have "snd (SendRawTransaction net rawTx r) = snd (Call net ?m ?p decode_text r)"
    by (auto simp: SendRawTransaction_def call_text_def proc_defs split: prod.split sum.split)
  then obtain evs k where "events (snd (SendRawTransaction net rawTx r)) = events r @ evs"
    "posts evs = replicate k (request r ?m ?p)" "k \<le> maxRPCAttempts"
    using Call_posts[of net ?m ?p decode_text r] by auto
  then show ?thesis
    by (intro exI[of _ evs] exI[of _ k] exI[of _ "request r ?m ?p"]) (auto simp: raw_posts_def no_raw_def request_def)
qed

lemma transact_raw_posts:
  assumes "transact env t target data val s = Some (out, u)"
  shows "\<exists>evs k q. events (ts_rpc u) = events (ts_rpc s) @ evs \<and> raw_posts evs = replicate k q \<and> k \<le> maxRPCAttempts \<and>
    (0 < k \<longrightarrow> (\<exists>tx signer rawTx. t_signer t = Some signer \<and> ts_signed u = ts_signed s @ [tx] \<and>
       SignTransaction signer (ts_signed s) tx = Inr rawTx \<and> req_Params q = [PString (normalizeHex rawTx)]))"
proof -
  have none: ?thesis if "grows no_raw (ts_rpc s) (ts_rpc u)"
    using grows_raw[OF that] by (metis replicate_0 zero_le less_irrefl)
  obtain r0 s0 where b: "transact_begin env t s = (r0, s0)" by fastforce
  show ?thesis
  proof (cases r0)
    case (Inl e)
    then show ?thesis using assms b begin_unsigned[of env t s e s0] none by (auto simp: transact_def)
  next
    case (Inr five)
    then obtain signer sender chainID nonce rsv where r0: "r0 = Inr (signer, sender, chainID, nonce, rsv)" by (cases five) auto
    note B = begin_reserved[OF b[unfolded r0]]
    obtain r1 s1 where d: "transact_send env target data val signer sender chainID nonce s0 = (r1, s1)" by fastforce
    have tail: "grows no_raw (ts_rpc s1) (ts_rpc u) \<and> ts_signed u = ts_signed s1"
    proof (cases r1)
      case (Inl e)
      then show ?thesis using assms by (auto simp: transact_def b r0 d drop_reservation_def grows_refl)
    next
      case (Inr hash)
      then obtain err receipt c' where w: "WaitReceipt (the_net env) hash (ts_rpc s1) = Some ((err, receipt), c')"
        using assms by (auto simp: transact_def b r0 d split: option.splits)
      have "grows no_raw (ts_rpc s1) c'" using wait_sends w unfolding WaitReceipt_def by fastforce
      then show ?thesis
        using assms Inr w by (auto simp: transact_def b r0 d drop_reservation_def keep_reservation_def Let_def split: option.splits)
    qed
    from d show ?thesis
    proof (cases rule: send_cases)
      case (sent tx rawTx v)
      obtain e1 where e1: "events v = events (ts_rpc s) @ e1" "raw_posts e1 = []"
        using grows_raw grows_trans B sent(5) by metis
      obtain e2 k q where e2: "events (ts_rpc s1) = events v @ e2" "raw_posts e2 = replicate k q" "k \<le> maxRPCAttempts"
        "req_Params q = [PString (normalizeHex rawTx)]"
        using SendRaw_posts[of "the_net env" rawTx v] sent(6) by auto
      obtain e3 where e3: "events (ts_rpc u) = events (ts_rpc s1) @ e3" "raw_posts e3 = []"
        using grows_raw tail by blast
      show ?thesis
        by (intro exI[of _ "e1 @ e2 @ e3"] exI[of _ k] exI[of _ q])
          (use e1 e2 e3 B tail sent in auto)
    next
      case (unsigned e)
      then have "grows no_raw (ts_rpc s0) (ts_rpc s1)" by (simp add: quiet_def)
      then show ?thesis using B tail by (intro none) (metis grows_trans)
    next
      case (unsent tx e)
      then show ?thesis using B tail by (intro none) (metis grows_trans)
    qed
  qed
qed

end
