(* ===== verification/Chain_Sample.thy ===== *)
theory Chain_Sample
  imports Evm_Transactor Geth_Sample
begin

text \<open>A node, a signer and a client to evaluate the chain components on.\<close>

definition reply_text :: "string \<Rightarrow> http_outcome" where
  "reply_text s = Answered 64 200 '''' (Decoded None (Some (Json s (SString s))))"

definition reply_object :: http_outcome where
  "reply_object = Answered 64 200 '''' (Decoded None (Some (Json ''{}'' (SObject []))))"

definition reply_error :: "int \<Rightarrow> string \<Rightarrow> http_outcome" where
  "reply_error code msg =
     Answered 64 200 '''' (Decoded (Some \<lparr>err_Code = code, err_Message = msg, err_Data = None\<rparr>) None)"

definition sample_receipt :: EVMReceipt where
  "sample_receipt = \<lparr>rc_TransactionHash = ''0xabcd'', rc_BlockNumber = ''0x10'', rc_BlockHash = ''0x99'', rc_To = ''0x12'',
     rc_ContractAddress = ''0x'' @ replicate 40 CHR ''2'', rc_Status = ''0x1'', rc_GasUsed = ''0x5208'', rc_Logs = []\<rparr>"

definition answer_of :: "string \<Rightarrow> http_outcome" where
  "answer_of meth =
    (if meth = ''eth_chainId'' then reply_text ''0x5''
     else if meth = ''eth_getTransactionCount'' then reply_text ''0x7''
     else if meth = ''eth_estimateGas'' then reply_text ''0x5208''
     else if meth = ''eth_gasPrice'' then reply_text ''0x3''
     else if meth = ''eth_sendRawTransaction'' then reply_text ''0xabcd''
     else reply_object)"

fun honest_node :: "event list \<Rightarrow> http_outcome" where
  "honest_node evs = (case last evs of Posted q \<Rightarrow> answer_of (req_Method q) | _ \<Rightarrow> reply_object)"

definition sample_net :: net where
  "sample_net = \<lparr>endpoint_is_url = True, respond = honest_node, ctx_ends = (\<lambda>_. None),
     decode_receipt = (\<lambda>_. Some sample_receipt), decode_block = (\<lambda>_. None), lower_table = id\<rparr>"

definition sample_env :: chain_env where
  "sample_env = \<lparr>the_net = sample_net, the_geth = sample_geth, abi_file = (\<lambda>_. Inl ''none''), unpack_revert = (\<lambda>_. None)\<rparr>"

definition sample_owner :: string where
  "sample_owner = ''0x'' @ replicate 40 CHR ''1''"

definition sample_signer :: EVMSigner where
  "sample_signer = \<lparr>OwnerAddress = Inr sample_owner, SignTransaction = (\<lambda>_ tx. Inr ''0xf86b'')\<rparr>"

definition sample_transactor :: EVMTransactor where
  "sample_transactor = newEVMTransactor (zero_Config\<lparr>EVMChainID := 5\<rparr>) True (Some sample_signer)"

definition sample_state :: tx_state where
  "sample_state = \<lparr>ts_rpc = NewEVMRPC ''http://node'', ts_nonces = newEVMNonceManager, ts_signed = []\<rparr>"

definition sample_target :: string where
  "sample_target = ''0x'' @ replicate 40 CHR ''3''"

section \<open>One transaction\<close>

lemma sample_call_text:
  assumes "trim_space (endpoint r) \<noteq> ''''" "answer_of meth = reply_text s"
  shows "call_text sample_net meth params r =
    (Inr s, record_event (Posted (request r meth params)) (r\<lparr>nextID := nextID r + 1\<rparr>))"
proof -
  have once: "callOnce sample_net (request r meth params) decode_text r' =
      (Inr (Some s), record_event (Posted (request r meth params)) r')" for r'
    using assms(2)
    by (simp add: callOnce_def sample_net_def reply_text_def request_def record_event_def maxRPCResponseBytes_def)
  have "Call sample_net meth params decode_text r = (Inr (Some s), record_event (Posted (request r meth params)) (r\<lparr>nextID := nextID r + 1\<rparr>))"
    using Call_first[OF assms(1), where net = sample_net and meth = meth and params = params and d = decode_text] by (simp add: once)
  then show ?thesis by (simp add: call_text_def proc_defs)
qed

lemma sample_receipt_call:
  assumes "trim_space (endpoint r) \<noteq> ''''"
  shows "TransactionReceipt sample_net hash r =
    (Inr (Some sample_receipt), record_event (Posted (request r ''eth_getTransactionReceipt'' [PString hash])) (r\<lparr>nextID := nextID r + 1\<rparr>))"
proof -
  let ?q = "request r ''eth_getTransactionReceipt'' [PString hash]"
  have once: "callOnce sample_net ?q (decode_receipt sample_net) r' = (Inr (Some sample_receipt), record_event (Posted ?q) r')" for r'
    by (simp add: callOnce_def sample_net_def answer_of_def reply_object_def request_def record_event_def maxRPCResponseBytes_def)
  show ?thesis
    unfolding TransactionReceipt_def
    using Call_first[OF assms, where net = sample_net and meth = "''eth_getTransactionReceipt''" and params = "[PString hash]"
        and d = "decode_receipt sample_net"] by (simp add: once)
qed

lemma sample_facts:
  "trim_space ''http://node'' = ''http://node''" "trim_space ''0x5'' \<noteq> ''''" "trim_space ''0x7'' \<noteq> ''''"
  "trim_space ''0x5208'' \<noteq> ''''" "trim_space ''0xabcd'' \<noteq> ''''" "trim_space ''pending'' \<noteq> ''''"
  "parseHexUint ''0x5'' = Inr 5" "parseHexUint ''0x7'' = Inr 7" "parseHexUint ''0x5208'' = Inr 21000" "parseHexUint ''0x3'' = Inr 3"
  "normalizeHex ''0x3'' = ''0x3''" "AdjustEVMGasLimit 21000 10000 = Inr 39400"
  "injectiveLegacyGasPrice 5 ''0x3'' = Inr ''0x3''" "decodeHexBytes ''0xf86b'' = Inr [0xf8, 0x6b]"
  "normalizeEVMAddress id sample_owner = Inr sample_owner" "ToLower id sample_owner = sample_owner"
  "normalizeEVMAddress id sample_target = Inr sample_target" "\<not> status_reverted (rc_Status sample_receipt)"
  "EffectiveEVMChainID id (t_cfg sample_transactor) = 5"
  by code_simp+

lemma sample_answers:
  "answer_of ''eth_chainId'' = reply_text ''0x5''" "answer_of ''eth_getTransactionCount'' = reply_text ''0x7''"
  "answer_of ''eth_estimateGas'' = reply_text ''0x5208''" "answer_of ''eth_gasPrice'' = reply_text ''0x3''"
  "answer_of ''eth_sendRawTransaction'' = reply_text ''0xabcd''"
  by (simp_all add: answer_of_def)

definition sample_tx :: EVMTransaction where
  "sample_tx = \<lparr>tx_ChainID = 5, tx_Nonce = 7, tx_To = sample_target, tx_Data = ''0x'' @ hex_encode [1, 2], tx_GasLimit = 39400,
     tx_GasPrice = ''0x3'', tx_Value = ''0x0''\<rparr>"

definition after_call :: "string \<Rightarrow> param list \<Rightarrow> rpc_client \<Rightarrow> rpc_client" where
  "after_call meth params r = record_event (Posted (request r meth params)) (r\<lparr>nextID := nextID r + 1\<rparr>)"

lemma after_call_endpoint [simp]: "endpoint (after_call meth params r) = endpoint r"
  by (simp add: after_call_def)

lemma sample_quantity:
  assumes "trim_space (endpoint r) \<noteq> ''''" "answer_of meth = reply_text s" "trim_space s \<noteq> ''''" "parseHexUint s = Inr v"
  shows "call_quantity sample_net meth params r = (Inr v, after_call meth params r)"
  using assms by (simp add: call_quantity_def non_null_text_def bind_p_def sample_call_text guard_p_def lift_p_def ret_p_def after_call_def)

lemma sample_env_simps [simp]: "the_net sample_env = sample_net" "lower_table sample_net = id" "decode_receipt sample_net = (\<lambda>_. Some sample_receipt)"
  by (simp_all add: sample_env_def sample_net_def)

definition began_state :: tx_state where
  "began_state =
    \<lparr>ts_rpc = after_call ''eth_getTransactionCount'' [PString sample_owner, PString ''pending'']
       (after_call ''eth_chainId'' [] (NewEVMRPC ''http://node'')),
     ts_nonces = \<lparr>nm_valid = True, nm_endpoint = ''http://node'', nm_chainID = 5, nm_from = sample_owner, nm_next = 8, nm_generation = 1\<rparr>,
     ts_signed = []\<rparr>"

definition sample_reservation :: evmNonceReservation where
  "sample_reservation = \<lparr>rs_endpoint = ''http://node'', rs_chainID = 5, rs_from = sample_owner, rs_generation = 1, rs_nonce = 7\<rparr>"

lemma node_endpoint: "endpoint (NewEVMRPC ''http://node'') = ''http://node''"
  by (simp add: NewEVMRPC_def sample_facts)

lemma sample_begin:
  "transact_begin sample_env sample_transactor sample_state = (Inr (sample_signer, sample_owner, 5, 7, sample_reservation), began_state)"
proof -
  have t: "t_signer sample_transactor = Some sample_signer" "t_has_rpc sample_transactor" "OwnerAddress sample_signer = Inr sample_owner"
    by (simp_all add: sample_transactor_def newEVMTransactor_def sample_signer_def)
  have c: "ChainID sample_net (NewEVMRPC ''http://node'') = (Inr 5, after_call ''eth_chainId'' [] (NewEVMRPC ''http://node''))"
    unfolding ChainID_def by (simp add: sample_quantity sample_answers sample_facts node_endpoint)
  have n: "TransactionCount sample_net sample_owner ''pending'' (after_call ''eth_chainId'' [] (NewEVMRPC ''http://node'')) =
      (Inr 7, ts_rpc began_state)"
    unfolding TransactionCount_def began_state_def
    by (simp add: sample_quantity sample_answers sample_facts node_endpoint default_tag_def)
  show ?thesis
    by (simp add: transact_begin_def t bind_p_def guard_p_def lift_p_def on_rpc_def c sample_facts reserve_nonce_def reserve_def
        node_endpoint cache_fits_def sample_state_def newEVMNonceManager_def n ret_p_def take_nonce_def sample_reservation_def began_state_def)
qed

definition sent_client :: rpc_client where
  "sent_client = after_call ''eth_sendRawTransaction'' [PString (normalizeHex ''0xf86b'')]
     (after_call ''eth_gasPrice'' [] (after_call ''eth_estimateGas'' [PCall \<lparr>call_From = sample_owner, call_To = sample_target,
        call_Gas = '''', call_Value = ''0x0'', call_Data = ''0x'' @ hex_encode [1, 2]\<rparr>] (ts_rpc began_state)))"

lemma sample_send:
  "transact_send sample_env sample_target [1, 2] ''0x0'' sample_signer sample_owner 5 7 began_state =
     (Inr ''0xabcd'', began_state\<lparr>ts_rpc := sent_client, ts_signed := [sample_tx]\<rparr>)"
proof -
  have e: "endpoint (ts_rpc began_state) = ''http://node''" by (simp add: began_state_def node_endpoint)
  show ?thesis
    unfolding transact_send_def Let_def EstimateGas_def GasPrice_def SendRawTransaction_def
    by (simp add: bind_p_def on_rpc_def sample_quantity sample_call_text[folded after_call_def] sample_answers sample_facts e lift_p_def ret_p_def
        guard_p_def sign_transaction_def sample_signer_def sent_client_def)
      (simp add: began_state_def sample_tx_def)
qed

lemma sample_transact:
  "transact sample_env sample_transactor sample_target [1, 2] ''0x0'' sample_state
     = Some (Inr \<lparr>tr_Hash = ''0xabcd'', tr_Receipt = Some sample_receipt\<rparr>,
         began_state\<lparr>ts_rpc := after_call ''eth_getTransactionReceipt'' [PString ''0xabcd''] sent_client, ts_signed := [sample_tx]\<rparr>)"
proof -
  have e: "endpoint sent_client = ''http://node''" by (simp add: sent_client_def began_state_def node_endpoint)
  have "WaitReceipt sample_net ''0xabcd'' sent_client =
      Some ((None, Some sample_receipt), after_call ''eth_getTransactionReceipt'' [PString ''0xabcd''] sent_client)"
    unfolding WaitReceipt_def
    by (subst wait_loop.simps) (simp add: sample_receipt_call[folded after_call_def] e sample_facts)
  then show ?thesis
    unfolding transact_def by (simp add: sample_begin sample_send keep_reservation_def Commit_def)
qed

end
