(* ===== verification/Chain_Properties.thy ===== *)
theory Chain_Properties
  imports Transactor_Properties Chain_Sample
begin

text \<open>The properties of the transport, the nonce cache and the write pipeline.\<close>

section \<open>Transactions\<close>



text \<open>C19: Whatever the node does, a transaction posts its raw form at most three times, every time the
  same request with what the signer returned for the one message it signed; it posts it only after
  signing.\<close>

theorem raw_transaction_posts:
  assumes "transact env t target data val s = Some (out, u)"
  shows "\<exists>evs k q. events (ts_rpc u) = events (ts_rpc s) @ evs \<and> raw_posts evs = replicate k q \<and> k \<le> 3 \<and>
    (0 < k \<longrightarrow> (\<exists>tx signer rawTx. t_signer t = Some signer \<and> ts_signed u = ts_signed s @ [tx] \<and>
       SignTransaction signer (ts_signed s) tx = Inr rawTx \<and> req_Params q = [PString (normalizeHex rawTx)]))"
  using transact_raw_posts[OF assms] by (simp add: maxRPCAttempts_def)

theorem raw_transaction_posts_witness:
  "\<exists>out u evs k q. transact sample_env sample_transactor sample_target [1, 2] ''0x0'' sample_state = Some (out, u) \<and>
     events (ts_rpc u) = events (ts_rpc sample_state) @ evs \<and> raw_posts evs = replicate k q \<and> k \<le> 3"
  using raw_transaction_posts[OF sample_transact] sample_transact by blast

section \<open>A lost answer\<close>

definition lost :: "http_outcome \<Rightarrow> bool" where
  "lost outcome \<longleftrightarrow> outcome \<in> {DoFailed OtherFault, ReadFailed OtherFault, CloseFailed OtherFault}"

definition refuses :: "rpcErrorBody \<Rightarrow> http_outcome \<Rightarrow> bool" where
  "refuses err outcome \<longleftrightarrow> (\<exists>len status body result. outcome = Answered len status body (Decoded (Some err) result) \<and>
     len \<le> maxRPCResponseBytes \<and> 200 \<le> status \<and> status < 300)"

definition refusal :: "string \<Rightarrow> rpcErrorBody \<Rightarrow> rpc_error" where
  "refusal meth err = NodeError \<lparr>rpc_Method = meth, rpc_Code = err_Code err, rpc_Message = err_Message err,
     rpc_Data = (case err_Data err of None \<Rightarrow> '''' | Some j \<Rightarrow> rpcErrorData j)\<rparr>"

text \<open>A node that takes the first copy of a transaction, whose answer is lost, and refuses further copies.\<close>

definition loses_first_answer :: "net \<Rightarrow> rpcErrorBody \<Rightarrow> bool" where
  "loses_first_answer net err \<longleftrightarrow> (\<forall>evs q. req_Method q = ''eth_sendRawTransaction'' \<longrightarrow>
     (if raw_posts evs = [] then lost (respond net (evs @ [Posted q])) else refuses err (respond net (evs @ [Posted q]))))"

lemma once_lost: "endpoint_is_url net \<Longrightarrow> lost (respond net (events r @ [Posted q])) \<Longrightarrow>
    callOnce net q d r = (Inl (TransportError OtherFault), record_event (Posted q) r)"
  by (auto simp: callOnce_def Let_def lost_def)

lemma once_refused: "endpoint_is_url net \<Longrightarrow> refuses err (respond net (events r @ [Posted q])) \<Longrightarrow>
    callOnce net q d r = (Inl (refusal (req_Method q) err), record_event (Posted q) r)"
  by (auto simp: callOnce_def Let_def refuses_def refusal_def)

lemma broadcast_unposted:
  assumes "\<not> endpoint_is_url net \<or> trim_space (endpoint r) = ''''"
  shows "\<exists>e c. SendRawTransaction net rawTx r = (Inl e, c) \<and> events c = events r"
proof -
  have "\<exists>e c. Call net meth params decode_text r = (Inl e, c) \<and> events c = events r" for meth params
    using assms by (auto simp: Call_def nextRequestID_def maxRPCAttempts_def numeral_3_eq_3 callOnce_def retryableRPCError_def)
  then obtain e c where "Call net ''eth_sendRawTransaction'' [PString (normalizeHex rawTx)] decode_text r = (Inl e, c)" "events c = events r"
    by metis
  then show ?thesis by (simp add: SendRawTransaction_def call_text_def bind_p_def)
qed

lemma broadcast_lost:
  assumes l: "loses_first_answer net err" and c: "\<And>evs. ctx_ends net evs = None" and r: "raw_posts (events r) = []"
    and e: "endpoint_is_url net" "trim_space (endpoint r) \<noteq> ''''"
  shows "fst (SendRawTransaction net rawTx r) = Inl (refusal ''eth_sendRawTransaction'' err) \<and>
    (\<exists>q. raw_posts (events (snd (SendRawTransaction net rawTx r))) = [q, q])"
proof -
  let ?m = "''eth_sendRawTransaction''" and ?p = "[PString (normalizeHex rawTx)]"
  let ?q = "request r ?m ?p" and ?r = "r\<lparr>nextID := nextID r + 1\<rparr>"
  have s: "SendRawTransaction net rawTx r = bind_p (call_text net ?m ?p) (\<lambda>hash. bind_p (guard_p (trim_space hash = '''') EmptyHash) (\<lambda>_. ret_p hash)) r"
    by (simp add: SendRawTransaction_def)
  have q: "req_Method ?q = ?m" "\<not> no_raw ?q" by (simp_all add: request_def no_raw_def)
  have "(if raw_posts (events ?r) = [] then lost (respond net (events ?r @ [Posted ?q])) else refuses err (respond net (events ?r @ [Posted ?q])))"
    using l q(1) unfolding loses_first_answer_def by blast
  then have "lost (respond net (events ?r @ [Posted ?q]))" using r by simp
  note first = once_lost[OF e(1) this]
  let ?r1 = "record_event (Backoff 100) (record_event (Posted ?q) ?r)"
  have "raw_posts (events ?r1) \<noteq> []" using q(2) by (simp add: raw_posts_def)
  moreover have "(if raw_posts (events ?r1) = [] then lost (respond net (events ?r1 @ [Posted ?q])) else refuses err (respond net (events ?r1 @ [Posted ?q])))"
    using l q(1) unfolding loses_first_answer_def by blast
  ultimately have "refuses err (respond net (events ?r1 @ [Posted ?q]))" by presburger
  note second = once_refused[OF e(1) this]
  have "Call net ?m ?p decode_text r = call_attempts net ?q decode_text (Suc (Suc (Suc 0))) 0 ?r"
    using e(2) by (simp add: Call_def nextRequestID_def request_def maxRPCAttempts_def numeral_3_eq_3 del: call_attempts.simps)
  also have "\<dots> = (Inl (refusal ?m err), record_event (Posted ?q) ?r1)"
    using second[of decode_text] first[of decode_text] c by (simp add: q(1) retryableRPCError_def waitRPCBackoff_def maxRPCAttempts_def refusal_def)
  finally have "SendRawTransaction net rawTx r = (Inl (refusal ?m err), record_event (Posted ?q) ?r1)"
    by (simp add: s call_text_def bind_p_def)
  moreover have "raw_posts (events (record_event (Posted ?q) ?r1)) = [?q, ?q]"
    using r q(2) by (simp add: raw_posts_def)
  ultimately show ?thesis by (simp add: request_def)
qed

text \<open>C35: A broadcast whose answer is lost is repeated by the transport. On every node that took the first
  copy and refuses the second, every transaction that was broadcast is reported as failed before the
  broadcast: it was posted exactly twice, the same request both times, the outcome is the error of
  the refused copy, not the one for an uncertain state after broadcast, and neither a hash nor a
  receipt comes with it.
\<close>
theorem lost_answer_reported_as_failure:
  assumes "transact env t target data val s = Some (out, u)"
    and "loses_first_answer (the_net env) err" and "\<And>evs. ctx_ends (the_net env) evs = None"
    and "raw_posts (events (ts_rpc s)) = []" and "raw_posts (events (ts_rpc u)) \<noteq> []"
  shows "out = Inl (ChainError (wrapEVMRPCError env (refusal ''eth_sendRawTransaction'' err)), None) \<and>
    (\<exists>q. raw_posts (events (ts_rpc u)) = [q, q])"
proof -
  have start: "raw_posts (events c) = []" if "grows no_raw (ts_rpc s) c" for c
    using grows_raw[OF that] assms(4) by auto
  obtain r0 s0 where b: "transact_begin env t s = (r0, s0)" by fastforce
  show ?thesis
  proof (cases r0)
    case (Inl e)
    then show ?thesis using assms(1,5) b begin_unsigned[of env t s e s0] start by (auto simp: transact_def)
  next
    case (Inr five)
    then obtain signer sender chainID nonce rsv where r0: "r0 = Inr (signer, sender, chainID, nonce, rsv)" by (cases five) auto
    have B: "grows no_raw (ts_rpc s) (ts_rpc s0)" using begin_reserved[OF b[unfolded r0]] by blast
    obtain r1 s1 where d: "transact_send env target data val signer sender chainID nonce s0 = (r1, s1)" by fastforce
    have failed: "out = Inl (e, None) \<and> ts_rpc u = ts_rpc s1" if "r1 = Inl e" for e
      using assms(1) that by (simp add: transact_def b r0 d drop_reservation_def split: prod.splits) auto
    from d show ?thesis
    proof (cases rule: send_cases)
      case (unsigned e)
      then show ?thesis using failed assms(5) start grows_trans[OF B] by (auto simp: quiet_def)
    next
      case (unsent tx e)
      then show ?thesis using failed assms(5) start grows_trans[OF B] by auto
    next
      case (sent tx rawTx v)
      have v: "raw_posts (events v) = []" using start grows_trans[OF B sent(5)] by blast
      show ?thesis
      proof (cases "endpoint_is_url (the_net env) \<and> trim_space (endpoint v) \<noteq> ''''")
        case True
        then show ?thesis using broadcast_lost[OF assms(2,3) v] failed sent(6) by auto
      next
        case False
        then obtain e c where "SendRawTransaction (the_net env) rawTx v = (Inl e, c)" "events c = events v"
          using broadcast_unposted by blast
        then show ?thesis using failed sent(6) v assms(5) by auto
      qed
    qed
  qed
qed

definition lossy_node :: "event list \<Rightarrow> http_outcome" where
  "lossy_node evs = (case last evs of
     Posted q \<Rightarrow> if no_raw q then answer_of (req_Method q)
       else if raw_posts (butlast evs) = [] then DoFailed OtherFault else reply_error (- 32000) ''already known''
   | _ \<Rightarrow> reply_object)"

definition lossy_net :: net where
  "lossy_net = sample_net\<lparr>respond := lossy_node\<rparr>"

definition lossy_env :: chain_env where
  "lossy_env = sample_env\<lparr>the_net := lossy_net\<rparr>"

theorem lost_answer_reported_as_failure_witness:
  "\<exists>u. transact lossy_env sample_transactor sample_target [1, 2] ''0x0'' sample_state =
       Some (Inl (ChainError (RpcFailed (NodeError \<lparr>rpc_Method = ''eth_sendRawTransaction'', rpc_Code = - 32000, rpc_Message = ''already known'',
         rpc_Data = ''''\<rparr>)), None), u) \<and>
     loses_first_answer (the_net lossy_env) \<lparr>err_Code = - 32000, err_Message = ''already known'', err_Data = None\<rparr> \<and>
     length (raw_posts (events (ts_rpc u))) = 2"
proof -
  let ?err = "\<lparr>err_Code = - 32000, err_Message = ''already known'', err_Data = None\<rparr>"
  have l: "loses_first_answer (the_net lossy_env) ?err"
    by (auto simp: loses_first_answer_def lossy_env_def lossy_net_def lossy_node_def lost_def refuses_def reply_error_def no_raw_def maxRPCResponseBytes_def)
  have c: "\<And>evs. ctx_ends (the_net lossy_env) evs = None" by (simp add: lossy_env_def lossy_net_def sample_net_def)
  have s: "raw_posts (events (ts_rpc sample_state)) = []" by (simp add: sample_state_def NewEVMRPC_def raw_posts_def)
  have "(case transact lossy_env sample_transactor sample_target [1, 2] ''0x0'' sample_state of
      None \<Rightarrow> False | Some (_, u) \<Rightarrow> raw_posts (events (ts_rpc u)) \<noteq> [])"
    by code_simp
  then obtain out u where t: "transact lossy_env sample_transactor sample_target [1, 2] ''0x0'' sample_state = Some (out, u)"
    "raw_posts (events (ts_rpc u)) \<noteq> []"
    by (auto split: option.splits)
  show ?thesis
    using lost_answer_reported_as_failure[OF t(1) l c s t(2)] t(1) l by (auto simp: refusal_def wrapEVMRPCError_def)
qed

section \<open>Nonces\<close>

text \<open>C20: Under every interleaving of reservations, failed reservations, invalidations and commits from
  the start, and whatever the node answers, the nonces handed out in one generation of the cache are
  consecutive, so pairwise different, and all belong to one endpoint, chain and account. The run is
  shorter than the 64-bit generation counter.\<close>

theorem nonces_of_generation:
  assumes "nonce_run n (m, issued)" and "n < 2 ^ 64"
  shows "consecutive (map (unat \<circ> rs_nonce) (of_generation g issued)) \<and> distinct (map rs_nonce (of_generation g issued)) \<and>
    (\<forall>r s. {r, s} \<subseteq> set (of_generation g issued) \<longrightarrow> rs_key r = rs_key s)"
proof -
  have inv: "nonce_inv n (m, issued)" using nonce_run_inv[OF assms] .
  then have c: "consecutive (map (unat \<circ> rs_nonce) (of_generation g issued))" by (simp add: nonce_inv_def)
  then have "distinct (map unat (map rs_nonce (of_generation g issued)))" using consecutive_distinct by fastforce
  then have d: "distinct (map rs_nonce (of_generation g issued))" by (simp only: distinct_map)
  have "one_key issued" using inv by (simp add: nonce_inv_def)
  then have "\<forall>r s. {r, s} \<subseteq> set (of_generation g issued) \<longrightarrow> rs_key r = rs_key s"
    unfolding one_key_def of_generation_def by auto
  with c d show ?thesis by blast
qed

definition sample_cache :: "u64 \<Rightarrow> evmNonceManager" where
  "sample_cache n = \<lparr>nm_valid = True, nm_endpoint = ''e'', nm_chainID = 5, nm_from = sample_owner, nm_next = n, nm_generation = 1\<rparr>"

lemma sample_run: "nonce_run 2 (sample_cache 9, [reservation (sample_cache 7), reservation (sample_cache 8)])"
proof -
  have r1: "reserve id ''e'' (\<lambda>_ w. (Inr 7 :: unit + u64, w)) 5 sample_owner (newEVMNonceManager, ())
      = (Inr (7, reservation (sample_cache 7)), (sample_cache 8, ()))"
    by (simp add: reserve_def sample_facts cache_fits_def newEVMNonceManager_def take_nonce_eq reservation_def sample_cache_def)
  have r2: "reserve id ''e'' (\<lambda>_ w. (Inr 0 :: unit + u64, w)) 5 sample_owner (sample_cache 8, ())
      = (Inr (8, reservation (sample_cache 8)), (sample_cache 9, ()))"
    by (simp add: reserve_def sample_facts cache_fits_def take_nonce_eq reservation_def sample_cache_def)
  have "nonce_run (Suc 0) (sample_cache 8, [] @ [reservation (sample_cache 7)])"
    by (rule nonce_run.run_step[OF nonce_run.run_start nonce_step.step_reserve[OF r1]])
  from nonce_run.run_step[OF this nonce_step.step_reserve[OF r2]] show ?thesis by (simp add: numeral_2_eq_2)
qed

theorem nonces_of_generation_witness:
  "\<exists>m issued. nonce_run 2 (m, issued) \<and> length (of_generation 1 issued) = 2 \<and> distinct (map rs_nonce (of_generation 1 issued))"
  using nonces_of_generation[OF sample_run, of 1] sample_run
  by (intro exI[of _ "sample_cache 9"] exI[of _ "[reservation (sample_cache 7), reservation (sample_cache 8)]"])
    (simp add: of_generation_def reservation_def sample_cache_def)

text \<open>C21: In every such run, invalidating a reservation of an older generation changes nothing, and after
  invalidating one of the current generation the cache serves no account: the next reservation asks
  the node.\<close>

theorem invalidate_current_only:
  assumes "nonce_run n (m, issued)" and "n < 2 ^ 64" and "rs \<in> set issued"
  shows "(rs_generation rs \<noteq> nm_generation m \<longrightarrow> Invalidate rs m = m) \<and>
    (rs_generation rs = nm_generation m \<longrightarrow> (\<forall>lr k. cached_nonce lr k (Invalidate rs m) = None))"
proof -
  have inv: "nonce_inv n (m, issued)" using nonce_run_inv[OF assms(1,2)] .
  have "rs_key rs = nm_key m" if "nm_valid m" "rs_generation rs = nm_generation m"
    using inv assms(3) that by (auto simp: nonce_inv_def of_generation_def)
  then have "\<not> nm_valid (Invalidate rs m)" if "rs_generation rs = nm_generation m"
    using that by (auto simp: Invalidate_def invalidate_def rs_key_def nm_key_def)
  then have "rs_generation rs = nm_generation m \<longrightarrow> (\<forall>lr k. cached_nonce lr k (Invalidate rs m) = None)"
    by (simp add: cached_nonce_def cache_fits_def split: prod.split sum.split)
  moreover have "rs_generation rs \<noteq> nm_generation m \<longrightarrow> Invalidate rs m = m"
    by (auto simp: Invalidate_def invalidate_def)
  ultimately show ?thesis by blast
qed

theorem invalidate_current_only_witness:
  "\<exists>m rs. nonce_run 2 (m, [reservation (sample_cache 7), rs]) \<and> cached_nonce id (''e'', 5, sample_owner) m \<noteq> None \<and>
     cached_nonce id (''e'', 5, sample_owner) (Invalidate rs m) = None"
  using invalidate_current_only[OF sample_run, of "reservation (sample_cache 8)"] sample_run
  by (intro exI[of _ "sample_cache 9"] exI[of _ "reservation (sample_cache 8)"])
    (simp add: reservation_def sample_cache_def cached_nonce_def cache_fits_def sample_facts)

section \<open>The transport\<close>

text \<open>C27: One call posts between one and three requests, all equal, with a request number of its own
  (provided there is an endpoint and it is a URL).\<close>

theorem rpc_call_bounded:
  assumes "trim_space (endpoint r) \<noteq> ''''" and "endpoint_is_url net"
  shows "\<exists>evs k. events (snd (Call net meth params d r)) = events r @ evs \<and> 1 \<le> k \<and> k \<le> 3 \<and>
    posts evs = replicate k \<lparr>req_ID = nextID r + 1, req_Method = meth, req_Params = params\<rparr>"
  using Call_posts[of net meth params d r] assms
  by (auto simp: request_def maxRPCAttempts_def Suc_le_eq)

theorem rpc_call_bounded_witness:
  "\<exists>evs k. events (snd (Call lossy_net ''eth_chainId'' [] decode_text (NewEVMRPC ''http://node''))) = evs \<and> 1 \<le> k \<and> k \<le> 3 \<and>
     posts evs = replicate k \<lparr>req_ID = 1, req_Method = ''eth_chainId'', req_Params = []\<rparr>"
proof -
  have e: "trim_space (endpoint (NewEVMRPC ''http://node'')) \<noteq> ''''" "endpoint_is_url lossy_net"
    by (simp_all add: node_endpoint sample_facts lossy_net_def sample_net_def)
  show ?thesis
    using rpc_call_bounded[OF e, of "''eth_chainId''" "[]" decode_text] by (simp add: NewEVMRPC_def)
qed

text \<open>C26: An error the node itself reports is final: the call posts one request, returns that error with
  its code, message and revert data, and never retries, whatever the node would answer later.\<close>

theorem node_error_final:
  assumes "trim_space (endpoint r) \<noteq> ''''" and "endpoint_is_url net"
    and "respond net (events r @ [Posted \<lparr>req_ID = nextID r + 1, req_Method = meth, req_Params = params\<rparr>])
      = Answered len status body (Decoded (Some err) result)"
    and "len \<le> maxRPCResponseBytes" and "200 \<le> status" and "status < 300"
  shows "fst (Call net meth params d r) = Inl (NodeError \<lparr>rpc_Method = meth, rpc_Code = err_Code err, rpc_Message = err_Message err,
      rpc_Data = (case err_Data err of None \<Rightarrow> '''' | Some j \<Rightarrow> rpcErrorData j)\<rparr>) \<and>
    posts (events (snd (Call net meth params d r))) = posts (events r) @ [\<lparr>req_ID = nextID r + 1, req_Method = meth, req_Params = params\<rparr>]"
proof -
  let ?q = "request r meth params"
  have once: "callOnce net ?q d r' = (Inl (NodeError \<lparr>rpc_Method = meth, rpc_Code = err_Code err, rpc_Message = err_Message err,
      rpc_Data = (case err_Data err of None \<Rightarrow> '''' | Some j \<Rightarrow> rpcErrorData j)\<rparr>), record_event (Posted ?q) r')"
    if "events r' = events r" for r'
    using assms that by (simp add: callOnce_def request_def record_event_def Let_def)
  have "Call net meth params d r = (fst (callOnce net ?q d r), snd (callOnce net ?q d (r\<lparr>nextID := nextID r + 1\<rparr>)))"
    by (rule Call_first[OF assms(1)]) (auto simp: once retryableRPCError_def)
  then show ?thesis by (simp add: once) (simp add: request_def)
qed

definition refusing_net :: net where
  "refusing_net = sample_net\<lparr>respond := (\<lambda>evs. reply_error 3 ''execution reverted'')\<rparr>"

theorem node_error_final_witness:
  "fst (Call refusing_net ''eth_call'' [] decode_text (NewEVMRPC ''http://node'')) =
     Inl (NodeError \<lparr>rpc_Method = ''eth_call'', rpc_Code = 3, rpc_Message = ''execution reverted'', rpc_Data = ''''\<rparr>)"
proof -
  have a: "trim_space (endpoint (NewEVMRPC ''http://node'')) \<noteq> ''''" "endpoint_is_url refusing_net"
    "respond refusing_net evs = Answered 64 200 '''' (Decoded (Some \<lparr>err_Code = 3, err_Message = ''execution reverted'', err_Data = None\<rparr>) None)"
    "64 \<le> maxRPCResponseBytes" "200 \<le> (200 :: int)" "(200 :: int) < 300" for evs
    by (simp_all add: node_endpoint sample_facts refusing_net_def sample_net_def reply_error_def maxRPCResponseBytes_def)
  show ?thesis
    using node_error_final[OF a, of "''eth_call''" "[]" decode_text] by simp
qed

text \<open>C24: Waiting for a receipt returns whenever the context has an end, that is, from some number of
  events on a sleep finds it ended; and it returns, with an error, whenever every query of the
  receipt fails, even if the context never ends.\<close>

theorem wait_receipt_returns:
  "((\<exists>N. \<forall>evs. N \<le> length evs \<longrightarrow> ctx_ends net evs \<noteq> None) \<longrightarrow> (\<exists>y. WaitReceipt net hash r = Some y)) \<and>
   ((\<forall>r. \<exists>e t. TransactionReceipt net hash r = (Inl e, t)) \<longrightarrow>
      (\<exists>e t. WaitReceipt net hash r = Some ((Some e, None), t)))"
proof (intro conjI impI)
  assume "\<exists>N. \<forall>evs. N \<le> length evs \<longrightarrow> ctx_ends net evs \<noteq> None"
  then obtain N where N: "\<And>evs. N \<le> length evs \<Longrightarrow> ctx_ends net evs \<noteq> None" by blast
  show "\<exists>y. WaitReceipt net hash r = Some y"
    unfolding WaitReceipt_def by (rule wait_loop_ends) (use N in blast)
next
  assume "\<forall>r. \<exists>e t. TransactionReceipt net hash r = (Inl e, t)"
  then show "\<exists>e t. WaitReceipt net hash r = Some ((Some e, None), t)"
    unfolding WaitReceipt_def by (intro wait_loop_gives_up) blast
qed

definition pending_net :: net where
  "pending_net = sample_net\<lparr>respond := (\<lambda>_. Answered 4 200 '''' (Decoded None (Some (Json ''null'' SNull)))),
     ctx_ends := (\<lambda>evs. if 4 \<le> length evs then Some DeadlineExceeded else None)\<rparr>"

theorem wait_receipt_returns_witness:
  "(\<exists>y. WaitReceipt pending_net ''0xabcd'' (NewEVMRPC ''http://node'') = Some y) \<and>
   (\<exists>N. \<forall>evs. N \<le> length evs \<longrightarrow> ctx_ends pending_net evs \<noteq> None)"
proof -
  have "\<exists>N. \<forall>evs. N \<le> length evs \<longrightarrow> ctx_ends pending_net evs \<noteq> None"
    by (rule exI[of _ 4]) (simp add: pending_net_def)
  then show ?thesis
    using wait_receipt_returns[of pending_net "''0xabcd''" "NewEVMRPC ''http://node''"] by blast
qed

text \<open>C25: When waiting for a receipt reports no error there is a receipt and its status is not a revert;
  when it reports a revert, the receipt it returns has that reverted status; every other error comes
  without a receipt.\<close>

theorem wait_receipt_sound:
  assumes "WaitReceipt net hash r = Some ((err, receipt), t)"
  shows "(err = None \<longrightarrow> (\<exists>rc. receipt = Some rc \<and> \<not> status_reverted (rc_Status rc))) \<and>
    (\<forall>rc. receipt = Some rc \<longrightarrow> err \<noteq> None \<longrightarrow> (\<exists>h. err = Some (Reverted h (rc_Status rc)) \<and> status_reverted (rc_Status rc)))"
  using wait_loop_sound[OF assms[unfolded WaitReceipt_def]]
  by (auto simp: wait_sound_def split: option.splits rpc_error.splits)

lemma sample_wait:
  "WaitReceipt sample_net ''0xabcd'' (NewEVMRPC ''http://node'') =
     Some ((None, Some sample_receipt), after_call ''eth_getTransactionReceipt'' [PString ''0xabcd''] (NewEVMRPC ''http://node''))"
  unfolding WaitReceipt_def
  by (subst wait_loop.simps) (simp add: sample_receipt_call[folded after_call_def] node_endpoint sample_facts)

theorem wait_receipt_sound_witness:
  "\<exists>rc t. WaitReceipt sample_net ''0xabcd'' (NewEVMRPC ''http://node'') = Some ((None, Some rc), t) \<and> \<not> status_reverted (rc_Status rc)"
  using wait_receipt_sound[OF sample_wait] sample_wait by blast

section \<open>Gas and quantities\<close>

text \<open>C28: The gas limit is the estimate times 1.4 rounded down plus the headroom, computed without wrapping:
  it is returned exactly when it fits 64 bits, and otherwise the overflow is reported.\<close>

theorem gas_limit_exact:
  "AdjustEVMGasLimit e h =
    (if 14 * unat e div 10 + unat h < 2 ^ 64 then Inr (word_of_nat (14 * unat e div 10 + unat h)) else Inl (GasOverflow e))"
  by (rule gas_exact)

text \<open>C29: Reading a quantity inverts printing it, and whatever text is read, the value is the number its
  hexadecimal digits denote, never reduced modulo 2 to the 64.\<close>

theorem quantity_exact:
  "parseHexUint (''0x'' @ nat_text 16 (unat n)) = Inr n \<and>
   (parseHexUint raw = Inr v \<longrightarrow> (if strip_hex_prefix raw = '''' then v = 0 else parse_nat 16 (strip_hex_prefix raw) = Some (unat v)))"
proof -
  have "if strip_hex_prefix raw = '''' then v = 0 else parse_nat 16 (strip_hex_prefix raw) = Some (unat v)"
    if p: "parseHexUint raw = Inr v"
  proof (cases "strip_hex_prefix raw = ''''")
    case False
    then obtain k where k: "parse_nat 16 (strip_hex_prefix raw) = Some k" "v = word_of_nat k" "length (strip_hex_prefix raw) \<le> 16"
      using p by (auto simp: parseHexUint_exact Let_def split: if_splits option.splits)
    have "k < 16 ^ length (strip_hex_prefix raw)" using k(1) by (rule parse_nat_bound)
    also have "\<dots> \<le> 16 ^ 16" using k(3) by (intro power_increasing) auto
    finally have "unat v = k" using k(2) by (simp add: unsigned_of_nat take_bit_nat_eq_self)
    then show ?thesis using k False by simp
  qed (use p in \<open>simp add: parseHexUint_exact\<close>)
  then show ?thesis using parseHexUint_text by blast
qed

theorem quantity_exact_witness: "parseHexUint ''0x5208'' = Inr 21000 \<and> parse_nat 16 (strip_hex_prefix ''0x5208'') = Some 21000"
proof -
  have "strip_hex_prefix ''0x5208'' \<noteq> ''''" by code_simp
  then show ?thesis using quantity_exact[of 0 "''0x5208''" 21000] sample_facts by simp
qed

text \<open>C30: A fixed block tag is accepted exactly when it is the canonical text of a number: lower-case
  hexadecimal digits after \<^verbatim>\<open>0x\<close> without leading zeros.\<close>

theorem fixed_block_tag_canonical: "requireFixedEVMBlockTag t = Inr () \<longleftrightarrow> (\<exists>n. t = ''0x'' @ nat_text 16 n)"
  by (rule block_tag_exact)

end
