(* ===== verification/Config_Properties.thy ===== *)
theory Config_Properties
  imports Cli_Config
begin

text \<open>Properties of the configuration.\<close>

lemma ascii_list_all: "ascii s \<longleftrightarrow> list_all (\<lambda>c. of_char c < (128 :: nat)) s"
  by (simp add: ascii_def list_all_iff)

lemma profile_keys: "map_of networkProfiles n = None \<longleftrightarrow> n \<noteq> ''injective-testnet'' \<and> n \<noteq> ''injective-mainnet''"
  by (simp add: networkProfiles_def)

lemma use_profile_simps [simp]:
  "Network (use_profile p c) = np_Name p" "CfgChainID (use_profile p c) = np_CosmosChainID p"
  "LCDEndpoint (use_profile p c) = np_LCDEndpoint p" "Node (use_profile p c) = np_CosmosRPC p"
  "EVMRPC (use_profile p c) = np_EVMRPC p" "EVMChainID (use_profile p c) = np_EVMChainID p"
  "EVMExplorer (use_profile p c) = np_EVMExplorer p" "EVMSuiteDirectoryAddress (use_profile p c) = np_EVMSuiteDirectory p"
  "ContractAddress (use_profile p c) = ''''" "EVMContractAddress (use_profile p c) = ''''"
  "EVMBadgeModuleAddress (use_profile p c) = ''''" "EVMEconomicModuleAddress (use_profile p c) = ''''"
  "EVMModerationModuleAddress (use_profile p c) = ''''"
  by (simp_all add: use_profile_def)

section \<open>Profiles\<close>

lemma fill_profile_simps [simp]:
  "Network (fill_profile p c) = np_Name p" "EVMRPC (fill_profile p c) = fill (EVMRPC c) (np_EVMRPC p)"
  "EVMChainID (fill_profile p c) = (if EVMChainID c = 0 then np_EVMChainID p else EVMChainID c)"
  "EVMSuiteDirectoryAddress (fill_profile p c) = fill (EVMSuiteDirectoryAddress c) (np_EVMSuiteDirectory p)"
  by (simp_all add: fill_profile_def)

lemma upgrade_simps [simp]:
  "Network (upgrade_legacy c) = Network c" "EVMRPC (upgrade_legacy c) = EVMRPC c" "EVMChainID (upgrade_legacy c) = EVMChainID c"
  "EVMSuiteDirectoryAddress (upgrade_legacy c) = EVMSuiteDirectoryAddress c"
  by (simp_all add: upgrade_legacy_def)

lemma switch_simps:
  "Network (switch_profile lr raw c) = Network c"
  "EVMRPC (switch_profile lr raw c) = (if has_field raw ''evm_rpc'' then EVMRPC c else EVMRPC (ApplyNetworkProfile lr (zero_Config\<lparr>Network := Network c\<rparr>)))"
  "EVMChainID (switch_profile lr raw c) = (if has_field raw ''evm_chain_id'' then EVMChainID c else EVMChainID (ApplyNetworkProfile lr (zero_Config\<lparr>Network := Network c\<rparr>)))"
  "EVMSuiteDirectoryAddress (switch_profile lr raw c) =
     (if has_field raw ''evm_suite_directory_address'' then EVMSuiteDirectoryAddress c
      else EVMSuiteDirectoryAddress (ApplyNetworkProfile lr (zero_Config\<lparr>Network := Network c\<rparr>)))"
  by (simp_all add: switch_profile_def Let_def)

definition canonical_name :: "(nat \<Rightarrow> nat) \<Rightarrow> string \<Rightarrow> bool" where
  "canonical_name lr n \<longleftrightarrow> n \<noteq> '''' \<and> trim_space n = n \<and> ToLower lr n = n"

lemma canonical_lookup: "canonical_name lr n \<Longrightarrow> NetworkProfileFor lr n = map_of networkProfiles n"
  by (simp add: canonical_name_def NetworkProfileFor_def)

lemma apply_canonical:
  "canonical_name lr (Network c) \<Longrightarrow>
   ApplyNetworkProfile lr c = (case map_of networkProfiles (Network c) of None \<Rightarrow> c | Some p \<Rightarrow> fill_profile p c)"
  using canonical_lookup[of lr "Network c"] by (simp add: ApplyNetworkProfile_def canonical_name_def Let_def)

lemma published_canonical: "canonical_name lr ''injective-testnet''" "canonical_name lr ''injective-mainnet''"
proof -
  have "trim_space ''injective-testnet'' = ''injective-testnet''" "ascii ''injective-testnet''"
    "to_lower ''injective-testnet'' = ''injective-testnet''" "trim_space ''injective-mainnet'' = ''injective-mainnet''"
    "ascii ''injective-mainnet''" "to_lower ''injective-mainnet'' = ''injective-mainnet''"
    unfolding ascii_list_all by code_simp+
  then show "canonical_name lr ''injective-testnet''" "canonical_name lr ''injective-mainnet''" by (simp_all add: canonical_name_def)
qed

text \<open>A published profile is found again under its own name, and only its directory is empty.\<close>

lemma profile_facts:
  assumes "NetworkProfileFor lr name = Some p"
  shows "NetworkProfileFor lr (np_Name p) = Some p" "map_of networkProfiles (np_Name p) = Some p" "canonical_name lr (np_Name p)"
    "np_Name p \<noteq> ''''" "np_CosmosChainID p \<noteq> ''''" "np_EVMChainID p \<noteq> 0" "np_LCDEndpoint p \<noteq> ''''" "np_CosmosRPC p \<noteq> ''''"
    "trim_space (np_EVMRPC p) = np_EVMRPC p" "np_EVMRPC p \<noteq> ''''" "np_EVMExplorer p \<noteq> ''''" "np_EVMSuiteDirectory p = ''''"
proof -
  have "list_all (\<lambda>(n, p). map_of networkProfiles (np_Name p) = Some p \<and> (np_Name p = ''injective-testnet'' \<or> np_Name p = ''injective-mainnet'') \<and>
      np_Name p \<noteq> '''' \<and> np_CosmosChainID p \<noteq> '''' \<and> np_EVMChainID p \<noteq> 0 \<and> np_LCDEndpoint p \<noteq> '''' \<and> np_CosmosRPC p \<noteq> '''' \<and>
      trim_space (np_EVMRPC p) = np_EVMRPC p \<and> np_EVMRPC p \<noteq> '''' \<and> np_EVMExplorer p \<noteq> '''' \<and> np_EVMSuiteDirectory p = '''') networkProfiles"
    by code_simp
  moreover have "(ToLower lr (trim_space name), p) \<in> set networkProfiles"
    using assms unfolding NetworkProfileFor_def by (rule map_of_SomeD)
  ultimately have f: "map_of networkProfiles (np_Name p) = Some p \<and> (np_Name p = ''injective-testnet'' \<or> np_Name p = ''injective-mainnet'') \<and>
      np_Name p \<noteq> '''' \<and> np_CosmosChainID p \<noteq> '''' \<and> np_EVMChainID p \<noteq> 0 \<and> np_LCDEndpoint p \<noteq> '''' \<and> np_CosmosRPC p \<noteq> '''' \<and>
      trim_space (np_EVMRPC p) = np_EVMRPC p \<and> np_EVMRPC p \<noteq> '''' \<and> np_EVMExplorer p \<noteq> '''' \<and> np_EVMSuiteDirectory p = ''''"
    unfolding list_all_iff by blast
  then show c: "canonical_name lr (np_Name p)" using published_canonical by metis
  show "NetworkProfileFor lr (np_Name p) = Some p" using f canonical_lookup[OF c] by metis
  show "map_of networkProfiles (np_Name p) = Some p" "np_Name p \<noteq> ''''" "np_CosmosChainID p \<noteq> ''''" "np_EVMChainID p \<noteq> 0" "np_LCDEndpoint p \<noteq> ''''"
    "np_CosmosRPC p \<noteq> ''''" "trim_space (np_EVMRPC p) = np_EVMRPC p" "np_EVMRPC p \<noteq> ''''" "np_EVMExplorer p \<noteq> ''''" "np_EVMSuiteDirectory p = ''''"
    using f by blast+
qed

lemma defaults_testnet:
  "Network (Defaults lr) = ''injective-testnet''" "EVMSuiteDirectoryAddress (Defaults lr) = ''''" "EVMKeystoreDir (Defaults lr) = ''''"
  "up_Authorization (CfgUpload (Defaults lr)) = ''''"
  using published_canonical(1)[of lr]
  by (simp_all add: Defaults_def apply_canonical networkProfiles_def fill_profile_def zero_Config_def no_Upload_def fill_def)

section \<open>Selecting a network\<close>

text \<open>
  What \<^verbatim>\<open>encoding/json\<close> does with the tags of the struct: a field tagged \<^verbatim>\<open>-\<close> is neither written nor
  read, one tagged \<^verbatim>\<open>omitempty\<close> is not written when it is empty, and a field the text does not have keeps
  its value. The file system keeps a file it has written.
\<close>

definition read_over :: "Config \<Rightarrow> Config \<Rightarrow> Config" where
  "read_over old c =
     c\<lparr>Network := fill (Network c) (Network old), EVMSuiteDirectoryAddress := fill (EVMSuiteDirectoryAddress c) (EVMSuiteDirectoryAddress old),
       EVMRPC := fill (EVMRPC c) (EVMRPC old), EVMChainID := (if EVMChainID c = 0 then EVMChainID old else EVMChainID c),
       EVMExplorer := fill (EVMExplorer c) (EVMExplorer old), EVMKeystoreDir := fill (EVMKeystoreDir c) (EVMKeystoreDir old),
       CfgUpload := (CfgUpload c)\<lparr>up_Authorization := fill (up_Authorization (CfgUpload c)) (up_Authorization (CfgUpload old))\<rparr>,
       ContractBackend := ContractBackend old, ContractVersion := ContractVersion old, ContractAddress := ContractAddress old,
       EVMContractAddress := EVMContractAddress old, EVMBadgeModuleAddress := EVMBadgeModuleAddress old,
       EVMEconomicModuleAddress := EVMEconomicModuleAddress old, EVMModerationModuleAddress := EVMModerationModuleAddress old\<rparr>"

definition json_reads_back :: "'f host \<Rightarrow> Config \<Rightarrow> Config \<Rightarrow> bool" where
  "json_reads_back h old c \<longleftrightarrow> (\<forall>data. json_marshal h c = Inr data \<longrightarrow>
     json_config h data old = Inr (read_over old c) \<and>
     (\<exists>raw. json_fields h data = Inr raw \<and> (\<forall>key \<in> set legacyKeys. \<not> has_field raw key)))"

definition keeps_files :: "'f host \<Rightarrow> bool" where
  "keeps_files h \<longleftrightarrow> (\<forall>path data s t. write_file h path data s = (Inr (), t) \<longrightarrow>
     lstat h path t = FilePresent \<and>
     (\<exists>u v. protect_dir h (path_dir h path) t = (Inr (), u) \<and> protect_file h path u = (Inr (), v) \<and> read_file h path v = Inr data))"

lemma effective_selected:
  assumes p: "NetworkProfileFor lr name = Some p"
  shows "effective_file lr raw (read_over (Defaults lr) (use_profile p cfg)) = use_profile p cfg"
proof -
  note f = profile_facts[OF p]
  let ?d = "read_over (Defaults lr) (use_profile p cfg)" and ?z = "zero_Config\<lparr>Network := np_Name p\<rparr>"
  have d: "Network ?d = np_Name p" using f(4) by (simp add: read_over_def fill_def)
  have "ApplyNetworkProfile lr ?d = fill_profile p ?d" "ApplyNetworkProfile lr ?z = fill_profile p ?z"
    using apply_canonical[of lr ?d] apply_canonical[of lr ?z] f(2,3) by (simp_all add: d)
  then show ?thesis
    using f(4-8,10-12) defaults_testnet[of lr]
    by (cases cfg; cases "CfgUpload cfg")
      (simp add: effective_file_def Let_def d switch_profile_def upgrade_legacy_def fill_profile_def read_over_def use_profile_def fill_def zero_Config_def)
qed

lemma load_saved:
  assumes "Save h c s = (Inr (), t)" "keeps_files h" "json_reads_back h (Defaults lr) c"
    and e: "\<And>raw. effective_file lr raw (read_over (Defaults lr) c) = c"
  shows "\<exists>u. Load lr h t = (Inr c, u)"
proof -
  obtain dir s1 data where d: "Dir h = Inr dir" "json_marshal h c = Inr data"
    "write_file h (path_join h dir ''config.json'') data s1 = (Inr (), t)"
    using assms(1) unfolding Save_def by (auto simp: proc_ok map_err_Inr_iff)
  obtain raw where j: "json_config h data (Defaults lr) = Inr (read_over (Defaults lr) c)" "json_fields h data = Inr raw"
    "\<forall>key \<in> set legacyKeys. \<not> has_field raw key"
    using assms(3) d(2) unfolding json_reads_back_def by blast
  then have "\<not> list_ex (has_field raw) legacyKeys" by (simp add: list_ex_iff)
  moreover obtain u v where "lstat h (path_join h dir ''config.json'') t = FilePresent"
    "protect_dir h (path_dir h (path_join h dir ''config.json'')) t = (Inr (), u)"
    "protect_file h (path_join h dir ''config.json'') u = (Inr (), v)" "read_file h (path_join h dir ''config.json'') v = Inr data"
    using assms(2) d(3) unfolding keeps_files_def by blast
  ultimately show ?thesis
    using d(1) j(1,2) by (simp add: Load_def Path_def proc_defs e Let_def map_err_def bind_res_def)
qed

text \<open>C32: Selecting a network profile is atomic. Every field a profile owns gets the value of the selected
  profile: network name, Cosmos chain, the two Cosmos endpoints, EVM endpoint, EVM chain, explorer and
  suite directory; the backend is the suite and no legacy contract address is left; no field of the user
  changes. The endpoint and chain in effect are then the profile's, and saving this configuration and
  loading it again, over the testnet defaults that loading starts from, gives it back unchanged.
\<close>
theorem select_profile_atomic:
  assumes "SelectNetworkProfile lr cfg name = Inr c"
  shows "\<exists>p. NetworkProfileFor lr name = Some p \<and>
      (Network c, CfgChainID c, LCDEndpoint c, Node c) = (np_Name p, np_CosmosChainID p, np_LCDEndpoint p, np_CosmosRPC p) \<and>
      (EVMRPC c, EVMChainID c, EVMExplorer c, EVMSuiteDirectoryAddress c) = (np_EVMRPC p, np_EVMChainID p, np_EVMExplorer p, np_EVMSuiteDirectory p) \<and>
      (ContractBackend c, ContractVersion c) = (''evm'', ''v3'') \<and>
      {ContractAddress c, EVMContractAddress c, EVMBadgeModuleAddress c, EVMEconomicModuleAddress c, EVMModerationModuleAddress c} = {''''} \<and>
      (EVMKeystoreDir c, KeyName c, KeyringBackend c, InjectivedBin c, GasPrices c, IPFSAPI c, IPFSBin c, IPFSGateway c) =
        (EVMKeystoreDir cfg, KeyName cfg, KeyringBackend cfg, InjectivedBin cfg, GasPrices cfg, IPFSAPI cfg, IPFSBin cfg, IPFSGateway cfg) \<and>
      (Gateways c, CfgUpload c, PublicGatewayFallbacks c) = (Gateways cfg, CfgUpload cfg, PublicGatewayFallbacks cfg) \<and>
      EffectiveEVMRPC lr c = trim_right_char CHR ''/'' (np_EVMRPC p) \<and> EffectiveEVMChainID lr c = np_EVMChainID p \<and>
      (\<forall>(h :: 'f host) s t. Save h c s = (Inr (), t) \<longrightarrow> keeps_files h \<longrightarrow> json_reads_back h (Defaults lr) c \<longrightarrow> (\<exists>u. Load lr h t = (Inr c, u)))"
proof (cases "NetworkProfileFor lr name")
  case (Some p)
  note f = profile_facts[OF Some]
  have c: "c = use_profile p cfg" using assms Some by (simp add: SelectNetworkProfile_def)
  have e: "EffectiveEVMRPC lr c = trim_right_char CHR ''/'' (np_EVMRPC p)" "EffectiveEVMChainID lr c = np_EVMChainID p"
    using f(6,9,10) by (simp_all add: c EffectiveEVMRPC_def EffectiveEVMChainID_def)
  have r: "\<exists>u. Load lr h t = (Inr c, u)" if "Save h c s = (Inr (), t)" "keeps_files h" "json_reads_back h (Defaults lr) c" for h :: "'f host" and s t
    using load_saved[OF that] effective_selected[OF Some] c by simp
  have u: "ContractBackend c = ''evm''" "ContractVersion c = ''v3''" "EVMKeystoreDir c = EVMKeystoreDir cfg" "KeyName c = KeyName cfg"
    "KeyringBackend c = KeyringBackend cfg" "InjectivedBin c = InjectivedBin cfg" "GasPrices c = GasPrices cfg" "IPFSAPI c = IPFSAPI cfg"
    "IPFSBin c = IPFSBin cfg" "IPFSGateway c = IPFSGateway cfg" "Gateways c = Gateways cfg" "CfgUpload c = CfgUpload cfg"
    "PublicGatewayFallbacks c = PublicGatewayFallbacks cfg"
    by (simp_all add: c use_profile_def)
  have o: "Network c = np_Name p" "CfgChainID c = np_CosmosChainID p" "LCDEndpoint c = np_LCDEndpoint p" "Node c = np_CosmosRPC p"
    "EVMRPC c = np_EVMRPC p" "EVMChainID c = np_EVMChainID p" "EVMExplorer c = np_EVMExplorer p"
    "EVMSuiteDirectoryAddress c = np_EVMSuiteDirectory p" "ContractAddress c = ''''" "EVMContractAddress c = ''''"
    "EVMBadgeModuleAddress c = ''''" "EVMEconomicModuleAddress c = ''''" "EVMModerationModuleAddress c = ''''"
    by (simp_all add: c)
  show ?thesis
    unfolding u o e using Some r by blast
qed (use assms in \<open>simp add: SelectNetworkProfile_def\<close>)

definition mainnet_text :: string where
  "mainnet_text = '' Injective-Mainnet ''"

definition mainnet_config :: Config where
  "mainnet_config = use_profile (snd (networkProfiles ! 1)) ((Defaults id)\<lparr>KeyName := ''me''\<rparr>)"

text \<open>A file system with one file, and the coding of one configuration.\<close>

definition one_file_host :: "bytes option host" where
  "one_file_host = \<lparr>igit_home = ''/h'', user_home = Inr ''/'', lstat = (\<lambda>_ f. if f = None then FileMissing else FilePresent),
     mkdir_all = (\<lambda>_ f. (Inr (), f)), protect_dir = (\<lambda>_ f. (Inr (), f)), protect_file = (\<lambda>_ f. (Inr (), f)),
     read_file = (\<lambda>_ f. case f of None \<Rightarrow> Inl '''' | Some b \<Rightarrow> Inr b), write_file = (\<lambda>_ b f. (Inr (), Some b)),
     json_fields = (\<lambda>_. Inr [(''network'', bytes_of ''x''), (''evm_rpc'', bytes_of ''x'')]),
     json_config = (\<lambda>_ old. Inr (read_over old mainnet_config)), json_marshal = (\<lambda>_. Inr [1]),
     path_join = (\<lambda>a b. a @ CHR ''/'' # b), path_dir = (\<lambda>p. p)\<rparr>"

theorem select_profile_atomic_witness:
  "SelectNetworkProfile id ((Defaults id)\<lparr>KeyName := ''me''\<rparr>) mainnet_text = Inr mainnet_config \<and> KeyName mainnet_config = ''me'' \<and>
   Save one_file_host mainnet_config None = (Inr (), Some [1]) \<and> keeps_files one_file_host \<and>
   json_reads_back one_file_host (Defaults id) mainnet_config \<and> (\<exists>u. Load id one_file_host (Some [1]) = (Inr mainnet_config, u))"
proof -
  have "NetworkProfileFor id mainnet_text = Some (snd (networkProfiles ! 1))" by code_simp
  then have s: "SelectNetworkProfile id ((Defaults id)\<lparr>KeyName := ''me''\<rparr>) mainnet_text = Inr mainnet_config"
    by (simp add: SelectNetworkProfile_def mainnet_config_def)
  have v: "Save one_file_host mainnet_config None = (Inr (), Some [1])"
    by (simp add: Save_def one_file_host_def Dir_def proc_defs map_err_def)
  have k: "keeps_files one_file_host" by (simp add: keeps_files_def one_file_host_def)
  have j: "json_reads_back one_file_host (Defaults id) mainnet_config"
    by (simp add: json_reads_back_def one_file_host_def legacyKeys_def has_field_def)
  show ?thesis using select_profile_atomic[OF s] s v k j by fastforce
qed

section \<open>Reading a file\<close>

text \<open>
  The package finds the field of a key without regard to case; which keys it takes for a field is the
  parameter \<open>matches\<close>. A value \<^verbatim>\<open>null\<close> leaves the field as it is.
\<close>

definition supplied :: "(string \<Rightarrow> string \<Rightarrow> bool) \<Rightarrow> (string, bytes) gomap \<Rightarrow> string \<Rightarrow> bool" where
  "supplied matches raw key \<longleftrightarrow> list_ex (\<lambda>(k, v). matches k key \<and> v \<noteq> bytes_of ''null'') raw"

definition json_leaves :: "(string \<Rightarrow> string \<Rightarrow> bool) \<Rightarrow> 'f host \<Rightarrow> bool" where
  "json_leaves matches h \<longleftrightarrow> (\<forall>data raw old c. json_fields h data = Inr raw \<longrightarrow> json_config h data old = Inr c \<longrightarrow>
     (\<not> supplied matches raw ''evm_rpc'' \<longrightarrow> EVMRPC c = EVMRPC old) \<and>
     (\<not> supplied matches raw ''evm_chain_id'' \<longrightarrow> EVMChainID c = EVMChainID old) \<and>
     (\<not> supplied matches raw ''evm_suite_directory_address'' \<longrightarrow> EVMSuiteDirectoryAddress c = EVMSuiteDirectoryAddress old))"

lemma trim_space_Nil [simp]: "trim_space '''' = ''''"
  by (simp add: trim_space_def)

lemma testnet_known: "NetworkProfileFor lr ''injective-testnet'' \<noteq> None"
  using canonical_lookup[OF published_canonical(1)] by (simp add: networkProfiles_def)

lemma unknown_stays:
  assumes "NetworkProfileFor lr (Network (ApplyNetworkProfile lr c)) = None"
  shows "ApplyNetworkProfile lr c = c"
    "ApplyNetworkProfile lr (zero_Config\<lparr>Network := Network c\<rparr>) = zero_Config\<lparr>Network := Network c\<rparr>"
proof -
  let ?n = "ToLower lr (trim_space (Network c))" and ?m = "\<lambda>n. if n = '''' then ''injective-testnet'' else n"
  have n: "NetworkProfileFor lr (?m ?n) = None"
  proof (rule ccontr)
    assume "NetworkProfileFor lr (?m ?n) \<noteq> None"
    then obtain p where p: "NetworkProfileFor lr (?m ?n) = Some p" by blast
    then have "Network (ApplyNetworkProfile lr c) = np_Name p" by (simp add: ApplyNetworkProfile_def Let_def)
    then show False using assms profile_facts(1)[OF p] by simp
  qed
  then show "ApplyNetworkProfile lr c = c"
    "ApplyNetworkProfile lr (zero_Config\<lparr>Network := Network c\<rparr>) = zero_Config\<lparr>Network := Network c\<rparr>"
    by (simp_all add: ApplyNetworkProfile_def Let_def)
qed

lemma unknown_file:
  assumes "NetworkProfileFor lr (Network (effective_file lr raw c)) = None"
  shows "EVMRPC (effective_file lr raw c) = (if has_field raw ''evm_rpc'' then EVMRPC c else '''')"
    "EVMChainID (effective_file lr raw c) = (if has_field raw ''evm_chain_id'' then EVMChainID c else 0)"
    "EVMSuiteDirectoryAddress (effective_file lr raw c) =
       (if has_field raw ''evm_suite_directory_address'' then EVMSuiteDirectoryAddress c else '''')"
proof -
  have n: "Network (effective_file lr raw c) = Network (ApplyNetworkProfile lr c)"
    by (simp add: effective_file_def Let_def switch_simps)
  note u = unknown_stays[of lr c, folded n, OF assms]
  have zero: "EVMRPC zero_Config = ''''" "EVMChainID zero_Config = 0" "EVMSuiteDirectoryAddress zero_Config = ''''"
    by (simp_all add: zero_Config_def)
  have "Network c \<noteq> Network (Defaults lr)" using assms testnet_known[of lr] n u(1) by (auto simp: defaults_testnet)
  then show "EVMRPC (effective_file lr raw c) = (if has_field raw ''evm_rpc'' then EVMRPC c else '''')"
    "EVMChainID (effective_file lr raw c) = (if has_field raw ''evm_chain_id'' then EVMChainID c else 0)"
    "EVMSuiteDirectoryAddress (effective_file lr raw c) =
       (if has_field raw ''evm_suite_directory_address'' then EVMSuiteDirectoryAddress c else '''')"
    using zero by (simp_all add: effective_file_def Let_def u switch_simps)
qed

lemma load_file:
  assumes "Load lr h s = (Inr c, t)" "Network c \<noteq> Network (Defaults lr)"
  obtains path u data raw decoded where "Path h = Inr path" "read_file h path u = Inr data" "json_fields h data = Inr raw"
    "json_config h data (Defaults lr) = Inr decoded" "c = effective_file lr raw decoded"
proof -
  obtain path where p: "Path h = Inr path" using assms(1) unfolding Load_def by (auto simp: proc_ok)
  then have "lstat h path s = FilePresent" using assms
    by (cases "lstat h path s") (auto simp: Load_def proc_ok get_p_def lift_p_def bind_p_def ret_p_def fail_p_def)
  then show thesis
    using that assms(1) p unfolding Load_def Let_def
    by (auto simp: proc_ok get_p_def res_simps split: if_splits)
qed

lemma valid_unknown:
  assumes "ValidateContract lr c = Inr ()" "NetworkProfileFor lr (Network c) = None"
  shows "EVMRPC c \<noteq> ''''" "EVMChainID c \<noteq> 0" "EVMSuiteDirectoryAddress c \<noteq> ''''"
  using assms by (auto simp: ValidateContract_def Let_def res_simps EffectiveEVMRPC_def EffectiveEVMChainID_def EffectiveEVMSuiteDirectoryAddress_def)

text \<open>C31: Loading never completes a configuration for a network that is no published profile with the
  values of another network, except where the file says \<^verbatim>\<open>null\<close>. If the loaded configuration has an
  unknown network and passes validation, then the file has the keys of the EVM endpoint, the chain and
  the suite directory, the loaded values are the decoded ones, and the file gives the directory a value
  of its own; an endpoint or a chain without a value of its own is the one of the testnet, left there
  by a key with the value \<^verbatim>\<open>null\<close>.
\<close>
theorem unknown_network_not_completed:
  assumes "json_leaves matches h" and "Load lr h s = (Inr c, t)"
    and "NetworkProfileFor lr (Network c) = None" and "ValidateContract lr c = Inr ()"
  shows "\<exists>path u data raw decoded. Path h = Inr path \<and> read_file h path u = Inr data \<and>
     json_fields h data = Inr raw \<and> json_config h data (Defaults lr) = Inr decoded \<and>
     has_field raw ''evm_rpc'' \<and> has_field raw ''evm_chain_id'' \<and> has_field raw ''evm_suite_directory_address'' \<and>
     (EVMRPC c, EVMChainID c, EVMSuiteDirectoryAddress c) = (EVMRPC decoded, EVMChainID decoded, EVMSuiteDirectoryAddress decoded) \<and>
     supplied matches raw ''evm_suite_directory_address'' \<and>
     (supplied matches raw ''evm_rpc'' \<or> EVMRPC c = ''https://k8s.testnet.json-rpc.injective.network'') \<and>
     (supplied matches raw ''evm_chain_id'' \<or> EVMChainID c = 1439)"
proof -
  have "Network c \<noteq> Network (Defaults lr)" using assms(3) testnet_known[of lr] by (auto simp: defaults_testnet)
  from load_file[OF assms(2) this] obtain path u data raw decoded where f: "Path h = Inr path" "read_file h path u = Inr data"
    "json_fields h data = Inr raw" "json_config h data (Defaults lr) = Inr decoded" and c: "c = effective_file lr raw decoded"
    by metis
  note e = unknown_file[OF assms(3)[unfolded c], folded c] and v = valid_unknown[OF assms(4,3)]
  have k: "has_field raw ''evm_rpc''" "has_field raw ''evm_chain_id''" "has_field raw ''evm_suite_directory_address''"
    using e v by (auto split: if_splits)
  have d: "EVMRPC (Defaults lr) = ''https://k8s.testnet.json-rpc.injective.network''" "EVMChainID (Defaults lr) = 1439"
    using published_canonical(1)[of lr]
    by (simp_all add: Defaults_def apply_canonical networkProfiles_def zero_Config_def fill_def)
  have l: "\<not> supplied matches raw ''evm_rpc'' \<longrightarrow> EVMRPC decoded = EVMRPC (Defaults lr)"
    "\<not> supplied matches raw ''evm_chain_id'' \<longrightarrow> EVMChainID decoded = EVMChainID (Defaults lr)"
    "\<not> supplied matches raw ''evm_suite_directory_address'' \<longrightarrow> EVMSuiteDirectoryAddress decoded = EVMSuiteDirectoryAddress (Defaults lr)"
    using assms(1) f(3,4) unfolding json_leaves_def by blast+
  have "supplied matches raw ''evm_suite_directory_address''" using l(3) v(3) e(3) k(3) by (auto simp: defaults_testnet)
  then show ?thesis
    using f k e l(1,2) d by (intro exI[of _ path] exI[of _ u] exI[of _ data] exI[of _ raw] exI[of _ decoded]) auto
qed

definition devnet_fields :: "(string, bytes) gomap" where
  "devnet_fields = [(''network'', bytes_of ''devnet''), (''evm_rpc'', bytes_of ''null''), (''evm_chain_id'', bytes_of ''31337''),
     (''evm_suite_directory_address'', bytes_of ''0x1'')]"

definition devnet_host :: "bytes option host" where
  "devnet_host = one_file_host\<lparr>json_fields := (\<lambda>_. Inr devnet_fields),
     json_config := (\<lambda>_ old. Inr (old\<lparr>Network := ''devnet'', EVMChainID := 31337, EVMSuiteDirectoryAddress := ''0x'' @ replicate 40 CHR ''1''\<rparr>))\<rparr>"

definition devnet_loaded :: Config where
  "devnet_loaded = effective_file id devnet_fields
     ((Defaults id)\<lparr>Network := ''devnet'', EVMChainID := 31337, EVMSuiteDirectoryAddress := ''0x'' @ replicate 40 CHR ''1''\<rparr>)"

theorem unknown_network_not_completed_witness:
  "json_leaves (=) devnet_host \<and> Load id devnet_host (Some [1]) = (Inr devnet_loaded, Some [1]) \<and>
   NetworkProfileFor id (Network devnet_loaded) = None \<and> ValidateContract id devnet_loaded = Inr () \<and>
   \<not> supplied (=) devnet_fields ''evm_rpc'' \<and> EVMRPC devnet_loaded = ''https://k8s.testnet.json-rpc.injective.network''"
proof -
  have s: "supplied (=) devnet_fields ''evm_chain_id''" "supplied (=) devnet_fields ''evm_suite_directory_address''" "\<not> supplied (=) devnet_fields ''evm_rpc''"
    "\<not> list_ex (has_field devnet_fields) legacyKeys" "NetworkProfileFor id (Network devnet_loaded) = None"
    "ValidateContract id devnet_loaded = Inr ()"
    by code_simp+
  have j: "json_leaves (=) devnet_host" using s(1-3) by (simp add: json_leaves_def devnet_host_def)
  have l: "Load id devnet_host (Some [1]) = (Inr devnet_loaded, Some [1])"
    using s(4) by (simp add: Load_def Path_def Dir_def devnet_host_def one_file_host_def proc_defs devnet_loaded_def Let_def bind_res_def)
  have f: "json_fields devnet_host data = Inr devnet_fields" for data by (simp add: devnet_host_def)
  have "EVMRPC devnet_loaded = ''https://k8s.testnet.json-rpc.injective.network''"
    using unknown_network_not_completed[OF j l s(5,6)] s(3) by (auto simp: f)
  then show ?thesis using j l s by blast
qed

section \<open>The published defaults\<close>

text \<open>C33: The published profiles pass their own check, and for that reason the defaults alone allow no
  contract operation: validation refuses them with the missing suite directory until an operator
  sets one.\<close>

theorem published_defaults_refused:
  "ValidatePublishedSuiteProfiles lr = Inr () \<and> ValidateContract lr (Defaults lr) = Inl MissingEVMSuiteDirectory \<and>
   Validate lr (Defaults lr) = Inl MissingEVMSuiteDirectory"
proof -
  have keys: "\<forall>p \<in> set networkProfiles. trim_space (fst p) \<noteq> '''' \<and> np_Name (snd p) = fst p \<and> np_EVMSuiteDirectory (snd p) = ''''"
  proof -
    have "list_all (\<lambda>p. trim_space (fst p) \<noteq> '''' \<and> np_Name (snd p) = fst p \<and> np_EVMSuiteDirectory (snd p) = '''') networkProfiles"
      by code_simp
    then show ?thesis by (simp only: list_all_iff)
  qed
  have "for_check check_profile networkProfiles = Inr ()"
    using keys by (auto simp: for_check_Inr_iff check_profile_def res_simps)
  then have published: "ValidatePublishedSuiteProfiles lr = Inr ()"
    by (simp add: ValidatePublishedSuiteProfiles_def EffectiveContractBackend_def EffectiveContractVersion_def networkProfiles_def)
  have "EffectiveEVMSuiteDirectoryAddress lr (Defaults lr) = ''''"
    using canonical_lookup[OF published_canonical(1), of lr]
    by (simp add: EffectiveEVMSuiteDirectoryAddress_def defaults_testnet networkProfiles_def)
  then show ?thesis using published by (simp add: Validate_def ValidateContract_def)
qed

section \<open>Gateways\<close>










end
