(* ===== verification/Suite_Directory.thy ===== *)
theory Suite_Directory
  imports Evm_Errors
begin

text \<open>
  The verification of a contract suite, \<^verbatim>\<open>cli/internal/chain/suite_directory.go\<close>: typed
  contract reads and \<^verbatim>\<open>VerifySuite\<close>, which pins all reads to one block and checks the
  chain of commitments from the directory to every module.
\<close>

section \<open>Data\<close>

record SuiteModuleID =
  sm_Name :: string
  sm_ID :: bytes
  sm_ABI :: suiteABIName

record SuiteModuleInfo =
  mi_Name :: string
  mi_ID :: string
  mi_Address :: string
  mi_CodeHash :: string

record SuiteInfo =
  si_Directory :: string
  si_Version :: u64
  si_ChainID :: u64
  si_State :: string
  si_SnapshotRoot :: string
  si_BootstrapCoordinator :: string
  si_BlockTag :: string
  si_Modules :: "SuiteModuleInfo list"

datatype call_error =
    EncodeFailed string string
  | CallFailed chain_error
  | DecodeFailed string string
  | ValueCount string nat
  | ValueType string

datatype verify_cause =
    BecauseAddress address_error
  | BecauseRpc rpc_error
  | BecauseCall call_error
  | BecauseABI string
  | BecauseChain u64 u64
  | BecauseNoCode
  | BecauseVersion u64
  | BecauseConfiguredChain int u64
  | BecauseInactive u8
  | BecauseZero
  | BecauseHash bytes bytes
  | BecauseBinding string string

datatype SuiteVerificationError = VerificationError string string verify_cause

definition SupportedSuiteVersion :: u64 where
  "SupportedSuiteVersion = 3"

definition required_module :: "chain_env \<Rightarrow> string \<Rightarrow> string \<Rightarrow> suiteABIName \<Rightarrow> SuiteModuleID" where
  "required_module env name label abi =
     \<lparr>sm_Name = name, sm_ID = Keccak256Hash (the_geth env) (bytes_of label), sm_ABI = abi\<rparr>"

definition RequiredSuiteModules :: "chain_env \<Rightarrow> SuiteModuleID list" where
  "RequiredSuiteModules env =
    [required_module env ''core'' ''igit.module.repository-core'' suiteABICore,
     required_module env ''recovery'' ''igit.module.recovery'' suiteABIRecovery,
     required_module env ''moderation'' ''igit.module.moderation'' suiteABIModeration,
     required_module env ''economic'' ''igit.module.economic'' suiteABIEconomic,
     required_module env ''username'' ''igit.module.username'' suiteABIUsername,
     required_module env ''badge'' ''igit.module.badge'' suiteABIBadge,
     required_module env ''release'' ''igit.module.release'' suiteABIRelease]"

definition ModuleAddress :: "SuiteInfo \<Rightarrow> string \<Rightarrow> string" where
  "ModuleAddress s name = (case find (\<lambda>m. mi_Name m = name) (si_Modules s) of Some m \<Rightarrow> mi_Address m | None \<Rightarrow> '''')"

definition zero_address :: bytes where
  "zero_address = replicate 20 0"

definition zero_hash :: bytes where
  "zero_hash = replicate 32 0"

section \<open>Typed contract reads\<close>

definition suiteCall ::
  "chain_env \<Rightarrow> string \<Rightarrow> string \<Rightarrow> contract_abi \<Rightarrow> string \<Rightarrow> abi_value list \<Rightarrow> (rpc_client, call_error, abi_value list) proc" where
  "suiteCall env address blockTag abi meth arguments =
     bind_p (lift_p (map_err (EncodeFailed meth) (abi_Pack abi meth arguments))) (\<lambda>data.
     bind_p (err_p (\<lambda>e. CallFailed (wrapEVMRPCError env e))
       (CallContractAt (the_net env) address (''0x'' @ hex_encode data) blockTag)) (\<lambda>result.
     lift_p (map_err (DecodeFailed meth) (abi_Unpack abi meth result))))"

definition suiteSingleValue ::
  "chain_env \<Rightarrow> string \<Rightarrow> string \<Rightarrow> contract_abi \<Rightarrow> string \<Rightarrow> abi_value list \<Rightarrow> (rpc_client, call_error, abi_value) proc" where
  "suiteSingleValue env address blockTag abi meth arguments =
     bind_p (suiteCall env address blockTag abi meth arguments) (\<lambda>vals.
     bind_p (guard_p (length vals \<noteq> 1) (ValueCount meth (length vals))) (\<lambda>_.
     ret_p (vals ! 0)))"

definition typed_read ::
  "(abi_value \<Rightarrow> 'a option) \<Rightarrow> chain_env \<Rightarrow> string \<Rightarrow> string \<Rightarrow> contract_abi \<Rightarrow> string \<Rightarrow> abi_value list \<Rightarrow>
   (rpc_client, call_error, 'a) proc" where
  "typed_read as env address blockTag abi meth arguments =
     bind_p (suiteSingleValue env address blockTag abi meth arguments) (\<lambda>v.
     case as v of Some x \<Rightarrow> ret_p x | None \<Rightarrow> fail_p (ValueType meth))"

fun as_address :: "abi_value \<Rightarrow> bytes option" where
  "as_address (V_address a) = Some a" | "as_address _ = None"

fun as_bytes32 :: "abi_value \<Rightarrow> bytes option" where
  "as_bytes32 (V_bytes32 b) = Some b" | "as_bytes32 _ = None"

fun as_uint64 :: "abi_value \<Rightarrow> u64 option" where
  "as_uint64 (V_uint64 n) = Some n" | "as_uint64 _ = None"

fun as_uint8 :: "abi_value \<Rightarrow> u8 option" where
  "as_uint8 (V_uint8 n) = Some n" | "as_uint8 _ = None"

fun as_big :: "abi_value \<Rightarrow> int option" where
  "as_big (V_big n) = Some n" | "as_big _ = None"

definition suiteAddressCall ::
  "chain_env \<Rightarrow> string \<Rightarrow> string \<Rightarrow> contract_abi \<Rightarrow> string \<Rightarrow> abi_value list \<Rightarrow> (rpc_client, call_error, bytes) proc" where
  "suiteAddressCall = typed_read as_address"

definition suiteHashCall ::
  "chain_env \<Rightarrow> string \<Rightarrow> string \<Rightarrow> contract_abi \<Rightarrow> string \<Rightarrow> abi_value list \<Rightarrow> (rpc_client, call_error, bytes) proc" where
  "suiteHashCall env address blockTag abi meth arguments =
     bind_p (typed_read as_bytes32 env address blockTag abi meth arguments) (\<lambda>b. ret_p (BytesToHash (the_geth env) b))"

definition suiteUint64Call ::
  "chain_env \<Rightarrow> string \<Rightarrow> string \<Rightarrow> contract_abi \<Rightarrow> string \<Rightarrow> abi_value list \<Rightarrow> (rpc_client, call_error, u64) proc" where
  "suiteUint64Call = typed_read as_uint64"

definition suiteUint8Call ::
  "chain_env \<Rightarrow> string \<Rightarrow> string \<Rightarrow> contract_abi \<Rightarrow> string \<Rightarrow> abi_value list \<Rightarrow> (rpc_client, call_error, u8) proc" where
  "suiteUint8Call = typed_read as_uint8"

definition suiteBigIntCall ::
  "chain_env \<Rightarrow> string \<Rightarrow> string \<Rightarrow> contract_abi \<Rightarrow> string \<Rightarrow> abi_value list \<Rightarrow> (rpc_client, call_error, int) proc" where
  "suiteBigIntCall = typed_read as_big"

section \<open>Verification\<close>

definition step :: "string \<Rightarrow> string \<Rightarrow> ('e \<Rightarrow> verify_cause) \<Rightarrow> ('s, 'e, 'a) proc \<Rightarrow> ('s, SuiteVerificationError, 'a) proc" where
  "step check module cause m = err_p (\<lambda>e. VerificationError check module (cause e)) m"

definition require :: "string \<Rightarrow> string \<Rightarrow> bool \<Rightarrow> verify_cause \<Rightarrow> ('s, SuiteVerificationError, unit) proc" where
  "require check module ok cause = guard_p (\<not> ok) (VerificationError check module cause)"

definition block_text :: "u64 \<Rightarrow> string" where
  "block_text n = ''0x'' @ nat_text 16 (unat n)"

definition is_uint64 :: "int \<Rightarrow> bool" where
  "is_uint64 n \<longleftrightarrow> 0 \<le> n \<and> n < 2 ^ 64"

record suite_head =
  sh_directory :: string
  sh_version :: u64
  sh_chainID :: u64
  sh_root :: bytes
  sh_coordinator :: bytes
  sh_tag :: string
  sh_abi :: contract_abi

definition verify_directory_at :: "chain_env \<Rightarrow> string \<Rightarrow> u64 \<Rightarrow> string \<Rightarrow> (rpc_client, SuiteVerificationError, suite_head) proc" where
  \<comment> \<open>the checks of the directory itself, at the chosen block\<close>
  "verify_directory_at env directory chainID blockTag =
     bind_p (step ''directory code'' '''' BecauseRpc (CodeAt (the_net env) directory blockTag)) (\<lambda>directoryCode.
     bind_p (require ''directory code'' '''' (length directoryCode \<noteq> 0) BecauseNoCode) (\<lambda>_.
     bind_p (step ''directory ABI'' '''' BecauseABI (lift_p (loadSuiteABI env suiteABIDirectory))) (\<lambda>directoryABI.
     bind_p (step ''suite version'' '''' BecauseCall (suiteUint64Call env directory blockTag directoryABI ''suiteVersion'' [])) (\<lambda>version.
     bind_p (require ''suite version'' '''' (version = SupportedSuiteVersion) (BecauseVersion version)) (\<lambda>_.
     bind_p (step ''configured chain ID'' '''' BecauseCall (suiteBigIntCall env directory blockTag directoryABI ''configuredChainId'' [])) (\<lambda>configured.
     bind_p (require ''configured chain ID'' '''' (is_uint64 configured \<and> word_of_int configured = chainID)
       (BecauseConfiguredChain configured chainID)) (\<lambda>_.
     bind_p (step ''directory state'' '''' BecauseCall (suiteUint8Call env directory blockTag directoryABI ''state'' [])) (\<lambda>state.
     bind_p (require ''directory state'' '''' (state = 1) (BecauseInactive state)) (\<lambda>_.
     bind_p (step ''snapshot root'' '''' BecauseCall (suiteHashCall env directory blockTag directoryABI ''snapshotRoot'' [])) (\<lambda>snapshotRoot.
     bind_p (require ''snapshot root'' '''' (snapshotRoot \<noteq> zero_hash) BecauseZero) (\<lambda>_.
     bind_p (step ''bootstrap coordinator'' '''' BecauseCall
       (suiteAddressCall env directory blockTag directoryABI ''bootstrapCoordinator'' [])) (\<lambda>coordinator.
     bind_p (require ''bootstrap coordinator'' '''' (coordinator \<noteq> zero_address) BecauseZero) (\<lambda>_.
     ret_p \<lparr>sh_directory = directory, sh_version = version, sh_chainID = chainID, sh_root = snapshotRoot,
       sh_coordinator = coordinator, sh_tag = blockTag, sh_abi = directoryABI\<rparr>)))))))))))))"

definition verify_directory :: "chain_env \<Rightarrow> string \<Rightarrow> u64 \<Rightarrow> (rpc_client, SuiteVerificationError, suite_head) proc" where
  \<comment> \<open>\<^verbatim>\<open>VerifySuite\<close> up to the address of the coordinator\<close>
  "verify_directory env directoryAddress expectedChainID =
     bind_p (step ''directory address'' '''' BecauseAddress
       (lift_p (normalizeEVMAddress (lower_table (the_net env)) directoryAddress))) (\<lambda>directory.
     bind_p (step ''RPC chain ID'' '''' BecauseRpc (ChainID (the_net env))) (\<lambda>chainID.
     bind_p (require ''profile chain ID'' '''' (expectedChainID = 0 \<or> chainID = expectedChainID) (BecauseChain chainID expectedChainID)) (\<lambda>_.
     bind_p (step ''snapshot block'' '''' BecauseRpc (BlockNumber (the_net env))) (\<lambda>blockNumber.
     verify_directory_at env directory chainID (block_text blockNumber)))))"

definition verify_coordinator :: "chain_env \<Rightarrow> suite_head \<Rightarrow> (rpc_client, SuiteVerificationError, unit) proc" where
  "verify_coordinator env h =
    (let g = the_geth env; coordinator = Address_Hex g (sh_coordinator h) in
     bind_p (step ''coordinator code'' '''' BecauseRpc (CodeAt (the_net env) coordinator (sh_tag h))) (\<lambda>code.
     bind_p (require ''coordinator code'' '''' (length code \<noteq> 0) BecauseNoCode) (\<lambda>_.
     bind_p (step ''coordinator code hash'' '''' BecauseCall
       (suiteHashCall env (sh_directory h) (sh_tag h) (sh_abi h) ''bootstrapCoordinatorCodeHash'' [])) (\<lambda>expected.
     bind_p (require ''coordinator code hash'' '''' (Keccak256Hash g code = expected) (BecauseHash expected (Keccak256Hash g code))) (\<lambda>_.
     bind_p (step ''coordinator ABI'' '''' BecauseABI (lift_p (loadSuiteABI env suiteABICoordinator))) (\<lambda>abi.
     bind_p (step ''coordinator directory binding'' '''' BecauseCall (suiteAddressCall env coordinator (sh_tag h) abi ''suiteDirectory'' [])) (\<lambda>boundDirectory.
     bind_p (require ''coordinator directory binding'' '''' (boundDirectory = HexToAddress g (sh_directory h))
       (BecauseBinding (Address_Hex g boundDirectory) (sh_directory h))) (\<lambda>_.
     bind_p (step ''coordinator snapshot binding'' '''' BecauseCall (suiteHashCall env coordinator (sh_tag h) abi ''snapshotRoot'' [])) (\<lambda>boundRoot.
     require ''coordinator snapshot binding'' '''' (boundRoot = sh_root h)
       (BecauseBinding (Hash_Hex g boundRoot) (Hash_Hex g (sh_root h))))))))))))"

definition verify_module ::
  "chain_env \<Rightarrow> suite_head \<Rightarrow> SuiteModuleID \<Rightarrow> SuiteModuleInfo list \<Rightarrow> (rpc_client, SuiteVerificationError, SuiteModuleInfo list) proc" where
  \<comment> \<open>the body of the loop over the required modules\<close>
  "verify_module env h required modules =
    (let g = the_geth env; name = sm_Name required; moduleID = [V_bytes32 (sm_ID required)] in
     bind_p (step ''module address'' name BecauseCall (suiteAddressCall env (sh_directory h) (sh_tag h) (sh_abi h) ''moduleAddress'' moduleID)) (\<lambda>address.
     bind_p (require ''module address'' name (address \<noteq> zero_address) BecauseZero) (\<lambda>_.
     bind_p (step ''module code hash'' name BecauseCall (suiteHashCall env (sh_directory h) (sh_tag h) (sh_abi h) ''moduleCodeHash'' moduleID)) (\<lambda>expected.
     bind_p (step ''module code'' name BecauseRpc (CodeAt (the_net env) (Address_Hex g address) (sh_tag h))) (\<lambda>code.
     bind_p (require ''module code'' name (length code \<noteq> 0) BecauseNoCode) (\<lambda>_.
     bind_p (require ''module code hash'' name (Keccak256Hash g code = expected) (BecauseHash expected (Keccak256Hash g code))) (\<lambda>_.
     bind_p (step ''module ABI'' name BecauseABI (lift_p (loadSuiteABI env (sm_ABI required)))) (\<lambda>abi.
     bind_p (step ''directory binding'' name BecauseCall (suiteAddressCall env (Address_Hex g address) (sh_tag h) abi ''suiteDirectory'' [])) (\<lambda>boundDirectory.
     bind_p (step ''coordinator binding'' name BecauseCall (suiteAddressCall env (Address_Hex g address) (sh_tag h) abi ''bootstrapCoordinator'' [])) (\<lambda>boundCoordinator.
     bind_p (step ''module ID binding'' name BecauseCall (suiteHashCall env (Address_Hex g address) (sh_tag h) abi ''moduleId'' [])) (\<lambda>boundID.
     bind_p (require ''directory binding'' name (boundDirectory = HexToAddress g (sh_directory h))
       (BecauseBinding (Address_Hex g boundDirectory) (sh_directory h))) (\<lambda>_.
     bind_p (require ''coordinator binding'' name (boundCoordinator = sh_coordinator h)
       (BecauseBinding (Address_Hex g boundCoordinator) (Address_Hex g (sh_coordinator h)))) (\<lambda>_.
     bind_p (require ''module ID binding'' name (boundID = sm_ID required)
       (BecauseBinding (Hash_Hex g boundID) (Hash_Hex g (sm_ID required)))) (\<lambda>_.
     ret_p (modules @ [\<lparr>mi_Name = name, mi_ID = Hash_Hex g (sm_ID required), mi_Address = Address_Hex g address,
       mi_CodeHash = Hash_Hex g expected\<rparr>])))))))))))))))"

definition VerifySuite :: "chain_env \<Rightarrow> string \<Rightarrow> u64 \<Rightarrow> (rpc_client, SuiteVerificationError, SuiteInfo) proc" where
  "VerifySuite env directoryAddress expectedChainID =
     bind_p (verify_directory env directoryAddress expectedChainID) (\<lambda>h.
     bind_p (verify_coordinator env h) (\<lambda>_.
     bind_p (for_p (verify_module env h) (RequiredSuiteModules env) []) (\<lambda>modules.
     ret_p \<lparr>si_Directory = sh_directory h, si_Version = sh_version h, si_ChainID = sh_chainID h, si_State = ''active'',
       si_SnapshotRoot = Hash_Hex (the_geth env) (sh_root h),
       si_BootstrapCoordinator = Address_Hex (the_geth env) (sh_coordinator h), si_BlockTag = sh_tag h, si_Modules = modules\<rparr>)))"

definition FormatSuiteInfo :: "SuiteInfo \<Rightarrow> string" where
  "FormatSuiteInfo info =
     ''directory='' @ si_Directory info @ ''\<newline>version='' @ nat_text 10 (unat (si_Version info)) @ ''\<newline>chain_id='' @
     nat_text 10 (unat (si_ChainID info)) @ ''\<newline>state='' @ si_State info @ ''\<newline>snapshot_root='' @ si_SnapshotRoot info @
     ''\<newline>bootstrap_coordinator='' @ si_BootstrapCoordinator info @ ''\<newline>block_tag='' @ si_BlockTag info @ ''\<newline>'' @
     concat (map (\<lambda>m. ''module.'' @ mi_Name m @ ''.address='' @ mi_Address m @ ''\<newline>module.'' @ mi_Name m @ ''.code_hash='' @
       mi_CodeHash m @ ''\<newline>'') (si_Modules info))"

end
