(* ===== verification/Suite_Registry.thy ===== *)
theory Suite_Registry
  imports Suite_Directory Evm_Transactor
begin

text \<open>
  The runtime client of the contract suite, \<^verbatim>\<open>cli/internal/chain/evm_suite_registry.go\<close>
  (and the domain types of \<^verbatim>\<open>types.go\<close> and \<^verbatim>\<open>backend.go\<close>). A client verifies the
  suite before its first read or write and keeps what it verified. Values that go-ethereum decodes
  are ABI values here. Reading one as a Go struct fails with \<open>Malformed\<close> when its shape is another:
  whether \<^verbatim>\<open>ConvertType\<close> reports that by its result or by a panic is not distinguished.
\<close>

section \<open>Data\<close>

record RefInfo =
  ri_RefName :: string
  ri_CommitSha :: string
  ri_PackURIs :: "string list"
  ri_UpdatedAt :: u64
  ri_UpdatedBy :: string

record RepoInfo =
  rp_Owner :: string
  rp_Name :: string
  rp_Description :: string
  rp_DefaultBranch :: string
  rp_CreatedAt :: u64
  rp_UpdatedAt :: u64
  rp_ModerationStatus :: string

record CollaboratorInfo =
  ci_Address :: string
  ci_Role :: string

record Coin =
  coin_Denom :: string
  coin_Amount :: string

record SplitEntry =
  sp_Address :: string
  sp_Bps :: u16

record ReleaseArtifact =
  ra_Version :: string
  ra_Platform :: string
  ra_SHA256 :: string
  ra_RegisteredBy :: string
  ra_RegisteredAt :: u64

record OwnershipTransferInfo =
  ot_NewOwner :: string
  ot_ProposedAt :: u64
  ot_ExecuteAfter :: u64
  ot_ExpiresAt :: u64

record RecoveryProposalInfo =
  pr_NewOwner :: string
  pr_ProposedAt :: u64
  pr_ExecuteAfter :: u64
  pr_Approvals :: "string list"

record OwnershipSecurityInfo =
  os_Transfer :: "OwnershipTransferInfo option"
  os_Recovery :: "RecoveryProposalInfo option"
  os_Guardians :: "string list"
  os_GuardianThreshold :: u8

record ModerationReportInfo =
  mr_ID :: u64
  mr_Owner :: string
  mr_Repo :: string
  mr_Reporter :: string
  mr_ReasonHash :: string
  mr_Status :: string
  mr_Resolution :: string
  mr_ResolutionHash :: "string option"
  mr_AppealHash :: "string option"
  mr_CreatedAt :: u64
  mr_UpdatedAt :: u64

record Badge =
  bd_ID :: u64
  bd_RepoID :: string
  bd_RepoOwner :: string
  bd_RepoName :: string
  bd_Recipient :: string
  bd_Reason :: string
  bd_AwardedBy :: string
  bd_AwardedAt :: u64

record RepoLocator =
  loc_Owner :: string
  loc_Name :: string

type_synonym BackendKind = string

definition BackendEVM :: BackendKind where
  "BackendEVM = ''evm''"

record ResolvedRepo =
  rr_RepoID :: bytes
  rr_Backend :: BackendKind
  rr_Requested :: RepoLocator
  rr_Canonical :: RepoLocator
  rr_IsCanonical :: bool
  rr_Info :: RepoInfo

datatype registry_error =
    DirectoryMissing
  | VerifyFailed SuiteVerificationError
  | NoModule string
  | UnknownModule string
  | ABIFailed string
  | ContractCall call_error
  | BlockFailed chain_error
  | EncodeCall string string string
  | SendFailed tx_error
  | BadAddress address_error
  | BadAddressAt nat address_error
  | BadValue value_error
  | Malformed string
  | CursorStuck string u64
  | InvalidRepository
  | RepoMoved bytes string string
  | SignerMissing
  | SignerError string
  | RefMissing string
  | RepoNil
  | WrongBackend
  | InvalidReport
  | InvalidBadge
  | MissingArtifact
  | InvalidDigest string
  | InfoNil
  | DirectoryMismatch string string

section \<open>Decoded tuples\<close>

record suiteRepositoryABI =
  re_Id :: bytes
  re_Owner :: bytes
  re_Name :: string
  re_Description :: string
  re_DefaultBranch :: string
  re_ForkedFrom :: bytes
  re_CreatedAt :: u64
  re_UpdatedAt :: u64
  re_Exists :: bool

record suiteRefABI =
  rf_CommitSha :: string
  rf_PackUris :: "string list"
  rf_UpdatedAt :: u64
  rf_UpdatedBy :: bytes
  rf_Exists :: bool

record suitePendingTransferABI =
  pt_NewOwner :: bytes
  pt_ExecuteAfter :: u64
  pt_ExpiresAt :: u64

record suiteGuardianConfigABI =
  gc_ConfiguredBy :: bytes
  gc_Threshold :: u8
  gc_Guardians :: "bytes list"

record suiteRecoveryProposalABI =
  rv_ProposedBy :: bytes
  rv_NewOwner :: bytes
  rv_ExecuteAfter :: u64
  rv_ExpiresAt :: u64
  rv_Nonce :: u64
  rv_Approvals :: u8

record suiteSplitABI =
  ss_Recipient :: bytes
  ss_Bps :: u16

record suiteUsernameABI =
  un_Owner :: bytes
  un_RegisteredAt :: u64

record suiteBadgeABI =
  ba_Id :: int
  ba_RepoId :: bytes
  ba_Recipient :: bytes
  ba_AwardedBy :: bytes
  ba_Reason :: string
  ba_AwardedAt :: u64
  ba_Exists :: bool

record suiteReleaseABI =
  rl_Version :: string
  rl_Platform :: string
  rl_Sha256 :: bytes
  rl_RegisteredBy :: bytes
  rl_RegisteredAt :: u64
  rl_Exists :: bool

record suiteReportABI =
  rt_Id :: int
  rt_RepoId :: bytes
  rt_Reporter :: bytes
  rt_Status :: u8
  rt_Resolution :: u8
  rt_ReasonHash :: string
  rt_CreatedAt :: u64
  rt_UpdatedAt :: u64
  rt_Exists :: bool

record suiteTrailABI =
  tl_Action :: u8
  tl_Actor :: bytes
  tl_Status :: u8
  tl_ReasonHash :: string
  tl_Timestamp :: u64

fun as_string :: "abi_value \<Rightarrow> string option" where
  "as_string (V_string s) = Some s" | "as_string _ = None"

fun as_bool :: "abi_value \<Rightarrow> bool option" where
  "as_bool (V_bool b) = Some b" | "as_bool _ = None"

fun all_of :: "('a \<Rightarrow> 'b option) \<Rightarrow> 'a list \<Rightarrow> 'b list option" where
  "all_of f [] = Some []"
| "all_of f (x # xs) = (case f x of None \<Rightarrow> None | Some y \<Rightarrow> map_option ((#) y) (all_of f xs))"

fun as_slice :: "(abi_value \<Rightarrow> 'a option) \<Rightarrow> abi_value \<Rightarrow> 'a list option" where
  "as_slice f (V_slice vs) = all_of f vs" | "as_slice f _ = None"

definition as_repository :: "abi_value \<Rightarrow> suiteRepositoryABI option" where
  "as_repository v = (case v of
     V_tuple [V_bytes32 i, V_address ow, V_string n, V_string d, V_string b, V_bytes32 f, V_uint64 c, V_uint64 u, V_bool e] \<Rightarrow>
       Some \<lparr>re_Id = i, re_Owner = ow, re_Name = n, re_Description = d, re_DefaultBranch = b, re_ForkedFrom = f,
         re_CreatedAt = c, re_UpdatedAt = u, re_Exists = e\<rparr>
   | _ \<Rightarrow> None)"

definition as_ref :: "abi_value \<Rightarrow> suiteRefABI option" where
  "as_ref v = (case v of
     V_tuple [V_string sha, uris, V_uint64 u, V_address by, V_bool e] \<Rightarrow>
       map_option (\<lambda>us. \<lparr>rf_CommitSha = sha, rf_PackUris = us, rf_UpdatedAt = u, rf_UpdatedBy = by, rf_Exists = e\<rparr>)
         (as_slice as_string uris)
   | _ \<Rightarrow> None)"

definition as_transfer :: "abi_value \<Rightarrow> suitePendingTransferABI option" where
  "as_transfer v = (case v of
     V_tuple [V_address n, V_uint64 a, V_uint64 e] \<Rightarrow> Some \<lparr>pt_NewOwner = n, pt_ExecuteAfter = a, pt_ExpiresAt = e\<rparr>
   | _ \<Rightarrow> None)"

definition as_guardians :: "abi_value \<Rightarrow> suiteGuardianConfigABI option" where
  "as_guardians v = (case v of
     V_tuple [V_address c, V_uint8 t, gs] \<Rightarrow>
       map_option (\<lambda>as. \<lparr>gc_ConfiguredBy = c, gc_Threshold = t, gc_Guardians = as\<rparr>) (as_slice as_address gs)
   | _ \<Rightarrow> None)"

definition as_proposal :: "abi_value \<Rightarrow> suiteRecoveryProposalABI option" where
  "as_proposal v = (case v of
     V_tuple [V_address p, V_address n, V_uint64 a, V_uint64 e, V_uint64 k, V_uint8 c] \<Rightarrow>
       Some \<lparr>rv_ProposedBy = p, rv_NewOwner = n, rv_ExecuteAfter = a, rv_ExpiresAt = e, rv_Nonce = k, rv_Approvals = c\<rparr>
   | _ \<Rightarrow> None)"

definition as_split :: "abi_value \<Rightarrow> suiteSplitABI option" where
  "as_split v = (case v of V_tuple [V_address r, V_uint16 b] \<Rightarrow> Some \<lparr>ss_Recipient = r, ss_Bps = b\<rparr> | _ \<Rightarrow> None)"

definition as_username :: "abi_value \<Rightarrow> suiteUsernameABI option" where
  "as_username v = (case v of V_tuple [V_address ow, V_uint64 t] \<Rightarrow> Some \<lparr>un_Owner = ow, un_RegisteredAt = t\<rparr> | _ \<Rightarrow> None)"

definition as_badge :: "abi_value \<Rightarrow> suiteBadgeABI option" where
  "as_badge v = (case v of
     V_tuple [V_big i, V_bytes32 r, V_address c, V_address b, V_string s, V_uint64 t, V_bool e] \<Rightarrow>
       Some \<lparr>ba_Id = i, ba_RepoId = r, ba_Recipient = c, ba_AwardedBy = b, ba_Reason = s, ba_AwardedAt = t, ba_Exists = e\<rparr>
   | _ \<Rightarrow> None)"

definition as_release :: "abi_value \<Rightarrow> suiteReleaseABI option" where
  "as_release v = (case v of
     V_tuple [V_string n, V_string p, V_bytes32 h, V_address b, V_uint64 t, V_bool e] \<Rightarrow>
       Some \<lparr>rl_Version = n, rl_Platform = p, rl_Sha256 = h, rl_RegisteredBy = b, rl_RegisteredAt = t, rl_Exists = e\<rparr>
   | _ \<Rightarrow> None)"

definition as_report :: "abi_value \<Rightarrow> suiteReportABI option" where
  "as_report v = (case v of
     V_tuple [V_big i, V_bytes32 r, V_address p, V_uint8 s, V_uint8 k, V_string h, V_uint64 c, V_uint64 u, V_bool e] \<Rightarrow>
       Some \<lparr>rt_Id = i, rt_RepoId = r, rt_Reporter = p, rt_Status = s, rt_Resolution = k, rt_ReasonHash = h,
         rt_CreatedAt = c, rt_UpdatedAt = u, rt_Exists = e\<rparr>
   | _ \<Rightarrow> None)"

definition as_trail :: "abi_value \<Rightarrow> suiteTrailABI option" where
  "as_trail v = (case v of
     V_tuple [V_uint8 a, V_address b, V_uint8 s, V_string h, V_uint64 t] \<Rightarrow>
       Some \<lparr>tl_Action = a, tl_Actor = b, tl_Status = s, tl_ReasonHash = h, tl_Timestamp = t\<rparr>
   | _ \<Rightarrow> None)"

definition suiteTuple :: "(abi_value \<Rightarrow> 'a option) \<Rightarrow> string \<Rightarrow> abi_value \<Rightarrow> registry_error + 'a" where
  "suiteTuple as label v = (case as v of Some x \<Rightarrow> Inr x | None \<Rightarrow> Inl (Malformed label))"

definition suiteTupleSlice :: "(abi_value \<Rightarrow> 'a option) \<Rightarrow> string \<Rightarrow> abi_value \<Rightarrow> registry_error + 'a list" where
  "suiteTupleSlice as label v = (case as_slice as v of Some x \<Rightarrow> Inr x | None \<Rightarrow> Inl (Malformed label))"

definition suiteBigUint64 :: "abi_value \<Rightarrow> string \<Rightarrow> registry_error + u64" where
  "suiteBigUint64 v label =
    (case v of V_big n \<Rightarrow> if is_uint64 n then Inr (word_of_int n) else Inl (Malformed label) | _ \<Rightarrow> Inl (Malformed label))"

definition suiteRepoID :: "bytes \<Rightarrow> bytes" where
  "suiteRepoID v = v"

section \<open>The client\<close>

record EVMSuiteRegistry =
  sr_cfg :: Config
  sr_signer :: "EVMSigner option"
  sr_transactor :: EVMTransactor
  sr_directory :: string

record suite_state =
  st_tx :: tx_state
  st_info :: "SuiteInfo option"

type_synonym 'a query = "(suite_state, registry_error, 'a) proc"

type_synonym command = "(suite_state, registry_error, unit) oproc"

definition NewEVMSuiteRegistryWithDependencies ::
  "(nat \<Rightarrow> nat) \<Rightarrow> Config \<Rightarrow> rpc_client option \<Rightarrow> EVMSigner option \<Rightarrow> EVMSuiteRegistry \<times> suite_state" where
  "NewEVMSuiteRegistryWithDependencies lr cfg rpc signer =
    (\<lparr>sr_cfg = cfg, sr_signer = signer, sr_transactor = newEVMTransactor cfg True signer,
       sr_directory = EffectiveEVMSuiteDirectoryAddress lr cfg\<rparr>,
     \<lparr>st_tx = \<lparr>ts_rpc = (case rpc of Some c \<Rightarrow> c | None \<Rightarrow> NewEVMRPC (EffectiveEVMRPC lr cfg)),
        ts_nonces = newEVMNonceManager, ts_signed = []\<rparr>,
      st_info = None\<rparr>)"

definition NewEVMSuiteRegistry :: "(nat \<Rightarrow> nat) \<Rightarrow> Config \<Rightarrow> EVMSigner option \<Rightarrow> EVMSuiteRegistry \<times> suite_state" where
  "NewEVMSuiteRegistry lr cfg signer =
     NewEVMSuiteRegistryWithDependencies lr cfg (Some (NewEVMRPC (EffectiveEVMRPC lr cfg))) signer"

definition via_rpc :: "('e \<Rightarrow> registry_error) \<Rightarrow> (rpc_client, 'e, 'a) proc \<Rightarrow> 'a query" where
  \<comment> \<open>a call on the transport of the client\<close>
  "via_rpc f m = (\<lambda>s. case m (ts_rpc (st_tx s)) of (r, c) \<Rightarrow> (map_err f r, s\<lparr>st_tx := (st_tx s)\<lparr>ts_rpc := c\<rparr>\<rparr>))"

definition remember :: "SuiteInfo \<Rightarrow> suite_state \<Rightarrow> suite_state" where
  "remember info s = s\<lparr>st_info := Some info\<rparr>"

definition ensureVerified :: "chain_env \<Rightarrow> EVMSuiteRegistry \<Rightarrow> SuiteInfo query" where
  "ensureVerified env g =
     bind_p (get_p st_info) (\<lambda>cached.
     case cached of
       Some info \<Rightarrow> ret_p info
     | None \<Rightarrow>
        bind_p (guard_p (trim_space (sr_directory g) = '''') DirectoryMissing) (\<lambda>_.
        bind_p (via_rpc VerifyFailed
          (VerifySuite env (sr_directory g) (EffectiveEVMChainID (lower_table (the_net env)) (sr_cfg g)))) (\<lambda>info.
        bind_p (put_p (remember info)) (\<lambda>_. ret_p info))))"

definition SuiteInfo_copy :: "chain_env \<Rightarrow> EVMSuiteRegistry \<Rightarrow> SuiteInfo query" where
  \<comment> \<open>the method \<^verbatim>\<open>SuiteInfo\<close>\<close>
  "SuiteInfo_copy env g = ensureVerified env g"

definition suite_module :: "chain_env \<Rightarrow> EVMSuiteRegistry \<Rightarrow> string \<Rightarrow> (string \<times> contract_abi) query" where
  \<comment> \<open>the method \<^verbatim>\<open>module\<close>\<close>
  "suite_module env g name =
     bind_p (ensureVerified env g) (\<lambda>info.
     bind_p (guard_p (ModuleAddress info name = '''') (NoModule name)) (\<lambda>_.
     case find (\<lambda>required. sm_Name required = name) (RequiredSuiteModules env) of
       Some required \<Rightarrow> bind_p (lift_p (map_err ABIFailed (loadSuiteABI env (sm_ABI required)))) (\<lambda>abi.
         ret_p (ModuleAddress info name, abi))
     | None \<Rightarrow> fail_p (UnknownModule name)))"

definition snapshotBlockTag :: "chain_env \<Rightarrow> EVMSuiteRegistry \<Rightarrow> string query" where
  "snapshotBlockTag env g =
     bind_p (ensureVerified env g) (\<lambda>_.
     bind_p (via_rpc (\<lambda>e. BlockFailed (wrapEVMRPCError env e)) (BlockNumber (the_net env))) (\<lambda>block.
     ret_p (block_text block)))"

definition callAt ::
  "chain_env \<Rightarrow> EVMSuiteRegistry \<Rightarrow> string \<Rightarrow> string \<Rightarrow> string \<Rightarrow> abi_value list \<Rightarrow> abi_value list query" where
  "callAt env g module blockTag meth arguments =
     bind_p (suite_module env g module) (\<lambda>(address, abi).
     via_rpc ContractCall (suiteCall env address blockTag abi meth arguments))"

definition transactor_send :: "chain_env \<Rightarrow> EVMSuiteRegistry \<Rightarrow> string \<Rightarrow> bytes \<Rightarrow> string \<Rightarrow> command" where
  "transactor_send env g address data val = (\<lambda>s.
     case Send env (sr_transactor g) address data val (st_tx s) of
       None \<Rightarrow> None
     | Some (Inl (e, _), t) \<Rightarrow> Some (Inl (SendFailed e), s\<lparr>st_tx := t\<rparr>)
     | Some (Inr _, t) \<Rightarrow> Some (Inr (), s\<lparr>st_tx := t\<rparr>))"

definition suite_send :: "chain_env \<Rightarrow> EVMSuiteRegistry \<Rightarrow> string \<Rightarrow> string \<Rightarrow> string \<Rightarrow> abi_value list \<Rightarrow> command" where
  \<comment> \<open>the method \<^verbatim>\<open>send\<close>\<close>
  "suite_send env g module meth val arguments =
     bind_o (run_p (suite_module env g module)) (\<lambda>(address, abi).
     bind_o (run_p (lift_p (map_err (EncodeCall module meth) (abi_Pack abi meth arguments)))) (\<lambda>data.
     transactor_send env g address data val))"

section \<open>Repositories\<close>

definition exactly :: "nat \<Rightarrow> string \<Rightarrow> abi_value list \<Rightarrow> (suite_state, registry_error, unit) proc" where
  \<comment> \<open>the checks on the number of the values returned\<close>
  "exactly n label vals = guard_p (length vals \<noteq> n) (Malformed label)"

definition read_one ::
  "chain_env \<Rightarrow> EVMSuiteRegistry \<Rightarrow> string \<Rightarrow> string \<Rightarrow> string \<Rightarrow> abi_value list \<Rightarrow> (abi_value \<Rightarrow> 'a option) \<Rightarrow> 'a query" where
  \<comment> \<open>a call that returns one value of one type\<close>
  "read_one env g module blockTag meth arguments as =
     bind_p (callAt env g module blockTag meth arguments) (\<lambda>vals.
     bind_p (exactly 1 meth vals) (\<lambda>_.
     lift_p (suiteTuple as meth (vals ! 0))))"

definition value_result :: "value_error + 'a \<Rightarrow> 'a query" where
  "value_result r = lift_p (map_err BadValue r)"

definition suiteUserAddress :: "chain_env \<Rightarrow> bytes \<Rightarrow> string query" where
  "suiteUserAddress env address =
     lift_p (map_err BadAddress (userAddressFromEVM (lower_table (the_net env)) (Address_Hex (the_geth env) address)))"

definition account_bytes :: "chain_env \<Rightarrow> string \<Rightarrow> bytes query" where
  \<comment> \<open>\<^verbatim>\<open>normalizeEVMAddress\<close>, then \<^verbatim>\<open>common.HexToAddress\<close>\<close>
  "account_bytes env account =
     bind_p (lift_p (map_err BadAddress (normalizeEVMAddress (lower_table (the_net env)) account))) (\<lambda>normalized.
     ret_p (HexToAddress (the_geth env) normalized))"

definition moderationStatusAt :: "chain_env \<Rightarrow> EVMSuiteRegistry \<Rightarrow> bytes \<Rightarrow> string \<Rightarrow> string query" where
  "moderationStatusAt env g repoID blockTag =
     bind_p (read_one env g ''moderation'' blockTag ''effectiveStatus'' [V_bytes32 repoID] as_uint8) (\<lambda>status.
     value_result (moderationStatusName (ucast status)))"

definition repoInfoAt :: "chain_env \<Rightarrow> EVMSuiteRegistry \<Rightarrow> suiteRepositoryABI \<Rightarrow> string \<Rightarrow> RepoInfo query" where
  "repoInfoAt env g repository blockTag =
     bind_p (suiteUserAddress env (re_Owner repository)) (\<lambda>owner.
     bind_p (moderationStatusAt env g (re_Id repository) blockTag) (\<lambda>status.
     ret_p \<lparr>rp_Owner = owner, rp_Name = re_Name repository, rp_Description = re_Description repository,
       rp_DefaultBranch = re_DefaultBranch repository, rp_CreatedAt = re_CreatedAt repository,
       rp_UpdatedAt = re_UpdatedAt repository, rp_ModerationStatus = status\<rparr>))"

definition resolveRepoAt :: "chain_env \<Rightarrow> EVMSuiteRegistry \<Rightarrow> string \<Rightarrow> string \<Rightarrow> string \<Rightarrow> ResolvedRepo query" where
  "resolveRepoAt env g owner name blockTag =
     bind_p (account_bytes env owner) (\<lambda>account.
     bind_p (callAt env g ''core'' blockTag ''resolveRepository'' [V_address account, V_string name]) (\<lambda>vals.
     bind_p (exactly 2 ''resolveRepository'' vals) (\<lambda>_.
     bind_p (lift_p (suiteTuple as_repository ''resolveRepository'' (vals ! 0))) (\<lambda>repository.
     case as_bool (vals ! 1) of
       None \<Rightarrow> fail_p InvalidRepository
     | Some canonical \<Rightarrow>
        bind_p (guard_p (\<not> re_Exists repository) InvalidRepository) (\<lambda>_.
        bind_p (repoInfoAt env g repository blockTag) (\<lambda>info.
        ret_p \<lparr>rr_RepoID = suiteRepoID (re_Id repository), rr_Backend = BackendEVM,
          rr_Requested = \<lparr>loc_Owner = owner, loc_Name = name\<rparr>,
          rr_Canonical = \<lparr>loc_Owner = rp_Owner info, loc_Name = re_Name repository\<rparr>,
          rr_IsCanonical = canonical, rr_Info = info\<rparr>))))))"

definition ResolveRepo :: "chain_env \<Rightarrow> EVMSuiteRegistry \<Rightarrow> string \<Rightarrow> string \<Rightarrow> ResolvedRepo query" where
  "ResolveRepo env g owner repo =
     bind_p (snapshotBlockTag env g) (\<lambda>blockTag. resolveRepoAt env g owner repo blockTag)"

definition repoForWrite :: "chain_env \<Rightarrow> EVMSuiteRegistry \<Rightarrow> string \<Rightarrow> string \<Rightarrow> ResolvedRepo query" where
  "repoForWrite env g owner repo =
     bind_p (resolveRepoAt env g owner repo ''latest'') (\<lambda>resolved.
     bind_p (guard_p (\<not> rr_IsCanonical resolved)
       (RepoMoved (rr_RepoID resolved) (loc_Owner (rr_Canonical resolved)) (loc_Name (rr_Canonical resolved)))) (\<lambda>_.
     ret_p resolved))"

definition signerRepo :: "chain_env \<Rightarrow> EVMSuiteRegistry \<Rightarrow> string \<Rightarrow> ResolvedRepo query" where
  "signerRepo env g repo =
    (case sr_signer g of
       None \<Rightarrow> fail_p SignerMissing
     | Some signer \<Rightarrow>
        bind_p (lift_p (map_err SignerError (OwnerAddress signer))) (\<lambda>owner. repoForWrite env g owner repo))"

section \<open>Writes\<close>

definition write_repo ::
  "chain_env \<Rightarrow> EVMSuiteRegistry \<Rightarrow> string \<Rightarrow> string \<Rightarrow> (ResolvedRepo \<Rightarrow> command) \<Rightarrow> command" where
  \<comment> \<open>the common prefix of the writes that name an owner\<close>
  "write_repo env g owner repo k = bind_o (run_p (repoForWrite env g owner repo)) k"

definition write_own :: "chain_env \<Rightarrow> EVMSuiteRegistry \<Rightarrow> string \<Rightarrow> (ResolvedRepo \<Rightarrow> command) \<Rightarrow> command" where
  "write_own env g repo k = bind_o (run_p (signerRepo env g repo)) k"

definition CreateRepo :: "chain_env \<Rightarrow> EVMSuiteRegistry \<Rightarrow> string \<Rightarrow> string \<Rightarrow> string \<Rightarrow> command" where
  "CreateRepo env g name description defaultBranch =
     suite_send env g ''core'' ''createRepository'' '''' [V_string name, V_string description, V_string defaultBranch]"

definition ForkRepo :: "chain_env \<Rightarrow> EVMSuiteRegistry \<Rightarrow> string \<Rightarrow> string \<Rightarrow> string \<Rightarrow> command" where
  "ForkRepo env g owner repo newName =
     write_repo env g owner repo (\<lambda>resolved.
     let newName = (if trim_space newName = '''' then loc_Name (rr_Canonical resolved) else newName) in
     suite_send env g ''core'' ''forkRepository'' '''' [V_bytes32 (rr_RepoID resolved), V_string newName])"

definition UpdateRepoInfo :: "chain_env \<Rightarrow> EVMSuiteRegistry \<Rightarrow> string \<Rightarrow> string option \<Rightarrow> string option \<Rightarrow> command" where
  "UpdateRepoInfo env g repo description defaultBranch =
     write_own env g repo (\<lambda>resolved.
     let descriptionValue = (case description of Some d \<Rightarrow> d | None \<Rightarrow> '''');
         branchValue = (case defaultBranch of Some b \<Rightarrow> b | None \<Rightarrow> '''') in
     suite_send env g ''core'' ''updateMetadata'' '''' [V_bytes32 (rr_RepoID resolved),
       V_bool (description \<noteq> None), V_string descriptionValue, V_bool (defaultBranch \<noteq> None), V_string branchValue])"

definition UpdateRef ::
  "chain_env \<Rightarrow> EVMSuiteRegistry \<Rightarrow> string \<Rightarrow> string \<Rightarrow> string \<Rightarrow> string \<Rightarrow> string list \<Rightarrow> string \<Rightarrow> bool \<Rightarrow> command" where
  "UpdateRef env g owner repo refName commitSHA packURIs expectedSHA force =
     write_repo env g owner repo (\<lambda>resolved.
     suite_send env g ''core'' ''updateRef'' '''' [V_bytes32 (rr_RepoID resolved), V_string refName, V_string commitSHA,
       V_slice (map V_string packURIs), V_string expectedSHA, V_bool force])"

definition DeleteRef :: "chain_env \<Rightarrow> EVMSuiteRegistry \<Rightarrow> string \<Rightarrow> string \<Rightarrow> string \<Rightarrow> command" where
  "DeleteRef env g owner repo refName =
     write_repo env g owner repo (\<lambda>resolved.
     suite_send env g ''core'' ''deleteRef'' '''' [V_bytes32 (rr_RepoID resolved), V_string refName])"

definition SetCollaborator :: "chain_env \<Rightarrow> EVMSuiteRegistry \<Rightarrow> string \<Rightarrow> string \<Rightarrow> string \<Rightarrow> string \<Rightarrow> command" where
  "SetCollaborator env g owner repo collaborator role =
     write_repo env g owner repo (\<lambda>resolved.
     bind_o (run_p (account_bytes env collaborator)) (\<lambda>account.
     bind_o (run_p (value_result (collaboratorRoleValue (lower_table (the_net env)) role))) (\<lambda>roleValue.
     suite_send env g ''core'' ''setCollaborator'' '''' [V_bytes32 (rr_RepoID resolved), V_address account, V_uint8 (ucast roleValue)])))"

definition RegisterUsername :: "chain_env \<Rightarrow> EVMSuiteRegistry \<Rightarrow> string \<Rightarrow> command" where
  "RegisterUsername env g name = suite_send env g ''username'' ''registerUsername'' '''' [V_string name]"

definition ClaimOriginalUsername :: "chain_env \<Rightarrow> EVMSuiteRegistry \<Rightarrow> string \<Rightarrow> command" where
  "ClaimOriginalUsername env g name = suite_send env g ''username'' ''claimOriginalUsername'' '''' [V_string name]"

definition ReleaseUsername :: "chain_env \<Rightarrow> EVMSuiteRegistry \<Rightarrow> command" where
  "ReleaseUsername env g = suite_send env g ''username'' ''releaseUsername'' '''' []"

definition requireSuiteResolvedRepo :: "ResolvedRepo option \<Rightarrow> bool \<Rightarrow> registry_error + ResolvedRepo" where
  "requireSuiteResolvedRepo repo canonical =
    (case repo of
       None \<Rightarrow> Inl RepoNil
     | Some r \<Rightarrow>
        if rr_Backend r \<noteq> BackendEVM then Inl WrongBackend
        else if canonical \<and> \<not> rr_IsCanonical r
          then Inl (RepoMoved (rr_RepoID r) (loc_Owner (rr_Canonical r)) (loc_Name (rr_Canonical r)))
        else Inr r)"

definition BeginOwnershipTransfer :: "chain_env \<Rightarrow> EVMSuiteRegistry \<Rightarrow> ResolvedRepo option \<Rightarrow> string \<Rightarrow> command" where
  "BeginOwnershipTransfer env g repo newOwner =
     bind_o (run_p (lift_p (requireSuiteResolvedRepo repo True))) (\<lambda>r.
     bind_o (run_p (account_bytes env newOwner)) (\<lambda>address.
     suite_send env g ''core'' ''beginOwnershipTransfer'' '''' [V_bytes32 (rr_RepoID r), V_address address]))"

definition CancelOwnershipTransfer :: "chain_env \<Rightarrow> EVMSuiteRegistry \<Rightarrow> ResolvedRepo option \<Rightarrow> command" where
  "CancelOwnershipTransfer env g repo =
     bind_o (run_p (lift_p (requireSuiteResolvedRepo repo True))) (\<lambda>r.
     suite_send env g ''core'' ''cancelOwnershipTransfer'' '''' [V_bytes32 (rr_RepoID r)])"

definition RejectOwnershipTransfer :: "chain_env \<Rightarrow> EVMSuiteRegistry \<Rightarrow> ResolvedRepo option \<Rightarrow> command" where
  "RejectOwnershipTransfer env g repo = CancelOwnershipTransfer env g repo"

definition ExpireOwnershipTransfer :: "chain_env \<Rightarrow> EVMSuiteRegistry \<Rightarrow> ResolvedRepo option \<Rightarrow> command" where
  "ExpireOwnershipTransfer env g repo =
     bind_o (run_p (lift_p (requireSuiteResolvedRepo repo False))) (\<lambda>r.
     suite_send env g ''core'' ''expireOwnershipTransfer'' '''' [V_bytes32 (rr_RepoID r)])"

definition AcceptOwnership :: "chain_env \<Rightarrow> EVMSuiteRegistry \<Rightarrow> ResolvedRepo option \<Rightarrow> command" where
  "AcceptOwnership env g repo =
     bind_o (run_p (lift_p (requireSuiteResolvedRepo repo False))) (\<lambda>r.
     suite_send env g ''core'' ''acceptOwnershipTransfer'' '''' [V_bytes32 (rr_RepoID r)])"

fun accounts_from :: "chain_env \<Rightarrow> nat \<Rightarrow> string list \<Rightarrow> registry_error + bytes list" where
  \<comment> \<open>the loops over guardians and over split recipients; the index is part of the error\<close>
  "accounts_from env i [] = Inr []"
| "accounts_from env i (a # as) =
     bind_res (map_err (BadAddressAt i) (normalizeEVMAddress (lower_table (the_net env)) a)) (\<lambda>normalized.
     bind_res (accounts_from env (i + 1) as) (\<lambda>rest. Inr (HexToAddress (the_geth env) normalized # rest)))"

definition SetGuardians :: "chain_env \<Rightarrow> EVMSuiteRegistry \<Rightarrow> string \<Rightarrow> string list \<Rightarrow> u8 \<Rightarrow> command" where
  "SetGuardians env g repo guardians threshold =
     write_own env g repo (\<lambda>resolved.
     bind_o (run_p (lift_p (accounts_from env 0 guardians))) (\<lambda>addresses.
     suite_send env g ''recovery'' ''setGuardians'' ''''
       [V_bytes32 (rr_RepoID resolved), V_slice (map V_address addresses), V_uint8 threshold]))"

definition ProposeRecovery :: "chain_env \<Rightarrow> EVMSuiteRegistry \<Rightarrow> string \<Rightarrow> string \<Rightarrow> string \<Rightarrow> command" where
  "ProposeRecovery env g owner repo newOwner =
     write_repo env g owner repo (\<lambda>resolved.
     bind_o (run_p (account_bytes env newOwner)) (\<lambda>address.
     suite_send env g ''recovery'' ''proposeRecovery'' '''' [V_bytes32 (rr_RepoID resolved), V_address address]))"

definition ApproveRecovery :: "chain_env \<Rightarrow> EVMSuiteRegistry \<Rightarrow> string \<Rightarrow> string \<Rightarrow> command" where
  "ApproveRecovery env g owner repo =
     write_repo env g owner repo (\<lambda>resolved.
     suite_send env g ''recovery'' ''approveRecovery'' '''' [V_bytes32 (rr_RepoID resolved)])"

definition CancelRecovery :: "chain_env \<Rightarrow> EVMSuiteRegistry \<Rightarrow> string \<Rightarrow> command" where
  "CancelRecovery env g repo =
     write_own env g repo (\<lambda>resolved.
     suite_send env g ''recovery'' ''cancelRecovery'' '''' [V_bytes32 (rr_RepoID resolved)])"

definition AcceptRecovery :: "chain_env \<Rightarrow> EVMSuiteRegistry \<Rightarrow> string \<Rightarrow> string \<Rightarrow> command" where
  "AcceptRecovery env g owner repo =
     write_repo env g owner repo (\<lambda>resolved.
     suite_send env g ''recovery'' ''executeRecovery'' '''' [V_bytes32 (rr_RepoID resolved)])"

definition SetModerationStatus :: "chain_env \<Rightarrow> EVMSuiteRegistry \<Rightarrow> string \<Rightarrow> string \<Rightarrow> string \<Rightarrow> string \<Rightarrow> command" where
  "SetModerationStatus env g owner repo status reasonHash =
     write_repo env g owner repo (\<lambda>resolved.
     bind_o (run_p (value_result (moderationStatusCode (lower_table (the_net env)) status))) (\<lambda>code.
     suite_send env g ''moderation'' ''setRepositoryStatus'' ''''
       [V_bytes32 (rr_RepoID resolved), V_uint8 (ucast code), V_string reasonHash]))"

definition SubmitModerationReport :: "chain_env \<Rightarrow> EVMSuiteRegistry \<Rightarrow> string \<Rightarrow> string \<Rightarrow> string \<Rightarrow> command" where
  "SubmitModerationReport env g owner repo reasonHash =
     write_repo env g owner repo (\<lambda>resolved.
     suite_send env g ''moderation'' ''submitReport'' '''' [V_bytes32 (rr_RepoID resolved), V_string reasonHash])"

definition sendModerationDecision :: "chain_env \<Rightarrow> EVMSuiteRegistry \<Rightarrow> string \<Rightarrow> u64 \<Rightarrow> string \<Rightarrow> string \<Rightarrow> command" where
  "sendModerationDecision env g meth report status reasonHash =
     bind_o (run_p (value_result (moderationStatusCode (lower_table (the_net env)) status))) (\<lambda>code.
     suite_send env g ''moderation'' meth '''' [V_big (uint report), V_uint8 (ucast code), V_string reasonHash])"

definition ResolveModerationReport :: "chain_env \<Rightarrow> EVMSuiteRegistry \<Rightarrow> u64 \<Rightarrow> string \<Rightarrow> string \<Rightarrow> command" where
  "ResolveModerationReport env g = sendModerationDecision env g ''resolveReport''"

definition ResolveModerationAppeal :: "chain_env \<Rightarrow> EVMSuiteRegistry \<Rightarrow> u64 \<Rightarrow> string \<Rightarrow> string \<Rightarrow> command" where
  "ResolveModerationAppeal env g = sendModerationDecision env g ''resolveAppeal''"

definition AppealModerationReport :: "chain_env \<Rightarrow> EVMSuiteRegistry \<Rightarrow> u64 \<Rightarrow> string \<Rightarrow> command" where
  "AppealModerationReport env g report reasonHash =
     suite_send env g ''moderation'' ''appealReport'' '''' [V_big (uint report), V_string reasonHash]"

definition Sponsor :: "chain_env \<Rightarrow> EVMSuiteRegistry \<Rightarrow> string \<Rightarrow> string \<Rightarrow> string \<Rightarrow> string \<Rightarrow> command" where
  "Sponsor env g owner repo message amount =
     write_repo env g owner repo (\<lambda>resolved.
     bind_o (run_p (value_result (evmINJValue amount))) (\<lambda>val.
     suite_send env g ''economic'' ''sponsor'' val [V_bytes32 (rr_RepoID resolved), V_string message]))"

definition SetRevenueSplits :: "chain_env \<Rightarrow> EVMSuiteRegistry \<Rightarrow> string \<Rightarrow> string \<Rightarrow> SplitEntry list \<Rightarrow> command" where
  "SetRevenueSplits env g owner repo splits =
     write_repo env g owner repo (\<lambda>resolved.
     bind_o (run_p (lift_p (accounts_from env 0 (map sp_Address splits)))) (\<lambda>recipients.
     suite_send env g ''economic'' ''setRevenueSplits'' '''' [V_bytes32 (rr_RepoID resolved),
       V_slice (map V_address recipients), V_slice (map (\<lambda>s. V_uint16 (sp_Bps s)) splits)]))"

definition AwardBadge :: "chain_env \<Rightarrow> EVMSuiteRegistry \<Rightarrow> string \<Rightarrow> string \<Rightarrow> string \<Rightarrow> string \<Rightarrow> command" where
  "AwardBadge env g owner repo recipient reason =
     write_repo env g owner repo (\<lambda>resolved.
     bind_o (run_p (account_bytes env recipient)) (\<lambda>address.
     suite_send env g ''badge'' ''awardBadge'' '''' [V_bytes32 (rr_RepoID resolved), V_address address, V_string reason]))"

definition release_digest :: "chain_env \<Rightarrow> ReleaseArtifact \<Rightarrow> registry_error + bytes" where
  "release_digest env artifact =
    (case hex_decode (trim_prefix ''0x'' (ToLower (lower_table (the_net env)) (trim_space (ra_SHA256 artifact)))) of
       None \<Rightarrow> Inl (InvalidDigest (ra_Platform artifact))
     | Some digest \<Rightarrow> if length digest \<noteq> 32 then Inl (InvalidDigest (ra_Platform artifact)) else Inr digest)"

definition RegisterRelease :: "chain_env \<Rightarrow> EVMSuiteRegistry \<Rightarrow> string \<Rightarrow> ReleaseArtifact list \<Rightarrow> command" where
  "RegisterRelease env g version artifacts =
     for_o (\<lambda>artifact.
       bind_o (run_p (lift_p (release_digest env artifact))) (\<lambda>fixed.
       suite_send env g ''release'' ''registerArtifact'' '''' [V_string version, V_string (ra_Platform artifact), V_bytes32 fixed]))
     artifacts"

end
