(* ===== verification/Suite_Queries.thy ===== *)
theory Suite_Queries
  imports Suite_Registry
begin

text \<open>
  The reads of the suite client in \<^verbatim>\<open>cli/internal/chain/evm_suite_registry.go\<close>. Every read but
  the one that precedes a write takes one block number first and uses it throughout. Lists are read
  in pages of 64; the loop ends with a short page, and fails when the cursor does not advance.
\<close>

section \<open>Paging\<close>

definition suiteQueryPageSize :: u64 where
  "suiteQueryPageSize = 64"

definition page_args :: "u64 \<Rightarrow> abi_value list" where
  "page_args cursor = [V_big (uint cursor), V_big (uint suiteQueryPageSize)]"

lemma cursor_progress: "\<not> n \<le> c \<Longrightarrow> 2 ^ 64 - unat n < 2 ^ 64 - unat c" for n c :: u64
  using unsigned_less[of n, where 'a = nat] by (simp add: word_le_nat_alt)

function page_loop ::
  "string \<Rightarrow> (u64 \<Rightarrow> 'b \<Rightarrow> ('s, registry_error, nat \<times> u64 \<times> 'b) proc) \<Rightarrow> u64 \<Rightarrow> 'b \<Rightarrow> 's \<Rightarrow> (registry_error + 'b) \<times> 's" where
  \<comment> \<open>the loop the list methods share: the body reads a page at the cursor and adds it to the result, and
    returns the length of the page and the next cursor\<close>
  "page_loop label body cursor acc s =
    (case body cursor acc s of
       (Inl e, s) \<Rightarrow> (Inl e, s)
     | (Inr (n, next_cursor, acc), s) \<Rightarrow>
        if n = 0 \<or> n < unat suiteQueryPageSize then (Inr acc, s)
        else if next_cursor \<le> cursor then (Inl (CursorStuck label cursor), s)
        else page_loop label body next_cursor acc s)"
  by pat_completeness auto
termination
  by (relation "measure (\<lambda>(_, _, cursor, _, _). 2 ^ 64 - unat cursor)") (simp_all add: cursor_progress del: power_numeral)

declare page_loop.simps [simp del]

section \<open>Core\<close>

definition repos_page ::
  "chain_env \<Rightarrow> EVMSuiteRegistry \<Rightarrow> string \<Rightarrow> bytes \<Rightarrow> u64 \<Rightarrow> RepoInfo list \<Rightarrow> (nat \<times> u64 \<times> RepoInfo list) query" where
  \<comment> \<open>the body of the loop of \<^verbatim>\<open>ListRepos\<close>\<close>
  "repos_page env g blockTag account cursor result =
     bind_p (callAt env g ''core'' blockTag ''listRepositoriesPage'' (V_address account # page_args cursor)) (\<lambda>vals.
     bind_p (exactly 2 ''listRepositoriesPage'' vals) (\<lambda>_.
     bind_p (lift_p (suiteTupleSlice as_repository ''listRepositoriesPage'' (vals ! 0))) (\<lambda>page.
     bind_p (lift_p (suiteBigUint64 (vals ! 1) ''listRepositoriesPage next cursor'')) (\<lambda>next_cursor.
     bind_p (for_p (\<lambda>repository result. bind_p (repoInfoAt env g repository blockTag) (\<lambda>info. ret_p (result @ [info]))) page result) (\<lambda>result.
     ret_p (length page, next_cursor, result))))))"

definition ListRepos :: "chain_env \<Rightarrow> EVMSuiteRegistry \<Rightarrow> string \<Rightarrow> RepoInfo list query" where
  "ListRepos env g owner =
     bind_p (snapshotBlockTag env g) (\<lambda>blockTag.
     bind_p (account_bytes env owner) (\<lambda>account.
     page_loop ''repository'' (repos_page env g blockTag account) 0 []))"

definition RepoInfo_of :: "chain_env \<Rightarrow> EVMSuiteRegistry \<Rightarrow> string \<Rightarrow> string \<Rightarrow> RepoInfo query" where
  \<comment> \<open>the method \<^verbatim>\<open>RepoInfo\<close>\<close>
  "RepoInfo_of env g owner repo = bind_p (ResolveRepo env g owner repo) (\<lambda>resolved. ret_p (rr_Info resolved))"

definition suiteRefInfo :: "chain_env \<Rightarrow> string \<Rightarrow> suiteRefABI \<Rightarrow> RefInfo query" where
  "suiteRefInfo env name reference =
     bind_p (suiteUserAddress env (rf_UpdatedBy reference)) (\<lambda>updatedBy.
     ret_p \<lparr>ri_RefName = name, ri_CommitSha = rf_CommitSha reference, ri_PackURIs = rf_PackUris reference,
       ri_UpdatedAt = rf_UpdatedAt reference, ri_UpdatedBy = updatedBy\<rparr>)"

definition at_snapshot ::
  "chain_env \<Rightarrow> EVMSuiteRegistry \<Rightarrow> string \<Rightarrow> string \<Rightarrow> (string \<Rightarrow> ResolvedRepo \<Rightarrow> 'a query) \<Rightarrow> 'a query" where
  \<comment> \<open>the common prefix of the reads of one repository: a block, and the repository at that block\<close>
  "at_snapshot env g owner repo k =
     bind_p (snapshotBlockTag env g) (\<lambda>blockTag.
     bind_p (resolveRepoAt env g owner repo blockTag) (\<lambda>resolved. k blockTag resolved))"

definition refs_page ::
  "chain_env \<Rightarrow> EVMSuiteRegistry \<Rightarrow> string \<Rightarrow> bytes \<Rightarrow> u64 \<Rightarrow> RefInfo list \<Rightarrow> (nat \<times> u64 \<times> RefInfo list) query" where
  \<comment> \<open>the body of the loop of \<^verbatim>\<open>ListRefs\<close>\<close>
  "refs_page env g blockTag repoID cursor result =
     bind_p (callAt env g ''core'' blockTag ''listRefsPage'' (V_bytes32 repoID # page_args cursor)) (\<lambda>vals.
     bind_p (exactly 3 ''listRefsPage'' vals) (\<lambda>_.
     bind_p (lift_p (suiteTupleSlice as_string ''listRefsPage names'' (vals ! 0))) (\<lambda>names.
     bind_p (lift_p (suiteTupleSlice as_ref ''listRefsPage'' (vals ! 1))) (\<lambda>refs.
     bind_p (guard_p (length names \<noteq> length refs) (Malformed ''listRefsPage'')) (\<lambda>_.
     bind_p (lift_p (suiteBigUint64 (vals ! 2) ''listRefsPage next cursor'')) (\<lambda>next_cursor.
     bind_p (for_p (\<lambda>(name, reference) result. bind_p (suiteRefInfo env name reference) (\<lambda>info. ret_p (result @ [info])))
       (zip names refs) result) (\<lambda>result.
     ret_p (length refs, next_cursor, result))))))))"

definition ListRefs :: "chain_env \<Rightarrow> EVMSuiteRegistry \<Rightarrow> string \<Rightarrow> string \<Rightarrow> RefInfo list query" where
  "ListRefs env g owner repo =
     at_snapshot env g owner repo (\<lambda>blockTag resolved.
     page_loop ''ref'' (refs_page env g blockTag (rr_RepoID resolved)) 0 [])"

definition ResolveRef :: "chain_env \<Rightarrow> EVMSuiteRegistry \<Rightarrow> string \<Rightarrow> string \<Rightarrow> string \<Rightarrow> (string \<times> string list) query" where
  "ResolveRef env g owner repo refName =
     at_snapshot env g owner repo (\<lambda>blockTag resolved.
     bind_p (read_one env g ''core'' blockTag ''getRef'' [V_bytes32 (rr_RepoID resolved), V_string refName] as_ref) (\<lambda>reference.
     bind_p (guard_p (\<not> rf_Exists reference) (RefMissing refName)) (\<lambda>_.
     ret_p (rf_CommitSha reference, rf_PackUris reference))))"

definition collaborators_page ::
  "chain_env \<Rightarrow> EVMSuiteRegistry \<Rightarrow> string \<Rightarrow> bytes \<Rightarrow> u64 \<Rightarrow> CollaboratorInfo list \<Rightarrow> (nat \<times> u64 \<times> CollaboratorInfo list) query" where
  \<comment> \<open>the body of the loop of \<^verbatim>\<open>ListCollaborators\<close>\<close>
  "collaborators_page env g blockTag repoID cursor result =
     bind_p (callAt env g ''core'' blockTag ''listCollaboratorsPage'' (V_bytes32 repoID # page_args cursor)) (\<lambda>vals.
     bind_p (exactly 3 ''listCollaboratorsPage'' vals) (\<lambda>_.
     bind_p (lift_p (suiteTupleSlice as_address ''listCollaboratorsPage accounts'' (vals ! 0))) (\<lambda>accounts.
     bind_p (lift_p (suiteTupleSlice as_uint8 ''listCollaboratorsPage'' (vals ! 1))) (\<lambda>roles.
     bind_p (guard_p (length accounts \<noteq> length roles) (Malformed ''listCollaboratorsPage'')) (\<lambda>_.
     bind_p (lift_p (suiteBigUint64 (vals ! 2) ''listCollaboratorsPage next cursor'')) (\<lambda>next_cursor.
     bind_p (for_p (\<lambda>(account, role) result.
         bind_p (suiteUserAddress env account) (\<lambda>address.
         bind_p (value_result (collaboratorRoleName (ucast role))) (\<lambda>roleName.
         ret_p (result @ [\<lparr>ci_Address = address, ci_Role = roleName\<rparr>]))))
       (zip accounts roles) result) (\<lambda>result.
     ret_p (length accounts, next_cursor, result))))))))"

definition ListCollaborators :: "chain_env \<Rightarrow> EVMSuiteRegistry \<Rightarrow> string \<Rightarrow> string \<Rightarrow> CollaboratorInfo list query" where
  "ListCollaborators env g owner repo =
     at_snapshot env g owner repo (\<lambda>blockTag resolved.
     page_loop ''collaborator'' (collaborators_page env g blockTag (rr_RepoID resolved)) 0 [])"

definition ResolveUsername :: "chain_env \<Rightarrow> EVMSuiteRegistry \<Rightarrow> string \<Rightarrow> string query" where
  "ResolveUsername env g name =
     bind_p (snapshotBlockTag env g) (\<lambda>blockTag.
     bind_p (read_one env g ''username'' blockTag ''resolveUsername'' [V_string name] as_username) (\<lambda>entry.
     suiteUserAddress env (un_Owner entry)))"

definition AddressUsername :: "chain_env \<Rightarrow> EVMSuiteRegistry \<Rightarrow> string \<Rightarrow> string query" where
  "AddressUsername env g address =
     bind_p (snapshotBlockTag env g) (\<lambda>blockTag.
     bind_p (account_bytes env address) (\<lambda>account.
     read_one env g ''username'' blockTag ''usernameOf'' [V_address account] as_string))"

section \<open>Ownership\<close>

definition proposed_at :: "u64 \<Rightarrow> u64" where
  \<comment> \<open>the delay of seven days before a transfer or a recovery may run\<close>
  "proposed_at executeAfter = (if executeAfter \<ge> 7 * 24 * 60 * 60 then executeAfter - 7 * 24 * 60 * 60 else 0)"

definition pendingOwnershipTransferAt ::
  "chain_env \<Rightarrow> EVMSuiteRegistry \<Rightarrow> bytes \<Rightarrow> string \<Rightarrow> OwnershipTransferInfo option query" where
  "pendingOwnershipTransferAt env g repoID blockTag =
     bind_p (read_one env g ''core'' blockTag ''pendingOwnershipTransfer'' [V_bytes32 repoID] as_transfer) (\<lambda>pending.
     if pt_NewOwner pending = zero_address then ret_p None
     else bind_p (suiteUserAddress env (pt_NewOwner pending)) (\<lambda>newOwner.
       ret_p (Some \<lparr>ot_NewOwner = newOwner, ot_ProposedAt = proposed_at (pt_ExecuteAfter pending),
         ot_ExecuteAfter = pt_ExecuteAfter pending, ot_ExpiresAt = pt_ExpiresAt pending\<rparr>)))"

definition PendingOwnershipTransfer ::
  "chain_env \<Rightarrow> EVMSuiteRegistry \<Rightarrow> ResolvedRepo option \<Rightarrow> OwnershipTransferInfo option query" where
  "PendingOwnershipTransfer env g repo =
     bind_p (lift_p (requireSuiteResolvedRepo repo False)) (\<lambda>r.
     bind_p (snapshotBlockTag env g) (\<lambda>blockTag. pendingOwnershipTransferAt env g (rr_RepoID r) blockTag))"

definition approvals_of ::
  "chain_env \<Rightarrow> EVMSuiteRegistry \<Rightarrow> bytes \<Rightarrow> string \<Rightarrow> u64 \<Rightarrow> (bytes \<times> string) list \<Rightarrow> string list query" where
  \<comment> \<open>the guardians, with the text of their addresses, who approved the proposal\<close>
  "approvals_of env g repoID blockTag nonce guardians =
     for_p (\<lambda>(guardian, address) approvals.
       bind_p (callAt env g ''recovery'' blockTag ''hasApproved'' [V_bytes32 repoID, V_uint64 nonce, V_address guardian]) (\<lambda>vals.
       ret_p (if length vals = 1 \<and> as_bool (vals ! 0) = Some True then approvals @ [address] else approvals)))
     guardians []"

definition recovery_info ::
  "chain_env \<Rightarrow> EVMSuiteRegistry \<Rightarrow> bytes \<Rightarrow> string \<Rightarrow> suiteRecoveryProposalABI \<Rightarrow> (bytes \<times> string) list \<Rightarrow> RecoveryProposalInfo option query" where
  "recovery_info env g repoID blockTag proposal guardians =
    (if rv_NewOwner proposal = zero_address then ret_p None
     else bind_p (suiteUserAddress env (rv_NewOwner proposal)) (\<lambda>newOwner.
       bind_p (approvals_of env g repoID blockTag (rv_Nonce proposal) guardians) (\<lambda>approvals.
       ret_p (Some \<lparr>pr_NewOwner = newOwner, pr_ProposedAt = proposed_at (rv_ExecuteAfter proposal),
         pr_ExecuteAfter = rv_ExecuteAfter proposal, pr_Approvals = approvals\<rparr>))))"

definition guardian_texts :: "chain_env \<Rightarrow> bytes list \<Rightarrow> string list query" where
  "guardian_texts env guardians =
     for_p (\<lambda>guardian texts. bind_p (suiteUserAddress env guardian) (\<lambda>address. ret_p (texts @ [address]))) guardians []"

definition OwnershipSecurity :: "chain_env \<Rightarrow> EVMSuiteRegistry \<Rightarrow> string \<Rightarrow> string \<Rightarrow> OwnershipSecurityInfo query" where
  "OwnershipSecurity env g owner repo =
     at_snapshot env g owner repo (\<lambda>blockTag resolved.
     bind_p (pendingOwnershipTransferAt env g (rr_RepoID resolved) blockTag) (\<lambda>transfer.
     bind_p (callAt env g ''recovery'' blockTag ''guardianConfig'' [V_bytes32 (rr_RepoID resolved)]) (\<lambda>configValues.
     bind_p (callAt env g ''recovery'' blockTag ''recoveryProposal'' [V_bytes32 (rr_RepoID resolved)]) (\<lambda>proposalValues.
     bind_p (guard_p (length configValues \<noteq> 1 \<or> length proposalValues \<noteq> 1) (Malformed ''recovery'')) (\<lambda>_.
     bind_p (lift_p (suiteTuple as_guardians ''guardianConfig'' (configValues ! 0))) (\<lambda>guardianConfig.
     bind_p (lift_p (suiteTuple as_proposal ''recoveryProposal'' (proposalValues ! 0))) (\<lambda>proposal.
     bind_p (guardian_texts env (gc_Guardians guardianConfig)) (\<lambda>guardians.
     bind_p (recovery_info env g (rr_RepoID resolved) blockTag proposal (zip (gc_Guardians guardianConfig) guardians)) (\<lambda>recovery.
     ret_p \<lparr>os_Transfer = transfer, os_Recovery = recovery, os_Guardians = guardians,
       os_GuardianThreshold = gc_Threshold guardianConfig\<rparr>)))))))))"

section \<open>Moderation\<close>

definition repositoryByIDAt :: "chain_env \<Rightarrow> EVMSuiteRegistry \<Rightarrow> bytes \<Rightarrow> string \<Rightarrow> suiteRepositoryABI query" where
  "repositoryByIDAt env g repoID blockTag = read_one env g ''core'' blockTag ''getRepository'' [V_bytes32 repoID] as_repository"

definition note_trail :: "suiteTrailABI \<Rightarrow> string option \<times> string option \<Rightarrow> string option \<times> string option" where
  "note_trail entry hashes =
    (if tl_Action entry = 1 \<or> tl_Action entry = 3 then (Some (tl_ReasonHash entry), snd hashes)
     else if tl_Action entry = 2 then (fst hashes, Some (tl_ReasonHash entry))
     else hashes)"

definition trail_page ::
  "chain_env \<Rightarrow> EVMSuiteRegistry \<Rightarrow> string \<Rightarrow> u64 \<Rightarrow> u64 \<Rightarrow> string option \<times> string option \<Rightarrow>
   (nat \<times> u64 \<times> string option \<times> string option) query" where
  \<comment> \<open>the body of the loop of \<^verbatim>\<open>reportReasonTrailAt\<close>\<close>
  "trail_page env g blockTag report cursor hashes =
     bind_p (callAt env g ''moderation'' blockTag ''listReportTrailPage'' (V_big (uint report) # page_args cursor)) (\<lambda>vals.
     bind_p (exactly 2 ''listReportTrailPage'' vals) (\<lambda>_.
     bind_p (lift_p (suiteTupleSlice as_trail ''listReportTrailPage'' (vals ! 0))) (\<lambda>page.
     bind_p (lift_p (suiteBigUint64 (vals ! 1) ''listReportTrailPage next cursor'')) (\<lambda>next_cursor.
     ret_p (length page, next_cursor, fold note_trail page hashes)))))"

definition reportReasonTrailAt :: "chain_env \<Rightarrow> EVMSuiteRegistry \<Rightarrow> u64 \<Rightarrow> string \<Rightarrow> (string option \<times> string option) query" where
  "reportReasonTrailAt env g report blockTag = page_loop ''report trail'' (trail_page env g blockTag report) 0 (None, None)"

definition ModerationReport :: "chain_env \<Rightarrow> EVMSuiteRegistry \<Rightarrow> u64 \<Rightarrow> ModerationReportInfo query" where
  "ModerationReport env g report_id =
     bind_p (snapshotBlockTag env g) (\<lambda>blockTag.
     bind_p (callAt env g ''moderation'' blockTag ''getReport'' [V_big (uint report_id)]) (\<lambda>vals.
     bind_p (exactly 1 ''getReport'' vals) (\<lambda>_.
     bind_p (lift_p (map_err (\<lambda>_. InvalidReport) (suiteTuple as_report ''getReport'' (vals ! 0)))) (\<lambda>report.
     bind_p (guard_p (\<not> rt_Exists report \<or> \<not> is_uint64 (rt_Id report)) InvalidReport) (\<lambda>_.
     bind_p (repositoryByIDAt env g (rt_RepoId report) blockTag) (\<lambda>repository.
     bind_p (suiteUserAddress env (re_Owner repository)) (\<lambda>owner.
     bind_p (suiteUserAddress env (rt_Reporter report)) (\<lambda>reporter.
     bind_p (value_result (reportStatusName (ucast (rt_Status report)))) (\<lambda>status.
     bind_p (if rt_Status report \<noteq> 0 then value_result (moderationStatusName (ucast (rt_Resolution report))) else ret_p '''') (\<lambda>resolution.
     bind_p (reportReasonTrailAt env g (word_of_int (rt_Id report)) blockTag) (\<lambda>(resolutionHash, appealHash).
     ret_p \<lparr>mr_ID = word_of_int (rt_Id report), mr_Owner = owner, mr_Repo = re_Name repository, mr_Reporter = reporter,
       mr_ReasonHash = rt_ReasonHash report, mr_Status = status, mr_Resolution = resolution, mr_ResolutionHash = resolutionHash,
       mr_AppealHash = appealHash, mr_CreatedAt = rt_CreatedAt report, mr_UpdatedAt = rt_UpdatedAt report\<rparr>)))))))))))"

section \<open>Economics, badges and releases\<close>

definition RevenueSplits :: "chain_env \<Rightarrow> EVMSuiteRegistry \<Rightarrow> string \<Rightarrow> string \<Rightarrow> SplitEntry list query" where
  "RevenueSplits env g owner repo =
     at_snapshot env g owner repo (\<lambda>blockTag resolved.
     bind_p (callAt env g ''economic'' blockTag ''revenueSplits'' [V_bytes32 (rr_RepoID resolved)]) (\<lambda>vals.
     bind_p (exactly 1 ''revenueSplits'' vals) (\<lambda>_.
     bind_p (lift_p (suiteTupleSlice as_split ''revenueSplits'' (vals ! 0))) (\<lambda>splits.
     for_p (\<lambda>split result. bind_p (suiteUserAddress env (ss_Recipient split)) (\<lambda>address.
       ret_p (result @ [\<lparr>sp_Address = address, sp_Bps = ss_Bps split\<rparr>]))) splits []))))"

definition big_text :: "int \<Rightarrow> string" where
  \<comment> \<open>\<^verbatim>\<open>big.Int.String\<close>\<close>
  "big_text n = (if n < 0 then ''-'' @ nat_text 10 (nat (- n)) else nat_text 10 (nat n))"

definition SponsorTotals :: "chain_env \<Rightarrow> EVMSuiteRegistry \<Rightarrow> string \<Rightarrow> string \<Rightarrow> Coin list query" where
  "SponsorTotals env g owner repo =
     at_snapshot env g owner repo (\<lambda>blockTag resolved.
     bind_p (callAt env g ''economic'' blockTag ''sponsorDenoms'' [V_bytes32 (rr_RepoID resolved)]) (\<lambda>vals.
     bind_p (exactly 1 ''sponsorDenoms'' vals) (\<lambda>_.
     bind_p (lift_p (suiteTupleSlice as_string ''sponsorDenoms'' (vals ! 0))) (\<lambda>denoms.
     for_p (\<lambda>denom result.
       bind_p (read_one env g ''economic'' blockTag ''sponsorTotal'' [V_bytes32 (rr_RepoID resolved), V_string denom] as_big) (\<lambda>total.
       ret_p (result @ [\<lparr>coin_Denom = denom, coin_Amount = big_text total\<rparr>]))) denoms []))))"

definition badge_repository ::
  "chain_env \<Rightarrow> EVMSuiteRegistry \<Rightarrow> string \<Rightarrow> bytes \<Rightarrow> (bytes \<times> suiteRepositoryABI) list \<Rightarrow>
   (suiteRepositoryABI \<times> (bytes \<times> suiteRepositoryABI) list) query" where
  \<comment> \<open>the map \<^verbatim>\<open>repositories\<close> saves a second read of the same repository\<close>
  "badge_repository env g blockTag repoID repositories =
    (case map_of repositories repoID of
       Some repository \<Rightarrow> ret_p (repository, repositories)
     | None \<Rightarrow> bind_p (repositoryByIDAt env g repoID blockTag) (\<lambda>repository.
         ret_p (repository, (repoID, repository) # repositories)))"

definition badge_entry ::
  "chain_env \<Rightarrow> EVMSuiteRegistry \<Rightarrow> string \<Rightarrow> suiteBadgeABI \<Rightarrow> Badge list \<times> (bytes \<times> suiteRepositoryABI) list \<Rightarrow>
   (Badge list \<times> (bytes \<times> suiteRepositoryABI) list) query" where
  "badge_entry env g blockTag badge acc =
     bind_p (guard_p (\<not> is_uint64 (ba_Id badge) \<or> \<not> ba_Exists badge) InvalidBadge) (\<lambda>_.
     bind_p (badge_repository env g blockTag (ba_RepoId badge) (snd acc)) (\<lambda>(repository, repositories).
     bind_p (suiteUserAddress env (re_Owner repository)) (\<lambda>owner.
     bind_p (suiteUserAddress env (ba_Recipient badge)) (\<lambda>recipient.
     bind_p (suiteUserAddress env (ba_AwardedBy badge)) (\<lambda>awardedBy.
     ret_p (fst acc @ [\<lparr>bd_ID = word_of_int (ba_Id badge),
       bd_RepoID = Hash_Hex (the_geth env) (BytesToHash (the_geth env) (ba_RepoId badge)), bd_RepoOwner = owner,
       bd_RepoName = re_Name repository, bd_Recipient = recipient, bd_Reason = ba_Reason badge, bd_AwardedBy = awardedBy,
       bd_AwardedAt = ba_AwardedAt badge\<rparr>], repositories))))))"

definition badges_page ::
  "chain_env \<Rightarrow> EVMSuiteRegistry \<Rightarrow> string \<Rightarrow> string \<Rightarrow> abi_value \<Rightarrow> u64 \<Rightarrow> Badge list \<times> (bytes \<times> suiteRepositoryABI) list \<Rightarrow>
   (nat \<times> u64 \<times> Badge list \<times> (bytes \<times> suiteRepositoryABI) list) query" where
  \<comment> \<open>the body of the loop of \<^verbatim>\<open>badgesPageAt\<close>\<close>
  "badges_page env g blockTag meth key cursor acc =
     bind_p (callAt env g ''badge'' blockTag meth (key # page_args cursor)) (\<lambda>vals.
     bind_p (exactly 2 meth vals) (\<lambda>_.
     bind_p (lift_p (suiteTupleSlice as_badge meth (vals ! 0))) (\<lambda>page.
     bind_p (lift_p (suiteBigUint64 (vals ! 1) (meth @ '' next cursor''))) (\<lambda>next_cursor.
     bind_p (for_p (badge_entry env g blockTag) page acc) (\<lambda>acc.
     ret_p (length page, next_cursor, acc))))))"

definition badgesPageAt :: "chain_env \<Rightarrow> EVMSuiteRegistry \<Rightarrow> string \<Rightarrow> string \<Rightarrow> abi_value \<Rightarrow> Badge list query" where
  "badgesPageAt env g blockTag meth key =
     bind_p (page_loop ''badge'' (badges_page env g blockTag meth key) 0 ([], [])) (\<lambda>(result, _). ret_p result)"

definition BadgesByRecipient :: "chain_env \<Rightarrow> EVMSuiteRegistry \<Rightarrow> string \<Rightarrow> Badge list query" where
  "BadgesByRecipient env g recipient =
     bind_p (account_bytes env recipient) (\<lambda>account.
     bind_p (snapshotBlockTag env g) (\<lambda>blockTag.
     badgesPageAt env g blockTag ''listBadgesByRecipientPage'' (V_address account)))"

definition BadgesByRepo :: "chain_env \<Rightarrow> EVMSuiteRegistry \<Rightarrow> string \<Rightarrow> string \<Rightarrow> Badge list query" where
  "BadgesByRepo env g owner repo =
     at_snapshot env g owner repo (\<lambda>blockTag resolved.
     badgesPageAt env g blockTag ''listBadgesByRepositoryPage'' (V_bytes32 (rr_RepoID resolved)))"

definition releases_page ::
  "chain_env \<Rightarrow> EVMSuiteRegistry \<Rightarrow> string \<Rightarrow> string \<Rightarrow> u64 \<Rightarrow> ReleaseArtifact list \<Rightarrow> (nat \<times> u64 \<times> ReleaseArtifact list) query" where
  \<comment> \<open>the body of the loop of \<^verbatim>\<open>ReleaseArtifacts\<close>\<close>
  "releases_page env g blockTag version cursor result =
     bind_p (callAt env g ''release'' blockTag ''listArtifactsPage'' (V_string version # page_args cursor)) (\<lambda>vals.
     bind_p (exactly 2 ''listArtifactsPage'' vals) (\<lambda>_.
     bind_p (lift_p (suiteTupleSlice as_release ''listArtifactsPage'' (vals ! 0))) (\<lambda>page.
     bind_p (lift_p (suiteBigUint64 (vals ! 1) ''listArtifactsPage next cursor'')) (\<lambda>next_cursor.
     bind_p (for_p (\<lambda>artifact result.
         bind_p (guard_p (\<not> rl_Exists artifact) MissingArtifact) (\<lambda>_.
         bind_p (suiteUserAddress env (rl_RegisteredBy artifact)) (\<lambda>registeredBy.
         ret_p (result @ [\<lparr>ra_Version = rl_Version artifact, ra_Platform = rl_Platform artifact,
           ra_SHA256 = hex_encode (rl_Sha256 artifact), ra_RegisteredBy = registeredBy, ra_RegisteredAt = rl_RegisteredAt artifact\<rparr>]))))
       page result) (\<lambda>result.
     ret_p (length page, next_cursor, result))))))"

definition ReleaseArtifacts :: "chain_env \<Rightarrow> EVMSuiteRegistry \<Rightarrow> string \<Rightarrow> ReleaseArtifact list query" where
  "ReleaseArtifacts env g version =
     bind_p (snapshotBlockTag env g) (\<lambda>blockTag.
     page_loop ''release'' (releases_page env g blockTag version) 0 [])"

definition FixedBlockRepository :: "chain_env \<Rightarrow> EVMSuiteRegistry \<Rightarrow> bytes \<Rightarrow> string \<Rightarrow> suiteRepositoryABI query" where
  "FixedBlockRepository env g repoID blockTag =
     bind_p (value_result (requireFixedEVMBlockTag blockTag)) (\<lambda>_. repositoryByIDAt env g repoID blockTag)"

end
