(* ===== verification/Suite_Verified.thy ===== *)
theory Suite_Verified
  imports Suite_Directory Rpc_Traffic
begin

text \<open>What a successful verification of a suite has established, and that it reads one block.\<close>

section \<open>Pinned reads\<close>

definition pinned :: "string \<Rightarrow> rpcRequest \<Rightarrow> bool" where
  "pinned tag q \<longleftrightarrow>
     req_Method q \<in> {''eth_chainId'', ''eth_blockNumber''} \<or>
     (req_Method q \<in> {''eth_getCode'', ''eth_call''} \<and> length (req_Params q) = 2 \<and> req_Params q ! 1 = PString tag)"

lemma block_text_nonblank: "trim_space (block_text n) \<noteq> ''''"
  unfolding block_text_def by (rule visible_nonblank) (use quantity_text_visible[of "unat n"] in simp_all)

lemma block_text_tag: "default_tag def (block_text n) = block_text n"
  using block_text_nonblank by (simp add: default_tag_def)

definition good_tag :: "string \<Rightarrow> bool" where
  "good_tag tag \<longleftrightarrow> (\<exists>n. tag = block_text n)"

lemma pinned_code [sends_rules]: "good_tag tag \<Longrightarrow> sends (pinned tag) (CodeAt net a tag)"
  unfolding CodeAt_def
  by (auto intro!: sends_rules sends_text simp: pinned_def calls_def good_tag_def block_text_tag)

lemma pinned_contract: "good_tag tag \<Longrightarrow> sends (pinned tag) (CallContractAt net a data tag)"
  unfolding CallContractAt_def
  by (auto intro!: sends_rules sends_text simp: pinned_def calls_def good_tag_def block_text_tag)

lemma pinned_call [sends_rules]: "good_tag tag \<Longrightarrow> sends (pinned tag) (suiteCall env a tag abi meth args)"
  unfolding suiteCall_def by (intro sends_rules pinned_contract)

lemma sends_option [sends_rules]: "(\<And>v. sends P (f v)) \<Longrightarrow> sends P g \<Longrightarrow> sends P (case x of Some v \<Rightarrow> f v | None \<Rightarrow> g)"
  by (cases x) simp_all

lemma pinned_typed [sends_rules]: "good_tag tag \<Longrightarrow> sends (pinned tag) (typed_read as env a tag abi meth args)"
  unfolding typed_read_def suiteSingleValue_def by (intro sends_rules)

lemma pinned_reads [sends_rules]:
  assumes "good_tag tag"
  shows "sends (pinned tag) (suiteAddressCall env a tag abi meth args)" "sends (pinned tag) (suiteHashCall env a tag abi meth args)"
    "sends (pinned tag) (suiteUint64Call env a tag abi meth args)" "sends (pinned tag) (suiteUint8Call env a tag abi meth args)"
    "sends (pinned tag) (suiteBigIntCall env a tag abi meth args)"
  unfolding suiteAddressCall_def suiteHashCall_def suiteUint64Call_def suiteUint8Call_def suiteBigIntCall_def
  by (intro sends_rules assms)+

lemma pinned_meta [sends_rules]: "sends (pinned tag) (ChainID net)" "sends (pinned tag) (BlockNumber net)"
  unfolding ChainID_def BlockNumber_def by (auto intro!: sends_text simp: pinned_def calls_def)

lemma sends_step [sends_rules]: "sends P m \<Longrightarrow> sends P (step check module cause m)"
  unfolding step_def by (rule sends_err)

lemma sends_require [sends_rules]: "sends P (require check module ok cause)"
  unfolding require_def by (rule sends_ret)

lemma sends_for [sends_rules]: "(\<And>x acc. sends P (f x acc)) \<Longrightarrow> sends P (for_p f xs acc)"
  by (induction xs arbitrary: acc) (auto intro!: sends_rules)

lemma pinned_coordinator: "good_tag (sh_tag h) \<Longrightarrow> sends (pinned (sh_tag h)) (verify_coordinator env h)"
  unfolding verify_coordinator_def Let_def by (intro sends_rules)

lemma pinned_module: "good_tag (sh_tag h) \<Longrightarrow> sends (pinned (sh_tag h)) (verify_module env h m ms)"
  unfolding verify_module_def Let_def by (intro sends_rules)

text \<open>The block number is read on the way: there is some block to which the whole computation keeps.\<close>

definition pins :: "('a \<Rightarrow> string \<Rightarrow> bool) \<Rightarrow> (rpc_client, 'e, 'a) proc \<Rightarrow> bool" where
  "pins Q m \<longleftrightarrow>
     (\<forall>r res t. m r = (res, t) \<longrightarrow> (\<exists>tag. good_tag tag \<and> grows (pinned tag) r t \<and> (\<forall>v. res = Inr v \<longrightarrow> Q v tag)))"

lemma pinsD:
  "pins Q m \<Longrightarrow> m r = (res, t) \<Longrightarrow> \<exists>tag. good_tag tag \<and> grows (pinned tag) r t \<and> (\<forall>v. res = Inr v \<longrightarrow> Q v tag)"
  unfolding pins_def by (elim allE impE) assumption

lemma pins_at:
  assumes "good_tag tag" "sends (pinned tag) m" "\<And>r v t. m r = (Inr v, t) \<Longrightarrow> Q v tag"
  shows "pins Q m"
  unfolding pins_def using assms sends_grows by metis

lemma pins_bind:
  assumes "\<And>tag. sends (pinned tag) m" "\<And>v. pins Q (f v)"
  shows "pins Q (bind_p m f)"
  unfolding pins_def
proof (intro allI impI)
  fix r res t
  assume b: "bind_p m f r = (res, t)"
  obtain x u where m: "m r = (x, u)" by fastforce
  have g: "grows (pinned tag) r u" for tag using assms(1) m by (rule sends_grows)
  show "\<exists>tag. good_tag tag \<and> grows (pinned tag) r t \<and> (\<forall>v. res = Inr v \<longrightarrow> Q v tag)"
  proof (cases x)
    case (Inl e)
    then have "res = Inl e" "t = u" using b m by (simp_all add: bind_p_def)
    then show ?thesis using g unfolding good_tag_def by blast
  next
    case (Inr v)
    then have f: "f v u = (res, t)" using b m by (simp add: bind_p_def)
    obtain tag where "good_tag tag" "grows (pinned tag) u t" "\<forall>v. res = Inr v \<longrightarrow> Q v tag"
      using pinsD[OF assms(2) f] by blast
    then show ?thesis using g grows_trans by metis
  qed
qed

lemma pins_then:
  assumes "pins Q m" "\<And>v tag. Q v tag \<Longrightarrow> good_tag tag \<Longrightarrow> sends (pinned tag) (f v)"
    "\<And>v tag r w t. Q v tag \<Longrightarrow> f v r = (Inr w, t) \<Longrightarrow> R w tag"
  shows "pins R (bind_p m f)"
  unfolding pins_def
proof (intro allI impI)
  fix r res t
  assume b: "bind_p m f r = (res, t)"
  obtain x u where m: "m r = (x, u)" by fastforce
  obtain tag where tag: "good_tag tag" "grows (pinned tag) r u" "\<forall>v. x = Inr v \<longrightarrow> Q v tag"
    using pinsD[OF assms(1) m] by blast
  show "\<exists>tag. good_tag tag \<and> grows (pinned tag) r t \<and> (\<forall>v. res = Inr v \<longrightarrow> R v tag)"
  proof (cases x)
    case (Inl e)
    then show ?thesis using b m tag by (auto simp: bind_p_def)
  next
    case (Inr v)
    then have f: "f v u = (res, t)" using b m by (simp add: bind_p_def)
    have "sends (pinned tag) (f v)" using assms(2)[of v tag] tag Inr by auto
    from sends_grows[OF this f] have g: "grows (pinned tag) u t" .
    have "R w tag" if "res = Inr w" for w
      using assms(3)[of v tag u w t] tag(3) Inr f that by simp
    then show ?thesis using tag(1) grows_trans[OF tag(2) g] by blast
  qed
qed

lemma step_ok [proc_ok]: "step check module cause m s = (Inr v, t) \<longleftrightarrow> m s = (Inr v, t)"
  by (simp add: step_def proc_ok)

lemma require_ok [proc_ok]: "require check module ok cause s = (Inr v, t) \<longleftrightarrow> ok \<and> t = s"
  by (simp add: require_def proc_ok)

lemma pinned_directory_at: "good_tag tag \<Longrightarrow> sends (pinned tag) (verify_directory_at env directory chainID tag)"
  unfolding verify_directory_at_def by (intro sends_rules)

lemma directory_at_tag: "verify_directory_at env directory chainID tag r = (Inr h, t) \<Longrightarrow> sh_tag h = tag"
  unfolding verify_directory_at_def by (auto simp: proc_ok)

lemma pinned_directory: "pins (\<lambda>h tag. sh_tag h = tag) (verify_directory env dir expected)"
  unfolding verify_directory_def
proof (intro pins_bind sends_rules)
  fix directory chainID blockNumber
  show "pins (\<lambda>h tag. sh_tag h = tag) (verify_directory_at env directory chainID (block_text blockNumber))"
  proof (rule pins_at)
    show g: "good_tag (block_text blockNumber)" by (auto simp: good_tag_def)
    show "sends (pinned (block_text blockNumber)) (verify_directory_at env directory chainID (block_text blockNumber))"
      by (rule pinned_directory_at[OF g])
  qed (rule directory_at_tag)
qed

lemma pinned_verify: "pins (\<lambda>info tag. si_BlockTag info = tag) (VerifySuite env dir expected)"
  unfolding VerifySuite_def
  by (rule pins_then[OF pinned_directory]) (auto intro!: sends_rules pinned_coordinator pinned_module simp: proc_ok)

section \<open>What success means\<close>

abbreviation any_request :: "rpcRequest \<Rightarrow> bool" where
  "any_request \<equiv> \<lambda>_. True"

definition seen :: "rpc_client \<times> rpc_client \<Rightarrow> (rpc_client, 'e, 'a) proc \<Rightarrow> 'a \<Rightarrow> bool" where
  \<comment> \<open>between the two states of the transport the computation ran and returned this value\<close>
  "seen w m v \<longleftrightarrow> (\<exists>r t. m r = (Inr v, t) \<and> grows any_request (fst w) r \<and> grows any_request t (snd w))"

lemma seen_wider: "seen (r, t) m v \<Longrightarrow> grows any_request s r \<Longrightarrow> grows any_request t f \<Longrightarrow> seen (s, f) m v"
  unfolding seen_def by (auto intro: grows_trans)

lemma seen_all: "m r = (Inr v, t) \<Longrightarrow> seen (r, t) m v"
  unfolding seen_def by (auto intro: grows_refl)

definition code_read :: "chain_env \<Rightarrow> rpc_client \<times> rpc_client \<Rightarrow> string \<Rightarrow> string \<Rightarrow> bytes \<Rightarrow> bool" where
  "code_read env w address tag code \<longleftrightarrow> seen w (CodeAt (the_net env) address tag) code"

definition answered ::
  "chain_env \<Rightarrow> rpc_client \<times> rpc_client \<Rightarrow> suiteABIName \<Rightarrow> string \<Rightarrow> string \<Rightarrow> string \<Rightarrow> abi_value list \<Rightarrow> abi_value \<Rightarrow> bool" where
  \<comment> \<open>in this run the node answered this value to a contract read at this block\<close>
  "answered env w name address tag meth args v \<longleftrightarrow>
     (\<exists>abi. loadSuiteABI env name = Inr abi \<and> seen w (suiteSingleValue env address tag abi meth args) v)"

definition hash_answered ::
  "chain_env \<Rightarrow> rpc_client \<times> rpc_client \<Rightarrow> suiteABIName \<Rightarrow> string \<Rightarrow> string \<Rightarrow> string \<Rightarrow> abi_value list \<Rightarrow> bytes \<Rightarrow> bool" where
  "hash_answered env w name address tag meth args h \<longleftrightarrow>
     (\<exists>b. answered env w name address tag meth args (V_bytes32 b) \<and> BytesToHash (the_geth env) b = h)"

lemma read_wider:
  assumes "grows any_request s r" "grows any_request t f"
  shows "code_read env (r, t) a tag c \<Longrightarrow> code_read env (s, f) a tag c"
    "answered env (r, t) name a tag meth args v \<Longrightarrow> answered env (s, f) name a tag meth args v"
    "hash_answered env (r, t) name a tag meth args h \<Longrightarrow> hash_answered env (s, f) name a tag meth args h"
  unfolding code_read_def hash_answered_def answered_def by (blast intro: seen_wider[OF _ assms])+

lemma typed_ok: "typed_read as env a tag abi meth args r = (Inr x, t) \<longleftrightarrow>
    (\<exists>v. suiteSingleValue env a tag abi meth args r = (Inr v, t) \<and> as v = Some x)"
  by (auto simp: typed_read_def proc_ok split: option.splits)

lemma as_simps [simp]:
  "as_address v = Some a \<longleftrightarrow> v = V_address a" "as_bytes32 v = Some b \<longleftrightarrow> v = V_bytes32 b" "as_uint64 v = Some n \<longleftrightarrow> v = V_uint64 n"
  "as_uint8 v = Some k \<longleftrightarrow> v = V_uint8 k" "as_big v = Some i \<longleftrightarrow> v = V_big i"
  by (cases v; simp)+

lemma any_code: "CodeAt net a tag r = (res, t) \<Longrightarrow> grows any_request r t"
  by (rule sends_grows[of _ "CodeAt net a tag"]) (auto simp: CodeAt_def intro!: sends_rules sends_text)

lemma any_typed: "typed_read as env a tag abi meth args r = (res, t) \<Longrightarrow> grows any_request r t"
  by (rule sends_grows[of _ "typed_read as env a tag abi meth args"])
    (auto simp: typed_read_def suiteSingleValue_def suiteCall_def CallContractAt_def intro!: sends_rules sends_text)

lemma address_read:
  assumes "suiteAddressCall env a tag abi meth args r = (Inr x, t)"
  shows "grows any_request r t" "loadSuiteABI env name = Inr abi \<Longrightarrow> answered env (r, t) name a tag meth args (V_address x)"
  using any_typed assms seen_all unfolding suiteAddressCall_def answered_def by (blast, auto simp: typed_ok)

lemma hash_read:
  assumes "suiteHashCall env a tag abi meth args r = (Inr x, t)"
  shows "grows any_request r t" "loadSuiteABI env name = Inr abi \<Longrightarrow> hash_answered env (r, t) name a tag meth args x"
proof -
  obtain b where b: "typed_read as_bytes32 env a tag abi meth args r = (Inr b, t)" "x = BytesToHash (the_geth env) b"
    using assms unfolding suiteHashCall_def by (auto simp: proc_ok)
  show "grows any_request r t" by (rule any_typed[OF b(1)])
  show "loadSuiteABI env name = Inr abi \<Longrightarrow> hash_answered env (r, t) name a tag meth args x"
    using b seen_all unfolding hash_answered_def answered_def by (fastforce simp: typed_ok)
qed

lemma code_reads: "CodeAt (the_net env) a tag r = (Inr c, t) \<Longrightarrow> code_read env (r, t) a tag c"
  unfolding code_read_def by (rule seen_all)

definition module_verified ::
  "chain_env \<Rightarrow> rpc_client \<times> rpc_client \<Rightarrow> string \<Rightarrow> bytes \<Rightarrow> string \<Rightarrow> SuiteModuleID \<Rightarrow> SuiteModuleInfo \<Rightarrow> bool" where
  "module_verified env w directory coordinator tag m info \<longleftrightarrow>
    (\<exists>address code.
       mi_Name info = sm_Name m \<and> mi_ID info = Hash_Hex (the_geth env) (sm_ID m) \<and> mi_Address info = Address_Hex (the_geth env) address \<and> address \<noteq> zero_address \<and>
       answered env w suiteABIDirectory directory tag ''moduleAddress'' [V_bytes32 (sm_ID m)] (V_address address) \<and>
       code \<noteq> [] \<and> code_read env w (mi_Address info) tag code \<and>
       hash_answered env w suiteABIDirectory directory tag ''moduleCodeHash'' [V_bytes32 (sm_ID m)] (Keccak256Hash (the_geth env) code) \<and>
       mi_CodeHash info = Hash_Hex (the_geth env) (Keccak256Hash (the_geth env) code) \<and>
       answered env w (sm_ABI m) (mi_Address info) tag ''suiteDirectory'' [] (V_address (HexToAddress (the_geth env) directory)) \<and>
       answered env w (sm_ABI m) (mi_Address info) tag ''bootstrapCoordinator'' [] (V_address coordinator) \<and>
       hash_answered env w (sm_ABI m) (mi_Address info) tag ''moduleId'' [] (sm_ID m))"

lemma module_wider:
  assumes "module_verified env (r, t) d c tag m info" "grows any_request s r" "grows any_request t f"
  shows "module_verified env (s, f) d c tag m info"
  using assms(1) unfolding module_verified_def by (blast intro: read_wider[OF assms(2,3)])

lemma verify_module_ok:
  assumes "verify_module env h m ms r = (Inr ms', t)" "loadSuiteABI env suiteABIDirectory = Inr (sh_abi h)"
  shows "\<exists>info. ms' = ms @ [info] \<and> module_verified env (r, t) (sh_directory h) (sh_coordinator h) (sh_tag h) m info"
    and "grows any_request r t"
proof -
  let ?g = "the_geth env"
  obtain address code abi r1 r2 r3 r4 r5 where
    a: "suiteAddressCall env (sh_directory h) (sh_tag h) (sh_abi h) ''moduleAddress'' [V_bytes32 (sm_ID m)] r = (Inr address, r1)" "address \<noteq> zero_address"
    and c: "suiteHashCall env (sh_directory h) (sh_tag h) (sh_abi h) ''moduleCodeHash'' [V_bytes32 (sm_ID m)] r1 = (Inr (Keccak256Hash ?g code), r2)"
      "CodeAt (the_net env) (Address_Hex ?g address) (sh_tag h) r2 = (Inr code, r3)" "code \<noteq> []"
    and l: "loadSuiteABI env (sm_ABI m) = Inr abi"
    and b: "suiteAddressCall env (Address_Hex ?g address) (sh_tag h) abi ''suiteDirectory'' [] r3 = (Inr (HexToAddress ?g (sh_directory h)), r4)"
      "suiteAddressCall env (Address_Hex ?g address) (sh_tag h) abi ''bootstrapCoordinator'' [] r4 = (Inr (sh_coordinator h), r5)"
      "suiteHashCall env (Address_Hex ?g address) (sh_tag h) abi ''moduleId'' [] r5 = (Inr (sm_ID m), t)"
    and ms: "ms' = ms @ [\<lparr>mi_Name = sm_Name m, mi_ID = Hash_Hex ?g (sm_ID m), mi_Address = Address_Hex ?g address,
       mi_CodeHash = Hash_Hex ?g (Keccak256Hash ?g code)\<rparr>]"
    using assms(1) unfolding verify_module_def Let_def by (simp only: proc_ok length_0_conv) auto
  let ?info = "\<lparr>mi_Name = sm_Name m, mi_ID = Hash_Hex ?g (sm_ID m), mi_Address = Address_Hex ?g address,
       mi_CodeHash = Hash_Hex ?g (Keccak256Hash ?g code)\<rparr>"
  note g = address_read(1)[OF a(1)] hash_read(1)[OF c(1)] any_code[OF c(2)] address_read(1)[OF b(1)] address_read(1)[OF b(2)]
    hash_read(1)[OF b(3)]
  have f: "grows any_request r r1" "grows any_request r r2" "grows any_request r r3" "grows any_request r r4" "grows any_request r r5"
    using g grows_trans by meson+
  have e: "grows any_request r5 t" "grows any_request r4 t" "grows any_request r3 t" "grows any_request r2 t" "grows any_request r1 t"
    using g grows_trans by meson+
  have "module_verified env (r, t) (sh_directory h) (sh_coordinator h) (sh_tag h) m ?info"
    unfolding module_verified_def
    using a(2) c(3) read_wider(2)[OF grows_refl e(5) address_read(2)[OF a(1) assms(2)]]
      read_wider(3)[OF f(1) e(4) hash_read(2)[OF c(1) assms(2)]] read_wider(1)[OF f(2) e(3) code_reads[OF c(2)]]
      read_wider(2)[OF f(3) e(2) address_read(2)[OF b(1) l]] read_wider(2)[OF f(4) e(1) address_read(2)[OF b(2) l]]
      read_wider(3)[OF f(5) grows_refl hash_read(2)[OF b(3) l]]
    by (intro exI[of _ address] exI[of _ code]) simp
  then show "\<exists>info. ms' = ms @ [info] \<and> module_verified env (r, t) (sh_directory h) (sh_coordinator h) (sh_tag h) m info"
    using ms by blast
  show "grows any_request r t" by (rule grows_trans[OF f(5) e(1)])
qed

lemma for_modules_ok:
  assumes "for_p (verify_module env h) ms acc r = (Inr infos, t)" "loadSuiteABI env suiteABIDirectory = Inr (sh_abi h)"
  shows "grows any_request r t \<and>
    (\<exists>new. infos = acc @ new \<and> list_all2 (module_verified env (r, t) (sh_directory h) (sh_coordinator h) (sh_tag h)) ms new)"
  using assms(1)
proof (induction ms arbitrary: acc r)
  case (Cons m ms)
  then obtain acc' r' where s: "verify_module env h m acc r = (Inr acc', r')" "for_p (verify_module env h) ms acc' r' = (Inr infos, t)"
    by (auto simp: proc_ok)
  note first = verify_module_ok[OF s(1) assms(2)] and rest = Cons.IH[OF s(2)]
  then obtain info new where "acc' = acc @ [info]" "infos = acc' @ new"
    and i: "module_verified env (r, r') (sh_directory h) (sh_coordinator h) (sh_tag h) m info"
    and n: "list_all2 (module_verified env (r', t) (sh_directory h) (sh_coordinator h) (sh_tag h)) ms new"
    by blast
  moreover have "module_verified env (r, t) (sh_directory h) (sh_coordinator h) (sh_tag h) m info"
    using module_wider[OF i grows_refl] rest by blast
  moreover have "list_all2 (module_verified env (r, t) (sh_directory h) (sh_coordinator h) (sh_tag h)) ms new"
    using list_all2_mono[OF n module_wider[OF _ first(2) grows_refl]] .
  ultimately show ?case using grows_trans first(2) rest by fastforce
qed (simp add: proc_ok grows_refl)

definition directory_verified :: "chain_env \<Rightarrow> rpc_client \<times> rpc_client \<Rightarrow> string \<Rightarrow> u64 \<Rightarrow> bytes \<Rightarrow> bytes \<Rightarrow> string \<Rightarrow> bool" where
  \<comment> \<open>the block was the head of the chain, there is code at the address, and these are its answers at that block\<close>
  "directory_verified env w directory chainID root coordinator tag \<longleftrightarrow>
     (\<exists>n. seen w (BlockNumber (the_net env)) n \<and> tag = block_text n) \<and> seen w (ChainID (the_net env)) chainID \<and>
     (\<exists>code. code \<noteq> [] \<and> code_read env w directory tag code) \<and>
     answered env w suiteABIDirectory directory tag ''suiteVersion'' [] (V_uint64 3) \<and>
     answered env w suiteABIDirectory directory tag ''configuredChainId'' [] (V_big (uint chainID)) \<and>
     answered env w suiteABIDirectory directory tag ''state'' [] (V_uint8 1) \<and>
     hash_answered env w suiteABIDirectory directory tag ''snapshotRoot'' [] root \<and> root \<noteq> zero_hash \<and>
     answered env w suiteABIDirectory directory tag ''bootstrapCoordinator'' [] (V_address coordinator) \<and> coordinator \<noteq> zero_address"

lemma directory_wider:
  assumes "directory_verified env (r, t) d n rt c tag" "grows any_request s r" "grows any_request t f"
  shows "directory_verified env (s, f) d n rt c tag"
  using assms(1) unfolding directory_verified_def by (blast intro: read_wider[OF assms(2,3)] seen_wider[OF _ assms(2,3)])

lemma uint64_exact: "is_uint64 n \<and> word_of_int n = (c :: u64) \<longleftrightarrow> n = uint c"
  using uint_lt2p[of c] by (auto simp: is_uint64_def uint_word_of_int take_bit_eq_mod)

lemma directory_at_ok:
  assumes "verify_directory_at env directory chainID tag r = (Inr h, t)"
  shows "\<exists>code abi root coordinator r1 r2 r3 r4 r5.
    loadSuiteABI env suiteABIDirectory = Inr abi \<and> code \<noteq> [] \<and> root \<noteq> zero_hash \<and> coordinator \<noteq> zero_address \<and>
    CodeAt (the_net env) directory tag r = (Inr code, r1) \<and>
    suiteUint64Call env directory tag abi ''suiteVersion'' [] r1 = (Inr 3, r2) \<and>
    suiteBigIntCall env directory tag abi ''configuredChainId'' [] r2 = (Inr (uint chainID), r3) \<and>
    suiteUint8Call env directory tag abi ''state'' [] r3 = (Inr 1, r4) \<and>
    suiteHashCall env directory tag abi ''snapshotRoot'' [] r4 = (Inr root, r5) \<and>
    suiteAddressCall env directory tag abi ''bootstrapCoordinator'' [] r5 = (Inr coordinator, t) \<and>
    h = \<lparr>sh_directory = directory, sh_version = 3, sh_chainID = chainID, sh_root = root, sh_coordinator = coordinator,
         sh_tag = tag, sh_abi = abi\<rparr>"
  using assms unfolding verify_directory_at_def SupportedSuiteVersion_def
  by (simp only: proc_ok uint64_exact length_0_conv not_False_eq_True) blast

lemma number_reads:
  assumes "loadSuiteABI env name = Inr abi"
  shows "suiteUint64Call env a tag abi meth args r = (Inr n, t) \<Longrightarrow> answered env (r, t) name a tag meth args (V_uint64 n)"
    "suiteUint8Call env a tag abi meth args r = (Inr k, t) \<Longrightarrow> answered env (r, t) name a tag meth args (V_uint8 k)"
    "suiteBigIntCall env a tag abi meth args r = (Inr i, t) \<Longrightarrow> answered env (r, t) name a tag meth args (V_big i)"
  using assms seen_all unfolding suiteUint64Call_def suiteUint8Call_def suiteBigIntCall_def typed_ok answered_def by auto

lemma directory_ok:
  assumes "verify_directory env dir expected r = (Inr h, t)"
  shows "sh_version h = 3 \<and> (expected = 0 \<or> sh_chainID h = expected) \<and>
    normalizeEVMAddress (lower_table (the_net env)) dir = Inr (sh_directory h) \<and> loadSuiteABI env suiteABIDirectory = Inr (sh_abi h) \<and>
    directory_verified env (r, t) (sh_directory h) (sh_chainID h) (sh_root h) (sh_coordinator h) (sh_tag h) \<and> grows any_request r t"
proof -
  obtain directory chainID n ra rb where d: "normalizeEVMAddress (lower_table (the_net env)) dir = Inr directory"
    "expected = 0 \<or> chainID = expected" "ChainID (the_net env) r = (Inr chainID, ra)" "BlockNumber (the_net env) ra = (Inr n, rb)"
    "verify_directory_at env directory chainID (block_text n) rb = (Inr h, t)"
    using assms unfolding verify_directory_def by (auto simp: proc_ok)
  obtain code abi root coordinator r1 r2 r3 r4 r5 where l: "loadSuiteABI env suiteABIDirectory = Inr abi"
    and p: "CodeAt (the_net env) directory (block_text n) rb = (Inr code, r1)" "code \<noteq> []"
    and v: "suiteUint64Call env directory (block_text n) abi ''suiteVersion'' [] r1 = (Inr 3, r2)"
      "suiteBigIntCall env directory (block_text n) abi ''configuredChainId'' [] r2 = (Inr (uint chainID), r3)"
      "suiteUint8Call env directory (block_text n) abi ''state'' [] r3 = (Inr 1, r4)"
    and rt: "suiteHashCall env directory (block_text n) abi ''snapshotRoot'' [] r4 = (Inr root, r5)" "root \<noteq> zero_hash"
    and c: "suiteAddressCall env directory (block_text n) abi ''bootstrapCoordinator'' [] r5 = (Inr coordinator, t)" "coordinator \<noteq> zero_address"
    and h: "h = \<lparr>sh_directory = directory, sh_version = 3, sh_chainID = chainID, sh_root = root,
       sh_coordinator = coordinator, sh_tag = block_text n, sh_abi = abi\<rparr>"
    using directory_at_ok[OF d(5)] by blast
  have "grows any_request r ra" "grows any_request ra rb"
    using sends_grows[OF sends_mono[OF pinned_meta(1)] d(3)] sends_grows[OF sends_mono[OF pinned_meta(2)] d(4)] by simp_all
  note g = this any_code[OF p(1)] any_typed[OF v(1)[unfolded suiteUint64Call_def]] any_typed[OF v(2)[unfolded suiteBigIntCall_def]]
    any_typed[OF v(3)[unfolded suiteUint8Call_def]] hash_read(1)[OF rt(1)] address_read(1)[OF c(1)]
  have f: "grows any_request r rb" "grows any_request r r1" "grows any_request r r2" "grows any_request r r3" "grows any_request r r4"
    "grows any_request r r5" "grows any_request r t"
    using g grows_trans by meson+
  have e: "grows any_request ra t" "grows any_request rb t" "grows any_request r1 t" "grows any_request r2 t" "grows any_request r3 t"
    "grows any_request r4 t" "grows any_request r5 t"
    using g grows_trans by meson+
  have "directory_verified env (r, t) directory chainID root coordinator (block_text n)"
    unfolding directory_verified_def
    using p(2) rt(2) c(2) read_wider(1)[OF f(1) e(3) code_reads[OF p(1)]] read_wider(2)[OF f(2) e(4) number_reads(1)[OF l v(1)]]
      read_wider(2)[OF f(3) e(5) number_reads(3)[OF l v(2)]] read_wider(2)[OF f(4) e(6) number_reads(2)[OF l v(3)]]
      read_wider(3)[OF f(5) e(7) hash_read(2)[OF rt(1) l]] read_wider(2)[OF f(6) grows_refl address_read(2)[OF c(1) l]]
      seen_wider[OF seen_all[of "BlockNumber (the_net env)", OF d(4)] g(1) e(2)]
      seen_wider[OF seen_all[of "ChainID (the_net env)", OF d(3)] grows_refl e(1)]
    by blast
  then show ?thesis using d(1,2) l f(7) by (simp add: h)
qed

definition coordinator_verified :: "chain_env \<Rightarrow> rpc_client \<times> rpc_client \<Rightarrow> string \<Rightarrow> bytes \<Rightarrow> bytes \<Rightarrow> string \<Rightarrow> bool" where
  "coordinator_verified env w directory root coordinator tag \<longleftrightarrow>
    (\<exists>code. code \<noteq> [] \<and> code_read env w (Address_Hex (the_geth env) coordinator) tag code \<and>
       hash_answered env w suiteABIDirectory directory tag ''bootstrapCoordinatorCodeHash'' [] (Keccak256Hash (the_geth env) code) \<and>
       answered env w suiteABICoordinator (Address_Hex (the_geth env) coordinator) tag ''suiteDirectory'' []
         (V_address (HexToAddress (the_geth env) directory)) \<and>
       hash_answered env w suiteABICoordinator (Address_Hex (the_geth env) coordinator) tag ''snapshotRoot'' [] root)"

lemma coordinator_wider:
  assumes "coordinator_verified env (r, t) d rt c tag" "grows any_request s r" "grows any_request t f"
  shows "coordinator_verified env (s, f) d rt c tag"
  using assms(1) unfolding coordinator_verified_def by (blast intro: read_wider[OF assms(2,3)])

lemma coordinator_ok:
  assumes "verify_coordinator env h r = (Inr u, t)" "loadSuiteABI env suiteABIDirectory = Inr (sh_abi h)"
  shows "coordinator_verified env (r, t) (sh_directory h) (sh_root h) (sh_coordinator h) (sh_tag h) \<and> grows any_request r t"
proof -
  let ?g = "the_geth env" and ?c = "Address_Hex (the_geth env) (sh_coordinator h)"
  obtain code abi r1 r2 r3 where
    c: "CodeAt (the_net env) ?c (sh_tag h) r = (Inr code, r1)" "code \<noteq> []"
      "suiteHashCall env (sh_directory h) (sh_tag h) (sh_abi h) ''bootstrapCoordinatorCodeHash'' [] r1 = (Inr (Keccak256Hash ?g code), r2)"
    and l: "loadSuiteABI env suiteABICoordinator = Inr abi"
    and b: "suiteAddressCall env ?c (sh_tag h) abi ''suiteDirectory'' [] r2 = (Inr (HexToAddress ?g (sh_directory h)), r3)"
      "suiteHashCall env ?c (sh_tag h) abi ''snapshotRoot'' [] r3 = (Inr (sh_root h), t)"
    using assms(1) unfolding verify_coordinator_def Let_def by (simp only: proc_ok length_0_conv) auto
  note g = any_code[OF c(1)] hash_read(1)[OF c(3)] address_read(1)[OF b(1)] hash_read(1)[OF b(2)]
  have w: "grows any_request r r2" "grows any_request r r3" "grows any_request r1 t" "grows any_request r2 t" "grows any_request r t"
    using g grows_trans by meson+
  show ?thesis
    unfolding coordinator_verified_def
    using c(2) w(5) read_wider(1)[OF grows_refl w(3) code_reads[OF c(1)]] read_wider(3)[OF g(1) w(4) hash_read(2)[OF c(3) assms(2)]]
      read_wider(2)[OF w(1) g(4) address_read(2)[OF b(1) l]] read_wider(3)[OF w(2) grows_refl hash_read(2)[OF b(2) l]]
    by blast
qed

text \<open>All that verification establishes, in one predicate over the answers of the run.\<close>

definition suite_evidence :: "chain_env \<Rightarrow> rpc_client \<times> rpc_client \<Rightarrow> string \<Rightarrow> u64 \<Rightarrow> SuiteInfo \<Rightarrow> bool" where
  "suite_evidence env w dir expected info \<longleftrightarrow>
     normalizeEVMAddress (lower_table (the_net env)) dir = Inr (si_Directory info) \<and>
     si_Version info = 3 \<and> si_State info = ''active'' \<and> (expected = 0 \<or> si_ChainID info = expected) \<and>
     (\<exists>root coordinator.
        si_SnapshotRoot info = Hash_Hex (the_geth env) root \<and> si_BootstrapCoordinator info = Address_Hex (the_geth env) coordinator \<and>
        directory_verified env w (si_Directory info) (si_ChainID info) root coordinator (si_BlockTag info) \<and>
        coordinator_verified env w (si_Directory info) root coordinator (si_BlockTag info) \<and>
        list_all2 (module_verified env w (si_Directory info) coordinator (si_BlockTag info)) (RequiredSuiteModules env) (si_Modules info))"

lemma verify_evidence:
  assumes "VerifySuite env dir expected r = (Inr info, t)"
  shows "suite_evidence env (r, t) dir expected info"
proof -
  obtain h r1 u r2 mods where v: "verify_directory env dir expected r = (Inr h, r1)" "verify_coordinator env h r1 = (Inr u, r2)"
    "for_p (verify_module env h) (RequiredSuiteModules env) [] r2 = (Inr mods, t)"
    and info: "info = \<lparr>si_Directory = sh_directory h, si_Version = sh_version h, si_ChainID = sh_chainID h, si_State = ''active'',
       si_SnapshotRoot = Hash_Hex (the_geth env) (sh_root h),
       si_BootstrapCoordinator = Address_Hex (the_geth env) (sh_coordinator h), si_BlockTag = sh_tag h, si_Modules = mods\<rparr>"
    using assms unfolding VerifySuite_def by (auto simp: proc_ok)
  note d = directory_ok[OF v(1)]
  then have l: "loadSuiteABI env suiteABIDirectory = Inr (sh_abi h)" by blast
  note c = coordinator_ok[OF v(2) l] and m = for_modules_ok[OF v(3) l]
  have g: "grows any_request r r1" "grows any_request r1 t" "grows any_request r2 t" "grows any_request r r2"
    using d c m grows_trans by meson+
  have ms: "list_all2 (module_verified env (r, t) (sh_directory h) (sh_coordinator h) (sh_tag h)) (RequiredSuiteModules env) mods"
    using m by (auto elim!: list_all2_mono intro: module_wider[OF _ g(4) grows_refl])
  show ?thesis
    unfolding suite_evidence_def info
    using d ms coordinator_wider[OF conjunct1[OF c] g(1,3)] directory_wider[OF _ grows_refl g(2)]
    by (simp, intro exI[of _ "sh_root h"] exI[of _ "sh_coordinator h"] conjI) auto
qed

end
