(* ===== verification/Suite_Reads.thy ===== *)
theory Suite_Reads
  imports Suite_Queries Suite_Verified
begin

text \<open>
  What the operations of the suite client do to its state. \<open>reads P info m\<close> says that, once the suite
  is verified as \<open>info\<close>, the computation only posts requests with \<open>P\<close>, signs nothing, reserves no
  nonce and keeps the verified suite; the rules follow the structure of the code.
\<close>

abbreviation rpc_of :: "suite_state \<Rightarrow> rpc_client" where
  "rpc_of s \<equiv> ts_rpc (st_tx s)"

definition only_reads :: "(rpcRequest \<Rightarrow> bool) \<Rightarrow> suite_state \<Rightarrow> suite_state \<Rightarrow> bool" where
  "only_reads P s t \<longleftrightarrow>
     st_info t = st_info s \<and> ts_signed (st_tx t) = ts_signed (st_tx s) \<and> ts_nonces (st_tx t) = ts_nonces (st_tx s) \<and>
     grows P (rpc_of s) (rpc_of t)"

lemma only_reads_refl: "only_reads P s s"
  by (simp add: only_reads_def grows_refl)

lemma only_reads_trans: "only_reads P s t \<Longrightarrow> only_reads P t u \<Longrightarrow> only_reads P s u"
  by (auto simp: only_reads_def intro: grows_trans)

definition reads :: "(rpcRequest \<Rightarrow> bool) \<Rightarrow> SuiteInfo \<Rightarrow> 'a query \<Rightarrow> bool" where
  "reads P info m \<longleftrightarrow> (\<forall>s. st_info s = Some info \<longrightarrow> only_reads P s (snd (m s)))"

lemma readsD: "reads P info m \<Longrightarrow> st_info s = Some info \<Longrightarrow> m s = (res, t) \<Longrightarrow> only_reads P s t \<and> st_info t = Some info"
  unfolding reads_def only_reads_def by (metis snd_conv)

named_theorems reads_rules

lemma reads_pure [reads_rules]:
  "reads P info (ret_p v)" "reads P info (fail_p e)" "reads P info (lift_p x)" "reads P info (guard_p b e)" "reads P info (get_p f)"
  by (simp_all add: reads_def ret_p_def fail_p_def lift_p_def guard_p_def get_p_def only_reads_refl)

lemma reads_bind [reads_rules]:
  assumes "reads P info m" "\<And>v. reads P info (f v)"
  shows "reads P info (bind_p m f)"
  unfolding reads_def
proof (intro allI impI)
  fix s :: suite_state
  assume i: "st_info s = Some info"
  obtain r t where m: "m s = (r, t)" by fastforce
  have mt: "only_reads P s t" "st_info t = Some info" using readsD[OF assms(1) i m] by simp_all
  show "only_reads P s (snd (bind_p m f s))"
  proof (cases r)
    case (Inr v)
    have "only_reads P t (snd (f v t))" using assms(2)[of v] mt(2) by (simp add: reads_def)
    then show ?thesis using only_reads_trans[OF mt(1)] by (simp add: bind_p_def m Inr)
  qed (use mt in \<open>simp add: bind_p_def m\<close>)
qed

lemma reads_via [reads_rules]: "sends P m \<Longrightarrow> reads P info (via_rpc f m)"
proof -
  assume m: "sends P m"
  have "grows P r (snd (m r))" for r
    using sends_grows[OF m, of r "fst (m r)" "snd (m r)"] by simp
  then show ?thesis by (simp add: reads_def via_rpc_def only_reads_def split_beta)
qed

lemma reads_option [reads_rules]: "(\<And>v. reads P info (f v)) \<Longrightarrow> reads P info g \<Longrightarrow> reads P info (case x of Some v \<Rightarrow> f v | None \<Rightarrow> g)"
  by (cases x) simp_all

lemma reads_if [reads_rules]: "reads P info m \<Longrightarrow> reads P info n \<Longrightarrow> reads P info (if b then m else n)"
  by simp

lemma reads_prod [reads_rules]: "(\<And>a b. reads P info (f a b)) \<Longrightarrow> reads P info (case x of (a, b) \<Rightarrow> f a b)"
  by (cases x) simp

lemma reads_prod_app [reads_rules]: "(\<And>a b. reads P info (f a b c)) \<Longrightarrow> reads P info ((case x of (a, b) \<Rightarrow> f a b) c)"
  by (cases x) simp

lemma reads_for [reads_rules]: "(\<And>x acc. reads P info (f x acc)) \<Longrightarrow> reads P info (for_p f xs acc)"
  by (induction xs arbitrary: acc) (auto intro!: reads_rules)

lemma page_loop_keeps:
  assumes "I s" and body: "\<forall>cursor acc s. I s \<longrightarrow> I (snd (body cursor acc s)) \<and> R s (snd (body cursor acc s))"
    and refl: "\<And>s. R s s" and trans: "\<And>s t u. R s t \<Longrightarrow> R t u \<Longrightarrow> R s u"
  shows "R s (snd (page_loop label body cursor acc s))"
  using assms(1,2)
proof (induction label body cursor acc s rule: page_loop.induct)
  case (1 label body cursor acc s)
  obtain r t where b: "body cursor acc s = (r, t)" by fastforce
  have st: "I t \<and> R s t" using "1.prems" b by (metis snd_conv)
  show ?case
  proof (cases r)
    case (Inr v)
    obtain n c acc' where v: "v = (n, c, acc')" by (cases v)
    note bs = b[unfolded Inr v]
    show ?thesis
    proof (cases "n = 0 \<or> n < unat suiteQueryPageSize \<or> c \<le> cursor")
      case False
      then have "R t (snd (page_loop label body c acc' t))"
        using "1.IH"[OF bs[symmetric] HOL.refl HOL.refl HOL.refl] "1.prems"(2) st by blast
      then show ?thesis using False trans[OF conjunct2[OF st]] by (simp add: page_loop.simps[of _ _ cursor] bs)
    qed (use st in \<open>auto simp: page_loop.simps[of _ _ cursor] bs\<close>)
  qed (use st in \<open>simp add: page_loop.simps[of _ _ cursor] b\<close>)
qed

lemma reads_page [reads_rules]:
  assumes "\<And>cursor acc. reads P info (body cursor acc)"
  shows "reads P info (page_loop label body cursor acc)"
  unfolding reads_def
proof (intro allI impI)
  fix s :: suite_state
  assume i: "st_info s = Some info"
  show "only_reads P s (snd (page_loop label body cursor acc s))"
  proof (rule page_loop_keeps[where I = "\<lambda>s. st_info s = Some info" and R = "only_reads P", OF i])
    show "\<forall>cursor acc s. st_info s = Some info \<longrightarrow>
        st_info (snd (body cursor acc s)) = Some info \<and> only_reads P s (snd (body cursor acc s))"
      using readsD[OF assms] by (metis prod.collapse)
  qed (auto intro: only_reads_refl only_reads_trans)
qed

lemma ensured_cached: "st_info s = Some info \<Longrightarrow> ensureVerified env g s = (Inr info, s)"
  by (simp add: ensureVerified_def proc_defs)

lemma ensured [reads_rules]: "reads P info (ensureVerified env g)"
  by (simp add: reads_def ensured_cached only_reads_refl)

lemma reads_value [reads_rules]: "reads P info (value_result r)" "reads P info (suiteUserAddress env a)" "reads P info (exactly n l vs)"
  unfolding value_result_def suiteUserAddress_def exactly_def by (intro reads_rules)+

lemma reads_account [reads_rules]: "reads P info (account_bytes env a)"
  unfolding account_bytes_def by (intro reads_rules)

lemma reads_module [reads_rules]: "reads P info (suite_module env g name)"
  unfolding suite_module_def by (intro reads_rules)

section \<open>Reads at one block\<close>

lemma reads_call [reads_rules]: "good_tag tag \<Longrightarrow> reads (pinned tag) info (callAt env g module tag meth args)"
  unfolding callAt_def by (intro reads_rules pinned_call)

lemma reads_one [reads_rules]: "good_tag tag \<Longrightarrow> reads (pinned tag) info (read_one env g module tag meth args as)"
  unfolding read_one_def by (intro reads_rules)

lemma reads_repo [reads_rules]:
  assumes "good_tag tag"
  shows "reads (pinned tag) info (moderationStatusAt env g i tag)" "reads (pinned tag) info (repoInfoAt env g r tag)"
    "reads (pinned tag) info (resolveRepoAt env g owner name tag)" "reads (pinned tag) info (repositoryByIDAt env g i tag)"
proof -
  show m: "reads (pinned tag) info (moderationStatusAt env g i tag)" for i
    unfolding moderationStatusAt_def by (intro reads_rules assms)
  show r: "reads (pinned tag) info (repoInfoAt env g r tag)" for r
    unfolding repoInfoAt_def by (intro reads_rules m)
  show "reads (pinned tag) info (resolveRepoAt env g owner name tag)"
    unfolding resolveRepoAt_def by (intro reads_rules r assms)
  show "reads (pinned tag) info (repositoryByIDAt env g i tag)"
    unfolding repositoryByIDAt_def by (intro reads_rules assms)
qed

lemma reads_pages [reads_rules]:
  assumes "good_tag tag"
  shows "reads (pinned tag) info (repos_page env g tag account cursor rs)" "reads (pinned tag) info (refs_page env g tag repo cursor fs)"
    "reads (pinned tag) info (collaborators_page env g tag repo cursor cs)" "reads (pinned tag) info (trail_page env g tag n cursor hs)"
    "reads (pinned tag) info (badges_page env g tag meth key cursor bs)" "reads (pinned tag) info (releases_page env g tag version cursor as)"
  unfolding repos_page_def refs_page_def collaborators_page_def trail_page_def badges_page_def releases_page_def suiteRefInfo_def
    badge_entry_def badge_repository_def
  by (intro reads_rules assms)+

lemma reads_security [reads_rules]:
  assumes "good_tag tag"
  shows "reads (pinned tag) info (pendingOwnershipTransferAt env g repo tag)" "reads (pinned tag) info (guardian_texts env gs)"
    "reads (pinned tag) info (approvals_of env g repo tag n ps)" "reads (pinned tag) info (recovery_info env g repo tag p ps)"
    "reads (pinned tag) info (reportReasonTrailAt env g r tag)" "reads (pinned tag) info (badgesPageAt env g tag meth key)"
  unfolding pendingOwnershipTransferAt_def guardian_texts_def recovery_info_def approvals_of_def reportReasonTrailAt_def badgesPageAt_def
  by (intro reads_rules assms)+

definition one_block :: "SuiteInfo \<Rightarrow> 'a query \<Rightarrow> bool" where
  \<comment> \<open>whatever the run, all its requests keep to one block\<close>
  "one_block info m \<longleftrightarrow>
     (\<forall>s. st_info s = Some info \<longrightarrow> (\<exists>tag. good_tag tag \<and> only_reads (pinned tag) s (snd (m s))))"

lemma one_block_snapshot:
  assumes "\<And>tag. good_tag tag \<Longrightarrow> reads (pinned tag) info (k tag)"
  shows "one_block info (bind_p (snapshotBlockTag env g) k)"
  unfolding one_block_def
proof (intro allI impI)
  fix s :: suite_state
  assume i: "st_info s = Some info"
  obtain r t where m: "snapshotBlockTag env g s = (r, t)" by fastforce
  have all: "reads (pinned tag) info (snapshotBlockTag env g)" for tag
    unfolding snapshotBlockTag_def by (intro reads_rules sends_rules)
  note t = readsD[OF all i m]
  show "\<exists>tag. good_tag tag \<and> only_reads (pinned tag) s (snd (bind_p (snapshotBlockTag env g) k s))"
  proof (cases r)
    case (Inl e)
    then show ?thesis using t by (intro exI[of _ "block_text 0"]) (auto simp: bind_p_def m good_tag_def)
  next
    case (Inr tag)
    then have g: "good_tag tag"
      using m unfolding snapshotBlockTag_def by (auto simp: proc_ok good_tag_def)
    have "only_reads (pinned tag) t (snd (k tag t))" using assms[OF g] t by (simp add: reads_def)
    then show ?thesis using g only_reads_trans[OF conjunct1[OF t]] by (intro exI[of _ tag]) (simp add: bind_p_def m Inr)
  qed
qed

lemma one_block_at:
  assumes "\<And>tag resolved. good_tag tag \<Longrightarrow> reads (pinned tag) info (k tag resolved)"
  shows "one_block info (at_snapshot env g owner repo k)"
  unfolding at_snapshot_def by (rule one_block_snapshot) (intro reads_rules assms)

lemma one_block_after:
  assumes "\<And>tag. reads (pinned tag) info m" "\<And>v. one_block info (k v)"
  shows "one_block info (bind_p m k)"
  unfolding one_block_def
proof (intro allI impI)
  fix s :: suite_state
  assume i: "st_info s = Some info"
  obtain r t where m: "m s = (r, t)" by fastforce
  note t = readsD[OF assms(1) i m]
  show "\<exists>tag. good_tag tag \<and> only_reads (pinned tag) s (snd (bind_p m k s))"
  proof (cases r)
    case (Inl e)
    then show ?thesis using t by (intro exI[of _ "block_text 0"]) (auto simp: bind_p_def m good_tag_def)
  next
    case (Inr v)
    obtain tag where "good_tag tag" "only_reads (pinned tag) t (snd (k v t))" using assms(2)[of v] t unfolding one_block_def by blast
    then show ?thesis using only_reads_trans[OF conjunct1[OF t]] by (intro exI[of _ tag]) (simp add: bind_p_def m Inr)
  qed
qed

lemma one_block_then:
  assumes "one_block info m" "\<And>v P. reads P info (k v)"
  shows "one_block info (bind_p m k)"
  unfolding one_block_def
proof (intro allI impI)
  fix s :: suite_state
  assume i: "st_info s = Some info"
  obtain r t where m: "m s = (r, t)" by fastforce
  obtain tag where tag: "good_tag tag" "only_reads (pinned tag) s t"
    using assms(1) i m unfolding one_block_def by (metis snd_conv)
  then have "st_info t = Some info" using i by (simp add: only_reads_def)
  then have "only_reads (pinned tag) s (snd (bind_p m k s))"
    using tag(2) only_reads_trans[OF tag(2)] assms(2) by (cases r) (auto simp: bind_p_def m reads_def)
  then show "\<exists>tag. good_tag tag \<and> only_reads (pinned tag) s (snd (bind_p m k s))" using tag(1) by blast
qed

lemma queries_one_block:
  "one_block info (ResolveRepo env g owner repo)" "one_block info (ListRepos env g owner)" "one_block info (RepoInfo_of env g owner repo)"
  "one_block info (ListRefs env g owner repo)" "one_block info (ResolveRef env g owner repo ref)"
  "one_block info (ListCollaborators env g owner repo)" "one_block info (ResolveUsername env g name)"
  "one_block info (AddressUsername env g address)" "one_block info (PendingOwnershipTransfer env g resolved)"
  "one_block info (OwnershipSecurity env g owner repo)" "one_block info (ModerationReport env g report)"
  "one_block info (RevenueSplits env g owner repo)" "one_block info (SponsorTotals env g owner repo)"
  "one_block info (BadgesByRecipient env g address)" "one_block info (BadgesByRepo env g owner repo)"
  "one_block info (ReleaseArtifacts env g version)"
proof -
  show r: "one_block info (ResolveRepo env g owner repo)"
    unfolding ResolveRepo_def by (rule one_block_snapshot) (intro reads_rules)
  show "one_block info (RepoInfo_of env g owner repo)"
    unfolding RepoInfo_of_def by (rule one_block_then[OF r]) (intro reads_rules)
  show "one_block info (PendingOwnershipTransfer env g resolved)"
    unfolding PendingOwnershipTransfer_def by (intro one_block_after one_block_snapshot reads_rules)
  show "one_block info (BadgesByRecipient env g address)"
    unfolding BadgesByRecipient_def by (intro one_block_after one_block_snapshot reads_rules)
qed (unfold ListRepos_def ListRefs_def ResolveRef_def ListCollaborators_def ResolveUsername_def AddressUsername_def OwnershipSecurity_def
  ModerationReport_def RevenueSplits_def SponsorTotals_def BadgesByRepo_def ReleaseArtifacts_def;
  intro one_block_snapshot one_block_at reads_rules; assumption)+

end
