(* ===== verification/Suite_Client.thy ===== *)
theory Suite_Client
  imports Suite_Reads Transactor_Properties
begin

text \<open>
  The suite client as a whole: the operations of the interfaces in
  \<^verbatim>\<open>cli/internal/chain/backend.go\<close>, run one after the other on one client, and the invariant that
  every one of them keeps. A client only ever serves a suite it has verified itself, and what it gives
  to the signer is addressed to a module of that suite.
\<close>

section \<open>Operations\<close>

datatype client_op =
    Op_SuiteInfo
  | Op_ResolveRepo string string
  | Op_ListRepos string
  | Op_RepoInfo string string
  | Op_ListRefs string string
  | Op_ResolveRef string string string
  | Op_ListCollaborators string string
  | Op_ResolveUsername string
  | Op_AddressUsername string
  | Op_PendingOwnershipTransfer "ResolvedRepo option"
  | Op_OwnershipSecurity string string
  | Op_ModerationReport u64
  | Op_RevenueSplits string string
  | Op_SponsorTotals string string
  | Op_BadgesByRecipient string
  | Op_BadgesByRepo string string
  | Op_ReleaseArtifacts string
  | Op_FixedBlockRepository bytes string
  | Op_CreateRepo string string string
  | Op_ForkRepo string string string
  | Op_UpdateRepoInfo string "string option" "string option"
  | Op_UpdateRef string string string string "string list" string bool
  | Op_DeleteRef string string string
  | Op_SetCollaborator string string string string
  | Op_RegisterUsername string
  | Op_ClaimOriginalUsername string
  | Op_ReleaseUsername
  | Op_BeginOwnershipTransfer "ResolvedRepo option" string
  | Op_CancelOwnershipTransfer "ResolvedRepo option"
  | Op_RejectOwnershipTransfer "ResolvedRepo option"
  | Op_ExpireOwnershipTransfer "ResolvedRepo option"
  | Op_AcceptOwnership "ResolvedRepo option"
  | Op_SetGuardians string "string list" u8
  | Op_ProposeRecovery string string string
  | Op_ApproveRecovery string string
  | Op_CancelRecovery string
  | Op_AcceptRecovery string string
  | Op_SetModerationStatus string string string string
  | Op_SubmitModerationReport string string string
  | Op_ResolveModerationReport u64 string string
  | Op_ResolveModerationAppeal u64 string string
  | Op_AppealModerationReport u64 string
  | Op_Sponsor string string string string
  | Op_SetRevenueSplits string string "SplitEntry list"
  | Op_AwardBadge string string string string
  | Op_RegisterRelease string "ReleaseArtifact list"

definition ask :: "'a query \<Rightarrow> command" where
  \<comment> \<open>a read as an operation: the answer goes to the caller\<close>
  "ask m = run_p (bind_p m (\<lambda>_. ret_p ()))"

fun run_op :: "chain_env \<Rightarrow> EVMSuiteRegistry \<Rightarrow> client_op \<Rightarrow> command" where
  "run_op env g Op_SuiteInfo = ask (SuiteInfo_copy env g)"
| "run_op env g (Op_ResolveRepo owner repo) = ask (ResolveRepo env g owner repo)"
| "run_op env g (Op_ListRepos owner) = ask (ListRepos env g owner)"
| "run_op env g (Op_RepoInfo owner repo) = ask (RepoInfo_of env g owner repo)"
| "run_op env g (Op_ListRefs owner repo) = ask (ListRefs env g owner repo)"
| "run_op env g (Op_ResolveRef owner repo ref) = ask (ResolveRef env g owner repo ref)"
| "run_op env g (Op_ListCollaborators owner repo) = ask (ListCollaborators env g owner repo)"
| "run_op env g (Op_ResolveUsername name) = ask (ResolveUsername env g name)"
| "run_op env g (Op_AddressUsername a) = ask (AddressUsername env g a)"
| "run_op env g (Op_PendingOwnershipTransfer r) = ask (PendingOwnershipTransfer env g r)"
| "run_op env g (Op_OwnershipSecurity owner repo) = ask (OwnershipSecurity env g owner repo)"
| "run_op env g (Op_ModerationReport n) = ask (ModerationReport env g n)"
| "run_op env g (Op_RevenueSplits owner repo) = ask (RevenueSplits env g owner repo)"
| "run_op env g (Op_SponsorTotals owner repo) = ask (SponsorTotals env g owner repo)"
| "run_op env g (Op_BadgesByRecipient a) = ask (BadgesByRecipient env g a)"
| "run_op env g (Op_BadgesByRepo owner repo) = ask (BadgesByRepo env g owner repo)"
| "run_op env g (Op_ReleaseArtifacts v) = ask (ReleaseArtifacts env g v)"
| "run_op env g (Op_FixedBlockRepository i tag) = ask (FixedBlockRepository env g i tag)"
| "run_op env g (Op_CreateRepo name d b) = CreateRepo env g name d b"
| "run_op env g (Op_ForkRepo owner repo name) = ForkRepo env g owner repo name"
| "run_op env g (Op_UpdateRepoInfo repo d b) = UpdateRepoInfo env g repo d b"
| "run_op env g (Op_UpdateRef owner repo ref sha uris old force) = UpdateRef env g owner repo ref sha uris old force"
| "run_op env g (Op_DeleteRef owner repo ref) = DeleteRef env g owner repo ref"
| "run_op env g (Op_SetCollaborator owner repo a role) = SetCollaborator env g owner repo a role"
| "run_op env g (Op_RegisterUsername name) = RegisterUsername env g name"
| "run_op env g (Op_ClaimOriginalUsername name) = ClaimOriginalUsername env g name"
| "run_op env g Op_ReleaseUsername = ReleaseUsername env g"
| "run_op env g (Op_BeginOwnershipTransfer r a) = BeginOwnershipTransfer env g r a"
| "run_op env g (Op_CancelOwnershipTransfer r) = CancelOwnershipTransfer env g r"
| "run_op env g (Op_RejectOwnershipTransfer r) = RejectOwnershipTransfer env g r"
| "run_op env g (Op_ExpireOwnershipTransfer r) = ExpireOwnershipTransfer env g r"
| "run_op env g (Op_AcceptOwnership r) = AcceptOwnership env g r"
| "run_op env g (Op_SetGuardians repo gs n) = SetGuardians env g repo gs n"
| "run_op env g (Op_ProposeRecovery owner repo a) = ProposeRecovery env g owner repo a"
| "run_op env g (Op_ApproveRecovery owner repo) = ApproveRecovery env g owner repo"
| "run_op env g (Op_CancelRecovery repo) = CancelRecovery env g repo"
| "run_op env g (Op_AcceptRecovery owner repo) = AcceptRecovery env g owner repo"
| "run_op env g (Op_SetModerationStatus owner repo s h) = SetModerationStatus env g owner repo s h"
| "run_op env g (Op_SubmitModerationReport owner repo h) = SubmitModerationReport env g owner repo h"
| "run_op env g (Op_ResolveModerationReport n s h) = ResolveModerationReport env g n s h"
| "run_op env g (Op_ResolveModerationAppeal n s h) = ResolveModerationAppeal env g n s h"
| "run_op env g (Op_AppealModerationReport n h) = AppealModerationReport env g n h"
| "run_op env g (Op_Sponsor owner repo m a) = Sponsor env g owner repo m a"
| "run_op env g (Op_SetRevenueSplits owner repo xs) = SetRevenueSplits env g owner repo xs"
| "run_op env g (Op_AwardBadge owner repo a r) = AwardBadge env g owner repo a r"
| "run_op env g (Op_RegisterRelease v as) = RegisterRelease env g v as"

fun run_ops :: "chain_env \<Rightarrow> EVMSuiteRegistry \<Rightarrow> client_op list \<Rightarrow> suite_state \<Rightarrow> suite_state option" where
  \<comment> \<open>operations one after the other, whether they succeed or fail; none if one does not return\<close>
  "run_ops env g [] s = Some s"
| "run_ops env g (c # cs) s = (case run_op env g c s of None \<Rightarrow> None | Some (_, t) \<Rightarrow> run_ops env g cs t)"

section \<open>The invariant\<close>

definition suite_inv :: "chain_env \<Rightarrow> EVMSuiteRegistry \<Rightarrow> suite_state \<Rightarrow> bool" where
  "suite_inv env g s \<longleftrightarrow>
    (case st_info s of
       None \<Rightarrow> ts_signed (st_tx s) = []
     | Some info \<Rightarrow>
        (\<exists>r t evs. suite_evidence env (r, t) (sr_directory g) (EffectiveEVMChainID (lower_table (the_net env)) (sr_cfg g)) info \<and>
           events (rpc_of s) = events t @ evs) \<and>
        (\<forall>tx \<in> set (ts_signed (st_tx s)). \<exists>m \<in> set (si_Modules info).
           normalizeEVMAddress (lower_table (the_net env)) (mi_Address m) = Inr (tx_To tx)))"

definition kept :: "chain_env \<Rightarrow> EVMSuiteRegistry \<Rightarrow> SuiteInfo option \<Rightarrow> suite_state \<Rightarrow> bool" where
  \<comment> \<open>the invariant, and a suite once verified stays\<close>
  "kept env g i s \<longleftrightarrow> suite_inv env g s \<and> (i \<noteq> None \<longrightarrow> st_info s = i)"

lemma suite_inv_rpc:
  "kept env g i s \<Longrightarrow> events c = events (rpc_of s) @ evs \<Longrightarrow> kept env g i (s\<lparr>st_tx := (st_tx s)\<lparr>ts_rpc := c\<rparr>\<rparr>)"
  unfolding kept_def suite_inv_def by (fastforce split: option.splits)

lemma keeps_via [triple_rules]: "sends any_request m \<Longrightarrow> keeps (kept env g i) (via_rpc f m)"
proof -
  assume m: "sends any_request m"
  have "kept env g i (snd (via_rpc f m s))" if k: "kept env g i s" for s
  proof -
    obtain r c where c: "m (rpc_of s) = (r, c)" by fastforce
    obtain evs where "events c = events (rpc_of s) @ evs" using sends_grows[OF m c] by (auto simp: grows_def)
    then show ?thesis using suite_inv_rpc[OF k] by (simp add: via_rpc_def c)
  qed
  then show ?thesis by (auto simp: triple_def split: prod.split sum.split) (metis snd_conv)+
qed

lemma keeps_option [triple_rules]: "(\<And>v. keeps I (f v)) \<Longrightarrow> keeps I n \<Longrightarrow> keeps I (case x of Some v \<Rightarrow> f v | None \<Rightarrow> n)"
  by (cases x) simp_all

lemma keeps_prod [triple_rules]: "(\<And>a b. keeps I (f a b)) \<Longrightarrow> keeps I (case x of (a, b) \<Rightarrow> f a b)"
  by (cases x) simp

lemma keeps_prod_app [triple_rules]: "(\<And>a b. keeps I (f a b c)) \<Longrightarrow> keeps I ((case x of (a, b) \<Rightarrow> f a b) c)"
  by (cases x) simp

lemma keeps_iff: "keeps I m \<longleftrightarrow> (\<forall>s. I s \<longrightarrow> I (snd (m s)))"
proof
  assume r: "\<forall>s. I s \<longrightarrow> I (snd (m s))"
  have "case m s of (Inr v, t) \<Rightarrow> I t | (Inl e, t) \<Rightarrow> I t" if "I s" for s
    using r that by (cases "m s"; cases "fst (m s)") force+
  then show "keeps I m" by (simp add: triple_def)
next
  assume k: "keeps I m"
  show "\<forall>s. I s \<longrightarrow> I (snd (m s))" by (intro allI impI keeps_result[OF k])
qed

lemma keeps_page [triple_rules]: "(\<And>cursor acc. keeps I (body cursor acc)) \<Longrightarrow> keeps I (page_loop label body cursor acc)"
  unfolding keeps_iff
  using page_loop_keeps[where I = I and R = "\<lambda>s t. I s \<longrightarrow> I t" and body = body] by blast

lemma any_verify: "VerifySuite env dir expected r = (res, t) \<Longrightarrow> grows any_request r t"
  using pinsD[OF pinned_verify] by (fastforce simp: grows_def list_all_iff)

lemma keeps_ensure [triple_rules]: "keeps (kept env g i) (ensureVerified env g)"
  unfolding keeps_iff
proof (intro allI impI)
  fix s
  assume k: "kept env g i s"
  show "kept env g i (snd (ensureVerified env g s))"
  proof (cases "st_info s")
    case (Some info)
    then show ?thesis using k by (simp add: ensured_cached)
  next
    case None
    let ?v = "VerifySuite env (sr_directory g) (EffectiveEVMChainID (lower_table (the_net env)) (sr_cfg g))"
    obtain res c where c: "?v (rpc_of s) = (res, c)" by fastforce
    obtain evs where evs: "events c = events (rpc_of s) @ evs" using any_verify[OF c] by (auto simp: grows_def)
    let ?s = "s\<lparr>st_tx := (st_tx s)\<lparr>ts_rpc := c\<rparr>\<rparr>"
    have k': "kept env g i ?s" by (rule suite_inv_rpc[OF k evs])
    have e: "snd (ensureVerified env g s) =
        (if trim_space (sr_directory g) = '''' then s else case res of Inl _ \<Rightarrow> ?s | Inr info \<Rightarrow> remember info ?s)"
      using c None by (auto simp: ensureVerified_def proc_defs via_rpc_def guard_err_def split: sum.splits)
    have "kept env g i (remember info ?s)" if "res = Inr info" for info
    proof -
      have "\<exists>r t evs. suite_evidence env (r, t) (sr_directory g) (EffectiveEVMChainID (lower_table (the_net env)) (sr_cfg g)) info \<and>
          events c = events t @ evs"
        using verify_evidence[OF c[unfolded that]] by (intro exI[of _ "rpc_of s"] exI[of _ c] exI[of _ "[]"]) simp
      then show ?thesis using None k unfolding kept_def suite_inv_def remember_def by auto
    qed
    then show ?thesis using k k' by (auto simp: e split: sum.splits)
  qed
qed

lemma any_call: "sends any_request (suiteCall env a tag abi meth args)"
  unfolding suiteCall_def CallContractAt_def by (auto intro!: sends_rules sends_text)

lemma any_block: "sends any_request (BlockNumber net)"
  by (rule sends_mono[OF pinned_meta(2)]) simp

lemma keeps_pure [triple_rules]: "keeps I (ret_p v)" "keeps I (fail_p e)" "keeps I (lift_p x)" "keeps I (guard_p b e)"
  by (simp_all add: keeps_iff ret_p_def fail_p_def lift_p_def guard_p_def)

lemma keeps_values [triple_rules]:
  "keeps I (value_result r)" "keeps I (suiteUserAddress env a)" "keeps I (exactly n l vs)" "keeps I (account_bytes env txt)"
  unfolding value_result_def suiteUserAddress_def exactly_def account_bytes_def by (intro triple_rules keeps_pure)+

lemma keeps_module [triple_rules]: "keeps (kept env g i) (suite_module env g name)"
  unfolding suite_module_def by (intro triple_rules keeps_pure)

lemma keeps_call [triple_rules]:
  "keeps (kept env g i) (callAt env g module tag meth args)" "keeps (kept env g i) (snapshotBlockTag env g)"
  unfolding callAt_def snapshotBlockTag_def by (intro triple_rules keeps_pure any_call any_block)+

lemma keeps_one [triple_rules]: "keeps (kept env g i) (read_one env g module tag meth args as)"
  unfolding read_one_def by (intro triple_rules keeps_pure)

lemma keeps_repo [triple_rules]:
  "keeps (kept env g i) (moderationStatusAt env g repo tag)" "keeps (kept env g i) (repoInfoAt env g r tag)"
  "keeps (kept env g i) (resolveRepoAt env g owner name tag)" "keeps (kept env g i) (repositoryByIDAt env g repo tag)"
proof -
  show m: "keeps (kept env g i) (moderationStatusAt env g repo tag)" for repo
    unfolding moderationStatusAt_def by (intro triple_rules keeps_pure)
  show r: "keeps (kept env g i) (repoInfoAt env g r tag)" for r
    unfolding repoInfoAt_def by (intro triple_rules keeps_pure m)
  show "keeps (kept env g i) (resolveRepoAt env g owner name tag)"
    unfolding resolveRepoAt_def by (intro triple_rules keeps_pure r)
  show "keeps (kept env g i) (repositoryByIDAt env g repo tag)"
    unfolding repositoryByIDAt_def by (intro triple_rules keeps_pure)
qed

lemma keeps_pages [triple_rules]:
  "keeps (kept env g i) (repos_page env g tag account cursor rs)" "keeps (kept env g i) (refs_page env g tag repo cursor fs)"
  "keeps (kept env g i) (collaborators_page env g tag repo cursor cs)" "keeps (kept env g i) (trail_page env g tag n cursor hs)"
  "keeps (kept env g i) (badges_page env g tag meth key cursor bs)" "keeps (kept env g i) (releases_page env g tag version cursor as)"
  unfolding repos_page_def refs_page_def collaborators_page_def trail_page_def badges_page_def releases_page_def suiteRefInfo_def
    badge_entry_def badge_repository_def
  by (intro triple_rules keeps_pure)+

lemma keeps_security [triple_rules]:
  "keeps (kept env g i) (pendingOwnershipTransferAt env g repo tag)" "keeps (kept env g i) (guardian_texts env gs)"
  "keeps (kept env g i) (approvals_of env g repo tag n ps)" "keeps (kept env g i) (recovery_info env g repo tag p ps)"
  "keeps (kept env g i) (reportReasonTrailAt env g r tag)" "keeps (kept env g i) (badgesPageAt env g tag meth key)"
  unfolding pendingOwnershipTransferAt_def guardian_texts_def recovery_info_def approvals_of_def reportReasonTrailAt_def badgesPageAt_def
  by (intro triple_rules keeps_pure)+

lemma keeps_queries [triple_rules]:
  "keeps (kept env g i) (ResolveRepo env g owner repo)" "keeps (kept env g i) (ListRepos env g owner)"
  "keeps (kept env g i) (RepoInfo_of env g owner repo)" "keeps (kept env g i) (ListRefs env g owner repo)"
  "keeps (kept env g i) (ResolveRef env g owner repo ref)" "keeps (kept env g i) (ListCollaborators env g owner repo)"
  "keeps (kept env g i) (ResolveUsername env g name)" "keeps (kept env g i) (AddressUsername env g address)"
  "keeps (kept env g i) (PendingOwnershipTransfer env g resolved)" "keeps (kept env g i) (OwnershipSecurity env g owner repo)"
  "keeps (kept env g i) (ModerationReport env g report)" "keeps (kept env g i) (RevenueSplits env g owner repo)"
  "keeps (kept env g i) (SponsorTotals env g owner repo)" "keeps (kept env g i) (BadgesByRecipient env g address)"
  "keeps (kept env g i) (BadgesByRepo env g owner repo)" "keeps (kept env g i) (ReleaseArtifacts env g version)"
  "keeps (kept env g i) (FixedBlockRepository env g repoID tag)" "keeps (kept env g i) (SuiteInfo_copy env g)"
  unfolding ResolveRepo_def ListRepos_def RepoInfo_of_def ListRefs_def ResolveRef_def ListCollaborators_def ResolveUsername_def
    AddressUsername_def PendingOwnershipTransfer_def OwnershipSecurity_def ModerationReport_def RevenueSplits_def SponsorTotals_def
    BadgesByRecipient_def BadgesByRepo_def ReleaseArtifacts_def FixedBlockRepository_def at_snapshot_def SuiteInfo_copy_def
  by (intro triple_rules keeps_pure)+

lemma keeps_write [triple_rules]: "keeps (kept env g i) (repoForWrite env g owner repo)" "keeps (kept env g i) (signerRepo env g repo)"
proof -
  show w: "keeps (kept env g i) (repoForWrite env g owner repo)" for owner
    unfolding repoForWrite_def by (intro triple_rules keeps_pure)
  show "keeps (kept env g i) (signerRepo env g repo)"
    unfolding signerRepo_def by (intro triple_rules keeps_pure w)
qed

section \<open>Writes\<close>

definition keeps_o :: "('s \<Rightarrow> bool) \<Rightarrow> ('s, 'e, 'a) oproc \<Rightarrow> bool" where
  "keeps_o I m \<longleftrightarrow> (\<forall>s r t. I s \<longrightarrow> m s = Some (r, t) \<longrightarrow> I t)"

named_theorems keeps_o_rules

lemma keeps_o_run [keeps_o_rules]: "keeps I m \<Longrightarrow> keeps_o I (run_p m)"
  unfolding keeps_o_def keeps_iff run_p_def by (metis option.inject snd_conv)

lemma bind_o_cases:
  assumes "bind_o m f s = Some (r, t)"
  obtains e where "m s = Some (Inl e, t)" "r = Inl e" | v u where "m s = Some (Inr v, u)" "f v u = Some (r, t)"
  using assms by (auto simp: bind_o_def split: option.splits sum.splits)

lemma keeps_o_bind [keeps_o_rules]:
  assumes "keeps_o I m" "\<And>v. keeps_o I (f v)"
  shows "keeps_o I (bind_o m f)"
  unfolding keeps_o_def
proof (intro allI impI)
  fix s r t
  assume I: "I s" and b: "bind_o m f s = Some (r, t)"
  from b show "I t"
  proof (cases rule: bind_o_cases)
    case (1 e)
    then show ?thesis using assms(1) I unfolding keeps_o_def by blast
  next
    case (2 v u)
    then show ?thesis using assms(1) assms(2)[of v] I unfolding keeps_o_def by blast
  qed
qed

lemma keeps_o_for [keeps_o_rules]: "(\<And>x. keeps_o I (f x)) \<Longrightarrow> keeps_o I (for_o f xs)"
  by (induction xs) (auto intro!: keeps_o_rules keeps_pure)

lemma transact_events:
  assumes "transact env t target data val s = Some (out, u)"
  shows "\<exists>evs. events (ts_rpc u) = events (ts_rpc s) @ evs"
  using transact_raw_posts[OF assms] by blast

lemma send_to:
  assumes "Send env t address data val s = Some (out, u)"
  shows "(\<exists>evs. events (ts_rpc u) = events (ts_rpc s) @ evs) \<and>
    (ts_signed u = ts_signed s \<or>
     (\<exists>tx. ts_signed u = ts_signed s @ [tx] \<and> normalizeEVMAddress (lower_table (the_net env)) address = Inr (tx_To tx)))"
proof (cases "normalizeEVMAddress (lower_table (the_net env)) address")
  case (Inr contract)
  then have tr: "transact env t contract data val s = Some (out, u)" using assms by (simp add: Send_def)
  show ?thesis
  proof (cases "ts_signed u = ts_signed s")
    case False
    then obtain tx where "ts_signed u = ts_signed s @ [tx]" "good_tx contract data val (tx_ChainID tx) (tx_Nonce tx) tx"
      using transact_signed[OF tr] by blast
    then show ?thesis using Inr transact_events[OF tr] by (auto simp: good_tx_def)
  qed (use transact_events[OF tr] in blast)
qed (use assms in \<open>auto simp: Send_def\<close>)

lemma module_found:
  assumes "suite_module env g name s = (Inr (address, abi), t)"
  shows "\<exists>info m. st_info t = Some info \<and> m \<in> set (si_Modules info) \<and> mi_Name m = name \<and> mi_Address m = address \<and> address \<noteq> ''''"
proof -
  obtain info where i: "ensureVerified env g s = (Inr info, t)" "ModuleAddress info name = address" "address \<noteq> ''''"
    using assms unfolding suite_module_def by (auto simp: proc_ok split: option.splits)
  have "st_info t = Some info"
    using i(1) unfolding ensureVerified_def
    by (auto simp: proc_ok get_p_def put_p_def remember_def split: option.splits)
  moreover have "\<exists>m \<in> set (si_Modules info). mi_Name m = name \<and> mi_Address m = address"
  proof (cases "find (\<lambda>m. mi_Name m = name) (si_Modules info)")
    case (Some m)
    then have "m \<in> set (si_Modules info)" "mi_Name m = name" by (auto simp: find_Some_iff)
    then show ?thesis using i(2) Some unfolding ModuleAddress_def by auto
  qed (use i(2,3) in \<open>simp add: ModuleAddress_def\<close>)
  ultimately show ?thesis using i(3) by blast
qed

lemma keeps_send [keeps_o_rules]: "keeps_o (kept env g i) (suite_send env g module meth val args)"
  unfolding keeps_o_def
proof (intro allI impI)
  fix s r t
  assume k: "kept env g i s" and run: "suite_send env g module meth val args s = Some (r, t)"
  obtain x u where x: "suite_module env g module s = (x, u)" by fastforce
  have ku: "kept env g i u" using keeps_result[OF keeps_module k] x by (metis snd_conv)
  consider (stop) "t = u"
    | (send) address abi data where "x = Inr (address, abi)" "transactor_send env g address data val u = Some (r, t)"
    using run x by (auto simp: suite_send_def bind_o_def run_p_def lift_p_def map_err_def split: sum.splits)
  then show "kept env g i t"
  proof cases
    case send
    obtain out v where s: "Send env (sr_transactor g) address data val (st_tx u) = Some (out, v)" and t: "t = u\<lparr>st_tx := v\<rparr>"
      using send(2) by (auto simp: transactor_send_def split: option.splits sum.splits prod.splits)
    obtain info m where m: "st_info u = Some info" "m \<in> set (si_Modules info)" "mi_Address m = address"
      using module_found x send(1) by blast
    then show ?thesis using send_to[OF s] ku unfolding t kept_def suite_inv_def by fastforce
  next
    case stop
    then show ?thesis using ku by simp
  qed
qed

lemma keeps_commands [keeps_o_rules]:
  "keeps_o (kept env g i) (CreateRepo env g n d b)" "keeps_o (kept env g i) (ForkRepo env g ow repo n)"
  "keeps_o (kept env g i) (UpdateRepoInfo env g repo od ob)" "keeps_o (kept env g i) (UpdateRef env g ow repo ref sha uris old force)"
  "keeps_o (kept env g i) (DeleteRef env g ow repo ref)" "keeps_o (kept env g i) (SetCollaborator env g ow repo a role)"
  "keeps_o (kept env g i) (RegisterUsername env g n)" "keeps_o (kept env g i) (ClaimOriginalUsername env g n)"
  "keeps_o (kept env g i) (ReleaseUsername env g)" "keeps_o (kept env g i) (BeginOwnershipTransfer env g r a)"
  "keeps_o (kept env g i) (CancelOwnershipTransfer env g r)" "keeps_o (kept env g i) (RejectOwnershipTransfer env g r)"
  "keeps_o (kept env g i) (ExpireOwnershipTransfer env g r)" "keeps_o (kept env g i) (AcceptOwnership env g r)"
  "keeps_o (kept env g i) (SetGuardians env g repo gs k)" "keeps_o (kept env g i) (ProposeRecovery env g ow repo a)"
  "keeps_o (kept env g i) (ApproveRecovery env g ow repo)" "keeps_o (kept env g i) (CancelRecovery env g repo)"
  "keeps_o (kept env g i) (AcceptRecovery env g ow repo)" "keeps_o (kept env g i) (SetModerationStatus env g ow repo st h)"
  "keeps_o (kept env g i) (SubmitModerationReport env g ow repo h)" "keeps_o (kept env g i) (ResolveModerationReport env g w st h)"
  "keeps_o (kept env g i) (ResolveModerationAppeal env g w st h)" "keeps_o (kept env g i) (AppealModerationReport env g w h)"
  "keeps_o (kept env g i) (Sponsor env g ow repo msg a)" "keeps_o (kept env g i) (SetRevenueSplits env g ow repo xs)"
  "keeps_o (kept env g i) (AwardBadge env g ow repo a h)" "keeps_o (kept env g i) (RegisterRelease env g n as)"
  unfolding CreateRepo_def ForkRepo_def UpdateRepoInfo_def UpdateRef_def DeleteRef_def SetCollaborator_def RegisterUsername_def
    ClaimOriginalUsername_def ReleaseUsername_def BeginOwnershipTransfer_def CancelOwnershipTransfer_def RejectOwnershipTransfer_def
    ExpireOwnershipTransfer_def AcceptOwnership_def SetGuardians_def ProposeRecovery_def ApproveRecovery_def CancelRecovery_def
    AcceptRecovery_def SetModerationStatus_def SubmitModerationReport_def ResolveModerationReport_def ResolveModerationAppeal_def
    AppealModerationReport_def Sponsor_def SetRevenueSplits_def AwardBadge_def RegisterRelease_def sendModerationDecision_def
    write_repo_def write_own_def Let_def
  by (intro keeps_o_rules triple_rules keeps_pure)+

lemma keeps_ask [keeps_o_rules]: "keeps (kept env g i) m \<Longrightarrow> keeps_o (kept env g i) (ask m)"
  unfolding ask_def by (intro keeps_o_rules triple_rules keeps_pure)

lemma keeps_op: "keeps_o (kept env g i) (run_op env g c)"
  by (cases c; simp only: run_op.simps; intro keeps_o_rules triple_rules)

lemma run_ops_kept: "run_ops env g cs s = Some t \<Longrightarrow> kept env g i s \<Longrightarrow> kept env g i t"
proof (induction cs arbitrary: s)
  case (Cons c cs)
  then obtain r u where u: "run_op env g c s = Some (r, u)" "run_ops env g cs u = Some t"
    by (auto split: option.splits)
  have "kept env g i u" using keeps_op[of env g i c] u(1) Cons.prems(2) unfolding keeps_o_def by blast
  then show ?case using Cons.IH u(2) by blast
qed simp

end
