(* ===== verification/Repository_Core.thy ===== *)
theory Repository_Core
  imports Go_Codec
begin

text \<open>
  The contract \<^verbatim>\<open>contracts/evm-v2/src/modules/RepositoryCore.sol\<close>. A mapping is a total function with
  the zero value as default; a call maps the storage to a revert or to the storage after it, since a
  revert undoes everything. The hash is a parameter of the model and nothing is assumed of it. What
  the other modules answer during a call is part of the call's environment.
\<close>

section \<open>Data\<close>

type_synonym address = bytes

type_synonym bytes32 = bytes

record Repository =
  rep_id :: bytes32
  rep_owner :: address
  rep_name :: string
  rep_description :: string
  rep_defaultBranch :: string
  rep_forkedFrom :: bytes32
  rep_createdAt :: u64
  rep_updatedAt :: u64
  rep_exists :: bool

datatype Role = Role_None | Maintainer | Reader

record GitRef =
  gr_commitSha :: string
  gr_packUris :: "string list"
  gr_updatedAt :: u64
  gr_updatedBy :: address
  gr_exists :: bool

record PendingTransfer =
  pd_newOwner :: address
  pd_executeAfter :: u64
  pd_expiresAt :: u64

record ImportRef =
  im_repoId :: bytes32
  im_refName :: string
  im_commitSha :: string
  im_packUris :: "string list"
  im_updatedAt :: u64
  im_updatedBy :: address

record core =
  repositories :: "bytes32 \<Rightarrow> Repository"
  locators :: "bytes32 \<Rightarrow> bytes32"
  refs :: "bytes32 \<Rightarrow> bytes32 \<Rightarrow> GitRef"
  refNames :: "bytes32 \<Rightarrow> string list"
  roles :: "bytes32 \<Rightarrow> address \<Rightarrow> Role"
  collaborators :: "bytes32 \<Rightarrow> address list"
  collaboratorIndexes :: "bytes32 \<Rightarrow> address \<Rightarrow> nat"
  ownerRepositories :: "address \<Rightarrow> bytes32 list"
  ownerRepositoryIndexes :: "bytes32 \<Rightarrow> nat"
  pendingTransfers :: "bytes32 \<Rightarrow> PendingTransfer"
  reservedLocators :: "bytes32 \<Rightarrow> bytes32"

datatype core_error =
    SuiteNotActive
  | InvalidRepositoryName string
  | InvalidRefName string
  | InvalidCommitSha string
  | InvalidPackUri string
  | InputTooLong nat nat
  | TooManyPackUris nat nat
  | TooManyRefs nat nat
  | TooManyCollaborators nat nat
  | ForkTooLarge nat nat
  | RepositoryNotFound bytes32
  | LocatorNotFound address string
  | LocatorUnavailable address string
  | RepositoryAlreadyExists bytes32
  | Unauthorized address
  | InvalidCollaborator address
  | RefNotFound bytes32 bytes32
  | ShaMismatch string string
  | InvalidPageSize nat nat
  | InvalidCursor nat nat
  | InvalidTransferTarget address
  | TransferAlreadyPending bytes32
  | TransferNotPending bytes32
  | TransferTooEarly u64
  | TransferExpired u64
  | TransferNotExpired u64
  | RecoveryPending bytes32
  | TimestampOverflow nat
  | InvalidImportKind u8
  | InvalidImportRecord
  | Panic
  | OtherModule

text \<open>A call: who calls, when, and what the suite's other parts answer.\<close>

record call_env =
  msg_sender :: address
  block_timestamp :: nat
  block_chainid :: nat
  suite_is_active :: bool
  moderation_module :: address
  recovery_module :: address
  economic_module :: address
  allows_ref_mutation :: "bytes32 \<Rightarrow> address \<Rightarrow> bool"
  allows_fork :: "bytes32 \<Rightarrow> address \<Rightarrow> bool"
  has_pending_recovery :: "bytes32 \<Rightarrow> bool"
  clears_splits :: "bytes32 \<Rightarrow> bool"

record deployment =
  keccak256 :: "bytes \<Rightarrow> bytes"
  suite_directory :: address

definition no_address :: address where
  "no_address = replicate 20 0"

definition no_bytes32 :: bytes32 where
  "no_bytes32 = replicate 32 0"

definition no_repository :: Repository where
  "no_repository = \<lparr>rep_id = no_bytes32, rep_owner = no_address, rep_name = '''', rep_description = '''', rep_defaultBranch = '''',
     rep_forkedFrom = no_bytes32, rep_createdAt = 0, rep_updatedAt = 0, rep_exists = False\<rparr>"

definition no_ref :: GitRef where
  "no_ref = \<lparr>gr_commitSha = '''', gr_packUris = [], gr_updatedAt = 0, gr_updatedBy = no_address, gr_exists = False\<rparr>"

definition no_transfer :: PendingTransfer where
  "no_transfer = \<lparr>pd_newOwner = no_address, pd_executeAfter = 0, pd_expiresAt = 0\<rparr>"

definition empty_core :: core where
  "empty_core = \<lparr>repositories = (\<lambda>_. no_repository), locators = (\<lambda>_. no_bytes32), refs = (\<lambda>_ _. no_ref), refNames = (\<lambda>_. []),
     roles = (\<lambda>_ _. Role_None), collaborators = (\<lambda>_. []), collaboratorIndexes = (\<lambda>_ _. 0), ownerRepositories = (\<lambda>_. []),
     ownerRepositoryIndexes = (\<lambda>_. 0), pendingTransfers = (\<lambda>_. no_transfer), reservedLocators = (\<lambda>_. no_bytes32)\<rparr>"

section \<open>Encodings and limits\<close>

definition be256 :: "nat \<Rightarrow> bytes" where
  \<comment> \<open>a \<^verbatim>\<open>uint256\<close> in the contract encoding\<close>
  "be256 n = map (\<lambda>i. word_of_nat (n div 256 ^ (31 - i))) [0..<32]"

definition abi_address :: "address \<Rightarrow> bytes" where
  "abi_address a = replicate 12 0 @ a"

definition abi_text :: "string \<Rightarrow> bytes" where
  \<comment> \<open>the tail of a string: its length, and its bytes padded to a multiple of 32\<close>
  "abi_text s = be256 (length s) @ bytes_of s @ replicate ((32 - length s mod 32) mod 32) 0"

definition locator_of :: "deployment \<Rightarrow> address \<Rightarrow> string \<Rightarrow> bytes32" where
  "locator_of d ow name = keccak256 d (abi_address ow @ be256 64 @ abi_text name)"

definition repo_id_of :: "deployment \<Rightarrow> call_env \<Rightarrow> string \<Rightarrow> bytes32" where
  "repo_id_of d e name =
     keccak256 d (be256 160 @ be256 (block_chainid e) @ abi_address (suite_directory d) @ abi_address (msg_sender e) @
       be256 224 @ abi_text ''igit:suite:v3:repo'' @ abi_text name)"

definition text_hash :: "deployment \<Rightarrow> string \<Rightarrow> bytes32" where
  "text_hash d s = keccak256 d (bytes_of s)"

definition MAX_NAME_LENGTH :: nat where "MAX_NAME_LENGTH = 64"
definition MAX_DESCRIPTION_LENGTH :: nat where "MAX_DESCRIPTION_LENGTH = 1024"
definition MAX_REF_NAME_LENGTH :: nat where "MAX_REF_NAME_LENGTH = 256"
definition MAX_PACK_URIS :: nat where "MAX_PACK_URIS = 128"
definition MAX_PACK_URI_LENGTH :: nat where "MAX_PACK_URI_LENGTH = 512"
definition MAX_REFS_PER_REPO :: nat where "MAX_REFS_PER_REPO = 1024"
definition MAX_COLLABORATORS_PER_REPO :: nat where "MAX_COLLABORATORS_PER_REPO = 256"
definition MAX_FORK_REFS :: nat where "MAX_FORK_REFS = 64"
definition MAX_QUERY_PAGE_SIZE :: nat where "MAX_QUERY_PAGE_SIZE = 64"
definition OWNERSHIP_TRANSFER_DELAY :: nat where "OWNERSHIP_TRANSFER_DELAY = 7 * 86400"
definition OWNERSHIP_TRANSFER_WINDOW :: nat where "OWNERSHIP_TRANSFER_WINDOW = 30 * 86400"

section \<open>Checks\<close>

definition requireActive :: "call_env \<Rightarrow> core_error + unit" where
  "requireActive e = guard_err (\<not> suite_is_active e) SuiteNotActive"

definition requireRepository :: "core \<Rightarrow> bytes32 \<Rightarrow> core_error + Repository" where
  "requireRepository c repoId =
     bind_res (guard_err (\<not> rep_exists (repositories c repoId)) (RepositoryNotFound repoId)) (\<lambda>_. Inr (repositories c repoId))"

definition requireLength :: "string \<Rightarrow> nat \<Rightarrow> core_error + unit" where
  "requireLength v maximum = guard_err (length v > maximum) (InputTooLong (length v) maximum)"

definition name_char :: "char \<Rightarrow> bool" where
  "name_char c \<longleftrightarrow> (CHR ''a'' \<le> c \<and> c \<le> CHR ''z'') \<or> (CHR ''A'' \<le> c \<and> c \<le> CHR ''Z'') \<or> (CHR ''0'' \<le> c \<and> c \<le> CHR ''9'') \<or>
     c = CHR ''-'' \<or> c = CHR ''_'' \<or> c = CHR ''.''"

definition validateRepositoryName :: "string \<Rightarrow> core_error + unit" where
  "validateRepositoryName v =
     guard_err (length v = 0 \<or> length v > MAX_NAME_LENGTH \<or> \<not> list_all name_char v) (InvalidRepositoryName v)"

definition ref_char :: "char \<Rightarrow> bool" where
  "ref_char c \<longleftrightarrow> CHR 0x21 \<le> c \<and> c \<le> CHR 0x7e \<and> c \<notin> {CHR ''~'', CHR ''^'', CHR '':'', CHR 0x5c}"

fun ref_chars :: "char \<Rightarrow> string \<Rightarrow> bool" where
  \<comment> \<open>the loop over the rest of the name, with the character before it\<close>
  "ref_chars before [] = True"
| "ref_chars before (c # s) \<longleftrightarrow> ref_char c \<and> \<not> (c = CHR ''.'' \<and> before = CHR ''.'') \<and> ref_chars c s"

definition validateRefName :: "string \<Rightarrow> core_error + unit" where
  "validateRefName v =
     guard_err (length v < 5 \<or> length v > MAX_REF_NAME_LENGTH \<or> take 5 v \<noteq> ''refs/'' \<or> \<not> ref_chars CHR ''/'' (drop 5 v)) (InvalidRefName v)"

definition sha_char :: "char \<Rightarrow> bool" where
  "sha_char c \<longleftrightarrow> (CHR ''0'' \<le> c \<and> c \<le> CHR ''9'') \<or> (CHR ''a'' \<le> c \<and> c \<le> CHR ''f'') \<or> (CHR ''A'' \<le> c \<and> c \<le> CHR ''F'')"

definition validateCommitSha :: "string \<Rightarrow> core_error + unit" where
  "validateCommitSha v = guard_err ((length v \<noteq> 40 \<and> length v \<noteq> 64) \<or> \<not> list_all sha_char v) (InvalidCommitSha v)"

definition validatePackUri :: "string \<Rightarrow> core_error + unit" where
  "validatePackUri v =
     guard_err (length v \<le> 7 \<or> length v > MAX_PACK_URI_LENGTH \<or> take 7 v \<noteq> ''ipfs://'') (InvalidPackUri v)"

definition now64 :: "call_env \<Rightarrow> core_error + u64" where
  "now64 e = bind_res (guard_err (block_timestamp e \<ge> 2 ^ 64) (TimestampOverflow (block_timestamp e))) (\<lambda>_.
     Inr (word_of_nat (block_timestamp e)))"

definition addTime :: "u64 \<Rightarrow> nat \<Rightarrow> core_error + u64" where
  "addTime timestamp delay =
     bind_res (guard_err (unat timestamp + delay \<ge> 2 ^ 64) (TimestampOverflow (unat timestamp + delay))) (\<lambda>_.
     Inr (word_of_nat (unat timestamp + delay)))"

definition canMaintain :: "core \<Rightarrow> bytes32 \<Rightarrow> address \<Rightarrow> address \<Rightarrow> bool" where
  "canMaintain c repoId ow actor \<longleftrightarrow> actor = ow \<or> roles c repoId actor = Maintainer"

definition moderation_of :: "call_env \<Rightarrow> core_error + address" where
  "moderation_of e = bind_res (guard_err (moderation_module e = no_address) SuiteNotActive) (\<lambda>_. Inr (moderation_module e))"

definition requireLocatorAvailable :: "core \<Rightarrow> bytes32 \<Rightarrow> address \<Rightarrow> string \<Rightarrow> core_error + unit" where
  "requireLocatorAvailable c loc ow name =
     guard_err (locators c loc \<noteq> no_bytes32 \<or> reservedLocators c loc \<noteq> no_bytes32) (LocatorUnavailable ow name)"

definition requireLocatorAvailableFor :: "core \<Rightarrow> bytes32 \<Rightarrow> bytes32 \<Rightarrow> address \<Rightarrow> string \<Rightarrow> core_error + unit" where
  "requireLocatorAvailableFor c repoId loc ow name =
    (let occupied = locators c loc; reserved = reservedLocators c loc in
     guard_err ((occupied \<noteq> no_bytes32 \<and> occupied \<noteq> repoId) \<or> (reserved \<noteq> no_bytes32 \<and> reserved \<noteq> repoId)) (LocatorUnavailable ow name))"

section \<open>Storage updates\<close>

definition set_repo :: "bytes32 \<Rightarrow> Repository \<Rightarrow> core \<Rightarrow> core" where
  "set_repo i r c = c\<lparr>repositories := (repositories c)(i := r)\<rparr>"

definition set_locator :: "bytes32 \<Rightarrow> bytes32 \<Rightarrow> core \<Rightarrow> core" where
  "set_locator loc i c = c\<lparr>locators := (locators c)(loc := i)\<rparr>"

definition set_ref :: "bytes32 \<Rightarrow> bytes32 \<Rightarrow> GitRef \<Rightarrow> core \<Rightarrow> core" where
  "set_ref i h r c = c\<lparr>refs := (refs c)(i := (refs c i)(h := r))\<rparr>"

definition set_names :: "bytes32 \<Rightarrow> string list \<Rightarrow> core \<Rightarrow> core" where
  "set_names i ns c = c\<lparr>refNames := (refNames c)(i := ns)\<rparr>"

definition set_role :: "bytes32 \<Rightarrow> address \<Rightarrow> Role \<Rightarrow> core \<Rightarrow> core" where
  "set_role i a r c = c\<lparr>roles := (roles c)(i := (roles c i)(a := r))\<rparr>"

definition set_collaborators :: "bytes32 \<Rightarrow> address list \<Rightarrow> core \<Rightarrow> core" where
  "set_collaborators i as c = c\<lparr>collaborators := (collaborators c)(i := as)\<rparr>"

definition set_collaborator_index :: "bytes32 \<Rightarrow> address \<Rightarrow> nat \<Rightarrow> core \<Rightarrow> core" where
  "set_collaborator_index i a n c = c\<lparr>collaboratorIndexes := (collaboratorIndexes c)(i := (collaboratorIndexes c i)(a := n))\<rparr>"

definition set_owned :: "address \<Rightarrow> bytes32 list \<Rightarrow> core \<Rightarrow> core" where
  "set_owned a ids c = c\<lparr>ownerRepositories := (ownerRepositories c)(a := ids)\<rparr>"

definition set_owned_index :: "bytes32 \<Rightarrow> nat \<Rightarrow> core \<Rightarrow> core" where
  "set_owned_index i n c = c\<lparr>ownerRepositoryIndexes := (ownerRepositoryIndexes c)(i := n)\<rparr>"

definition set_pending :: "bytes32 \<Rightarrow> PendingTransfer \<Rightarrow> core \<Rightarrow> core" where
  "set_pending i p c = c\<lparr>pendingTransfers := (pendingTransfers c)(i := p)\<rparr>"

definition set_reserved :: "bytes32 \<Rightarrow> bytes32 \<Rightarrow> core \<Rightarrow> core" where
  "set_reserved loc i c = c\<lparr>reservedLocators := (reservedLocators c)(loc := i)\<rparr>"

section \<open>Creating\<close>

definition storeRepository :: "deployment \<Rightarrow> Repository \<Rightarrow> core \<Rightarrow> core_error + core" where
  \<comment> \<open>the argument has the fields of \<^verbatim>\<open>ImportRepository\<close>, and \<^verbatim>\<open>exists\<close> set\<close>
  "storeRepository d r c =
     bind_res (guard_err (rep_id r = no_bytes32 \<or> rep_owner r = no_address \<or> rep_createdAt r = 0 \<or> rep_updatedAt r < rep_createdAt r)
       InvalidImportRecord) (\<lambda>_.
     bind_res (guard_err (rep_forkedFrom r \<noteq> no_bytes32 \<and> \<not> rep_exists (repositories c (rep_forkedFrom r))) InvalidImportRecord) (\<lambda>_.
     bind_res (validateRepositoryName (rep_name r)) (\<lambda>_.
     bind_res (requireLength (rep_description r) MAX_DESCRIPTION_LENGTH) (\<lambda>_.
     bind_res (requireLength (rep_defaultBranch r) MAX_NAME_LENGTH) (\<lambda>_.
     bind_res (guard_err (rep_exists (repositories c (rep_id r))) (RepositoryAlreadyExists (rep_id r))) (\<lambda>_.
     let loc = locator_of d (rep_owner r) (rep_name r) in
     bind_res (requireLocatorAvailable c loc (rep_owner r) (rep_name r)) (\<lambda>_.
     let owned = ownerRepositories c (rep_owner r) in
     Inr (set_owned (rep_owner r) (owned @ [rep_id r])
         (set_owned_index (rep_id r) (length owned + 1)
         (set_locator loc (rep_id r)
         (set_repo (rep_id r) (r\<lparr>rep_exists := True\<rparr>) c)))))))))))"

definition createRepository :: "deployment \<Rightarrow> call_env \<Rightarrow> string \<Rightarrow> string \<Rightarrow> string \<Rightarrow> core \<Rightarrow> core_error + bytes32 \<times> core" where
  "createRepository d e name description defaultBranch c =
     bind_res (requireActive e) (\<lambda>_.
     bind_res (validateRepositoryName name) (\<lambda>_.
     bind_res (requireLength description MAX_DESCRIPTION_LENGTH) (\<lambda>_.
     bind_res (requireLength defaultBranch MAX_NAME_LENGTH) (\<lambda>_.
     let branch = (if length defaultBranch = 0 then ''main'' else defaultBranch); loc = locator_of d (msg_sender e) name in
     bind_res (requireLocatorAvailable c loc (msg_sender e) name) (\<lambda>_.
     let repoId = repo_id_of d e name in
     bind_res (guard_err (rep_exists (repositories c repoId)) (RepositoryAlreadyExists repoId)) (\<lambda>_.
     bind_res (now64 e) (\<lambda>now.
     bind_res (storeRepository d \<lparr>rep_id = repoId, rep_owner = msg_sender e, rep_name = name, rep_description = description,
       rep_defaultBranch = branch, rep_forkedFrom = no_bytes32, rep_createdAt = now, rep_updatedAt = now, rep_exists = True\<rparr> c) (\<lambda>c.
     Inr (repoId, c)))))))))"

definition copy_ref :: "deployment \<Rightarrow> call_env \<Rightarrow> u64 \<Rightarrow> bytes32 \<Rightarrow> bytes32 \<Rightarrow> string \<Rightarrow> core \<Rightarrow> core" where
  "copy_ref d e now source fork refName c =
    (let h = text_hash d refName; original = refs c source h in
     set_names fork (refNames c fork @ [refName])
       (set_ref fork h \<lparr>gr_commitSha = gr_commitSha original, gr_packUris = gr_packUris original, gr_updatedAt = now,
          gr_updatedBy = msg_sender e, gr_exists = True\<rparr> c))"

definition forkRepository :: "deployment \<Rightarrow> call_env \<Rightarrow> bytes32 \<Rightarrow> string \<Rightarrow> core \<Rightarrow> core_error + bytes32 \<times> core" where
  "forkRepository d e sourceRepoId newName c =
     bind_res (requireActive e) (\<lambda>_.
     bind_res (requireRepository c sourceRepoId) (\<lambda>source.
     bind_res (moderation_of e) (\<lambda>_.
     bind_res (guard_err (\<not> allows_fork e sourceRepoId (msg_sender e)) OtherModule) (\<lambda>_.
     let names = refNames c sourceRepoId in
     bind_res (guard_err (length names > MAX_FORK_REFS) (ForkTooLarge (length names) MAX_FORK_REFS)) (\<lambda>_.
     bind_res (validateRepositoryName newName) (\<lambda>_.
     let loc = locator_of d (msg_sender e) newName in
     bind_res (requireLocatorAvailable c loc (msg_sender e) newName) (\<lambda>_.
     let forkId = repo_id_of d e newName in
     bind_res (guard_err (rep_exists (repositories c forkId)) (RepositoryAlreadyExists forkId)) (\<lambda>_.
     bind_res (now64 e) (\<lambda>now.
     bind_res (storeRepository d \<lparr>rep_id = forkId, rep_owner = msg_sender e, rep_name = newName,
       rep_description = rep_description source, rep_defaultBranch = rep_defaultBranch source, rep_forkedFrom = sourceRepoId,
       rep_createdAt = now, rep_updatedAt = now, rep_exists = True\<rparr> c) (\<lambda>c.
     Inr (forkId, fold (copy_ref d e now sourceRepoId forkId) names c)))))))))))"

section \<open>Metadata and refs\<close>

definition updateMetadata :: "call_env \<Rightarrow> bytes32 \<Rightarrow> bool \<Rightarrow> string \<Rightarrow> bool \<Rightarrow> string \<Rightarrow> core \<Rightarrow> core_error + core" where
  "updateMetadata e repoId updateDescription description updateDefaultBranch defaultBranch c =
     bind_res (requireActive e) (\<lambda>_.
     bind_res (requireRepository c repoId) (\<lambda>r.
     bind_res (if msg_sender e = rep_owner r then Inr ()
       else if updateDescription \<or> updateDefaultBranch then Inl (Unauthorized (msg_sender e))
       else bind_res (moderation_of e) (\<lambda>m. guard_err (msg_sender e \<noteq> m) (Unauthorized (msg_sender e)))) (\<lambda>_.
     bind_res (if updateDescription then requireLength description MAX_DESCRIPTION_LENGTH else Inr ()) (\<lambda>_.
     let r = (if updateDescription then r\<lparr>rep_description := description\<rparr> else r) in
     bind_res (if updateDefaultBranch then requireLength defaultBranch MAX_NAME_LENGTH else Inr ()) (\<lambda>_.
     let r = (if updateDefaultBranch then r\<lparr>rep_defaultBranch := defaultBranch\<rparr> else r) in
     bind_res (now64 e) (\<lambda>now.
     Inr (set_repo repoId (r\<lparr>rep_updatedAt := now\<rparr>) c)))))))"

definition contains_uri :: "deployment \<Rightarrow> string list \<Rightarrow> string \<Rightarrow> bool" where
  "contains_uri d uris candidate \<longleftrightarrow> list_ex (\<lambda>u. text_hash d u = text_hash d candidate) uris"

definition add_uri :: "deployment \<Rightarrow> string \<Rightarrow> string list \<Rightarrow> core_error + string list" where
  "add_uri d u uris =
    (if contains_uri d uris u then Inr uris
     else bind_res (guard_err (length uris \<ge> MAX_PACK_URIS) (TooManyPackUris (length uris + 1) MAX_PACK_URIS)) (\<lambda>_. Inr (uris @ [u])))"

definition authorize_refs :: "call_env \<Rightarrow> bytes32 \<Rightarrow> core \<Rightarrow> core_error + Repository" where
  \<comment> \<open>the checks \<^verbatim>\<open>updateRef\<close> and \<^verbatim>\<open>deleteRef\<close> begin with\<close>
  "authorize_refs e repoId c =
     bind_res (requireActive e) (\<lambda>_.
     bind_res (requireRepository c repoId) (\<lambda>r.
     bind_res (guard_err (\<not> canMaintain c repoId (rep_owner r) (msg_sender e)) (Unauthorized (msg_sender e))) (\<lambda>_.
     bind_res (moderation_of e) (\<lambda>_.
     bind_res (guard_err (\<not> allows_ref_mutation e repoId (msg_sender e)) OtherModule) (\<lambda>_.
     Inr r)))))"

definition updateRef ::
  "deployment \<Rightarrow> call_env \<Rightarrow> bytes32 \<Rightarrow> string \<Rightarrow> string \<Rightarrow> string list \<Rightarrow> string \<Rightarrow> bool \<Rightarrow> core \<Rightarrow> core_error + core" where
  "updateRef d e repoId refName commitSha packUris expectedSha force c =
     bind_res (authorize_refs e repoId c) (\<lambda>r.
     bind_res (validateRefName refName) (\<lambda>_.
     bind_res (validateCommitSha commitSha) (\<lambda>_.
     bind_res (guard_err (length packUris = 0 \<or> length packUris > MAX_PACK_URIS) (TooManyPackUris (length packUris) MAX_PACK_URIS)) (\<lambda>_.
     bind_res (for_check validatePackUri packUris) (\<lambda>_.
     let refId = text_hash d refName; target = refs c repoId refId; names = refNames c repoId in
     bind_res (guard_err (\<not> force \<and> gr_exists target \<and> text_hash d (gr_commitSha target) \<noteq> text_hash d expectedSha)
       (ShaMismatch expectedSha (gr_commitSha target))) (\<lambda>_.
     bind_res (guard_err (\<not> gr_exists target \<and> length names \<ge> MAX_REFS_PER_REPO) (TooManyRefs (length names + 1) MAX_REFS_PER_REPO)) (\<lambda>_.
     bind_res (if force \<or> length (gr_packUris target) = 0 then Inr packUris
       else for_res (add_uri d) packUris (gr_packUris target)) (\<lambda>uris.
     bind_res (now64 e) (\<lambda>now.
     Inr (set_repo repoId (r\<lparr>rep_updatedAt := now\<rparr>)
         (set_ref repoId refId \<lparr>gr_commitSha = commitSha, gr_packUris = uris, gr_updatedAt = now, gr_updatedBy = msg_sender e, gr_exists = True\<rparr>
         (set_names repoId (if gr_exists target then names else names @ [refName]) c))))))))))))"

fun swap_remove :: "('a \<Rightarrow> bool) \<Rightarrow> 'a list \<Rightarrow> 'a list" where
  \<comment> \<open>the first match is replaced by the last element, and the list shortened\<close>
  "swap_remove P [] = []"
| "swap_remove P (x # xs) =
    (if P x then (case xs of [] \<Rightarrow> [] | _ \<Rightarrow> last xs # butlast xs) else x # swap_remove P xs)"

definition deleteRef :: "deployment \<Rightarrow> call_env \<Rightarrow> bytes32 \<Rightarrow> string \<Rightarrow> core \<Rightarrow> core_error + core" where
  "deleteRef d e repoId refName c =
     bind_res (authorize_refs e repoId c) (\<lambda>r.
     let refId = text_hash d refName in
     bind_res (guard_err (\<not> gr_exists (refs c repoId refId)) (RefNotFound repoId refId)) (\<lambda>_.
     bind_res (now64 e) (\<lambda>now.
     Inr (set_repo repoId (r\<lparr>rep_updatedAt := now\<rparr>)
         (set_names repoId (swap_remove (\<lambda>n. text_hash d n = refId) (refNames c repoId))
         (set_ref repoId refId no_ref c))))))"

section \<open>Collaborators\<close>

definition removeCollaborator :: "bytes32 \<Rightarrow> address \<Rightarrow> core \<Rightarrow> core_error + core" where
  "removeCollaborator repoId account c =
    (let indexPlusOne = collaboratorIndexes c repoId account; xs = collaborators c repoId in
     bind_res (if indexPlusOne \<noteq> 0 then
         bind_res (guard_err (xs = [] \<or> indexPlusOne - 1 \<ge> length xs) Panic) (\<lambda>_.
         let index = indexPlusOne - 1; moved = last xs in
         Inr (set_collaborator_index repoId moved (index + 1) (set_collaborators repoId (butlast (xs[index := moved])) c)))
       else Inr c) (\<lambda>c.
     Inr (set_role repoId account Role_None (set_collaborator_index repoId account 0 c))))"

definition add_collaborator :: "bytes32 \<Rightarrow> address \<Rightarrow> core \<Rightarrow> core" where
  "add_collaborator repoId account c =
    (let xs = collaborators c repoId @ [account] in
     set_collaborator_index repoId account (length xs) (set_collaborators repoId xs c))"

definition setCollaborator :: "call_env \<Rightarrow> bytes32 \<Rightarrow> address \<Rightarrow> Role \<Rightarrow> core \<Rightarrow> core_error + core" where
  "setCollaborator e repoId account role c =
     bind_res (requireActive e) (\<lambda>_.
     bind_res (requireRepository c repoId) (\<lambda>r.
     bind_res (guard_err (msg_sender e \<noteq> rep_owner r) (Unauthorized (msg_sender e))) (\<lambda>_.
     bind_res (guard_err (account = no_address \<or> account = rep_owner r) (InvalidCollaborator account)) (\<lambda>_.
     let previous = roles c repoId account; n = length (collaborators c repoId) in
     if role = Role_None then (if previous \<noteq> Role_None then removeCollaborator repoId account c else Inr c)
     else if previous = Role_None then
       bind_res (guard_err (n \<ge> MAX_COLLABORATORS_PER_REPO) (TooManyCollaborators (n + 1) MAX_COLLABORATORS_PER_REPO)) (\<lambda>_.
       Inr (set_role repoId account role (add_collaborator repoId account c)))
     else Inr (set_role repoId account role c)))))"

section \<open>Ownership\<close>

definition beginOwnershipTransfer :: "deployment \<Rightarrow> call_env \<Rightarrow> bytes32 \<Rightarrow> address \<Rightarrow> core \<Rightarrow> core_error + core" where
  "beginOwnershipTransfer d e repoId newOwner c =
     bind_res (requireActive e) (\<lambda>_.
     bind_res (requireRepository c repoId) (\<lambda>r.
     bind_res (guard_err (msg_sender e \<noteq> rep_owner r) (Unauthorized (msg_sender e))) (\<lambda>_.
     bind_res (guard_err (newOwner = no_address \<or> newOwner = rep_owner r) (InvalidTransferTarget newOwner)) (\<lambda>_.
     bind_res (guard_err (pd_newOwner (pendingTransfers c repoId) \<noteq> no_address) (TransferAlreadyPending repoId)) (\<lambda>_.
     bind_res (guard_err (recovery_module e = no_address) SuiteNotActive) (\<lambda>_.
     bind_res (guard_err (has_pending_recovery e repoId) (RecoveryPending repoId)) (\<lambda>_.
     let target = locator_of d newOwner (rep_name r) in
     bind_res (requireLocatorAvailable c target newOwner (rep_name r)) (\<lambda>_.
     bind_res (now64 e) (\<lambda>now.
     bind_res (addTime now OWNERSHIP_TRANSFER_DELAY) (\<lambda>executeAfter.
     bind_res (addTime executeAfter OWNERSHIP_TRANSFER_WINDOW) (\<lambda>expiresAt.
     Inr (set_reserved target repoId
         (set_pending repoId \<lparr>pd_newOwner = newOwner, pd_executeAfter = executeAfter, pd_expiresAt = expiresAt\<rparr> c)))))))))))))"

definition clearPending :: "deployment \<Rightarrow> bytes32 \<Rightarrow> string \<Rightarrow> address \<Rightarrow> core \<Rightarrow> core" where
  "clearPending d repoId name newOwner c = set_pending repoId no_transfer (set_reserved (locator_of d newOwner name) no_bytes32 c)"

definition requirePending :: "core \<Rightarrow> bytes32 \<Rightarrow> core_error + PendingTransfer" where
  "requirePending c repoId =
     bind_res (guard_err (pd_newOwner (pendingTransfers c repoId) = no_address) (TransferNotPending repoId)) (\<lambda>_.
     Inr (pendingTransfers c repoId))"

definition cancelOwnershipTransfer :: "deployment \<Rightarrow> call_env \<Rightarrow> bytes32 \<Rightarrow> core \<Rightarrow> core_error + core" where
  "cancelOwnershipTransfer d e repoId c =
     bind_res (requireActive e) (\<lambda>_.
     bind_res (requireRepository c repoId) (\<lambda>r.
     bind_res (requirePending c repoId) (\<lambda>pending.
     bind_res (guard_err (msg_sender e \<noteq> rep_owner r \<and> msg_sender e \<noteq> pd_newOwner pending) (Unauthorized (msg_sender e))) (\<lambda>_.
     Inr (clearPending d repoId (rep_name r) (pd_newOwner pending) c)))))"

definition expireOwnershipTransfer :: "deployment \<Rightarrow> call_env \<Rightarrow> bytes32 \<Rightarrow> core \<Rightarrow> core_error + core" where
  "expireOwnershipTransfer d e repoId c =
     bind_res (requireActive e) (\<lambda>_.
     bind_res (requireRepository c repoId) (\<lambda>r.
     bind_res (requirePending c repoId) (\<lambda>pending.
     bind_res (now64 e) (\<lambda>now.
     bind_res (guard_err (now \<le> pd_expiresAt pending) (TransferNotExpired (pd_expiresAt pending))) (\<lambda>_.
     Inr (clearPending d repoId (rep_name r) (pd_newOwner pending) c))))))"

definition moveOwnerIndex :: "bytes32 \<Rightarrow> address \<Rightarrow> address \<Rightarrow> core \<Rightarrow> core_error + core" where
  "moveOwnerIndex repoId oldOwner newOwner c =
    (let indexPlusOne = ownerRepositoryIndexes c repoId; oldList = ownerRepositories c oldOwner in
     bind_res (guard_err (indexPlusOne = 0) InvalidImportRecord) (\<lambda>_.
     bind_res (guard_err (oldList = [] \<or> indexPlusOne - 1 \<ge> length oldList) Panic) (\<lambda>_.
     let index = indexPlusOne - 1; moved = last oldList;
         c = set_owned oldOwner (butlast (oldList[index := moved])) (set_owned_index moved (index + 1) c);
         newList = ownerRepositories c newOwner in
     Inr (set_owned newOwner (newList @ [repoId]) (set_owned_index repoId (length newList + 1) c)))))"

definition transferOwnership :: "deployment \<Rightarrow> call_env \<Rightarrow> bytes32 \<Rightarrow> Repository \<Rightarrow> address \<Rightarrow> core \<Rightarrow> core_error + core" where
  "transferOwnership d e repoId r newOwner c =
    (let oldLocator = locator_of d (rep_owner r) (rep_name r); newLocator = locator_of d newOwner (rep_name r) in
     bind_res (requireLocatorAvailableFor c repoId newLocator newOwner (rep_name r)) (\<lambda>_.
     bind_res (moveOwnerIndex repoId (rep_owner r) newOwner c) (\<lambda>c.
     let c = set_pending repoId no_transfer (set_reserved newLocator no_bytes32
           (set_repo repoId (r\<lparr>rep_owner := newOwner\<rparr>) (set_locator newLocator repoId (set_locator oldLocator repoId c)))) in
     bind_res (guard_err (economic_module e = no_address) SuiteNotActive) (\<lambda>_.
     bind_res (guard_err (\<not> clears_splits e repoId) OtherModule) (\<lambda>_.
     Inr c)))))"

definition acceptOwnershipTransfer :: "deployment \<Rightarrow> call_env \<Rightarrow> bytes32 \<Rightarrow> core \<Rightarrow> core_error + core" where
  "acceptOwnershipTransfer d e repoId c =
     bind_res (requireActive e) (\<lambda>_.
     bind_res (requireRepository c repoId) (\<lambda>r.
     bind_res (requirePending c repoId) (\<lambda>pending.
     bind_res (guard_err (msg_sender e \<noteq> pd_newOwner pending) (Unauthorized (msg_sender e))) (\<lambda>_.
     bind_res (now64 e) (\<lambda>now.
     bind_res (guard_err (now < pd_executeAfter pending) (TransferTooEarly (pd_executeAfter pending))) (\<lambda>_.
     bind_res (guard_err (now > pd_expiresAt pending) (TransferExpired (pd_expiresAt pending))) (\<lambda>_.
     transferOwnership d e repoId r (pd_newOwner pending) c)))))))"

definition recoverOwnership :: "deployment \<Rightarrow> call_env \<Rightarrow> bytes32 \<Rightarrow> address \<Rightarrow> core \<Rightarrow> core_error + core" where
  "recoverOwnership d e repoId newOwner c =
     bind_res (requireActive e) (\<lambda>_.
     bind_res (guard_err (msg_sender e \<noteq> recovery_module e \<or> recovery_module e = no_address) (Unauthorized (msg_sender e))) (\<lambda>_.
     bind_res (requireRepository c repoId) (\<lambda>r.
     bind_res (guard_err (newOwner = no_address \<or> newOwner = rep_owner r) (InvalidTransferTarget newOwner)) (\<lambda>_.
     bind_res (requireLocatorAvailableFor c repoId (locator_of d newOwner (rep_name r)) newOwner (rep_name r)) (\<lambda>_.
     bind_res (guard_err (pd_newOwner (pendingTransfers c repoId) \<noteq> no_address) (TransferAlreadyPending repoId)) (\<lambda>_.
     transferOwnership d e repoId r newOwner c))))))"

section \<open>Views\<close>

definition getRepository :: "core \<Rightarrow> bytes32 \<Rightarrow> core_error + Repository" where
  "getRepository c repoId = requireRepository c repoId"

definition resolveRepository :: "deployment \<Rightarrow> core \<Rightarrow> address \<Rightarrow> string \<Rightarrow> core_error + Repository \<times> bool" where
  "resolveRepository d c ow name =
    (let repoId = locators c (locator_of d ow name) in
     bind_res (guard_err (repoId = no_bytes32) (LocatorNotFound ow name)) (\<lambda>_.
     let r = repositories c repoId in
     Inr (r, rep_owner r = ow \<and> text_hash d (rep_name r) = text_hash d name)))"

definition getRef :: "deployment \<Rightarrow> core \<Rightarrow> bytes32 \<Rightarrow> string \<Rightarrow> core_error + GitRef" where
  "getRef d c repoId refName =
     bind_res (requireRepository c repoId) (\<lambda>_.
     let refId = text_hash d refName in
     bind_res (guard_err (\<not> gr_exists (refs c repoId refId)) (RefNotFound repoId refId)) (\<lambda>_. Inr (refs c repoId refId)))"

definition requirePage :: "nat \<Rightarrow> nat \<Rightarrow> nat \<Rightarrow> core_error + unit" where
  "requirePage cursor limit size_of =
     bind_res (guard_err (limit = 0 \<or> limit > MAX_QUERY_PAGE_SIZE) (InvalidPageSize limit MAX_QUERY_PAGE_SIZE)) (\<lambda>_.
     guard_err (cursor > size_of) (InvalidCursor cursor size_of))"

definition pageEnd :: "nat \<Rightarrow> nat \<Rightarrow> nat \<Rightarrow> nat" where
  "pageEnd cursor limit size_of = (if cursor + limit > size_of then size_of else cursor + limit)"

definition slice :: "nat \<Rightarrow> nat \<Rightarrow> 'a list \<Rightarrow> 'a list" where
  \<comment> \<open>the loops that copy the elements from the cursor up to the end of the page\<close>
  "slice cursor end xs = map (\<lambda>i. xs ! i) [cursor..<end]"

definition listRepositoriesPage :: "core \<Rightarrow> address \<Rightarrow> nat \<Rightarrow> nat \<Rightarrow> core_error + Repository list \<times> nat" where
  "listRepositoriesPage c ow cursor limit =
    (let ids = ownerRepositories c ow in
     bind_res (requirePage cursor limit (length ids)) (\<lambda>_.
     let last_index = pageEnd cursor limit (length ids) in
     Inr (map (repositories c) (slice cursor last_index ids), last_index)))"

definition listRefsPage :: "deployment \<Rightarrow> core \<Rightarrow> bytes32 \<Rightarrow> nat \<Rightarrow> nat \<Rightarrow> core_error + string list \<times> GitRef list \<times> nat" where
  "listRefsPage d c repoId cursor limit =
     bind_res (requireRepository c repoId) (\<lambda>_.
     let source = refNames c repoId in
     bind_res (requirePage cursor limit (length source)) (\<lambda>_.
     let last_index = pageEnd cursor limit (length source); names = slice cursor last_index source in
     Inr (names, map (\<lambda>n. refs c repoId (text_hash d n)) names, last_index)))"

definition listCollaboratorsPage :: "core \<Rightarrow> bytes32 \<Rightarrow> nat \<Rightarrow> nat \<Rightarrow> core_error + address list \<times> Role list \<times> nat" where
  "listCollaboratorsPage c repoId cursor limit =
     bind_res (requireRepository c repoId) (\<lambda>_.
     let source = collaborators c repoId in
     bind_res (requirePage cursor limit (length source)) (\<lambda>_.
     let last_index = pageEnd cursor limit (length source); accounts = slice cursor last_index source in
     Inr (accounts, map (roles c repoId) accounts, last_index)))"

definition collaboratorRole :: "core \<Rightarrow> bytes32 \<Rightarrow> address \<Rightarrow> core_error + Role" where
  "collaboratorRole c repoId account = bind_res (requireRepository c repoId) (\<lambda>_. Inr (roles c repoId account))"

definition pendingOwnershipTransfer :: "core \<Rightarrow> bytes32 \<Rightarrow> core_error + PendingTransfer" where
  "pendingOwnershipTransfer c repoId = bind_res (requireRepository c repoId) (\<lambda>_. Inr (pendingTransfers c repoId))"

definition canMaintain_view :: "core \<Rightarrow> bytes32 \<Rightarrow> address \<Rightarrow> core_error + bool" where
  \<comment> \<open>the external function \<^verbatim>\<open>canMaintain\<close>\<close>
  "canMaintain_view c repoId actor = bind_res (requireRepository c repoId) (\<lambda>r. Inr (canMaintain c repoId (rep_owner r) actor))"

section \<open>Imports\<close>

datatype import_payload =
    ImportRepositories "Repository list"
  | ImportAliases "(bytes32 \<times> address \<times> string) list"
  | ImportRefs "ImportRef list"
  | ImportCollaborators "(bytes32 \<times> address \<times> Role) list"
  | ImportOther u8

definition store_alias :: "deployment \<Rightarrow> bytes32 \<times> address \<times> string \<Rightarrow> core \<Rightarrow> core_error + core" where
  "store_alias d a c = (case a of (repoId, ow, name) \<Rightarrow>
     bind_res (requireRepository c repoId) (\<lambda>_.
     bind_res (validateRepositoryName name) (\<lambda>_.
     bind_res (guard_err (ow = no_address) InvalidImportRecord) (\<lambda>_.
     let loc = locator_of d ow name in
     bind_res (guard_err (locators c loc \<noteq> no_bytes32 \<or> reservedLocators c loc \<noteq> no_bytes32) InvalidImportRecord) (\<lambda>_.
     Inr (set_locator loc repoId c))))))"

definition storeImportedRef :: "deployment \<Rightarrow> ImportRef \<Rightarrow> core \<Rightarrow> core_error + core" where
  "storeImportedRef d i c =
     bind_res (requireRepository c (im_repoId i)) (\<lambda>_.
     bind_res (validateRefName (im_refName i)) (\<lambda>_.
     bind_res (validateCommitSha (im_commitSha i)) (\<lambda>_.
     bind_res (guard_err (length (im_packUris i) = 0 \<or> length (im_packUris i) > MAX_PACK_URIS \<or> im_updatedAt i = 0 \<or> im_updatedBy i = no_address)
       InvalidImportRecord) (\<lambda>_.
     let refId = text_hash d (im_refName i) in
     bind_res (guard_err (gr_exists (refs c (im_repoId i) refId)) InvalidImportRecord) (\<lambda>_.
     bind_res (for_check validatePackUri (im_packUris i)) (\<lambda>_.
     let names = refNames c (im_repoId i) @ [im_refName i] in
     bind_res (guard_err (length names > MAX_REFS_PER_REPO) (TooManyRefs (length names) MAX_REFS_PER_REPO)) (\<lambda>_.
     Inr (set_names (im_repoId i) names
       (set_ref (im_repoId i) refId \<lparr>gr_commitSha = im_commitSha i, gr_packUris = im_packUris i, gr_updatedAt = im_updatedAt i,
          gr_updatedBy = im_updatedBy i, gr_exists = True\<rparr> c)))))))))"

definition storeImportedCollaborator :: "bytes32 \<times> address \<times> Role \<Rightarrow> core \<Rightarrow> core_error + core" where
  "storeImportedCollaborator i c = (case i of (repoId, account, role) \<Rightarrow>
     bind_res (requireRepository c repoId) (\<lambda>r.
     bind_res (guard_err (account = no_address \<or> account = rep_owner r \<or> role = Role_None) InvalidImportRecord) (\<lambda>_.
     bind_res (guard_err (roles c repoId account \<noteq> Role_None) InvalidImportRecord) (\<lambda>_.
     let c = add_collaborator repoId account (set_role repoId account role c); n = length (collaborators c repoId) in
     bind_res (guard_err (n > MAX_COLLABORATORS_PER_REPO) (TooManyCollaborators n MAX_COLLABORATORS_PER_REPO)) (\<lambda>_.
     Inr c)))))"

definition importPayload :: "deployment \<Rightarrow> import_payload \<Rightarrow> core \<Rightarrow> core_error + core" where
  \<comment> \<open>\<^verbatim>\<open>_importPayload\<close> after the decoding of the payload\<close>
  "importPayload d p c = (case p of
     ImportRepositories rs \<Rightarrow> for_res (storeRepository d) rs c
   | ImportAliases as \<Rightarrow> for_res (store_alias d) as c
   | ImportRefs is \<Rightarrow> for_res (storeImportedRef d) is c
   | ImportCollaborators is \<Rightarrow> for_res storeImportedCollaborator is c
   | ImportOther k \<Rightarrow> Inl (InvalidImportKind k))"

end
