(* ===== verification/Core_Invariant.thy ===== *)
theory Core_Invariant
  imports Repository_Core
begin

text \<open>
  The invariant of \<open>Repository_Core\<close>: its redundant storage (lists of names, positions, locators,
  reservations) describes the same repositories, and every operation keeps it so.
\<close>

section \<open>Lists with an index\<close>

definition indexed :: "'a list \<Rightarrow> ('a \<Rightarrow> nat) \<Rightarrow> bool" where
  \<comment> \<open>every element knows its position, plus one\<close>
  "indexed xs ix \<longleftrightarrow> (\<forall>k < length xs. ix (xs ! k) = k + 1)"

lemma indexedD: "indexed xs ix \<Longrightarrow> k < length xs \<Longrightarrow> ix (xs ! k) = k + 1"
  by (simp add: indexed_def)

lemma indexed_distinct: "indexed xs ix \<Longrightarrow> distinct xs"
  unfolding indexed_def distinct_conv_nth by (metis add_right_cancel)

lemma indexed_at: "indexed xs ix \<Longrightarrow> a \<in> set xs \<Longrightarrow> 0 < ix a \<and> ix a - 1 < length xs \<and> xs ! (ix a - 1) = a"
  unfolding indexed_def in_set_conv_nth by fastforce

lemma indexed_snoc: "indexed xs ix \<Longrightarrow> a \<notin> set xs \<Longrightarrow> indexed (xs @ [a]) (ix(a := length xs + 1))"
  unfolding indexed_def by (auto simp: nth_append less_Suc_eq)

lemma indexed_other: "indexed xs ix \<Longrightarrow> a \<notin> set xs \<Longrightarrow> indexed xs (ix(a := n))"
  unfolding indexed_def by (auto simp: in_set_conv_nth)

lemma indexed_swap:
  assumes "indexed xs ix" "a \<in> set xs"
  defines "ys \<equiv> butlast (xs[ix a - 1 := last xs])"
  shows "indexed ys (ix(last xs := ix a))" and "set ys = set xs - {a}" and "length ys = length xs - 1"
proof -
  define k where "k = ix a - 1"
  have k: "k < length xs" "xs ! k = a" "ix a = Suc k" using indexed_at[OF assms(1,2)] by (auto simp: k_def)
  have d: "distinct xs" by (rule indexed_distinct[OF assms(1)])
  obtain zs l where xs: "xs = zs @ [l]" using assms(2) by (cases xs rule: rev_cases) auto
  have "ys = butlast ((zs @ [l])[k := l])" by (simp add: ys_def xs k_def)
  also have "\<dots> = (if k = length zs then zs else zs[k := l])"
    using k(1) by (auto simp: xs list_update_append)
  finally have ys: "ys = (if k = length zs then zs else zs[k := l])" .
  show "length ys = length xs - 1" by (simp add: ys xs)
  show "set ys = set xs - {a}"
  proof (cases "k = length zs")
    case True
    then show ?thesis using k(2) d by (auto simp: ys xs)
  next
    case False
    then have "k < length zs" "zs ! k = a" using k by (auto simp: xs nth_append)
    then show ?thesis using False d by (auto simp: ys xs set_update_distinct)
  qed
  show "indexed ys (ix(last xs := ix a))"
    unfolding indexed_def
  proof (intro allI impI)
    fix j
    assume j: "j < length ys"
    then have jz: "j < length zs" by (auto simp: ys split: if_splits)
    have ixj: "ix (zs ! j) = j + 1" using indexedD[OF assms(1), of j] jz by (simp add: xs nth_append)
    have ne: "zs ! j \<noteq> l" using d jz by (auto simp: xs)
    show "(ix(last xs := ix a)) (ys ! j) = j + 1"
      using jz k(3) ixj ne by (cases "j = k") (auto simp: ys xs nth_list_update)
  qed
qed

lemma swap_remove_map:
  assumes "distinct (map f xs)"
  shows "distinct (map f (swap_remove (\<lambda>x. f x = h) xs))" "f ` set (swap_remove (\<lambda>x. f x = h) xs) = f ` set xs - {h}"
    "length (swap_remove (\<lambda>x. f x = h) xs) \<le> length xs"
proof -
  have "distinct (map f (swap_remove (\<lambda>x. f x = h) xs)) \<and> f ` set (swap_remove (\<lambda>x. f x = h) xs) = f ` set xs - {h} \<and>
      length (swap_remove (\<lambda>x. f x = h) xs) \<le> length xs"
    using assms
  proof (induction xs)
    case (Cons x xs)
    show ?case
    proof (cases "f x = h")
      case True
      then show ?thesis
      proof (cases xs rule: rev_cases)
        case (snoc ys y)
        then show ?thesis using Cons.prems True by (cases ys) auto
      qed (use Cons.prems True in auto)
    next
      case False
      then show ?thesis using Cons by auto
    qed
  qed simp
  then show "distinct (map f (swap_remove (\<lambda>x. f x = h) xs))" "f ` set (swap_remove (\<lambda>x. f x = h) xs) = f ` set xs - {h}"
    "length (swap_remove (\<lambda>x. f x = h) xs) \<le> length xs" by blast+
qed

section \<open>The invariant\<close>

abbreviation live :: "core \<Rightarrow> bytes32 \<Rightarrow> bool" where
  "live c i \<equiv> rep_exists (repositories c i)"

abbreviation home :: "deployment \<Rightarrow> core \<Rightarrow> bytes32 \<Rightarrow> bytes32" where
  \<comment> \<open>the canonical locator of a repository\<close>
  "home d c i \<equiv> locator_of d (rep_owner (repositories c i)) (rep_name (repositories c i))"

abbreviation goal :: "deployment \<Rightarrow> core \<Rightarrow> bytes32 \<Rightarrow> bytes32" where
  \<comment> \<open>the locator a pending transfer leads to\<close>
  "goal d c i \<equiv> locator_of d (pd_newOwner (pendingTransfers c i)) (rep_name (repositories c i))"

definition repo_inv :: "core \<Rightarrow> bool" where
  "repo_inv c \<longleftrightarrow> (\<forall>i. live c i \<longrightarrow> rep_id (repositories c i) = i \<and> i \<noteq> no_bytes32 \<and> rep_owner (repositories c i) \<noteq> no_address)"

definition refs_inv :: "deployment \<Rightarrow> core \<Rightarrow> bool" where
  "refs_inv d c \<longleftrightarrow> (\<forall>i.
     distinct (map (text_hash d) (refNames c i)) \<and> length (refNames c i) \<le> MAX_REFS_PER_REPO \<and> (\<not> live c i \<longrightarrow> refNames c i = []) \<and>
     (\<forall>h. gr_exists (refs c i h) \<longleftrightarrow> h \<in> text_hash d ` set (refNames c i)) \<and>
     (\<forall>h. gr_exists (refs c i h) \<longrightarrow> gr_packUris (refs c i h) \<noteq> [] \<and> length (gr_packUris (refs c i h)) \<le> MAX_PACK_URIS) \<and>
     (\<forall>h. \<not> gr_exists (refs c i h) \<longrightarrow> refs c i h = no_ref))"

definition collaborators_inv :: "core \<Rightarrow> bool" where
  "collaborators_inv c \<longleftrightarrow> (\<forall>i.
     indexed (collaborators c i) (collaboratorIndexes c i) \<and> length (collaborators c i) \<le> MAX_COLLABORATORS_PER_REPO \<and>
     (\<not> live c i \<longrightarrow> collaborators c i = []) \<and>
     (\<forall>a. roles c i a \<noteq> Role_None \<longleftrightarrow> a \<in> set (collaborators c i)) \<and>
     (\<forall>a. a \<notin> set (collaborators c i) \<longrightarrow> collaboratorIndexes c i a = 0))"

definition owners_inv :: "core \<Rightarrow> bool" where
  "owners_inv c \<longleftrightarrow>
     (\<forall>a. indexed (ownerRepositories c a) (ownerRepositoryIndexes c)) \<and>
     (\<forall>a i. i \<in> set (ownerRepositories c a) \<longleftrightarrow> live c i \<and> rep_owner (repositories c i) = a)"

definition locators_inv :: "deployment \<Rightarrow> core \<Rightarrow> bool" where
  "locators_inv d c \<longleftrightarrow> (\<forall>i. live c i \<longrightarrow> locators c (home d c i) = i) \<and> (\<forall>k. locators c k \<noteq> no_bytes32 \<longrightarrow> live c (locators c k))"

definition pending_inv :: "deployment \<Rightarrow> core \<Rightarrow> bool" where
  "pending_inv d c \<longleftrightarrow>
     (\<forall>i. pd_newOwner (pendingTransfers c i) \<noteq> no_address \<longrightarrow>
        live c i \<and> pd_newOwner (pendingTransfers c i) \<noteq> rep_owner (repositories c i) \<and>
        reservedLocators c (goal d c i) = i \<and> locators c (goal d c i) = no_bytes32 \<and>
        unat (pd_expiresAt (pendingTransfers c i)) = unat (pd_executeAfter (pendingTransfers c i)) + OWNERSHIP_TRANSFER_WINDOW) \<and>
     (\<forall>k. reservedLocators c k \<noteq> no_bytes32 \<longrightarrow>
        pd_newOwner (pendingTransfers c (reservedLocators c k)) \<noteq> no_address \<and> k = goal d c (reservedLocators c k))"

definition core_inv :: "deployment \<Rightarrow> core \<Rightarrow> bool" where
  "core_inv d c \<longleftrightarrow> repo_inv c \<and> refs_inv d c \<and> collaborators_inv c \<and> owners_inv c \<and> locators_inv d c \<and> pending_inv d c"

lemma core_invD:
  assumes "core_inv d c"
  shows "repo_inv c" "refs_inv d c" "collaborators_inv c" "owners_inv c" "locators_inv d c" "pending_inv d c"
  using assms by (simp_all add: core_inv_def)

lemma pendingD:
  assumes "core_inv d c" "pd_newOwner (pendingTransfers c i) \<noteq> no_address"
  shows "live c i" "i \<noteq> no_bytes32" "pd_newOwner (pendingTransfers c i) \<noteq> rep_owner (repositories c i)"
    "reservedLocators c (goal d c i) = i" "locators c (goal d c i) = no_bytes32"
    "unat (pd_expiresAt (pendingTransfers c i)) = unat (pd_executeAfter (pendingTransfers c i)) + OWNERSHIP_TRANSFER_WINDOW"
  using assms unfolding core_inv_def pending_inv_def repo_inv_def by blast+

lemma reservedD:
  assumes "core_inv d c" "reservedLocators c k \<noteq> no_bytes32"
  shows "pd_newOwner (pendingTransfers c (reservedLocators c k)) \<noteq> no_address" "k = goal d c (reservedLocators c k)"
  using assms unfolding core_inv_def pending_inv_def by blast+

lemma homeD: "core_inv d c \<Longrightarrow> live c i \<Longrightarrow> locators c (home d c i) = i \<and> i \<noteq> no_bytes32"
  unfolding core_inv_def locators_inv_def repo_inv_def by blast

lemma empty_core_inv: "core_inv d empty_core"
  by (simp add: core_inv_def repo_inv_def refs_inv_def collaborators_inv_def owners_inv_def locators_inv_def pending_inv_def
      empty_core_def no_repository_def no_ref_def no_transfer_def indexed_def)

lemmas set_defs = set_repo_def set_locator_def set_ref_def set_names_def set_role_def set_collaborators_def
  set_collaborator_index_def set_owned_def set_owned_index_def set_pending_def set_reserved_def

section \<open>Operations keep it\<close>

lemma same_repo_inv:
  \<comment> \<open>a change of a repository that leaves its identity alone\<close>
  assumes "core_inv d c" "rep_exists r = live c i" "rep_id r = rep_id (repositories c i)"
    "rep_owner r = rep_owner (repositories c i)" "rep_name r = rep_name (repositories c i)"
  shows "core_inv d (set_repo i r c)"
proof -
  let ?c = "set_repo i r c"
  have eqs: "live ?c j = live c j" "rep_id (repositories ?c j) = rep_id (repositories c j)"
    "rep_owner (repositories ?c j) = rep_owner (repositories c j)" "rep_name (repositories ?c j) = rep_name (repositories c j)" for j
    using assms(2-) by (simp_all add: set_repo_def)
  have rest: "locators ?c = locators c" "refs ?c = refs c" "refNames ?c = refNames c" "roles ?c = roles c"
    "collaborators ?c = collaborators c" "collaboratorIndexes ?c = collaboratorIndexes c" "ownerRepositories ?c = ownerRepositories c"
    "ownerRepositoryIndexes ?c = ownerRepositoryIndexes c" "pendingTransfers ?c = pendingTransfers c" "reservedLocators ?c = reservedLocators c"
    by (simp_all add: set_repo_def)
  show ?thesis
    using assms(1)
    unfolding core_inv_def repo_inv_def refs_inv_def collaborators_inv_def owners_inv_def locators_inv_def pending_inv_def eqs rest .
qed

lemma stored_inv:
  assumes inv: "core_inv d c" and ok: "storeRepository d r c = Inr c'"
  shows "core_inv d c'"
proof -
  let ?i = "rep_id r" and ?o = "rep_owner r" and ?k = "locator_of d (rep_owner r) (rep_name r)"
  let ?owned = "ownerRepositories c ?o"
  have g: "?i \<noteq> no_bytes32" "?o \<noteq> no_address" "\<not> live c ?i" "locators c ?k = no_bytes32" "reservedLocators c ?k = no_bytes32"
    and c': "c' = set_owned ?o (?owned @ [?i]) (set_owned_index ?i (length ?owned + 1) (set_locator ?k ?i (set_repo ?i (r\<lparr>rep_exists := True\<rparr>) c)))"
    using ok unfolding storeRepository_def requireLocatorAvailable_def Let_def by (auto simp: res_simps)
  note I = core_invD[OF inv]
  have sel: "repositories c' = (repositories c)(?i := r\<lparr>rep_exists := True\<rparr>)" "locators c' = (locators c)(?k := ?i)" "refs c' = refs c"
    "refNames c' = refNames c" "roles c' = roles c" "collaborators c' = collaborators c" "collaboratorIndexes c' = collaboratorIndexes c"
    "ownerRepositories c' = (ownerRepositories c)(?o := ?owned @ [?i])"
    "ownerRepositoryIndexes c' = (ownerRepositoryIndexes c)(?i := length ?owned + 1)" "pendingTransfers c' = pendingTransfers c"
    "reservedLocators c' = reservedLocators c"
    by (simp_all add: c' set_defs)
  have "repo_inv c'" using I(1) g(1,2) by (auto simp: repo_inv_def sel)
  moreover have "refs_inv d c'" using I(2) by (auto simp: refs_inv_def sel)
  moreover have "collaborators_inv c'" using I(3) by (auto simp: collaborators_inv_def sel)
  moreover have "owners_inv c'"
  proof -
    have new: "?i \<notin> set (ownerRepositories c a)" for a using I(4) g(3) by (auto simp: owners_inv_def)
    have "indexed (ownerRepositories c' a) (ownerRepositoryIndexes c')" for a
    proof (cases "a = ?o")
      case True
      then show ?thesis using indexed_snoc[OF _ new[of ?o]] I(4) by (auto simp: owners_inv_def sel)
    next
      case False
      then show ?thesis using indexed_other[OF _ new[of a]] I(4) by (simp add: owners_inv_def sel)
    qed
    then show ?thesis using I(4) g(3) by (auto simp: owners_inv_def sel)
  qed
  moreover have "locators_inv d c'"
    using I(1,5) g unfolding locators_inv_def repo_inv_def sel by (auto split: if_splits) metis+
  moreover have "pending_inv d c'"
  proof -
    have p: "j \<noteq> ?i \<and> goal d c j \<noteq> ?k" if "pd_newOwner (pendingTransfers c j) \<noteq> no_address" for j
      using pendingD[OF inv that] g(3,5) by auto
    have "j \<noteq> ?i" if "reservedLocators c k = j" "j \<noteq> no_bytes32" for j k
      using p reservedD[OF inv, of k] that by auto
    then show ?thesis
      using p pendingD[OF inv] reservedD[OF inv] unfolding pending_inv_def sel by simp
  qed
  ultimately show ?thesis by (simp add: core_inv_def)
qed

lemma created_inv: "core_inv d c \<Longrightarrow> createRepository d e name desc branch c = Inr (i, c') \<Longrightarrow> core_inv d c'"
  unfolding createRepository_def Let_def by (auto simp: res_simps intro: stored_inv)

lemma ref_set_inv:
  assumes inv: "core_inv d c" and i: "live c i" and h: "h = text_hash d n" and r: "gr_exists r" "gr_packUris r \<noteq> []" "length (gr_packUris r) \<le> MAX_PACK_URIS"
    and names: "ns = (if gr_exists (refs c i h) then refNames c i else refNames c i @ [n])" and len: "length ns \<le> MAX_REFS_PER_REPO"
  shows "core_inv d (set_ref i h r (set_names i ns c))"
proof -
  note I = core_invD[OF inv]
  have "refs_inv d (set_ref i h r (set_names i ns c))"
    using I(2) i r len unfolding refs_inv_def set_ref_def set_names_def by (auto simp: names h split: if_splits)
  then show ?thesis using I
    by (simp add: core_inv_def repo_inv_def collaborators_inv_def owners_inv_def locators_inv_def pending_inv_def set_ref_def set_names_def)
qed

lemma ref_deleted_inv:
  assumes inv: "core_inv d c" and i: "live c i"
  shows "core_inv d (set_names i (swap_remove (\<lambda>n. text_hash d n = h) (refNames c i)) (set_ref i h no_ref c))"
proof -
  note I = core_invD[OF inv]
  have d: "distinct (map (text_hash d) (refNames c i))" and l: "length (refNames c i) \<le> MAX_REFS_PER_REPO"
    using I(2) by (auto simp: refs_inv_def)
  note s = swap_remove_map[OF d, of h]
  have "refs_inv d (set_names i (swap_remove (\<lambda>n. text_hash d n = h) (refNames c i)) (set_ref i h no_ref c))"
    using I(2) i s(1,2) order_trans[OF s(3) l] unfolding refs_inv_def set_ref_def set_names_def
    by (auto simp: no_ref_def)
  then show ?thesis using I
    by (simp add: core_inv_def repo_inv_def collaborators_inv_def owners_inv_def locators_inv_def pending_inv_def set_ref_def set_names_def)
qed

lemma metadata_inv: "core_inv d c \<Longrightarrow> updateMetadata e i ud desc ub branch c = Inr c' \<Longrightarrow> core_inv d c'"
  unfolding updateMetadata_def requireRepository_def Let_def by (auto simp: res_simps intro!: same_repo_inv)

lemma authorized: "authorize_refs e i c = Inr r \<Longrightarrow> r = repositories c i \<and> live c i \<and> canMaintain c i (rep_owner r) (msg_sender e) \<and> allows_ref_mutation e i (msg_sender e)"
  unfolding authorize_refs_def requireRepository_def by (auto simp: res_simps)

lemma add_uris:
  assumes "for_res (add_uri d) us ws = Inr vs" "length ws \<le> MAX_PACK_URIS"
  shows "length vs \<le> MAX_PACK_URIS" "set ws \<subseteq> set vs" "\<And>u. u \<in> set us \<Longrightarrow> contains_uri d vs u" "\<And>v. v \<in> set vs \<Longrightarrow> v \<in> set ws \<union> set us"
proof -
  have "length vs \<le> MAX_PACK_URIS \<and> set ws \<subseteq> set vs \<and> (\<forall>u \<in> set us. contains_uri d vs u) \<and> set vs \<subseteq> set ws \<union> set us"
    using assms
  proof (induction us arbitrary: ws)
    case (Cons u us)
    then obtain xs where xs: "add_uri d u ws = Inr xs" "for_res (add_uri d) us xs = Inr vs" by (auto simp: res_simps)
    have x: "length xs \<le> MAX_PACK_URIS" "set ws \<subseteq> set xs" "contains_uri d xs u" "set xs \<subseteq> insert u (set ws)"
      using xs(1) Cons.prems(2) unfolding add_uri_def by (auto simp: res_simps contains_uri_def split: if_splits)
    have y: "length vs \<le> MAX_PACK_URIS" "set xs \<subseteq> set vs" "\<forall>u \<in> set us. contains_uri d vs u" "set vs \<subseteq> set xs \<union> set us"
      using Cons.IH[OF xs(2) x(1)] by blast+
    have "contains_uri d vs u" using x(3) y(2) by (auto simp: contains_uri_def list_ex_iff)
    then show ?case using x y by auto
  qed simp
  then show "length vs \<le> MAX_PACK_URIS" "set ws \<subseteq> set vs" "\<And>u. u \<in> set us \<Longrightarrow> contains_uri d vs u" "\<And>v. v \<in> set vs \<Longrightarrow> v \<in> set ws \<union> set us"
    by blast+
qed

lemma update_ref_cases:
  assumes "updateRef d e i n sha us old force c = Inr c'"
  obtains uris now where
    "live c i" "canMaintain c i (rep_owner (repositories c i)) (msg_sender e)" "allows_ref_mutation e i (msg_sender e)"
    "validateRefName n = Inr ()" "validateCommitSha sha = Inr ()" "us \<noteq> []" "length us \<le> MAX_PACK_URIS"
    "force \<or> \<not> gr_exists (refs c i (text_hash d n)) \<or> text_hash d (gr_commitSha (refs c i (text_hash d n))) = text_hash d old"
    "gr_exists (refs c i (text_hash d n)) \<or> length (refNames c i) < MAX_REFS_PER_REPO"
    "(if force \<or> gr_packUris (refs c i (text_hash d n)) = [] then Inr us else for_res (add_uri d) us (gr_packUris (refs c i (text_hash d n)))) = Inr uris"
    "now64 e = Inr now"
    "c' = set_repo i ((repositories c i)\<lparr>rep_updatedAt := now\<rparr>)
       (set_ref i (text_hash d n) \<lparr>gr_commitSha = sha, gr_packUris = uris, gr_updatedAt = now, gr_updatedBy = msg_sender e, gr_exists = True\<rparr>
       (set_names i (if gr_exists (refs c i (text_hash d n)) then refNames c i else refNames c i @ [n]) c))"
proof -
  from assms obtain r uris now where s: "authorize_refs e i c = Inr r"
    and k: "validateRefName n = Inr ()" "validateCommitSha sha = Inr ()" "us \<noteq> []" "length us \<le> MAX_PACK_URIS"
      "force \<or> \<not> gr_exists (refs c i (text_hash d n)) \<or> text_hash d (gr_commitSha (refs c i (text_hash d n))) = text_hash d old"
      "gr_exists (refs c i (text_hash d n)) \<or> length (refNames c i) < MAX_REFS_PER_REPO"
      "(if force \<or> gr_packUris (refs c i (text_hash d n)) = [] then Inr us else for_res (add_uri d) us (gr_packUris (refs c i (text_hash d n)))) = Inr uris"
      "now64 e = Inr now"
    and c': "c' = set_repo i (r\<lparr>rep_updatedAt := now\<rparr>)
       (set_ref i (text_hash d n) \<lparr>gr_commitSha = sha, gr_packUris = uris, gr_updatedAt = now, gr_updatedBy = msg_sender e, gr_exists = True\<rparr>
       (set_names i (if gr_exists (refs c i (text_hash d n)) then refNames c i else refNames c i @ [n]) c))"
    unfolding updateRef_def Let_def by (simp only: bind_res_Inr_iff guard_err_Inr_iff length_0_conv not_le de_Morgan_disj de_Morgan_conj not_not) force
  show thesis using that[OF _ _ _ k] authorized[OF s] c' by blast
qed

lemma updated_ref_inv:
  assumes inv: "core_inv d c" and ok: "updateRef d e i n sha us old force c = Inr c'"
  shows "core_inv d c'"
  using ok
proof (cases rule: update_ref_cases)
  case (1 uris now)
  let ?h = "text_hash d n" and ?ns = "if gr_exists (refs c i (text_hash d n)) then refNames c i else refNames c i @ [n]"
  let ?r = "\<lparr>gr_commitSha = sha, gr_packUris = uris, gr_updatedAt = now, gr_updatedBy = msg_sender e, gr_exists = True\<rparr>"
  let ?c = "set_ref i ?h ?r (set_names i ?ns c)"
  have R: "length (gr_packUris (refs c i ?h)) \<le> MAX_PACK_URIS"
  proof (cases "gr_exists (refs c i ?h)")
    case False
    then have "refs c i ?h = no_ref" using core_invD(2)[OF inv] unfolding refs_inv_def by blast
    then show ?thesis by (simp add: no_ref_def)
  qed (use core_invD(2)[OF inv] in \<open>auto simp: refs_inv_def\<close>)
  have u: "uris \<noteq> []" "length uris \<le> MAX_PACK_URIS"
  proof -
    have "uris \<noteq> [] \<and> length uris \<le> MAX_PACK_URIS"
    proof (cases "force \<or> gr_packUris (refs c i ?h) = []")
      case False
      then have f: "for_res (add_uri d) us (gr_packUris (refs c i ?h)) = Inr uris" using 1 by simp
      show ?thesis using add_uris[OF f R] False by auto
    qed (use 1 in simp)
    then show "uris \<noteq> []" "length uris \<le> MAX_PACK_URIS" by blast+
  qed
  have n: "length ?ns \<le> MAX_REFS_PER_REPO"
    using 1 core_invD(2)[OF inv] by (auto simp: refs_inv_def)
  have "core_inv d ?c" by (rule ref_set_inv[OF inv _ refl _ _ _ refl n]) (use 1 u in simp_all)
  then show ?thesis using 1 by (auto intro!: same_repo_inv simp: set_ref_def set_names_def)
qed

lemma deleted_ref_inv: "core_inv d c \<Longrightarrow> deleteRef d e i n c = Inr c' \<Longrightarrow> core_inv d c'"
  unfolding deleteRef_def Let_def
  by (auto simp: res_simps dest!: authorized intro!: same_repo_inv ref_deleted_inv) (simp_all add: set_ref_def set_names_def)

lemma names_ref_commute: "set_names i ns (set_ref j h r c) = set_ref j h r (set_names i ns c)"
  by (cases c) (simp add: set_names_def set_ref_def)

lemma copied_inv:
  assumes "core_inv d c" "live c fork" "distinct (map (text_hash d) (refNames c fork @ names))" "length (refNames c fork @ names) \<le> MAX_REFS_PER_REPO"
    "\<And>n. n \<in> set names \<Longrightarrow> gr_exists (refs c source (text_hash d n))" "source \<noteq> fork"
  shows "core_inv d (fold (copy_ref d e now source fork) names c)"
  using assms
proof (induction names arbitrary: c)
  case (Cons n names)
  let ?h = "text_hash d n" and ?c = "copy_ref d e now source fork n c"
  have R: "gr_packUris (refs c source ?h) \<noteq> []" "length (gr_packUris (refs c source ?h)) \<le> MAX_PACK_URIS"
    "\<not> gr_exists (refs c fork ?h)"
    using core_invD(2)[OF Cons.prems(1)] Cons.prems(3,5) by (auto simp: refs_inv_def)
  have "core_inv d ?c"
  proof -
    let ?r = "\<lparr>gr_commitSha = gr_commitSha (refs c source ?h), gr_packUris = gr_packUris (refs c source ?h), gr_updatedAt = now,
        gr_updatedBy = msg_sender e, gr_exists = True\<rparr>"
    have "core_inv d (set_ref fork ?h ?r (set_names fork (refNames c fork @ [n]) c))"
      by (rule ref_set_inv[OF Cons.prems(1,2) refl]) (use R Cons.prems(4) in simp_all)
    then show ?thesis by (simp add: copy_ref_def Let_def names_ref_commute)
  qed
  moreover have "live ?c fork" "refNames ?c fork = refNames c fork @ [n]" "\<And>h. refs ?c source h = refs c source h"
    using Cons.prems(2,6) by (simp_all add: copy_ref_def Let_def set_ref_def set_names_def)
  ultimately show ?case using Cons.IH[of ?c] Cons.prems(3-6) by simp
qed simp

lemma stored_frame:
  assumes "storeRepository d r c = Inr c'"
  shows "repositories c' = (repositories c)(rep_id r := r\<lparr>rep_exists := True\<rparr>)" "refNames c' = refNames c" "refs c' = refs c"
    "\<not> live c (rep_id r)"
  using assms unfolding storeRepository_def Let_def by (auto simp: res_simps set_defs)

lemma forked_inv:
  assumes inv: "core_inv d c" and ok: "forkRepository d e i n c = Inr (f, c')"
  shows "core_inv d c'"
proof -
  obtain r now c1 where s: "storeRepository d r c = Inr c1" "rep_id r = f" "live c i" "length (refNames c i) \<le> MAX_FORK_REFS"
    and c': "c' = fold (copy_ref d e now i f) (refNames c i) c1"
    using ok unfolding forkRepository_def requireRepository_def Let_def by (force simp: res_simps)
  note fr = stored_frame[OF s(1)]
  have "refNames c f = []" using core_invD(2)[OF inv] fr(4) s(2) by (auto simp: refs_inv_def)
  moreover have "i \<noteq> f" using s(2,3) fr(4) by blast
  moreover have "distinct (map (text_hash d) (refNames c i))" "\<And>n. n \<in> set (refNames c i) \<Longrightarrow> gr_exists (refs c i (text_hash d n))"
    using core_invD(2)[OF inv] by (auto simp: refs_inv_def)
  ultimately show ?thesis
    unfolding c' using s(2,4) by (intro copied_inv stored_inv[OF inv s(1)]) (auto simp: fr MAX_FORK_REFS_def MAX_REFS_PER_REPO_def)
qed

lemma roles_inv:
  assumes inv: "core_inv d c" and same: "\<And>j. j \<noteq> i \<Longrightarrow> collaborators c' j = collaborators c j \<and> collaboratorIndexes c' j = collaboratorIndexes c j \<and> roles c' j = roles c j"
    and live: "live c i"
    and new: "indexed (collaborators c' i) (collaboratorIndexes c' i)" "length (collaborators c' i) \<le> MAX_COLLABORATORS_PER_REPO"
      "\<And>a. roles c' i a \<noteq> Role_None \<longleftrightarrow> a \<in> set (collaborators c' i)" "\<And>a. a \<notin> set (collaborators c' i) \<Longrightarrow> collaboratorIndexes c' i a = 0"
    and rest: "repositories c' = repositories c" "locators c' = locators c" "refs c' = refs c" "refNames c' = refNames c"
      "ownerRepositories c' = ownerRepositories c" "ownerRepositoryIndexes c' = ownerRepositoryIndexes c"
      "pendingTransfers c' = pendingTransfers c" "reservedLocators c' = reservedLocators c"
  shows "core_inv d c'"
proof -
  note I = core_invD[OF inv]
  have "collaborators_inv c'"
    unfolding collaborators_inv_def
  proof (intro allI)
    fix j
    show "indexed (collaborators c' j) (collaboratorIndexes c' j) \<and> length (collaborators c' j) \<le> MAX_COLLABORATORS_PER_REPO \<and>
      (\<not> live c' j \<longrightarrow> collaborators c' j = []) \<and> (\<forall>a. (roles c' j a \<noteq> Role_None) = (a \<in> set (collaborators c' j))) \<and>
      (\<forall>a. a \<notin> set (collaborators c' j) \<longrightarrow> collaboratorIndexes c' j a = 0)"
      using I(3) same[of j] new live unfolding collaborators_inv_def rest by (cases "j = i") auto
  qed
  then show ?thesis
    using I unfolding core_inv_def repo_inv_def refs_inv_def owners_inv_def locators_inv_def pending_inv_def rest by blast
qed

lemma added_collaborator_inv:
  assumes inv: "core_inv d c" and "live c i" "roles c i a = Role_None" "role \<noteq> Role_None" "length (collaborators c i) < MAX_COLLABORATORS_PER_REPO"
  shows "core_inv d (set_role i a role (add_collaborator i a c))"
proof -
  have C: "indexed (collaborators c i) (collaboratorIndexes c i)" "a \<notin> set (collaborators c i)"
    "\<And>b. roles c i b \<noteq> Role_None \<longleftrightarrow> b \<in> set (collaborators c i)" "\<And>b. b \<notin> set (collaborators c i) \<Longrightarrow> collaboratorIndexes c i b = 0"
    using core_invD(3)[OF inv] assms(3) unfolding collaborators_inv_def by blast+
  show ?thesis
    by (rule roles_inv[OF inv, of i]) (use C indexed_snoc[OF C(1,2)] assms in \<open>auto simp: add_collaborator_def Let_def set_defs\<close>)
qed

lemma removed_collaborator_inv:
  assumes inv: "core_inv d c" and "live c i" "roles c i a \<noteq> Role_None" and ok: "removeCollaborator i a c = Inr c'"
  shows "core_inv d c'"
proof -
  let ?xs = "collaborators c i" and ?ix = "collaboratorIndexes c i"
  have C: "indexed ?xs ?ix" "a \<in> set ?xs" "length ?xs \<le> MAX_COLLABORATORS_PER_REPO"
    "\<And>b. roles c i b \<noteq> Role_None \<longleftrightarrow> b \<in> set ?xs" "\<And>b. b \<notin> set ?xs \<Longrightarrow> ?ix b = 0"
    using core_invD(3)[OF inv] assms(3) unfolding collaborators_inv_def by blast+
  let ?ys = "butlast (?xs[?ix a - 1 := last ?xs])"
  note w = indexed_swap[OF C(1,2)]
  have c': "c' = set_role i a Role_None (set_collaborator_index i a 0 (set_collaborator_index i (last ?xs) (?ix a) (set_collaborators i ?ys c)))"
    using ok indexed_at[OF C(1,2)] unfolding removeCollaborator_def Let_def by (auto simp: res_simps)
  have "indexed ?ys ((?ix(last ?xs := ?ix a))(a := 0))" by (rule indexed_other[OF w(1)]) (use w(2) in blast)
  moreover have "((?ix(last ?xs := ?ix a))(a := 0)) b = 0" if "b \<notin> set ?ys" for b
  proof (cases "b = a")
    case False
    have "last ?xs \<in> set ?xs" using C(2) by (intro last_in_set) auto
    moreover have "b \<notin> set ?xs" using that False w(2) by blast
    ultimately show ?thesis using C(5)[of b] False by auto
  qed simp
  ultimately show ?thesis
    using assms(2) C(3,4) w(2,3) by (intro roles_inv[OF inv, of i]) (auto simp: c' set_defs)
qed

lemma collaborator_inv:
  assumes inv: "core_inv d c" and ok: "setCollaborator e i a role c = Inr c'"
  shows "core_inv d c'"
proof -
  have l: "live c i" using ok unfolding setCollaborator_def requireRepository_def by (auto simp: res_simps)
  have same: "core_inv d (set_role i a role c)" if "roles c i a \<noteq> Role_None" "role \<noteq> Role_None"
    using core_invD(3)[OF inv] l that unfolding collaborators_inv_def by (intro roles_inv[OF inv, of i]) (auto simp: set_role_def)
  show ?thesis
    using ok inv l same added_collaborator_inv[OF inv l] removed_collaborator_inv[OF inv l]
    unfolding setCollaborator_def Let_def by (auto simp: res_simps split: if_splits)
qed

lemma added_time: "addTime t w = Inr x \<Longrightarrow> unat x = unat t + w"
proof -
  assume "addTime t w = Inr x"
  then have x: "x = word_of_nat (unat t + w)" "unat t + w < 2 ^ 64"
    unfolding addTime_def bind_guard by (simp_all only: split: if_splits) simp_all
  show ?thesis unfolding x(1) unat_of_nat using x(2) by (simp add: take_bit_eq_mod)
qed

lemma begun_inv:
  assumes inv: "core_inv d c" and ok: "beginOwnershipTransfer d e i a c = Inr c'"
  shows "core_inv d c'"
proof -
  let ?r = "repositories c i" and ?k = "locator_of d a (rep_name (repositories c i))"
  obtain now ea ex where g: "live c i" "a \<noteq> no_address" "a \<noteq> rep_owner ?r" "pd_newOwner (pendingTransfers c i) = no_address"
    "locators c ?k = no_bytes32" "reservedLocators c ?k = no_bytes32" and t: "addTime ea OWNERSHIP_TRANSFER_WINDOW = Inr ex"
    and c': "c' = set_reserved ?k i (set_pending i \<lparr>pd_newOwner = a, pd_executeAfter = ea, pd_expiresAt = ex\<rparr> c)"
    using ok unfolding beginOwnershipTransfer_def requireRepository_def requireLocatorAvailable_def Let_def by (auto simp: res_simps)
  have ex: "unat ex = unat ea + OWNERSHIP_TRANSFER_WINDOW"
    by (rule added_time[OF t])
  have i0: "i \<noteq> no_bytes32" using homeD[OF inv g(1)] by simp
  have sel: "repositories c' = repositories c" "locators c' = locators c" "refs c' = refs c" "refNames c' = refNames c" "roles c' = roles c"
    "collaborators c' = collaborators c" "collaboratorIndexes c' = collaboratorIndexes c" "ownerRepositories c' = ownerRepositories c"
    "ownerRepositoryIndexes c' = ownerRepositoryIndexes c" "reservedLocators c' = (reservedLocators c)(?k := i)"
    "pendingTransfers c' = (pendingTransfers c)(i := \<lparr>pd_newOwner = a, pd_executeAfter = ea, pd_expiresAt = ex\<rparr>)"
    by (simp_all add: c' set_defs)
  have p: "j \<noteq> i \<and> goal d c j \<noteq> ?k" if "pd_newOwner (pendingTransfers c j) \<noteq> no_address" for j
    using pendingD[OF inv that] g(4,6) that by auto
  have q: "reservedLocators c k \<noteq> i" for k using reservedD[OF inv, of k] g(4) i0 by auto
  have "pending_inv d c'"
    unfolding pending_inv_def sel
  proof (intro conjI allI impI)
    fix j
    assume j: "pd_newOwner (((pendingTransfers c)(i := \<lparr>pd_newOwner = a, pd_executeAfter = ea, pd_expiresAt = ex\<rparr>)) j) \<noteq> no_address"
    show "live c j" using j g(1) pendingD(1)[OF inv, of j] by (cases "j = i") auto
  next
    fix k
    show "pd_newOwner (((pendingTransfers c)(i := \<lparr>pd_newOwner = a, pd_executeAfter = ea, pd_expiresAt = ex\<rparr>))
        (((reservedLocators c)(?k := i)) k)) \<noteq> no_address" if "((reservedLocators c)(?k := i)) k \<noteq> no_bytes32"
      using that g(2) reservedD(1)[OF inv, of k] q by (cases "k = ?k") auto
  qed (use g ex i0 p q pendingD[OF inv] reservedD[OF inv] in \<open>auto split: if_splits\<close>)
  then show ?thesis
    using inv by (simp add: core_inv_def repo_inv_def refs_inv_def collaborators_inv_def owners_inv_def locators_inv_def sel)
qed

lemma cleared_inv:
  assumes inv: "core_inv d c" and p: "pd_newOwner (pendingTransfers c i) \<noteq> no_address"
  shows "core_inv d (clearPending d i (rep_name (repositories c i)) (pd_newOwner (pendingTransfers c i)) c)"
proof -
  let ?c = "clearPending d i (rep_name (repositories c i)) (pd_newOwner (pendingTransfers c i)) c"
  have sel: "repositories ?c = repositories c" "locators ?c = locators c" "refs ?c = refs c" "refNames ?c = refNames c" "roles ?c = roles c"
    "collaborators ?c = collaborators c" "collaboratorIndexes ?c = collaboratorIndexes c" "ownerRepositories ?c = ownerRepositories c"
    "ownerRepositoryIndexes ?c = ownerRepositoryIndexes c" "reservedLocators ?c = (reservedLocators c)(goal d c i := no_bytes32)"
    "pendingTransfers ?c = (pendingTransfers c)(i := no_transfer)"
    by (simp_all add: clearPending_def set_defs)
  have ne: "goal d c j \<noteq> goal d c i" if "pd_newOwner (pendingTransfers c j) \<noteq> no_address" "j \<noteq> i" for j
    using pendingD(4)[OF inv that(1)] pendingD(4)[OF inv p] that(2) by auto
  have q: "reservedLocators c k \<noteq> i" if "k \<noteq> goal d c i" for k
    using reservedD(2)[OF inv, of k] pendingD(2)[OF inv p] that by auto
  have "pending_inv d ?c"
    using ne q pendingD[OF inv] reservedD[OF inv] unfolding pending_inv_def sel by (auto simp: no_transfer_def split: if_splits)
  then show ?thesis
    using inv by (simp add: core_inv_def repo_inv_def refs_inv_def collaborators_inv_def owners_inv_def locators_inv_def sel)
qed

lemma cancelled_inv: "core_inv d c \<Longrightarrow> cancelOwnershipTransfer d e i c = Inr c' \<Longrightarrow> core_inv d c'"
  unfolding cancelOwnershipTransfer_def requireRepository_def requirePending_def by (auto simp: res_simps intro: cleared_inv)

lemma expired_inv: "core_inv d c \<Longrightarrow> expireOwnershipTransfer d e i c = Inr c' \<Longrightarrow> core_inv d c'"
  unfolding expireOwnershipTransfer_def requireRepository_def requirePending_def by (auto simp: res_simps intro: cleared_inv)

lemma moved_index:
  assumes "owners_inv c" "live c i" "rep_owner (repositories c i) = a" "a \<noteq> b" "moveOwnerIndex i a b c = Inr c'"
  shows "\<And>x. indexed (ownerRepositories c' x) (ownerRepositoryIndexes c')"
    "set (ownerRepositories c' x) = (if x = a then set (ownerRepositories c a) - {i} else if x = b then insert i (set (ownerRepositories c b)) else set (ownerRepositories c x))"
    "c' = c\<lparr>ownerRepositories := ownerRepositories c', ownerRepositoryIndexes := ownerRepositoryIndexes c'\<rparr>"
proof -
  let ?xs = "ownerRepositories c a" and ?ix = "ownerRepositoryIndexes c" and ?l = "last (ownerRepositories c a)"
  have O: "\<And>x. indexed (ownerRepositories c x) ?ix" "\<And>x j. j \<in> set (ownerRepositories c x) \<longleftrightarrow> live c j \<and> rep_owner (repositories c j) = x"
    using assms(1) unfolding owners_inv_def by blast+
  have ia: "i \<in> set ?xs" using O(2) assms(2,3) by blast
  have la: "?l \<in> set ?xs" using ia by (intro last_in_set) auto
  let ?ys = "butlast (?xs[?ix i - 1 := ?l])"
  note w = indexed_swap[OF O(1) ia]
  have c': "c' = set_owned b (ownerRepositories c b @ [i]) (set_owned_index i (length (ownerRepositories c b) + 1)
      (set_owned a ?ys (set_owned_index ?l (?ix i) c)))"
    using assms(4,5) indexed_at[OF O(1) ia] unfolding moveOwnerIndex_def Let_def by (auto simp: res_simps set_defs)
  have own: "ownerRepositories c' = (ownerRepositories c)(a := ?ys, b := ownerRepositories c b @ [i])"
    and ix: "ownerRepositoryIndexes c' = ?ix(?l := ?ix i, i := length (ownerRepositories c b) + 1)"
    using assms(4) by (simp_all add: c' set_defs fun_upd_twist)
  show "c' = c\<lparr>ownerRepositories := ownerRepositories c', ownerRepositoryIndexes := ownerRepositoryIndexes c'\<rparr>"
    by (rule core.equality) (simp_all add: c' set_defs)
  show "set (ownerRepositories c' x) = (if x = a then set (ownerRepositories c a) - {i} else if x = b then insert i (set (ownerRepositories c b)) else set (ownerRepositories c x))"
    using w(2) assms(4) by (auto simp: own)
  fix x
  have other: "i \<notin> set (ownerRepositories c x) \<and> ?l \<notin> set (ownerRepositories c x)" if "x \<noteq> a"
    using O(2)[of i x] O(2)[of i a] O(2)[of ?l x] O(2)[of ?l a] ia la that by auto
  show "indexed (ownerRepositories c' x) (ownerRepositoryIndexes c')"
  proof (cases "x = a")
    case True
    then show ?thesis using indexed_other[OF w(1), of i] w(2) assms(4) by (simp add: own ix)
  next
    case False
    have o: "indexed (ownerRepositories c x) (?ix(?l := ?ix i))" using indexed_other[OF O(1)] other False by blast
    have i: "i \<notin> set (ownerRepositories c x)" using other[OF False] by blast
    show ?thesis
      using indexed_snoc[OF o i] indexed_other[OF o i] False by (cases "x = b") (simp_all add: own ix)
  qed
qed

lemma transferred_inv:
  assumes inv: "core_inv d c" and live: "live c i" and b: "b \<noteq> no_address" "b \<noteq> rep_owner (repositories c i)"
    and pend: "pd_newOwner (pendingTransfers c i) = no_address \<or> pd_newOwner (pendingTransfers c i) = b"
    and ok: "transferOwnership d e i (repositories c i) b c = Inr c'"
  shows "core_inv d c'"
proof -
  let ?r = "repositories c i" and ?n = "locator_of d b (rep_name (repositories c i))"
  obtain c1 where m: "moveOwnerIndex i (rep_owner ?r) b c = Inr c1"
    and g: "locators c ?n = no_bytes32 \<or> locators c ?n = i" "reservedLocators c ?n = no_bytes32 \<or> reservedLocators c ?n = i"
    and c': "c' = set_pending i no_transfer (set_reserved ?n no_bytes32 (set_repo i (?r\<lparr>rep_owner := b\<rparr>) (set_locator ?n i (set_locator (home d c i) i c1))))"
    using ok unfolding transferOwnership_def requireLocatorAvailableFor_def Let_def by (auto simp: res_simps)
  note I = core_invD[OF inv]
  note M = moved_index[OF I(4) live refl b(2)[symmetric] m]
  have h: "locators c (home d c i) = i" "i \<noteq> no_bytes32" using homeD[OF inv live] by blast+
  have c1: "repositories c1 = repositories c" "locators c1 = locators c" "refs c1 = refs c" "refNames c1 = refNames c" "roles c1 = roles c"
    "collaborators c1 = collaborators c" "collaboratorIndexes c1 = collaboratorIndexes c" "reservedLocators c1 = reservedLocators c"
    "pendingTransfers c1 = pendingTransfers c"
    by (subst M(3), simp)+
  have sel: "repositories c' = (repositories c)(i := ?r\<lparr>rep_owner := b\<rparr>)" "locators c' = (locators c)(?n := i)" "refs c' = refs c"
    "refNames c' = refNames c" "roles c' = roles c" "collaborators c' = collaborators c" "collaboratorIndexes c' = collaboratorIndexes c"
    "ownerRepositories c' = ownerRepositories c1" "ownerRepositoryIndexes c' = ownerRepositoryIndexes c1"
    "pendingTransfers c' = (pendingTransfers c)(i := no_transfer)" "reservedLocators c' = (reservedLocators c)(?n := no_bytes32)"
    using h(1) by (simp_all add: c' set_defs c1 fun_upd_idem)
  have "repo_inv c'" using I(1) b(1) by (auto simp: repo_inv_def sel)
  moreover have "refs_inv d c'" using I(2) by (auto simp: refs_inv_def sel)
  moreover have "collaborators_inv c'" using I(3) by (auto simp: collaborators_inv_def sel)
  moreover have "owners_inv c'"
    using M(1,2) I(4) live b(2) unfolding owners_inv_def sel by (auto split: if_splits)
  moreover have "locators_inv d c'"
    using I(1,5) g(1) h live unfolding locators_inv_def repo_inv_def sel by (auto split: if_splits) metis+
  moreover have "pending_inv d c'"
  proof -
    have p: "goal d c j \<noteq> ?n" if "pd_newOwner (pendingTransfers c j) \<noteq> no_address" "j \<noteq> i" for j
      using pendingD(2,4)[OF inv that(1)] g(2) that(2) by auto
    have q: "reservedLocators c k \<noteq> i" if "k \<noteq> ?n" for k
      using reservedD[OF inv, of k] pend h(2) that by auto
    show ?thesis
      using p q pendingD[OF inv] reservedD[OF inv] unfolding pending_inv_def sel by (auto simp: no_transfer_def split: if_splits)
  qed
  ultimately show ?thesis by (simp add: core_inv_def)
qed

lemma accepted_inv:
  assumes inv: "core_inv d c" and ok: "acceptOwnershipTransfer d e i c = Inr c'"
  shows "core_inv d c'"
proof -
  have p: "pd_newOwner (pendingTransfers c i) \<noteq> no_address" "transferOwnership d e i (repositories c i) (pd_newOwner (pendingTransfers c i)) c = Inr c'"
    using ok unfolding acceptOwnershipTransfer_def requireRepository_def requirePending_def by (auto simp: res_simps)
  show ?thesis using transferred_inv[OF inv pendingD(1)[OF inv p(1)] p(1) pendingD(3)[OF inv p(1)] _ p(2)] by simp
qed

lemma recovered_inv: "core_inv d c \<Longrightarrow> recoverOwnership d e i b c = Inr c' \<Longrightarrow> core_inv d c'"
  unfolding recoverOwnership_def requireRepository_def by (auto simp: res_simps intro: transferred_inv)

lemma alias_inv:
  assumes inv: "core_inv d c" and ok: "store_alias d a c = Inr c'"
  shows "core_inv d c'"
proof -
  obtain i ow name where a: "a = (i, ow, name)" by (cases a)
  let ?k = "locator_of d ow name"
  have g: "live c i" "locators c ?k = no_bytes32" "reservedLocators c ?k = no_bytes32" and c': "c' = set_locator ?k i c"
    using ok unfolding store_alias_def requireRepository_def Let_def a by (auto simp: res_simps)
  note I = core_invD[OF inv]
  have sel: "locators c' = (locators c)(?k := i)" "repositories c' = repositories c" "refs c' = refs c" "refNames c' = refNames c"
    "roles c' = roles c" "collaborators c' = collaborators c" "collaboratorIndexes c' = collaboratorIndexes c"
    "ownerRepositories c' = ownerRepositories c" "ownerRepositoryIndexes c' = ownerRepositoryIndexes c"
    "pendingTransfers c' = pendingTransfers c" "reservedLocators c' = reservedLocators c"
    by (simp_all add: c' set_defs)
  have "home d c j \<noteq> ?k" if "live c j" for j using homeD[OF inv that] g(2) by auto
  then have "locators_inv d c'" using I(5) g(1) unfolding locators_inv_def sel by auto
  moreover have "goal d c j \<noteq> ?k" if "pd_newOwner (pendingTransfers c j) \<noteq> no_address" for j
    using pendingD(2,4)[OF inv that] g(3) by auto
  then have "pending_inv d c'" using I(6) unfolding pending_inv_def sel by auto
  ultimately show ?thesis using I by (simp add: core_inv_def repo_inv_def refs_inv_def collaborators_inv_def owners_inv_def sel)
qed

lemma imported_ref_inv:
  assumes inv: "core_inv d c" and ok: "storeImportedRef d r c = Inr c'"
  shows "core_inv d c'"
proof -
  let ?i = "im_repoId r" and ?h = "text_hash d (im_refName r)"
  let ?r = "\<lparr>gr_commitSha = im_commitSha r, gr_packUris = im_packUris r, gr_updatedAt = im_updatedAt r, gr_updatedBy = im_updatedBy r, gr_exists = True\<rparr>"
  have g: "live c ?i" "im_packUris r \<noteq> []" "length (im_packUris r) \<le> MAX_PACK_URIS" "\<not> gr_exists (refs c ?i ?h)"
    "length (refNames c ?i @ [im_refName r]) \<le> MAX_REFS_PER_REPO"
    and c': "c' = set_names ?i (refNames c ?i @ [im_refName r]) (set_ref ?i ?h ?r c)"
    using ok unfolding storeImportedRef_def requireRepository_def Let_def by (auto simp: res_simps)
  show ?thesis unfolding c' names_ref_commute by (rule ref_set_inv[OF inv g(1) refl]) (use g in simp_all)
qed

lemma imported_collaborator_inv:
  assumes inv: "core_inv d c" and ok: "storeImportedCollaborator x c = Inr c'"
  shows "core_inv d c'"
proof -
  obtain i a role where x: "x = (i, a, role)" by (cases x)
  have g: "live c i" "roles c i a = Role_None" "role \<noteq> Role_None" "length (collaborators c i) < MAX_COLLABORATORS_PER_REPO"
    and c': "c' = add_collaborator i a (set_role i a role c)"
    using ok unfolding storeImportedCollaborator_def requireRepository_def Let_def x
    by (auto simp: res_simps add_collaborator_def set_defs Let_def)
  have "add_collaborator i a (set_role i a role c) = set_role i a role (add_collaborator i a c)"
    by (cases c) (simp add: add_collaborator_def Let_def set_defs)
  then show ?thesis unfolding c' using added_collaborator_inv[OF inv g] by simp
qed

lemma for_res_inv: "(\<And>x c c'. I c \<Longrightarrow> f x c = Inr c' \<Longrightarrow> I c') \<Longrightarrow> I c \<Longrightarrow> for_res f xs c = Inr c' \<Longrightarrow> I c'"
  by (induction xs arbitrary: c) (auto simp: res_simps)

lemma import_inv: "core_inv d c \<Longrightarrow> importPayload d p c = Inr c' \<Longrightarrow> core_inv d c'"
  unfolding importPayload_def
  by (auto split: import_payload.splits elim!: for_res_inv[where I = "core_inv d", rotated 2]
      intro: stored_inv alias_inv imported_ref_inv imported_collaborator_inv)

end
