(* ===== verification/Core_Steps.thy ===== *)
theory Core_Steps
  imports Core_Invariant
begin

text \<open>
  The contract as a transition system: the states reached by calls that did not revert, with the calls
  that led there. A call that reverts leaves the state as it was and does not appear.
\<close>

section \<open>Calls\<close>

datatype core_call =
    Call_create string string string
  | Call_fork bytes32 string
  | Call_metadata bytes32 bool string bool string
  | Call_updateRef bytes32 string string "string list" string bool
  | Call_deleteRef bytes32 string
  | Call_collaborator bytes32 address Role
  | Call_begin bytes32 address
  | Call_cancel bytes32
  | Call_accept bytes32
  | Call_expire bytes32
  | Call_recover bytes32 address
  | Call_import import_payload

fun exec :: "deployment \<Rightarrow> call_env \<Rightarrow> core_call \<Rightarrow> core \<Rightarrow> core_error + core" where
  "exec d e (Call_create n desc b) c = bind_res (createRepository d e n desc b c) (\<lambda>(_, c). Inr c)"
| "exec d e (Call_fork i n) c = bind_res (forkRepository d e i n c) (\<lambda>(_, c). Inr c)"
| "exec d e (Call_metadata i ud desc ub b) c = updateMetadata e i ud desc ub b c"
| "exec d e (Call_updateRef i n sha us old force) c = updateRef d e i n sha us old force c"
| "exec d e (Call_deleteRef i n) c = deleteRef d e i n c"
| "exec d e (Call_collaborator i a r) c = setCollaborator e i a r c"
| "exec d e (Call_begin i a) c = beginOwnershipTransfer d e i a c"
| "exec d e (Call_cancel i) c = cancelOwnershipTransfer d e i c"
| "exec d e (Call_accept i) c = acceptOwnershipTransfer d e i c"
| "exec d e (Call_expire i) c = expireOwnershipTransfer d e i c"
| "exec d e (Call_recover i a) c = recoverOwnership d e i a c"
| "exec d e (Call_import p) c = importPayload d p c"

inductive reached :: "deployment \<Rightarrow> (call_env \<times> core_call) list \<Rightarrow> core \<Rightarrow> bool" for d where
  start: "reached d [] empty_core"
| call: "reached d h c \<Longrightarrow> exec d e k c = Inr c' \<Longrightarrow> reached d ((e, k) # h) c'"

inductive_cases reached_callE: "reached d (x # h) c"

lemma exec_inv: "core_inv d c \<Longrightarrow> exec d e k c = Inr c' \<Longrightarrow> core_inv d c'"
  by (cases k) (auto simp: res_simps intro: created_inv forked_inv metadata_inv updated_ref_inv deleted_ref_inv collaborator_inv
      begun_inv cancelled_inv accepted_inv expired_inv recovered_inv import_inv)

lemma reached_inv: "reached d h c \<Longrightarrow> core_inv d c"
  by (induction rule: reached.induct) (auto intro: empty_core_inv exec_inv)

section \<open>What changes owners and pending transfers\<close>

definition same_owners :: "core \<Rightarrow> core \<Rightarrow> bool" where
  \<comment> \<open>repositories keep their owners and names\<close>
  "same_owners c c' \<longleftrightarrow> (\<forall>i. live c i \<longrightarrow> live c' i \<and> rep_owner (repositories c' i) = rep_owner (repositories c i))"

definition quiet_call :: "core \<Rightarrow> core \<Rightarrow> bool" where
  "quiet_call c c' \<longleftrightarrow> same_owners c c' \<and> pendingTransfers c' = pendingTransfers c"

lemma quiet_call_refl: "quiet_call c c"
  by (simp add: quiet_call_def same_owners_def)

lemma quiet_call_trans: "quiet_call a b \<Longrightarrow> quiet_call b c \<Longrightarrow> quiet_call a c"
  by (auto simp: quiet_call_def same_owners_def)

lemma quiet_for:
  assumes step: "\<And>x c c'. f x c = Inr c' \<Longrightarrow> quiet_call c c'"
  shows "for_res f xs c = Inr c' \<Longrightarrow> quiet_call c c'"
  by (induction xs arbitrary: c) (auto simp: res_simps quiet_call_refl dest!: step dest: quiet_call_trans)

lemma quiet_set:
  "quiet_call c (set_ref i h r c)" "quiet_call c (set_names i ns c)" "quiet_call c (set_role i a x c)" "quiet_call c (set_collaborators i as c)"
  "quiet_call c (set_collaborator_index i a n c)" "quiet_call c (set_locator k i c)"
  by (simp_all add: quiet_call_def same_owners_def set_defs)

lemma quiet_repo: "rep_owner r = rep_owner (repositories c i) \<Longrightarrow> rep_exists r = live c i \<Longrightarrow> quiet_call c (set_repo i r c)"
  by (simp add: quiet_call_def same_owners_def set_defs)

lemma quiet_store: "storeRepository d r c = Inr c' \<Longrightarrow> quiet_call c c'"
  unfolding storeRepository_def Let_def by (auto simp: res_simps quiet_call_def same_owners_def set_defs)

lemma quiet_copy: "quiet_call c (fold (copy_ref d e now s f) ns c)"
proof (induction ns arbitrary: c)
  case (Cons n ns)
  have "quiet_call c (copy_ref d e now s f n c)"
    unfolding copy_ref_def Let_def by (rule quiet_call_trans[OF quiet_set(1) quiet_set(2)])
  then show ?case using Cons.IH quiet_call_trans by (metis fold_simps(2))
qed (simp add: quiet_call_refl)

lemma quiet_ops:
  "createRepository d e n desc b c = Inr (i, c') \<Longrightarrow> quiet_call c c'"
  "forkRepository d e j n c = Inr (i, c') \<Longrightarrow> quiet_call c c'"
  "updateMetadata e i ud desc ub b c = Inr c' \<Longrightarrow> quiet_call c c'"
  "updateRef d e i n sha us old force c = Inr c' \<Longrightarrow> quiet_call c c'"
  "deleteRef d e i n c = Inr c' \<Longrightarrow> quiet_call c c'"
  "setCollaborator e i a x c = Inr c' \<Longrightarrow> quiet_call c c'"
  "importPayload d p c = Inr c' \<Longrightarrow> quiet_call c c'"
proof -
  show "createRepository d e n desc b c = Inr (i, c') \<Longrightarrow> quiet_call c c'"
    unfolding createRepository_def Let_def by (auto simp: res_simps intro: quiet_store)
  show "forkRepository d e j n c = Inr (i, c') \<Longrightarrow> quiet_call c c'"
    unfolding forkRepository_def Let_def by (auto simp: res_simps intro!: quiet_call_trans[OF quiet_store quiet_copy])
  show "updateMetadata e i ud desc ub b c = Inr c' \<Longrightarrow> quiet_call c c'"
    unfolding updateMetadata_def requireRepository_def Let_def by (auto simp: res_simps intro!: quiet_repo)
  show "updateRef d e i n sha us old force c = Inr c' \<Longrightarrow> quiet_call c c'"
    by (erule update_ref_cases) (simp add: quiet_call_def same_owners_def set_defs)
  show "deleteRef d e i n c = Inr c' \<Longrightarrow> quiet_call c c'"
    unfolding deleteRef_def Let_def by (auto simp: res_simps quiet_call_def same_owners_def set_defs dest!: authorized)
  show "setCollaborator e i a x c = Inr c' \<Longrightarrow> quiet_call c c'"
    unfolding setCollaborator_def removeCollaborator_def add_collaborator_def Let_def
    by (auto simp: res_simps quiet_call_def same_owners_def set_defs split: if_splits)
  have a: "store_alias d x c = Inr c' \<Longrightarrow> quiet_call c c'" for x c c'
    unfolding store_alias_def Let_def by (cases x) (auto simp: res_simps intro: quiet_set)
  have r: "storeImportedRef d x c = Inr c' \<Longrightarrow> quiet_call c c'" for x c c'
    unfolding storeImportedRef_def Let_def by (auto simp: res_simps intro: quiet_call_trans[OF quiet_set(1) quiet_set(2)])
  have k: "storeImportedCollaborator x c = Inr c' \<Longrightarrow> quiet_call c c'" for x c c'
    unfolding storeImportedCollaborator_def add_collaborator_def Let_def
    by (cases x) (auto simp: res_simps quiet_call_def same_owners_def set_defs)
  show "importPayload d p c = Inr c' \<Longrightarrow> quiet_call c c'"
    unfolding importPayload_def by (cases p) (auto intro: quiet_for[OF quiet_store] quiet_for[OF a] quiet_for[OF r] quiet_for[OF k])
qed

lemma now_exact: "now64 e = Inr t \<Longrightarrow> unat t = block_timestamp e"
  unfolding now64_def by (auto simp: res_simps unat_of_nat take_bit_eq_mod)

lemma moved_frame:
  assumes "moveOwnerIndex i a b c = Inr c'"
  shows "repositories c' = repositories c" "pendingTransfers c' = pendingTransfers c" "roles c' = roles c" "collaborators c' = collaborators c"
  using assms unfolding moveOwnerIndex_def Let_def by (auto simp: res_simps set_defs)

lemma transfer_effect:
  assumes "transferOwnership d e i r b c = Inr c'"
  shows "repositories c' = (repositories c)(i := r\<lparr>rep_owner := b\<rparr>)" "pendingTransfers c' = (pendingTransfers c)(i := no_transfer)"
    "roles c' = roles c" "collaborators c' = collaborators c"
  using assms unfolding transferOwnership_def Let_def by (auto simp: res_simps set_defs dest: moved_frame)

lemma begin_effect:
  assumes "beginOwnershipTransfer d e i a c = Inr c'"
  obtains x y where "msg_sender e = rep_owner (repositories c i)" "unat x = block_timestamp e + OWNERSHIP_TRANSFER_DELAY"
    "pendingTransfers c' = (pendingTransfers c)(i := \<lparr>pd_newOwner = a, pd_executeAfter = x, pd_expiresAt = y\<rparr>)" "repositories c' = repositories c"
  using assms unfolding beginOwnershipTransfer_def requireRepository_def Let_def
  by (auto simp: res_simps set_defs dest!: now_exact added_time)

lemma accept_effect:
  assumes "acceptOwnershipTransfer d e i c = Inr c'"
  shows "live c i" "pd_newOwner (pendingTransfers c i) \<noteq> no_address" "msg_sender e = pd_newOwner (pendingTransfers c i)"
    "unat (pd_executeAfter (pendingTransfers c i)) \<le> block_timestamp e" "block_timestamp e \<le> unat (pd_expiresAt (pendingTransfers c i))"
    "transferOwnership d e i (repositories c i) (msg_sender e) c = Inr c'"
  using assms unfolding acceptOwnershipTransfer_def requireRepository_def requirePending_def
  by (auto simp: res_simps word_less_nat_alt not_less dest: now_exact)

lemma recover_effect:
  assumes "recoverOwnership d e i b c = Inr c'"
  shows "live c i" "msg_sender e = recovery_module e" "msg_sender e \<noteq> no_address" "transferOwnership d e i (repositories c i) b c = Inr c'"
  using assms unfolding recoverOwnership_def requireRepository_def by (auto simp: res_simps)

lemma clear_effect:
  assumes "cancelOwnershipTransfer d e i c = Inr c' \<or> expireOwnershipTransfer d e i c = Inr c'"
  shows "repositories c' = repositories c" "pendingTransfers c' = (pendingTransfers c)(i := no_transfer)"
  using assms unfolding cancelOwnershipTransfer_def expireOwnershipTransfer_def clearPending_def by (auto simp: res_simps set_defs)

section \<open>A pending transfer was begun by the owner\<close>

definition begun_by_owner :: "(call_env \<times> core_call) list \<Rightarrow> core \<Rightarrow> bool" where
  "begun_by_owner h c \<longleftrightarrow> (\<forall>i. pd_newOwner (pendingTransfers c i) \<noteq> no_address \<longrightarrow>
     (\<exists>e. (e, Call_begin i (pd_newOwner (pendingTransfers c i))) \<in> set h \<and> msg_sender e = rep_owner (repositories c i) \<and>
       unat (pd_executeAfter (pendingTransfers c i)) = block_timestamp e + OWNERSHIP_TRANSFER_DELAY))"

lemma begun_quiet:
  assumes "core_inv d c" "begun_by_owner h c" "quiet_call c c'"
  shows "begun_by_owner (x # h) c'"
proof -
  have "rep_owner (repositories c' i) = rep_owner (repositories c i)" if "pd_newOwner (pendingTransfers c i) \<noteq> no_address" for i
    using pendingD(1)[OF assms(1) that] assms(3) by (auto simp: quiet_call_def same_owners_def)
  then show ?thesis using assms(2,3) unfolding begun_by_owner_def quiet_call_def by (metis list.set_intros(2))
qed

lemma begun_change:
  assumes "begun_by_owner h c" "pendingTransfers c' = (pendingTransfers c)(i := no_transfer)" "\<And>j. j \<noteq> i \<Longrightarrow> repositories c' j = repositories c j"
  shows "begun_by_owner (x # h) c'"
  using assms unfolding begun_by_owner_def by (auto simp: no_transfer_def)

lemma begun_begin:
  assumes "begun_by_owner h c" "beginOwnershipTransfer d e i a c = Inr c'"
  shows "begun_by_owner ((e, Call_begin i a) # h) c'"
  using assms(2)
proof (cases rule: begin_effect)
  case (1 x y)
  then show ?thesis using assms(1) unfolding begun_by_owner_def by auto
qed

lemma begun_step:
  assumes "core_inv d c" "begun_by_owner h c" "exec d e k c = Inr c'"
  shows "begun_by_owner ((e, k) # h) c'"
proof (cases k)
  case (Call_accept i)
  then show ?thesis using assms(3) accept_effect(6)[of d e i c c'] transfer_effect[of d e i] by (auto intro!: begun_change[OF assms(2)])
next
  case (Call_recover i b)
  then show ?thesis using assms(3) recover_effect(4)[of d e i b c c'] transfer_effect[of d e i] by (auto intro!: begun_change[OF assms(2)])
next
  case (Call_cancel i)
  then show ?thesis using assms(3) clear_effect[of d e i c c'] by (auto intro!: begun_change[OF assms(2)])
next
  case (Call_expire i)
  then show ?thesis using assms(3) clear_effect[of d e i c c'] by (auto intro!: begun_change[OF assms(2)])
qed (use assms in \<open>auto simp: res_simps intro: begun_begin begun_quiet dest: quiet_ops\<close>)

lemma reached_begun: "reached d h c \<Longrightarrow> begun_by_owner h c"
proof (induction rule: reached.induct)
  case start
  then show ?case by (simp add: begun_by_owner_def empty_core_def no_transfer_def)
next
  case (call h c e k c')
  then show ?case using begun_step[OF reached_inv] by blast
qed

end
