(* ===== verification/Core_Properties.thy ===== *)
theory Core_Properties
  imports Core_Steps
begin

text \<open>
  What \<open>RepositoryCore\<close> promises in every state calls can reach: its indexes agree, ownership moves only
  as it should, refs change only by compare-and-swap. A small run of the contract gives the witnesses.
\<close>

section \<open>A run\<close>

definition alice :: address where "alice = replicate 20 1"
definition bob :: address where "bob = replicate 20 2"

definition plain_deployment :: deployment where
  "plain_deployment = \<lparr>keccak256 = (\<lambda>b. b), suite_directory = replicate 20 9\<rparr>"

definition call_by :: "address \<Rightarrow> nat \<Rightarrow> call_env" where
  "call_by a t = \<lparr>msg_sender = a, block_timestamp = t, block_chainid = 1776, suite_is_active = True, moderation_module = replicate 20 3,
     recovery_module = replicate 20 4, economic_module = replicate 20 5, allows_ref_mutation = (\<lambda>_ _. True), allows_fork = (\<lambda>_ _. True),
     has_pending_recovery = (\<lambda>_. False), clears_splits = (\<lambda>_. True)\<rparr>"

definition run_id :: bytes32 where "run_id = repo_id_of plain_deployment (call_by alice 1000) ''r''"

definition run_sha :: string where "run_sha = replicate 40 CHR ''a''"

definition run_repo :: Repository where
  "run_repo = \<lparr>rep_id = run_id, rep_owner = alice, rep_name = ''r'', rep_description = '''', rep_defaultBranch = ''main'', rep_forkedFrom = no_bytes32,
     rep_createdAt = 1000, rep_updatedAt = 1000, rep_exists = True\<rparr>"

abbreviation alice_home :: bytes32 where "alice_home \<equiv> locator_of plain_deployment alice ''r''"
abbreviation bob_home :: bytes32 where "bob_home \<equiv> locator_of plain_deployment bob ''r''"

definition run_created :: core where
  "run_created = set_owned alice [run_id] (set_owned_index run_id 1 (set_locator alice_home run_id (set_repo run_id run_repo empty_core)))"

definition run_pushed :: core where
  "run_pushed = set_repo run_id run_repo
     (set_ref run_id (text_hash plain_deployment ''refs/heads/main'') \<lparr>gr_commitSha = run_sha, gr_packUris = [''ipfs://p''], gr_updatedAt = 1000,
        gr_updatedBy = alice, gr_exists = True\<rparr>
     (set_names run_id [''refs/heads/main''] run_created))"

definition run_shared :: core where
  "run_shared = set_role run_id bob Maintainer (add_collaborator run_id bob run_pushed)"

definition run_offered :: core where
  "run_offered = set_reserved bob_home run_id
     (set_pending run_id \<lparr>pd_newOwner = bob, pd_executeAfter = 605800, pd_expiresAt = 3197800\<rparr> run_shared)"

definition run_calls :: "(call_env \<times> core_call) list" where
  "run_calls =
    [(call_by alice 1000, Call_begin run_id bob),
     (call_by alice 1000, Call_collaborator run_id bob Maintainer),
     (call_by alice 1000, Call_updateRef run_id ''refs/heads/main'' run_sha [''ipfs://p''] '''' False),
     (call_by alice 1000, Call_create ''r'' '''' '''')]"

lemma run_nonzero: "run_id \<noteq> no_bytes32" "alice \<noteq> no_address" "bob \<noteq> no_address" "alice \<noteq> bob" "bob \<noteq> alice" "alice_home \<noteq> bob_home" "bob_home \<noteq> alice_home"
  "replicate 20 3 \<noteq> no_address" "replicate 20 4 \<noteq> no_address" "replicate 20 5 \<noteq> no_address"
proof -
  have "length run_id \<noteq> length no_bytes32"
    by (simp add: run_id_def repo_id_of_def plain_deployment_def be256_def abi_address_def no_bytes32_def)
  then show "run_id \<noteq> no_bytes32" by metis
  show "alice_home \<noteq> bob_home" "bob_home \<noteq> alice_home"
    by (simp_all add: locator_of_def plain_deployment_def abi_address_def alice_def bob_def)
qed (simp_all add: alice_def bob_def no_address_def)

lemmas run_defs = createRepository_def storeRepository_def requireActive_def validateRepositoryName_def requireLength_def requireLocatorAvailable_def
  guard_err_def bind_res_def Let_def now64_def call_by_def name_char_def

lemma run_create: "exec plain_deployment (call_by alice 1000) (Call_create ''r'' '''' '''') empty_core = Inr run_created"
  using run_nonzero
  by (simp add: run_defs run_id_def[symmetric, unfolded call_by_def] empty_core_def no_repository_def MAX_NAME_LENGTH_def
      run_created_def run_repo_def set_defs)

lemma run_push: "exec plain_deployment (call_by alice 1000) (Call_updateRef run_id ''refs/heads/main'' run_sha [''ipfs://p''] '''' False) run_created = Inr run_pushed"
  using run_nonzero
  by (simp add: run_defs updateRef_def authorize_refs_def requireRepository_def moderation_of_def canMaintain_def validateRefName_def ref_char_def
      validateCommitSha_def sha_char_def run_sha_def validatePackUri_def MAX_REF_NAME_LENGTH_def MAX_PACK_URIS_def MAX_PACK_URI_LENGTH_def MAX_REFS_PER_REPO_def
      run_created_def run_pushed_def run_repo_def set_defs empty_core_def no_ref_def list_all_iff)

lemma run_share: "exec plain_deployment (call_by alice 1000) (Call_collaborator run_id bob Maintainer) run_pushed = Inr run_shared"
  using run_nonzero
  by (simp add: run_defs setCollaborator_def requireRepository_def run_pushed_def run_created_def run_shared_def run_repo_def set_defs empty_core_def
     MAX_COLLABORATORS_PER_REPO_def)

lemma run_offer: "exec plain_deployment (call_by alice 1000) (Call_begin run_id bob) run_shared = Inr run_offered"
  using run_nonzero
  by (simp add: run_defs beginOwnershipTransfer_def requireRepository_def addTime_def OWNERSHIP_TRANSFER_DELAY_def OWNERSHIP_TRANSFER_WINDOW_def
     run_offered_def run_shared_def add_collaborator_def run_pushed_def run_created_def run_repo_def set_defs empty_core_def no_transfer_def)

lemma run_reached: "reached plain_deployment run_calls run_offered"
  unfolding run_calls_def by (rule reached.call[OF reached.call[OF reached.call[OF reached.call[OF reached.start run_create] run_push] run_share] run_offer])

definition run_accepted :: core where
  "run_accepted = set_pending run_id no_transfer (set_reserved bob_home no_bytes32 (set_repo run_id (run_repo\<lparr>rep_owner := bob\<rparr>)
     (set_locator bob_home run_id (set_locator alice_home run_id
     (set_owned bob [run_id] (set_owned_index run_id 1 (set_owned alice [] (set_owned_index run_id 1 run_offered))))))))"

lemma run_accept: "acceptOwnershipTransfer plain_deployment (call_by bob 700000) run_id run_offered = Inr run_accepted"
  using run_nonzero
  by (simp add: run_defs acceptOwnershipTransfer_def transferOwnership_def requireLocatorAvailableFor_def moveOwnerIndex_def requireRepository_def requirePending_def
     run_accepted_def run_offered_def run_shared_def add_collaborator_def run_pushed_def run_created_def run_repo_def set_defs empty_core_def no_transfer_def)

lemma run_reached_end: "reached plain_deployment ((call_by bob 700000, Call_accept run_id) # run_calls) run_accepted"
  by (rule reached.call[OF run_reached]) (simp add: run_accept)

lemma run_push_again: "\<exists>c'. updateRef plain_deployment (call_by bob 2000) run_id ''refs/heads/main'' run_sha [''ipfs://q''] run_sha False run_offered = Inr c'"
proof -
  have "bytes_of ''ipfs://p'' \<noteq> bytes_of ''ipfs://q''" by (simp add: bytes_of_def)
  then show ?thesis using run_nonzero
    by (simp add: run_defs updateRef_def authorize_refs_def requireRepository_def moderation_of_def canMaintain_def validateRefName_def ref_char_def
      validateCommitSha_def sha_char_def run_sha_def validatePackUri_def MAX_REF_NAME_LENGTH_def MAX_PACK_URIS_def MAX_PACK_URI_LENGTH_def MAX_REFS_PER_REPO_def
      run_offered_def run_shared_def add_collaborator_def run_pushed_def run_repo_def set_defs add_uri_def contains_uri_def text_hash_def plain_deployment_def list_all_iff)
qed

section \<open>Properties\<close>

text \<open>C3: In every state the contract reaches, its storage is one consistent picture: every repository
  resolves, as canonical, under its owner and name; an owner's list has exactly that owner's
  repositories, each once; a ref can be read exactly when its name is listed; an account has a role
  exactly when it is listed as a collaborator; a pending transfer holds the name it will need.
\<close>
theorem contract_consistent:
  assumes "reached d h c"
  shows "(\<forall>i. live c i \<longrightarrow> rep_id (repositories c i) = i \<and>
        resolveRepository d c (rep_owner (repositories c i)) (rep_name (repositories c i)) = Inr (repositories c i, True)) \<and>
    (\<forall>a. distinct (ownerRepositories c a) \<and> set (ownerRepositories c a) = {i. live c i \<and> rep_owner (repositories c i) = a}) \<and>
    (\<forall>i n. (\<exists>r. getRef d c i n = Inr r) \<longleftrightarrow> text_hash d n \<in> text_hash d ` set (refNames c i)) \<and>
    (\<forall>i. distinct (refNames c i) \<and> distinct (collaborators c i) \<and> set (collaborators c i) = {a. roles c i a \<noteq> Role_None}) \<and>
    (\<forall>i. pd_newOwner (pendingTransfers c i) \<noteq> no_address \<longrightarrow> live c i \<and>
        (\<forall>a n. requireLocatorAvailable c (goal d c i) a n = Inl (LocatorUnavailable a n)))"
proof (intro conjI allI impI)
  note inv = core_invD[OF reached_inv[OF assms]]
  fix i a
  show "rep_id (repositories c i) = i" if "live c i" using that inv(1) by (simp add: repo_inv_def)
  show "resolveRepository d c (rep_owner (repositories c i)) (rep_name (repositories c i)) = Inr (repositories c i, True)" if "live c i"
    using that inv(1,5) by (simp add: resolveRepository_def locators_inv_def repo_inv_def)
  show "distinct (ownerRepositories c a)" using inv(4) by (auto simp: owners_inv_def intro: indexed_distinct)
  show "set (ownerRepositories c a) = {i. live c i \<and> rep_owner (repositories c i) = a}" using inv(4) by (auto simp: owners_inv_def)
  show "distinct (refNames c i)" using inv(2) by (auto simp: refs_inv_def distinct_map)
  show "distinct (collaborators c i)" using inv(3) by (auto simp: collaborators_inv_def intro: indexed_distinct)
  show "set (collaborators c i) = {a. roles c i a \<noteq> Role_None}" using inv(3) by (auto simp: collaborators_inv_def)
next
  note inv = core_invD[OF reached_inv[OF assms]]
  fix i n
  have r: "gr_exists (refs c i (text_hash d n)) \<longleftrightarrow> text_hash d n \<in> text_hash d ` set (refNames c i)" "\<not> live c i \<Longrightarrow> refNames c i = []"
    using inv(2) by (simp_all add: refs_inv_def)
  then have "gr_exists (refs c i (text_hash d n)) \<Longrightarrow> live c i" by (cases "live c i") auto
  then show "(\<exists>r. getRef d c i n = Inr r) \<longleftrightarrow> text_hash d n \<in> text_hash d ` set (refNames c i)"
    unfolding getRef_def requireRepository_def Let_def r(1)[symmetric] by (auto simp: res_simps)
next
  note inv = reached_inv[OF assms]
  fix i a n
  assume p: "pd_newOwner (pendingTransfers c i) \<noteq> no_address"
  show "live c i" by (rule pendingD(1)[OF inv p])
  show "requireLocatorAvailable c (goal d c i) a n = Inl (LocatorUnavailable a n)"
    using pendingD(2,4)[OF inv p] by (simp add: requireLocatorAvailable_def guard_err_def)
qed

theorem contract_consistent_witness:
  "reached plain_deployment run_calls run_offered \<and> set (collaborators run_offered run_id) = {a. roles run_offered run_id a \<noteq> Role_None}"
  using contract_consistent[OF run_reached] run_reached by blast

text \<open>C5: A repository changes hands in two ways only. Either the account it was offered to accepts, and then
  the owner of that time had begun this very transfer at least seven and at most thirty-seven days
  before; or the recovery module says so.
\<close>
theorem ownership_moves:
  assumes "reached d h c" and "exec d e k c = Inr c'" and "live c i"
    and "rep_owner (repositories c' i) \<noteq> rep_owner (repositories c i)"
  shows "(k = Call_accept i \<and> rep_owner (repositories c' i) = msg_sender e \<and>
      (\<exists>e0. (e0, Call_begin i (msg_sender e)) \<in> set h \<and> msg_sender e0 = rep_owner (repositories c i) \<and>
        block_timestamp e0 + 7 * 86400 \<le> block_timestamp e \<and> block_timestamp e \<le> block_timestamp e0 + 37 * 86400)) \<or>
    (k = Call_recover i (rep_owner (repositories c' i)) \<and> msg_sender e = recovery_module e)"
proof -
  note inv = reached_inv[OF assms(1)]
  note nq = assms(2-4)
  have q: "\<not> quiet_call c c'" using nq(2,3) by (auto simp: quiet_call_def same_owners_def)
  show ?thesis
  proof (cases k)
    case (Call_accept j)
    then have a: "acceptOwnershipTransfer d e j c = Inr c'" using nq by simp
    note A = accept_effect[OF a] and T = transfer_effect[OF accept_effect(6)[OF a]]
    have j: "j = i" using nq(3) T(1) by (auto split: if_splits)
    obtain e0 where e0: "(e0, Call_begin i (pd_newOwner (pendingTransfers c i))) \<in> set h" "msg_sender e0 = rep_owner (repositories c i)"
      "unat (pd_executeAfter (pendingTransfers c i)) = block_timestamp e0 + OWNERSHIP_TRANSFER_DELAY"
      using reached_begun[OF assms(1)] A(2) unfolding begun_by_owner_def j by blast
    have "block_timestamp e0 + 7 * 86400 \<le> block_timestamp e \<and> block_timestamp e \<le> block_timestamp e0 + 37 * 86400"
      using A(4,5) e0(3) pendingD(6)[OF inv A(2)] unfolding j by (simp add: OWNERSHIP_TRANSFER_DELAY_def OWNERSHIP_TRANSFER_WINDOW_def)
    then show ?thesis using e0(1,2) A(3) T(1) Call_accept unfolding j by auto
  next
    case (Call_recover j b)
    then have r: "recoverOwnership d e j b c = Inr c'" using nq by simp
    show ?thesis using Call_recover recover_effect(2)[OF r] transfer_effect(1)[OF recover_effect(4)[OF r]] nq(3) by (auto split: if_splits)
  next
    case (Call_begin j b)
    then have "beginOwnershipTransfer d e j b c = Inr c'" using nq by simp
    then show ?thesis using nq(3) by (auto elim: begin_effect)
  next
    case (Call_cancel j)
    then show ?thesis using nq clear_effect(1)[of d e j c c'] by simp
  next
    case (Call_expire j)
    then show ?thesis using nq clear_effect(1)[of d e j c c'] by simp
  qed (use nq q in \<open>auto simp: res_simps dest: quiet_ops\<close>)
qed

theorem ownership_moves_witness:
  "reached plain_deployment run_calls run_offered \<and> exec plain_deployment (call_by bob 700000) (Call_accept run_id) run_offered = Inr run_accepted \<and>
     live run_offered run_id \<and> rep_owner (repositories run_accepted run_id) \<noteq> rep_owner (repositories run_offered run_id) \<and>
     rep_owner (repositories run_accepted run_id) = msg_sender (call_by bob 700000)"
proof -
  have x: "exec plain_deployment (call_by bob 700000) (Call_accept run_id) run_offered = Inr run_accepted" by (simp add: run_accept)
  have l: "live run_offered run_id" "rep_owner (repositories run_offered run_id) = alice" "rep_owner (repositories run_accepted run_id) = bob"
    by (simp_all add: run_accepted_def run_offered_def run_shared_def add_collaborator_def run_pushed_def run_repo_def set_defs)
  then have n: "rep_owner (repositories run_accepted run_id) \<noteq> rep_owner (repositories run_offered run_id)" using run_nonzero by simp
  show ?thesis using ownership_moves[OF run_reached x l(1) n] run_reached x l(1) n by blast
qed

text \<open>C10: A push that succeeds was made by the owner or a maintainer and, unless forced, found the ref either
  absent or at the commit it expected. Afterwards the ref reads the new commit, its author and the time of
  the block; without force no pack the ref had is lost and every new pack is there, with force it has the
  new packs only; at most 128 packs are stored. Nothing else changes: of the repository only the time of
  the last update, of the list of names only the new name at its end, and of the rest of the storage,
  including every other ref and repository, nothing at all.
\<close>
theorem update_ref_swaps:
  assumes "reached d h c" and "updateRef d e i n sha us old force c = Inr c'"
  shows "canMaintain c i (rep_owner (repositories c i)) (msg_sender e) \<and>
    (force \<or> (\<forall>r. getRef d c i n = Inr r \<longrightarrow> text_hash d (gr_commitSha r) = text_hash d old)) \<and>
    (\<exists>r. getRef d c' i n = Inr r \<and> gr_commitSha r = sha \<and> gr_updatedBy r = msg_sender e \<and>
      unat (gr_updatedAt r) = block_timestamp e \<and> length (gr_packUris r) \<le> 128 \<and>
      (if force then gr_packUris r = us
       else set (gr_packUris (refs c i (text_hash d n))) \<subseteq> set (gr_packUris r) \<and> (\<forall>u \<in> set us. contains_uri d (gr_packUris r) u) \<and>
         set (gr_packUris r) \<subseteq> set (gr_packUris (refs c i (text_hash d n))) \<union> set us) \<and>
      repositories c' = (repositories c)(i := (repositories c i)\<lparr>rep_updatedAt := gr_updatedAt r\<rparr>)) \<and>
    (\<forall>j k. j \<noteq> i \<or> k \<noteq> text_hash d n \<longrightarrow> refs c' j k = refs c j k) \<and>
    refNames c' = (refNames c)(i := if is_ok (getRef d c i n) then refNames c i else refNames c i @ [n]) \<and>
    c'\<lparr>repositories := repositories c, refs := refs c, refNames := refNames c\<rparr> = c"
  using assms(2)
proof (cases rule: update_ref_cases)
  case (1 uris now)
  let ?old = "gr_packUris (refs c i (text_hash d n))"
  have R: "length ?old \<le> MAX_PACK_URIS"
  proof (cases "gr_exists (refs c i (text_hash d n))")
    case False
    then have "refs c i (text_hash d n) = no_ref" using core_invD(2)[OF reached_inv[OF assms(1)]] unfolding refs_inv_def by blast
    then show ?thesis by (simp add: no_ref_def)
  qed (use core_invD(2)[OF reached_inv[OF assms(1)]] in \<open>auto simp: refs_inv_def\<close>)
  have u: "length uris \<le> 128 \<and>
      (if force then uris = us else set ?old \<subseteq> set uris \<and> (\<forall>u \<in> set us. contains_uri d uris u) \<and> set uris \<subseteq> set ?old \<union> set us)"
  proof (cases "force \<or> ?old = []")
    case True
    then show ?thesis using 1(7,10) by (auto simp: contains_uri_def list_ex_iff MAX_PACK_URIS_def)
  next
    case False
    then have f: "for_res (add_uri d) us ?old = Inr uris" using 1(10) by simp
    show ?thesis using add_uris[OF f R] False by (auto simp: MAX_PACK_URIS_def)
  qed
  have t: "unat now = block_timestamp e" using 1(11) by (auto simp: now64_def res_simps unat_of_nat take_bit_eq_mod)
  have live: "rep_exists (repositories c i)" using 1(1) by simp
  show ?thesis
    using u t 1(1,2,8) unfolding 1(12) getRef_def requireRepository_def Let_def
    by (auto simp: set_defs res_simps guard_err_def)
qed

theorem update_ref_swaps_witness:
  "\<exists>c'. reached plain_deployment run_calls run_offered \<and>
     updateRef plain_deployment (call_by bob 2000) run_id ''refs/heads/main'' run_sha [''ipfs://q''] run_sha False run_offered = Inr c' \<and>
     (\<exists>r. getRef plain_deployment c' run_id ''refs/heads/main'' = Inr r \<and> gr_updatedBy r = bob)"
proof -
  obtain c' where c': "updateRef plain_deployment (call_by bob 2000) run_id ''refs/heads/main'' run_sha [''ipfs://q''] run_sha False run_offered = Inr c'"
    using run_push_again by blast
  have "msg_sender (call_by bob 2000) = bob" by (simp add: call_by_def)
  then show ?thesis using update_ref_swaps[OF run_reached c'] run_reached c' by metis
qed

text \<open>C37: A collaborator who accepts a repository stays listed as a collaborator of it, with the role of
  before, and then cannot be removed: the owner's own entry is refused by \<^verbatim>\<open>setCollaborator\<close>.
\<close>
theorem owner_stays_collaborator:
  assumes "reached d h c" and "acceptOwnershipTransfer d e i c = Inr c'" and "roles c i (msg_sender e) \<noteq> Role_None"
  shows "rep_owner (repositories c' i) = msg_sender e \<and> msg_sender e \<in> set (collaborators c' i) \<and> roles c' i (msg_sender e) = roles c i (msg_sender e) \<and>
    (\<forall>e' role c''. setCollaborator e' i (msg_sender e) role c' \<noteq> Inr c'')"
proof -
  note T = transfer_effect[OF accept_effect(6)[OF assms(2)]]
  have "msg_sender e \<in> set (collaborators c i)"
    using assms(3) core_invD(3)[OF reached_inv[OF assms(1)]] unfolding collaborators_inv_def by blast
  then show ?thesis using T unfolding setCollaborator_def requireRepository_def Let_def by (auto simp: res_simps)
qed

theorem owner_stays_collaborator_witness:
  "reached plain_deployment run_calls run_offered \<and>
     acceptOwnershipTransfer plain_deployment (call_by bob 700000) run_id run_offered = Inr run_accepted \<and> roles run_offered run_id bob = Maintainer \<and>
     rep_owner (repositories run_accepted run_id) = bob \<and> bob \<in> set (collaborators run_accepted run_id)"
proof -
  have r: "roles run_offered run_id (msg_sender (call_by bob 700000)) = Maintainer" "msg_sender (call_by bob 700000) = bob"
    by (simp_all add: call_by_def run_offered_def run_shared_def set_defs)
  then have n: "roles run_offered run_id (msg_sender (call_by bob 700000)) \<noteq> Role_None" by simp
  show ?thesis using owner_stays_collaborator[OF run_reached run_accept n] run_reached run_accept r by metis
qed

end
