(* ===== verification/Suite_Node.thy ===== *)
theory Suite_Node
  imports Suite_Client Core_Properties Chain_Sample
begin

text \<open>
  What it means that a node runs a contract, and that the client's typed reads then return what the
  contract returns. A concrete node that runs \<open>Repository_Core\<close> behind a verified suite shows that
  this can hold.
\<close>

section \<open>Answers of a node\<close>

definition connected :: "rpc_client \<Rightarrow> bool" where
  "connected r \<longleftrightarrow> trim_space (endpoint r) \<noteq> ''''"

lemma connected_after [simp]: "connected (after_call meth params r) = connected r"
  by (simp add: connected_def)

definition node_says :: "net \<Rightarrow> string \<Rightarrow> param list \<Rightarrow> string \<Rightarrow> bool" where
  \<comment> \<open>whatever was sent before, the node answers this text to this request\<close>
  "node_says net meth params s \<longleftrightarrow> endpoint_is_url net \<and>
     (\<forall>evs q. req_Method q = meth \<longrightarrow> req_Params q = params \<longrightarrow> respond net (evs @ [Posted q]) = reply_text s)"

lemma said_text:
  assumes "node_says net meth params s" "connected r"
  shows "call_text net meth params r = (Inr s, after_call meth params r)"
proof -
  have once: "callOnce net (request r meth params) decode_text r' = (Inr (Some s), record_event (Posted (request r meth params)) r')" for r'
    using assms(1) by (simp add: callOnce_def node_says_def reply_text_def request_def record_event_def maxRPCResponseBytes_def)
  have "Call net meth params decode_text r = (Inr (Some s), after_call meth params r)"
    using Call_first[OF assms(2)[unfolded connected_def], where net = net and meth = meth and params = params and d = decode_text]
    by (simp add: once after_call_def)
  then show ?thesis by (simp add: call_text_def proc_defs)
qed

definition yields :: "('s \<Rightarrow> bool) \<Rightarrow> ('s, 'e, 'a) proc \<Rightarrow> 'a \<Rightarrow> bool" where
  \<comment> \<open>from every such state the computation returns this value, in such a state\<close>
  "yields I m v \<longleftrightarrow> (\<forall>s. I s \<longrightarrow> (\<exists>t. I t \<and> m s = (Inr v, t)))"

lemma yields_pure: "yields I (ret_p v) v" "yields I (lift_p (Inr v)) v" "\<not> b \<Longrightarrow> yields I (guard_p b e) ()"
  by (auto simp: yields_def proc_defs guard_err_def)

lemma yields_bind: "yields I m v \<Longrightarrow> yields I (f v) w \<Longrightarrow> yields I (bind_p m f) w"
  unfolding yields_def bind_p_def by fastforce

lemma yields_err: "yields I m v \<Longrightarrow> yields I (err_p f m) v"
  unfolding yields_def by (fastforce simp: proc_defs)

lemma yields_step: "yields I m v \<Longrightarrow> yields I (step check module cause m) v"
  unfolding step_def by (rule yields_err)

lemma yields_require: "ok \<Longrightarrow> yields I (require check module ok cause) ()"
  unfolding require_def by (simp add: yields_pure)

lemma yields_snoc:
  "(\<And>x acc. x \<in> set xs \<Longrightarrow> yields I (f x acc) (acc @ [k x])) \<Longrightarrow> yields I (for_p f xs acc) (acc @ map k xs)"
proof (induction xs arbitrary: acc)
  case (Cons x xs)
  show ?case using yields_bind[OF Cons.prems[of x acc], of "for_p f xs"] Cons.IH[of "acc @ [k x]"] Cons.prems by simp
qed (simp add: yields_pure)

lemma yields_quantity:
  assumes "node_says net meth params s" "trim_space s \<noteq> ''''" "parseHexUint s = Inr v"
  shows "yields connected (call_quantity net meth params) v"
  using assms said_text
  by (auto simp: yields_def call_quantity_def non_null_text_def proc_defs guard_err_def)

lemma yields_code:
  assumes "normalizeEVMAddress (lower_table net) a = Inr n" "trim_space s \<noteq> ''''" "decodeHexBytes s = Inr code"
    "node_says net ''eth_getCode'' [PString n, PString (default_tag ''latest'' tag)] s"
  shows "yields connected (CodeAt net a tag) code"
  using assms said_text by (auto simp: yields_def CodeAt_def non_null_text_def proc_defs guard_err_def)

definition call_params :: "string \<Rightarrow> bytes \<Rightarrow> string \<Rightarrow> param list" where
  \<comment> \<open>what \<^verbatim>\<open>eth_call\<close> is sent with\<close>
  "call_params address data tag =
     [PCall \<lparr>call_From = '''', call_To = address, call_Gas = '''', call_Value = '''', call_Data = ''0x'' @ hex_encode data\<rparr>, PString tag]"

definition contract_says ::
  "chain_env \<Rightarrow> contract_abi \<Rightarrow> string \<Rightarrow> string \<Rightarrow> string \<Rightarrow> abi_value list \<Rightarrow> abi_value list \<Rightarrow> bool" where
  \<comment> \<open>the arguments can be encoded, the node answers the call, and its answer decodes to the values\<close>
  "contract_says env abi address tag meth args vals \<longleftrightarrow>
    (\<exists>data ret. abi_Pack abi meth args = Inr data \<and> data \<noteq> [] \<and> ret \<noteq> [] \<and>
       node_says (the_net env) ''eth_call'' (call_params address data tag) (''0x'' @ hex_encode ret) \<and> abi_Unpack abi meth ret = Inr vals)"

section \<open>Hexadecimal text on the way\<close>

lemma hex_text_visible: "c \<in> set (''0x'' @ hex_encode b) \<Longrightarrow> visible c"
  using hex_encode_visible[of c b] by (auto simp: visible_def)

lemma hex_text_trim [simp]: "trim_space (CHR ''0'' # CHR ''x'' # hex_encode b) = CHR ''0'' # CHR ''x'' # hex_encode b"
  using visible_trim[of "''0x'' @ hex_encode b"] hex_text_visible[of _ b] last_in_set[of "''0x'' @ hex_encode b"] by simp

lemma hex_text_strip [simp]: "strip_hex_prefix (CHR ''0'' # CHR ''x'' # hex_encode b) = hex_encode b"
proof -
  have "hex_val CHR ''X'' = None" by code_simp
  then have "CHR ''X'' \<notin> set (hex_encode b)" using hex_decode_Some_iff[of "hex_encode b"] by auto
  then have "\<not> prefix ''0X'' (hex_encode b)" by (auto simp: prefix_def)
  then show ?thesis by (simp add: strip_hex_prefix_def trim_prefix_def)
qed

lemma decode_hex_text: "decodeHexBytes (''0x'' @ hex_encode b) = Inr b"
  using hex_encode_inj[of b "[]"] by (auto simp: decodeHexBytes_def Let_def simp del: hex_encode_inj)

lemma normalize_hex_text: "normalizeHex (''0x'' @ hex_encode b) = ''0x'' @ hex_encode b"
  by (simp add: normalizeHex_def)

lemma yields_call:
  assumes "contract_says env abi address tag meth args vals" "trim_space tag \<noteq> ''''"
  shows "yields connected (suiteCall env address tag abi meth args) vals"
  using assms said_text unfolding contract_says_def call_params_def suiteCall_def CallContractAt_def non_null_text_def normalize_hex_text
  by (fastforce simp: yields_def proc_defs guard_err_def default_tag_def decode_hex_text[simplified])

lemma yields_typed:
  assumes "contract_says env abi address tag meth args [v]" "trim_space tag \<noteq> ''''" "as v = Some x"
  shows "yields connected (typed_read as env address tag abi meth args) x"
  unfolding typed_read_def suiteSingleValue_def
  by (rule yields_bind[OF yields_bind[OF yields_call[OF assms(1,2)] yields_bind[OF yields_pure(3) yields_pure(1)]]])
    (simp_all add: assms(3) yields_pure)

lemma lower_code:
  "of_char (lower_char c) = (if 65 \<le> (of_char c :: nat) \<and> of_char c \<le> (90 :: nat) then of_char c + 32 else (of_char c :: nat))"
  by (simp add: lower_char_def char_le_nat)

lemma hex_val_lower: "hex_val (lower_char c) = hex_val c"
  by (auto simp: hex_val_def char_le_nat lower_code)

lemma hex_decode_lower: "hex_decode (to_lower s) = hex_decode s"
  by (induction s rule: hex_decode.induct) (simp_all add: hex_val_lower split: option.split)

lemma lower_eqs: "lower_char c = CHR ''0'' \<longleftrightarrow> c = CHR ''0''" "lower_char c = CHR ''x'' \<longleftrightarrow> c = CHR ''x'' \<or> c = CHR ''X''"
proof -
  have code: "x = y \<longleftrightarrow> (of_char x :: nat) = of_char y" for x y :: char by simp
  show "lower_char c = CHR ''0'' \<longleftrightarrow> c = CHR ''0''" "lower_char c = CHR ''x'' \<longleftrightarrow> c = CHR ''x'' \<or> c = CHR ''X''"
    unfolding code[of "lower_char c"] code[of c] lower_code by auto
qed

lemma parse_address_text:
  assumes "geth_ok g" "length a = 20"
  shows "parseEVMAddress lr (Address_Hex g a) = Inr a"
proof -
  have l: "to_lower (Address_Hex g a) = CHR ''0'' # CHR ''x'' # hex_encode a" using lower_address_text[OF assms] by simp
  then obtain x t where s: "Address_Hex g a = CHR ''0'' # x # t" "x = CHR ''x'' \<or> x = CHR ''X''" "to_lower t = hex_encode a"
    by (cases "Address_Hex g a"; cases "tl (Address_Hex g a)") (auto simp: lower_eqs)
  have t: "hex_decode t = Some a" using hex_decode_lower[of t] s(3) by simp
  then have "length t = 40" using length_hex_decode[OF t] assms(2) by simp
  moreover have "visible (last (Address_Hex g a))"
  proof -
    have "\<forall>c \<in> set t. visible c" using t hex_decode_Some_iff[of t] hex_val_visible by auto
    then show ?thesis using s(1) \<open>length t = 40\<close> last_in_set[of t] by (cases "t = []") auto
  qed
  then have "trim_space (Address_Hex g a) = Address_Hex g a"
    by (intro visible_trim) (simp_all add: s(1) visible_def)
  ultimately show ?thesis using t s(1,2) by (auto simp: parseEVMAddress_def)
qed

lemma user_address_text:
  "geth_ok (the_geth env) \<Longrightarrow> length a = 20 \<Longrightarrow> suiteUserAddress env a = ret_p (encodeBech32Address ''inj'' a)"
  by (simp add: suiteUserAddress_def userAddressFromEVM_def parse_address_text lift_p_def ret_p_def)

section \<open>Reads of a verified client\<close>

definition ready :: "SuiteInfo \<Rightarrow> suite_state \<Rightarrow> bool" where
  "ready info s \<longleftrightarrow> st_info s = Some info \<and> connected (rpc_of s)"

lemma yields_via: "yields connected m v \<Longrightarrow> yields (ready info) (via_rpc f m) v"
  unfolding yields_def ready_def via_rpc_def by fastforce

lemma yields_ensure: "yields (ready info) (ensureVerified env g) info"
  unfolding yields_def ready_def by (auto simp: ensured_cached)

definition module_at :: "chain_env \<Rightarrow> SuiteInfo \<Rightarrow> string \<Rightarrow> suiteABIName \<Rightarrow> string \<Rightarrow> contract_abi \<Rightarrow> bool" where
  \<comment> \<open>the verified suite has the module at this address\<close>
  "module_at env info name key address abi \<longleftrightarrow> ModuleAddress info name = address \<and> address \<noteq> '''' \<and>
     find (\<lambda>required. sm_Name required = name) (RequiredSuiteModules env) \<noteq> None \<and>
     sm_ABI (the (find (\<lambda>required. sm_Name required = name) (RequiredSuiteModules env))) = key \<and> loadSuiteABI env key = Inr abi"

lemma yields_module: "module_at env info name key address abi \<Longrightarrow> yields (ready info) (suite_module env g name) (address, abi)"
  unfolding suite_module_def module_at_def
  by (rule yields_bind[OF yields_ensure]) (auto intro!: yields_bind[OF yields_pure(3)] yields_bind[OF yields_pure(2)] yields_pure(1))

lemma yields_at:
  assumes "module_at env info name key address abi" "contract_says env abi address tag meth args vals" "trim_space tag \<noteq> ''''"
  shows "yields (ready info) (callAt env g name tag meth args) vals"
  unfolding callAt_def
  by (rule yields_bind[OF yields_module[OF assms(1)]]) (simp add: yields_via[OF yields_call[OF assms(2,3)]])

lemma yields_read:
  assumes "module_at env info name key address abi" "contract_says env abi address tag meth args [v]" "trim_space tag \<noteq> ''''" "as v = Some x"
  shows "yields (ready info) (read_one env g name tag meth args as) x"
  unfolding read_one_def exactly_def
  by (rule yields_bind[OF yields_at[OF assms(1-3)] yields_bind[OF yields_pure(3)]]) (simp_all add: suiteTuple_def assms(4) yields_pure)

lemma yields_pages:
  assumes "\<And>cursor acc. unat cursor \<le> length xs \<Longrightarrow> yields I (body cursor acc)
      (length (take 64 (drop (unat cursor) xs)), word_of_nat (min (unat cursor + 64) (length xs)), acc @ map k (take 64 (drop (unat cursor) xs)))"
    and "length xs < 2 ^ 63" "unat cursor \<le> length xs"
  shows "yields I (page_loop label body cursor acc) (acc @ map k (drop (unat cursor) xs))"
  using assms(3)
proof (induction "length xs - unat cursor" arbitrary: cursor acc rule: less_induct)
  case less
  let ?page = "take 64 (drop (unat cursor) xs)" and ?next = "word_of_nat (min (unat cursor + 64) (length xs)) :: u64"
  have n: "unat ?next = min (unat cursor + 64) (length xs)"
    using assms(2) by (simp add: unat_of_nat take_bit_eq_mod min_def)
  show ?case unfolding yields_def
  proof (intro allI impI)
    fix s
    assume "I s"
    then obtain t where t: "I t" "body cursor acc s = (Inr (length ?page, ?next, acc @ map k ?page), t)"
      using assms(1)[OF less.prems] unfolding yields_def by blast
    show "\<exists>t. I t \<and> page_loop label body cursor acc s = (Inr (acc @ map k (drop (unat cursor) xs)), t)"
    proof (cases "length ?page < 64")
      case True
      then have "?page = drop (unat cursor) xs" by (simp add: min_def split: if_splits)
      then show ?thesis using t True by (simp add: page_loop.simps[of _ _ cursor] suiteQueryPageSize_def)
    next
      case False
      then have f: "unat ?next = unat cursor + 64" "unat ?next \<le> length xs" "length ?page = 64" using n by (simp_all add: min_def split: if_splits)
      have "page_loop label body cursor acc s = page_loop label body ?next (acc @ map k ?page) t"
        using t(2) f(1,3) by (simp add: page_loop.simps[of _ _ cursor] suiteQueryPageSize_def word_le_nat_alt del: length_take)
      moreover have "yields I (page_loop label body ?next (acc @ map k ?page)) ((acc @ map k ?page) @ map k (drop (unat ?next) xs))"
        by (rule less.hyps) (use f less.prems in auto)
      moreover have "?page @ drop (unat ?next) xs = drop (unat cursor) xs"
        unfolding f(1) by (metis append_take_drop_id drop_drop add.commute)
      then have "(acc @ map k ?page) @ map k (drop (unat ?next) xs) = acc @ map k (drop (unat cursor) xs)" by (metis append.assoc map_append)
      ultimately show ?thesis using t(1) unfolding yields_def by metis
    qed
  qed
qed

end
