(* ===== verification/Suite_Contract.thy ===== *)
theory Suite_Contract
  imports Suite_Node
begin

text \<open>
  The client against the contract: on a node that runs \<open>Repository_Core\<close>, the reads of the Go client
  return what the contract stores, whatever the number of pages.
\<close>

section \<open>The node runs the contract\<close>

definition ref_value :: "GitRef \<Rightarrow> abi_value" where
  "ref_value r = V_tuple [V_string (gr_commitSha r), V_slice (map V_string (gr_packUris r)), V_uint64 (gr_updatedAt r),
     V_address (gr_updatedBy r), V_bool (gr_exists r)]"

definition repo_value :: "Repository \<Rightarrow> abi_value" where
  "repo_value r = V_tuple [V_bytes32 (rep_id r), V_address (rep_owner r), V_string (rep_name r), V_string (rep_description r),
     V_string (rep_defaultBranch r), V_bytes32 (rep_forkedFrom r), V_uint64 (rep_createdAt r), V_uint64 (rep_updatedAt r), V_bool (rep_exists r)]"

definition runs_core :: "chain_env \<Rightarrow> contract_abi \<Rightarrow> string \<Rightarrow> string \<Rightarrow> deployment \<Rightarrow> core \<Rightarrow> bool" where
  \<comment> \<open>at this address and block the node executes the views of the contract on this storage\<close>
  "runs_core env abi address tag d c \<longleftrightarrow>
     (\<forall>i cursor limit names rs n. listRefsPage d c i cursor limit = Inr (names, rs, n) \<longrightarrow>
        contract_says env abi address tag ''listRefsPage'' [V_bytes32 i, V_big (int cursor), V_big (int limit)]
          [V_slice (map V_string names), V_slice (map ref_value rs), V_big (int n)]) \<and>
     (\<forall>a name r canonical. resolveRepository d c a name = Inr (r, canonical) \<longrightarrow>
        contract_says env abi address tag ''resolveRepository'' [V_address a, V_string name] [repo_value r, V_bool canonical])"

definition abi_ref :: "GitRef \<Rightarrow> suiteRefABI" where
  "abi_ref r = \<lparr>rf_CommitSha = gr_commitSha r, rf_PackUris = gr_packUris r, rf_UpdatedAt = gr_updatedAt r,
     rf_UpdatedBy = gr_updatedBy r, rf_Exists = gr_exists r\<rparr>"

definition abi_repository :: "Repository \<Rightarrow> suiteRepositoryABI" where
  "abi_repository r = \<lparr>re_Id = rep_id r, re_Owner = rep_owner r, re_Name = rep_name r, re_Description = rep_description r,
     re_DefaultBranch = rep_defaultBranch r, re_ForkedFrom = rep_forkedFrom r, re_CreatedAt = rep_createdAt r,
     re_UpdatedAt = rep_updatedAt r, re_Exists = rep_exists r\<rparr>"

lemma all_of_map: "(\<And>x. f (g x) = Some (h x)) \<Longrightarrow> all_of f (map g xs) = Some (map h xs)"
  by (induction xs) simp_all

lemma strings_read: "suiteTupleSlice as_string l (V_slice (map V_string xs)) = Inr xs"
  using all_of_map[of as_string V_string "\<lambda>x. x" xs] by (simp add: suiteTupleSlice_def)

lemma as_ref_value: "as_ref (ref_value r) = Some (abi_ref r)"
  using all_of_map[of as_string V_string "\<lambda>x. x"] by (simp add: as_ref_def ref_value_def abi_ref_def)

lemma refs_read: "suiteTupleSlice as_ref l (V_slice (map ref_value rs)) = Inr (map abi_ref rs)"
  using all_of_map[of as_ref ref_value abi_ref rs] as_ref_value by (simp add: suiteTupleSlice_def)

lemma repository_read: "suiteTuple as_repository l (repo_value r) = Inr (abi_repository r)"
  by (simp add: suiteTuple_def as_repository_def repo_value_def abi_repository_def)

lemma map_fst_zipped: "map (\<lambda>p. k (fst p)) (zip xs (map f xs)) = map k xs"
  by (induction xs) simp_all

lemma slice_page: "cursor \<le> length xs \<Longrightarrow> slice cursor (pageEnd cursor limit (length xs)) xs = take limit (drop cursor xs)"
  unfolding slice_def pageEnd_def by (rule nth_equalityI) (auto split: if_splits)

lemma refs_page_of:
  assumes "live c i" "cursor \<le> length (refNames c i)" "0 < limit" "limit \<le> 64"
  shows "listRefsPage d c i cursor limit = Inr (take limit (drop cursor (refNames c i)),
     map (\<lambda>n. refs c i (text_hash d n)) (take limit (drop cursor (refNames c i))), min (cursor + limit) (length (refNames c i)))"
  using assms
  by (simp add: listRefsPage_def requireRepository_def requirePage_def MAX_QUERY_PAGE_SIZE_def guard_err_def slice_page Let_def)
    (simp add: pageEnd_def min_def)

definition ref_of :: "deployment \<Rightarrow> core \<Rightarrow> bytes32 \<Rightarrow> string \<Rightarrow> RefInfo" where
  \<comment> \<open>the client's view of a stored ref\<close>
  "ref_of d c i n =
    (let r = refs c i (text_hash d n) in
     \<lparr>ri_RefName = n, ri_CommitSha = gr_commitSha r, ri_PackURIs = gr_packUris r, ri_UpdatedAt = gr_updatedAt r,
       ri_UpdatedBy = encodeBech32Address ''inj'' (gr_updatedBy r)\<rparr>)"

section \<open>The client on such a node\<close>

locale core_reader =
  fixes env :: chain_env and g :: EVMSuiteRegistry and info :: SuiteInfo and tag :: string
    and core_address :: string and core_abi :: contract_abi and status_address :: string and status_abi :: contract_abi
    and d :: deployment and c :: core and status :: "bytes32 \<Rightarrow> u8"
  assumes geth: "geth_ok (the_geth env)"
    and tag: "trim_space tag \<noteq> []"
    and core_module: "module_at env info ''core'' suiteABICore core_address core_abi"
    and status_module: "module_at env info ''moderation'' suiteABIModeration status_address status_abi"
    and runs: "runs_core env core_abi core_address tag d c"
    and statuses: "\<And>i. contract_says env status_abi status_address tag ''effectiveStatus'' [V_bytes32 i] [V_uint8 (status i)]"
    and status_range: "\<And>i. status i \<le> 2"
    and consistent: "core_inv d c"
    and accounts: "\<And>i h. live c i \<Longrightarrow> length (rep_owner (repositories c i)) = 20 \<and> (gr_exists (refs c i h) \<longrightarrow> length (gr_updatedBy (refs c i h)) = 20)"
begin

lemma yields_status: "\<exists>label. yields (ready info) (moderationStatusAt env g i tag) label"
proof -
  have "status i = 0 \<or> status i = 1 \<or> status i = 2"
  proof -
    have "unat (status i) \<le> 2" using status_range[of i] by (simp add: word_le_nat_alt)
    then have "unat (status i) = 0 \<or> unat (status i) = 1 \<or> unat (status i) = 2" by linarith
    moreover have "unat (1 :: u8) = 1" "unat (2 :: u8) = 2" "unat (0 :: u8) = 0" by simp_all
    ultimately show ?thesis unfolding word_unat_eq_iff by presburger
  qed
  then obtain label where "moderationStatusName (ucast (status i)) = Inr label" by (auto simp: moderationStatusName_def)
  then have v: "yields (ready info) (value_result (moderationStatusName (ucast (status i)))) label" by (simp add: value_result_def yields_pure)
  show ?thesis unfolding moderationStatusAt_def
    by (intro exI, rule yields_bind[OF yields_read[OF status_module statuses tag]], simp) (rule v)
qed

lemma yields_account: "parseEVMAddress (lower_table (the_net env)) owner = Inr a \<Longrightarrow> length a = 20 \<Longrightarrow> yields (ready s) (account_bytes env owner) a"
  unfolding account_bytes_def normalizeEVMAddress_def
  using yields_bind[OF yields_pure(2) yields_pure(1)] hex_to_address_text[OF geth] by (fastforce simp: yields_def proc_defs)

lemma yields_resolve:
  assumes "parseEVMAddress (lower_table (the_net env)) owner = Inr a" "length a = 20" "resolveRepository d c a name = Inr (r, canonical)"
  shows "\<exists>resolved. yields (ready info) (resolveRepoAt env g owner name tag) resolved \<and>
    rr_RepoID resolved = rep_id r \<and> rr_IsCanonical resolved = canonical"
proof -
  have l: "live c (rep_id r)" "r = repositories c (rep_id r)"
    using assms(3) core_invD(1,5)[OF consistent] by (auto simp: resolveRepository_def res_simps locators_inv_def repo_inv_def Let_def)
  have says: "contract_says env core_abi core_address tag ''resolveRepository'' [V_address a, V_string name] [repo_value r, V_bool canonical]"
    using runs assms(3) unfolding runs_core_def by blast
  obtain label where t: "yields (ready info) (moderationStatusAt env g (rep_id r) tag) label" using yields_status by blast
  have "length (rep_owner r) = 20" using accounts[OF l(1)] l(2) by simp
  then have i: "yields (ready info) (repoInfoAt env g (abi_repository r) tag)
      \<lparr>rp_Owner = encodeBech32Address ''inj'' (rep_owner r), rp_Name = rep_name r, rp_Description = rep_description r,
        rp_DefaultBranch = rep_defaultBranch r, rp_CreatedAt = rep_createdAt r, rp_UpdatedAt = rep_updatedAt r, rp_ModerationStatus = label\<rparr>"
    unfolding repoInfoAt_def abi_repository_def
    by (simp add: user_address_text[OF geth]) (rule yields_bind[OF t], simp add: yields_pure)
  show ?thesis
    unfolding resolveRepoAt_def exactly_def
    apply (intro exI conjI)
     apply (rule yields_bind[OF yields_account[OF assms(1,2)]])
     apply (rule yields_bind[OF yields_at[OF core_module says tag]])
     apply (rule yields_bind[OF yields_pure(3)], simp)
     apply (simp add: repository_read)
     apply (rule yields_bind[OF yields_pure(2)])
     apply (rule yields_bind[OF yields_pure(3)])
      apply (use l in \<open>simp add: abi_repository_def; fail\<close>)
     apply (rule yields_bind[OF i yields_pure(1)])
    apply (simp_all add: suiteRepoID_def abi_repository_def)
    done
qed

lemma yields_refs:
  assumes "live c i"
  shows "yields (ready info) (page_loop ''ref'' (refs_page env g tag i) 0 []) (map (ref_of d c i) (refNames c i))"
proof -
  let ?xs = "refNames c i"
  have L: "length ?xs \<le> 1024" using core_invD(2)[OF consistent] by (simp add: refs_inv_def MAX_REFS_PER_REPO_def)
  have by20: "length (gr_updatedBy (refs c i (text_hash d n))) = 20" if "n \<in> set ?xs" for n
    using core_invD(2)[OF consistent] accounts[OF assms] that unfolding refs_inv_def by blast
  have "yields (ready info) (refs_page env g tag i cursor acc)
      (length (take 64 (drop (unat cursor) ?xs)), word_of_nat (min (unat cursor + 64) (length ?xs)), acc @ map (ref_of d c i) (take 64 (drop (unat cursor) ?xs)))"
    if k: "unat cursor \<le> length ?xs" for cursor acc
  proof -
    let ?names = "take 64 (drop (unat cursor) ?xs)" and ?n = "min (unat cursor + 64) (length ?xs)"
    let ?rs = "map (\<lambda>n. refs c i (text_hash d n)) ?names"
    have says: "contract_says env core_abi core_address tag ''listRefsPage'' (V_bytes32 i # page_args cursor)
        [V_slice (map V_string ?names), V_slice (map ref_value ?rs), V_big (int ?n)]"
    proof -
      have p: "page_args cursor = [V_big (int (unat cursor)), V_big (int 64)]" by (simp add: page_args_def suiteQueryPageSize_def)
      have r: "listRefsPage d c i (unat cursor) 64 = Inr (?names, ?rs, ?n)" using refs_page_of[OF assms k, of 64 d] by simp
      show ?thesis unfolding p by (rule runs[unfolded runs_core_def, THEN conjunct1, rule_format, OF r])
    qed
    have z: "zip ?names (map abi_ref ?rs) = map (\<lambda>n. (n, abi_ref (refs c i (text_hash d n)))) ?names"
      unfolding map_map zip_map2 zip_same_conv_map comp_def by simp
    have loop: "yields (ready info) (for_p (\<lambda>(name, reference) result. bind_p (suiteRefInfo env name reference) (\<lambda>info. ret_p (result @ [info])))
        (zip ?names (map abi_ref ?rs)) acc) (acc @ map (\<lambda>p. ref_of d c i (fst p)) (zip ?names (map abi_ref ?rs)))"
      unfolding z
    proof (rule yields_snoc)
      fix p result
      assume "p \<in> set (map (\<lambda>n. (n, abi_ref (refs c i (text_hash d n)))) ?names)"
      then obtain n where p: "p = (n, abi_ref (refs c i (text_hash d n)))" "n \<in> set ?xs" by (auto dest: in_set_takeD in_set_dropD)
      have "yields (ready info) (suiteRefInfo env n (abi_ref (refs c i (text_hash d n)))) (ref_of d c i n)"
        unfolding suiteRefInfo_def ref_of_def Let_def by (simp add: abi_ref_def user_address_text[OF geth by20[OF p(2)]] yields_pure)
      from yields_bind[OF this, of "\<lambda>info. ret_p (result @ [info])"]
      show "yields (ready info) ((case p of (name, reference) \<Rightarrow> \<lambda>result. bind_p (suiteRefInfo env name reference) (\<lambda>info. ret_p (result @ [info]))) result)
          (result @ [ref_of d c i (fst p)])"
        by (simp add: p(1) yields_pure)
    qed
    have b: "suiteBigUint64 (V_big (int ?n)) l = Inr (word_of_nat ?n)" for l using L by (simp add: suiteBigUint64_def is_uint64_def)
    show ?thesis
      unfolding refs_page_def exactly_def
      apply (rule yields_bind[OF yields_at[OF core_module says tag]])
      apply (rule yields_bind[OF yields_pure(3)], simp)
      apply (simp only: nth_Cons_0 strings_read refs_read b nth_Cons_Suc One_nat_def numeral_2_eq_2)
      apply (rule yields_bind[OF yields_pure(2)], rule yields_bind[OF yields_pure(2)], rule yields_bind[OF yields_pure(3)], simp)
      apply (rule yields_bind[OF yields_pure(2)], rule yields_bind[OF loop])
      apply (simp only: map_map map_fst_zipped length_map yields_pure)
      done
  qed
  from yields_pages[OF this, of 0 "''ref''" "[]"] show ?thesis using L by simp
qed

end

text \<open>A client that takes its block from the node.\<close>

locale core_client = core_reader env g info "block_text block" core_address core_abi status_address status_abi d c status
  for env g info block core_address core_abi status_address status_abi d c status +
  assumes head: "node_says (the_net env) ''eth_blockNumber'' [] (block_text block)"
begin

lemma yields_snapshot: "yields (ready info) (snapshotBlockTag env g) (block_text block)"
  unfolding snapshotBlockTag_def BlockNumber_def
  by (rule yields_bind[OF yields_ensure], rule yields_bind[OF yields_via[OF yields_quantity[OF head tag]] yields_pure(1)])
    (simp add: block_text_def parseHexUint_text[simplified])

lemma refs_listed:
  assumes "ready info s" "parseEVMAddress (lower_table (the_net env)) owner = Inr a" "length a = 20"
    "resolveRepository d c a name = Inr (r, canonical)"
  shows "fst (ListRefs env g owner name s) = Inr (map (ref_of d c (rep_id r)) (refNames c (rep_id r)))"
proof -
  have l: "live c (rep_id r)"
    using assms(4) core_invD(1,5)[OF consistent] by (auto simp: resolveRepository_def res_simps locators_inv_def repo_inv_def Let_def)
  obtain resolved where r: "yields (ready info) (resolveRepoAt env g owner name (block_text block)) resolved" "rr_RepoID resolved = rep_id r"
    using yields_resolve[OF assms(2-4)] by blast
  have "yields (ready info) (ListRefs env g owner name) (map (ref_of d c (rep_id r)) (refNames c (rep_id r)))"
    unfolding ListRefs_def at_snapshot_def
    by (rule yields_bind[OF yields_snapshot], rule yields_bind[OF r(1)]) (simp add: r(2) yields_refs[OF l])
  then show ?thesis using assms(1) unfolding yields_def by fastforce
qed

end

end
