(* ===== verification/Suite_Deployed.thy ===== *)
theory Suite_Deployed
  imports Suite_Contract
begin

text \<open>
  A concrete node with a deployed suite whose core module is \<open>Repository_Core\<close> in the state of the sample run.
  The client verifies this suite and reads its refs: the hypotheses on nodes hold together.
\<close>

section \<open>The node\<close>

definition suite_code :: bytes where "suite_code = [0x60]"
definition suite_root :: bytes where "suite_root = replicate 32 1"
definition suite_coordinator :: bytes where "suite_coordinator = replicate 20 10"
definition suite_dir :: string where "suite_dir = ''0x'' @ hex_encode (suite_directory plain_deployment)"

definition suite_places :: "(bytes \<times> bytes) list" where
  \<comment> \<open>module identifiers and where the modules are\<close>
  "suite_places = zip (map sm_ID (RequiredSuiteModules sample_env)) (map (\<lambda>k. replicate 20 k) [20, 21, 22, 23, 24, 25, 26])"

definition suite_answer :: "string \<Rightarrow> string \<Rightarrow> abi_value list \<Rightarrow> abi_value list" where
  "suite_answer address meth args =
    (if meth = ''suiteVersion'' then [V_uint64 3]
     else if meth = ''configuredChainId'' then [V_big 5]
     else if meth = ''state'' then [V_uint8 1]
     else if meth = ''snapshotRoot'' then [V_bytes32 suite_root]
     else if meth = ''bootstrapCoordinator'' then [V_address suite_coordinator]
     else if meth = ''bootstrapCoordinatorCodeHash'' \<or> meth = ''moduleCodeHash'' then [V_bytes32 (sample_hash32 suite_code)]
     else if meth = ''suiteDirectory'' then [V_address (suite_directory plain_deployment)]
     else if meth = ''moduleAddress'' then
       (case args of [V_bytes32 i] \<Rightarrow> (case map_of suite_places i of Some a \<Rightarrow> [V_address a] | None \<Rightarrow> []) | _ \<Rightarrow> [])
     else if meth = ''moduleId'' then
       (case find (\<lambda>p. ''0x'' @ hex_encode (snd p) = address) suite_places of Some p \<Rightarrow> [V_bytes32 (fst p)] | None \<Rightarrow> [])
     else if meth = ''effectiveStatus'' then [V_uint8 0]
     else if meth = ''listRefsPage'' then
       (case args of
          [V_bytes32 i, V_big cursor, V_big limit] \<Rightarrow>
            (case listRefsPage plain_deployment run_accepted i (nat cursor) (nat limit) of
               Inr (names, rs, n) \<Rightarrow> [V_slice (map V_string names), V_slice (map ref_value rs), V_big (int n)]
             | Inl _ \<Rightarrow> [])
        | _ \<Rightarrow> [])
     else if meth = ''resolveRepository'' then
       (case args of
          [V_address a, V_string name] \<Rightarrow>
            (case resolveRepository plain_deployment run_accepted a name of
               Inr (r, canonical) \<Rightarrow> [repo_value r, V_bool canonical]
             | Inl _ \<Rightarrow> [])
        | _ \<Rightarrow> [])
     else [])"

definition answer_call :: "param list \<Rightarrow> http_outcome" where
  "answer_call params = (case params of
     [PCall call, PString tag] \<Rightarrow>
       (case hex_decode (drop 2 (call_Data call)) of
          Some b \<Rightarrow>
            (case get_values (Suc (length b)) b of
               Some (V_string meth # args, []) \<Rightarrow> reply_text (''0x'' @ hex_encode (put_values (suite_answer (call_To call) meth args)))
             | _ \<Rightarrow> reply_object)
        | None \<Rightarrow> reply_object)
   | _ \<Rightarrow> reply_object)"

definition suite_respond :: "event list \<Rightarrow> http_outcome" where
  "suite_respond evs = (case last evs of
     Posted q \<Rightarrow>
       if req_Method q = ''eth_call'' then answer_call (req_Params q)
       else if req_Method q = ''eth_getCode'' then reply_text ''0x60''
       else if req_Method q = ''eth_chainId'' then reply_text ''0x5''
       else if req_Method q = ''eth_blockNumber'' then reply_text ''0x10''
       else reply_object
   | _ \<Rightarrow> reply_object)"

definition suite_abi :: contract_abi where
  "suite_abi = \<lparr>abi_Pack = (\<lambda>meth args. Inr (put_values (V_string meth # args))),
     abi_Unpack = (\<lambda>meth b. case get_values (Suc (length b)) b of Some (vs, []) \<Rightarrow> Inr vs | _ \<Rightarrow> Inl ''abi''),
     abi_Errors = []\<rparr>"

definition suite_env :: chain_env where
  "suite_env = \<lparr>the_net = sample_net\<lparr>respond := suite_respond\<rparr>, the_geth = sample_geth, abi_file = (\<lambda>_. Inr suite_abi), unpack_revert = (\<lambda>_. None)\<rparr>"

lemma suite_env_simps [simp]: "the_geth suite_env = sample_geth" "lower_table (the_net suite_env) = id" "loadSuiteABI suite_env key = Inr suite_abi"
  "endpoint_is_url (the_net suite_env)" "respond (the_net suite_env) = suite_respond"
  by (simp_all add: suite_env_def sample_net_def loadSuiteABI_def all_suite_abis_def)

lemma suite_modules_same: "RequiredSuiteModules suite_env = RequiredSuiteModules sample_env"
  by (simp add: RequiredSuiteModules_def required_module_def sample_env_def)

lemma suite_says: "contract_says suite_env suite_abi address tag meth args (suite_answer address meth args)"
proof -
  let ?data = "put_values (V_string meth # args)" and ?ret = "put_values (suite_answer address meth args)"
  have get: "get_values (Suc (length (put_values vs))) (put_values vs) = Some (vs, [])" for vs
    using put_get_value(2)[of vs "Suc (length (put_values vs))" "[]"] by simp
  have "answer_call (call_params address ?data tag) = reply_text (''0x'' @ hex_encode ?ret)"
    using get[of "V_string meth # args"] by (simp add: answer_call_def call_params_def del: put_values.simps)
  then have "node_says (the_net suite_env) ''eth_call'' (call_params address ?data tag) (''0x'' @ hex_encode ?ret)"
    by (simp add: node_says_def suite_respond_def)
  moreover have "abi_Unpack suite_abi meth ?ret = Inr (suite_answer address meth args)" by (simp add: suite_abi_def get)
  ultimately show ?thesis unfolding contract_says_def
    by (intro exI[of _ ?data] exI[of _ ?ret]) (simp add: suite_abi_def put_values_nonempty del: put_values.simps)
qed

lemma suite_meta:
  "node_says (the_net suite_env) ''eth_chainId'' params ''0x5''" "node_says (the_net suite_env) ''eth_blockNumber'' params ''0x10''"
  "node_says (the_net suite_env) ''eth_getCode'' params ''0x60''"
  by (simp_all add: node_says_def suite_respond_def)

section \<open>Its suite is verified\<close>

lemma yields_check: "yields I m v \<Longrightarrow> yields I (f v) w \<Longrightarrow> yields I (bind_p (step check module cause m) f) w"
  by (rule yields_bind[OF yields_step])

lemma yields_must: "ok \<Longrightarrow> yields I (f ()) w \<Longrightarrow> yields I (bind_p (require check module ok cause) f) w"
  by (rule yields_bind[OF yields_require])

lemma suite_typed:
  assumes "suite_answer a meth args = [v]" "as v = Some x"
  shows "yields connected (typed_read as suite_env a (block_text n) suite_abi meth args) x"
  by (rule yields_typed[OF suite_says[of a _ meth args, unfolded assms(1)] block_text_nonblank]) (rule assms(2))

lemma suite_hash:
  assumes "suite_answer a meth args = [V_bytes32 h]" "length h = 32"
  shows "yields connected (suiteHashCall suite_env a (block_text n) suite_abi meth args) h"
  unfolding suiteHashCall_def
  by (rule yields_bind[OF suite_typed[OF assms(1), where as = as_bytes32 and x = h]]) (simp_all add: sample_geth_def fit_left_def assms(2) yields_pure)

lemma suite_code_at:
  "length a = 20 \<Longrightarrow> yields connected (CodeAt (the_net suite_env) (''0x'' @ hex_encode a) (block_text n)) suite_code"
proof -
  assume "length a = 20"
  then have "normalizeEVMAddress id (''0x'' @ hex_encode a) = Inr (''0x'' @ hex_encode a)" by (simp add: normalizeEVMAddress_def parseEVMAddress_def)
  moreover have "trim_space ''0x60'' \<noteq> ''''" "decodeHexBytes ''0x60'' = Inr suite_code" by code_simp+
  ultimately show ?thesis by (intro yields_code[OF _ _ _ suite_meta(3)]) simp_all
qed

lemma suite_quantities:
  "yields connected (ChainID (the_net suite_env)) 5" "yields connected (BlockNumber (the_net suite_env)) 16"
proof -
  have "trim_space ''0x5'' \<noteq> ''''" "parseHexUint ''0x5'' = Inr 5" "trim_space ''0x10'' \<noteq> ''''" "parseHexUint ''0x10'' = Inr 16" by code_simp+
  then show "yields connected (ChainID (the_net suite_env)) 5" "yields connected (BlockNumber (the_net suite_env)) 16"
    unfolding ChainID_def BlockNumber_def by (auto intro: yields_quantity suite_meta)
qed

definition sample_head :: suite_head where
  "sample_head = \<lparr>sh_directory = suite_dir, sh_version = 3, sh_chainID = 5, sh_root = suite_root, sh_coordinator = suite_coordinator,
     sh_tag = block_text 16, sh_abi = suite_abi\<rparr>"

lemma suite_lengths: "length (suite_directory plain_deployment) = 20" "length suite_coordinator = 20" "length suite_root = 32" "length (sample_hash32 b) = 32"
  by (simp_all add: plain_deployment_def suite_coordinator_def suite_root_def sample_hash32_def)

lemma suite_directory_verified: "yields connected (verify_directory suite_env suite_dir 5) sample_head"
proof -
  have d: "normalizeEVMAddress id suite_dir = Inr suite_dir"
    by (simp add: suite_dir_def normalizeEVMAddress_def parseEVMAddress_def suite_lengths)
  have nz: "suite_root \<noteq> zero_hash" "suite_coordinator \<noteq> zero_address" "suite_code \<noteq> []"
    by (simp_all add: suite_root_def zero_hash_def suite_coordinator_def zero_address_def suite_code_def)
  show ?thesis
    unfolding verify_directory_def verify_directory_at_def suiteUint64Call_def suiteBigIntCall_def suiteUint8Call_def suiteAddressCall_def suite_env_simps d map_err_simps
    apply (rule yields_check[OF yields_pure(2)])
    apply (rule yields_check[OF suite_quantities(1)], rule yields_must, simp, rule yields_check[OF suite_quantities(2)])
    apply (rule yields_check[OF suite_code_at[OF suite_lengths(1), folded suite_dir_def]], rule yields_must, simp add: nz)
    apply (rule yields_check[OF yields_pure(2)])
    apply (rule yields_check, rule suite_typed[where v = "V_uint64 3"], simp add: suite_answer_def, simp, rule yields_must, simp add: SupportedSuiteVersion_def)
    apply (rule yields_check, rule suite_typed[where v = "V_big 5"], simp add: suite_answer_def, simp, rule yields_must, simp add: is_uint64_def)
    apply (rule yields_check, rule suite_typed[where v = "V_uint8 1"], simp add: suite_answer_def, simp, rule yields_must, simp)
    apply (rule yields_check, rule suite_hash[where h = suite_root], simp add: suite_answer_def, simp add: suite_lengths, rule yields_must, simp add: nz)
    apply (rule yields_check, rule suite_typed[where v = "V_address suite_coordinator"], simp add: suite_answer_def, simp, rule yields_must, simp add: nz)
    apply (simp add: sample_head_def yields_pure)
    done
qed

lemma sample_texts: "Address_Hex sample_geth a = ''0x'' @ hex_encode a" "Keccak256Hash sample_geth = sample_hash32"
  "HexToAddress sample_geth suite_dir = suite_directory plain_deployment"
  by (simp_all add: sample_geth_def suite_dir_def suite_lengths)

lemma suite_coordinator_verified: "yields connected (verify_coordinator suite_env sample_head) ()"
  unfolding verify_coordinator_def Let_def suiteAddressCall_def suite_env_simps sample_texts sample_head_def suite_head.simps
  apply (rule yields_check[OF suite_code_at[OF suite_lengths(2)]], rule yields_must, simp add: suite_code_def)
  apply (rule yields_check, rule suite_hash[where h = "sample_hash32 suite_code"], simp add: suite_answer_def, simp add: suite_lengths, rule yields_must, simp)
  apply (rule yields_check[OF yields_pure(2)])
  apply (rule yields_check, rule suite_typed[where v = "V_address (suite_directory plain_deployment)"], simp add: suite_answer_def, simp, rule yields_must, simp)
  apply (rule yields_check, rule suite_hash[where h = suite_root], simp add: suite_answer_def, simp add: suite_lengths)
  apply (rule yields_require, simp)
  done

definition place_in :: "(bytes \<times> bytes) list \<Rightarrow> SuiteModuleID \<Rightarrow> bytes" where
  "place_in places m = (case map_of places (sm_ID m) of Some a \<Rightarrow> a | None \<Rightarrow> [])"

abbreviation place_of :: "SuiteModuleID \<Rightarrow> bytes" where
  "place_of \<equiv> place_in suite_places"

definition module_info :: "SuiteModuleID \<Rightarrow> SuiteModuleInfo" where
  "module_info m = \<lparr>mi_Name = sm_Name m, mi_ID = ''0x'' @ hex_encode (sm_ID m), mi_Address = ''0x'' @ hex_encode (place_of m),
     mi_CodeHash = ''0x'' @ hex_encode (sample_hash32 suite_code)\<rparr>"

definition placed :: "(bytes \<times> bytes) list \<Rightarrow> SuiteModuleID \<Rightarrow> bool" where
  "placed places m \<longleftrightarrow> map_of places (sm_ID m) = Some (place_in places m) \<and> length (place_in places m) = 20 \<and>
     place_in places m \<noteq> zero_address \<and> length (sm_ID m) = 32 \<and>
     find (\<lambda>p. hex_encode (snd p) = hex_encode (place_in places m)) places = Some (sm_ID m, place_in places m)"

lemma all_placed: "list_all (placed suite_places) (RequiredSuiteModules sample_env)"
  by code_simp

lemma suite_module_verified:
  assumes "placed suite_places m"
  shows "yields connected (verify_module suite_env sample_head m ms) (ms @ [module_info m])"
  using assms
  unfolding verify_module_def Let_def suiteAddressCall_def suite_env_simps sample_texts sample_head_def suite_head.simps placed_def
  apply (elim conjE)
  apply (rule yields_check, rule suite_typed[where v = "V_address (place_of m)"], simp add: suite_answer_def, simp, rule yields_must, simp)
  apply (rule yields_check, rule suite_hash[where h = "sample_hash32 suite_code"], simp add: suite_answer_def, simp add: suite_lengths)
  apply (rule yields_check[OF suite_code_at], simp, rule yields_must, simp add: suite_code_def, rule yields_must, simp)
  apply (rule yields_check[OF yields_pure(2)])
  apply (rule yields_check, rule suite_typed[where v = "V_address (suite_directory plain_deployment)"], simp add: suite_answer_def, simp)
  apply (rule yields_check, rule suite_typed[where v = "V_address suite_coordinator"], simp add: suite_answer_def, simp)
  apply (rule yields_check, rule suite_hash[where h = "sm_ID m"], simp add: suite_answer_def, simp)
  apply (rule yields_must, simp, rule yields_must, simp, rule yields_must, simp)
  apply (simp add: module_info_def sample_geth_def yields_pure)
  done

definition sample_info :: SuiteInfo where
  "sample_info = \<lparr>si_Directory = suite_dir, si_Version = 3, si_ChainID = 5, si_State = ''active'', si_SnapshotRoot = ''0x'' @ hex_encode suite_root,
     si_BootstrapCoordinator = ''0x'' @ hex_encode suite_coordinator, si_BlockTag = block_text 16,
     si_Modules = map module_info (RequiredSuiteModules sample_env)\<rparr>"

lemma suite_verified_yields: "yields connected (VerifySuite suite_env suite_dir 5) sample_info"
proof -
  have m: "yields connected (for_p (verify_module suite_env sample_head) (RequiredSuiteModules suite_env) []) ([] @ map module_info (RequiredSuiteModules suite_env))"
    by (rule yields_snoc) (use all_placed suite_module_verified in \<open>auto simp: suite_modules_same list_all_iff\<close>)
  show ?thesis unfolding VerifySuite_def
    by (rule yields_bind[OF suite_directory_verified], rule yields_bind[OF suite_coordinator_verified], rule yields_bind[OF m])
      (simp add: sample_info_def sample_head_def sample_geth_def suite_modules_same yields_pure)
qed

section \<open>The client on it\<close>

definition suite_config :: Config where
  "suite_config = zero_Config\<lparr>EVMSuiteDirectoryAddress := suite_dir, EVMChainID := 5, EVMRPC := ''http://node''\<rparr>"

definition suite_registry :: EVMSuiteRegistry where
  "suite_registry = fst (NewEVMSuiteRegistryWithDependencies id suite_config None None)"

definition suite_begin :: suite_state where
  "suite_begin = snd (NewEVMSuiteRegistryWithDependencies id suite_config None None)"

lemma suite_start_facts:
  "sr_directory suite_registry = suite_dir" "EffectiveEVMChainID id (sr_cfg suite_registry) = 5" "trim_space suite_dir \<noteq> ''''"
  "connected (rpc_of suite_begin)" "st_info suite_begin = None"
proof -
  have d: "trim_space suite_dir = suite_dir" by (simp add: suite_dir_def)
  show n: "trim_space suite_dir \<noteq> ''''" unfolding d by (simp add: suite_dir_def)
  show "sr_directory suite_registry = suite_dir"
    using d n by (simp add: suite_registry_def NewEVMSuiteRegistryWithDependencies_def EffectiveEVMSuiteDirectoryAddress_def suite_config_def)
  show "EffectiveEVMChainID id (sr_cfg suite_registry) = 5"
    by (simp add: suite_registry_def NewEVMSuiteRegistryWithDependencies_def EffectiveEVMChainID_def suite_config_def)
  have "trim_right_char CHR ''/'' ''http://node'' = ''http://node''" by code_simp
  then have "EffectiveEVMRPC id suite_config = ''http://node''"
    by (simp add: EffectiveEVMRPC_def suite_config_def sample_facts)
  then show "connected (rpc_of suite_begin)"
    by (simp add: connected_def suite_begin_def NewEVMSuiteRegistryWithDependencies_def node_endpoint sample_facts)
  show "st_info suite_begin = None" by (simp add: suite_begin_def NewEVMSuiteRegistryWithDependencies_def)
qed

lemma suite_first_use: "\<exists>t. ensureVerified suite_env suite_registry suite_begin = (Inr sample_info, t) \<and> ready sample_info t"
proof -
  obtain c where c: "connected c" "VerifySuite suite_env suite_dir 5 (rpc_of suite_begin) = (Inr sample_info, c)"
    using suite_verified_yields suite_start_facts(4) unfolding yields_def by blast
  then show ?thesis
    using suite_start_facts by (simp add: ensureVerified_def proc_defs guard_err_def via_rpc_def remember_def ready_def)
qed

definition suite_place :: "nat \<Rightarrow> string" where
  "suite_place k = mi_Address (module_info (RequiredSuiteModules sample_env ! k))"

lemma suite_placed:
  "module_at suite_env sample_info ''core'' suiteABICore (suite_place 0) suite_abi"
  "module_at suite_env sample_info ''moderation'' suiteABIModeration (suite_place 2) suite_abi"
  by (simp_all add: module_at_def suite_modules_same ModuleAddress_def sample_info_def suite_place_def module_info_def RequiredSuiteModules_def
      required_module_def)

lemma run_live: "live run_accepted i \<longleftrightarrow> i = run_id"
  by (simp add: run_accepted_def run_offered_def run_shared_def add_collaborator_def run_pushed_def run_created_def run_repo_def set_defs empty_core_def no_repository_def)

lemma run_accounts:
  "length (rep_owner (repositories run_accepted run_id)) = 20"
  "gr_exists (refs run_accepted run_id h) \<Longrightarrow> length (gr_updatedBy (refs run_accepted run_id h)) = 20"
  by (auto simp: run_accepted_def run_offered_def run_shared_def add_collaborator_def run_pushed_def run_created_def run_repo_def set_defs empty_core_def no_ref_def alice_def bob_def
      split: if_splits)

lemma suite_runs_core: "runs_core suite_env suite_abi address tag plain_deployment run_accepted"
  unfolding runs_core_def
proof (intro conjI allI impI)
  fix i cursor limit names rs n
  assume "listRefsPage plain_deployment run_accepted i cursor limit = Inr (names, rs, n)"
  then show "contract_says suite_env suite_abi address tag ''listRefsPage'' [V_bytes32 i, V_big (int cursor), V_big (int limit)]
      [V_slice (map V_string names), V_slice (map ref_value rs), V_big (int n)]"
    using suite_says[of address tag "''listRefsPage''" "[V_bytes32 i, V_big (int cursor), V_big (int limit)]"] by (simp add: suite_answer_def)
next
  fix a name r canonical
  assume "resolveRepository plain_deployment run_accepted a name = Inr (r, canonical)"
  then show "contract_says suite_env suite_abi address tag ''resolveRepository'' [V_address a, V_string name] [repo_value r, V_bool canonical]"
    using suite_says[of address tag "''resolveRepository''" "[V_address a, V_string name]"] by (simp add: suite_answer_def)
qed

lemma suite_reader:
  "trim_space tag \<noteq> [] \<Longrightarrow> core_reader suite_env sample_info tag (suite_place 0) suite_abi (suite_place 2) suite_abi
     plain_deployment run_accepted (\<lambda>_. 0)"
proof
  show "geth_ok (the_geth suite_env)" by (simp add: sample_geth_ok)
  show "contract_says suite_env suite_abi (suite_place 2) tag ''effectiveStatus'' [V_bytes32 i] [V_uint8 0]" for i
    using suite_says[of "suite_place 2" tag "''effectiveStatus''" "[V_bytes32 i]"] by (simp add: suite_answer_def)
  show "length (rep_owner (repositories run_accepted i)) = 20 \<and> (gr_exists (refs run_accepted i h) \<longrightarrow> length (gr_updatedBy (refs run_accepted i h)) = 20)"
    if "live run_accepted i" for i h using that run_accounts by (simp add: run_live)
qed (simp_all add: suite_placed suite_runs_core reached_inv[OF run_reached_end])

interpretation sample_latest: core_reader suite_env suite_registry sample_info "''latest''" "suite_place 0" suite_abi "suite_place 2" suite_abi
  plain_deployment run_accepted "\<lambda>_. 0"
proof -
  have "trim_space ''latest'' \<noteq> []" by code_simp
  then show "core_reader suite_env sample_info ''latest'' (suite_place 0) suite_abi (suite_place 2) suite_abi plain_deployment run_accepted (\<lambda>_. 0)"
    by (rule suite_reader)
qed

interpretation sample_client: core_client suite_env suite_registry sample_info 16 "suite_place 0" suite_abi "suite_place 2" suite_abi
  plain_deployment run_accepted "\<lambda>_. 0"
proof (intro core_client.intro core_client_axioms.intro suite_reader[OF block_text_nonblank])
  have "block_text 16 = ''0x10''" by code_simp
  then show "node_says (the_net suite_env) ''eth_blockNumber'' [] (block_text 16)" using suite_meta(2) by simp
qed

lemma run_resolves:
  "resolveRepository plain_deployment run_accepted alice ''r'' = Inr (repositories run_accepted run_id, False)"
  "resolveRepository plain_deployment run_accepted bob ''r'' = Inr (repositories run_accepted run_id, True)"
  using run_nonzero
  by (simp_all add: resolveRepository_def guard_err_def run_accepted_def run_repo_def set_defs)

text \<open>The old name of the repository resolves, and not as canonical.\<close>

lemma run_moved_resolves:
  "\<exists>s r t. resolveRepoAt suite_env suite_registry (''0x'' @ hex_encode alice) ''r'' ''latest'' s = (Inr r, t) \<and> \<not> rr_IsCanonical r"
proof -
  obtain s where s: "ready sample_info s" using suite_first_use by blast
  have p: "parseEVMAddress (lower_table (the_net suite_env)) (''0x'' @ hex_encode alice) = Inr alice" "length alice = 20"
    by (simp_all add: parseEVMAddress_def alice_def)
  show ?thesis using sample_latest.yields_resolve[OF p run_resolves(1)] s unfolding yields_def by blast
qed

end
