(* ===== verification/Suite_Properties.thy ===== *)
theory Suite_Properties
  imports Suite_Deployed Bech32_Text
begin

text \<open>What the client of the contract suite promises, by itself and together with the contract.\<close>

section \<open>Verification\<close>

text \<open>C9: When the verification of a suite succeeds, every link was really read from the node, in this run
  and at one block that was the head of the chain: the directory has code, is of version 3, active and
  configured for the chain the node reported, which is the expected one if there is one; its snapshot
  root and coordinator are not zero; the code of the coordinator has the hash the directory names, and the
  coordinator names back the directory and the root; the code of each of the seven modules has the hash
  the directory names, and every module names back the directory, the coordinator and its own identifier.
\<close>
theorem suite_verified:
  assumes "VerifySuite env dir expected r = (Inr info, t)"
  shows "suite_evidence env (r, t) dir expected info \<and> grows (pinned (si_BlockTag info)) r t \<and>
    map mi_Name (si_Modules info) = [''core'', ''recovery'', ''moderation'', ''economic'', ''username'', ''badge'', ''release'']"
proof -
  have e: "suite_evidence env (r, t) dir expected info" by (rule verify_evidence[OF assms])
  have g: "grows (pinned (si_BlockTag info)) r t" using pinsD[OF pinned_verify assms] by auto
  obtain d co where "list_all2 (module_verified env (r, t) d co (si_BlockTag info)) (RequiredSuiteModules env) (si_Modules info)"
    using e unfolding suite_evidence_def by blast
  then have "list_all2 (\<lambda>m i. mi_Name i = sm_Name m) (RequiredSuiteModules env) (si_Modules info)"
    by (rule list_all2_mono) (auto simp: module_verified_def)
  then have "map mi_Name (si_Modules info) = map sm_Name (RequiredSuiteModules env)"
    by (induction rule: list_all2_induct) auto
  then show ?thesis using e g by (simp add: RequiredSuiteModules_def required_module_def)
qed

theorem suite_verified_witness:
  "\<exists>t. VerifySuite suite_env suite_dir 5 (rpc_of suite_begin) = (Inr sample_info, t) \<and> grows (pinned (si_BlockTag sample_info)) (rpc_of suite_begin) t"
proof -
  obtain t where "VerifySuite suite_env suite_dir 5 (rpc_of suite_begin) = (Inr sample_info, t)"
    using suite_verified_yields suite_start_facts(4) unfolding yields_def by blast
  from suite_verified[OF this] this show ?thesis by blast
qed

text \<open>C4: Whatever operations run on a new client, and whether they fail or not: nothing is signed before the
  client has itself verified a suite at its configured directory and chain; that suite never changes
  afterwards; and every transaction given to the signer goes to a module of that suite.
\<close>
theorem client_serves_verified_suite:
  assumes "(g, s) = NewEVMSuiteRegistryWithDependencies lr cfg rpc signer"
    and "run_ops env g before s = Some t" and "run_ops env g after t = Some u"
  shows "(st_info t = None \<longrightarrow> ts_signed (st_tx t) = []) \<and>
    (\<forall>info. st_info t = Some info \<longrightarrow>
      (\<exists>r v evs. suite_evidence env (r, v) (sr_directory g) (EffectiveEVMChainID (lower_table (the_net env)) cfg) info \<and> events (rpc_of t) = events v @ evs) \<and>
      st_info u = Some info \<and>
      (\<forall>tx \<in> set (ts_signed (st_tx u)). \<exists>m \<in> set (si_Modules info). normalizeEVMAddress (lower_table (the_net env)) (mi_Address m) = Inr (tx_To tx)))"
proof -
  have g: "sr_cfg g = cfg" "kept env g None s" using assms(1) by (simp_all add: NewEVMSuiteRegistryWithDependencies_def kept_def suite_inv_def)
  have t: "suite_inv env g t" using run_ops_kept[OF assms(2) g(2)] by (simp add: kept_def)
  then have u: "kept env g (st_info t) u" by (intro run_ops_kept[OF assms(3)]) (simp add: kept_def)
  show ?thesis using t u g(1) by (auto simp: kept_def suite_inv_def)
qed

theorem client_serves_verified_suite_witness:
  "\<exists>t. (suite_registry, suite_begin) = NewEVMSuiteRegistryWithDependencies id suite_config None None \<and>
     run_ops suite_env suite_registry [Op_SuiteInfo] suite_begin = Some t \<and> run_ops suite_env suite_registry [Op_SuiteInfo] t = Some t \<and>
     st_info t = Some sample_info \<and> ts_signed (st_tx t) = []"
proof -
  have n: "(suite_registry, suite_begin) = NewEVMSuiteRegistryWithDependencies id suite_config None None"
    by (simp add: suite_registry_def suite_begin_def)
  obtain t where t: "ensureVerified suite_env suite_registry suite_begin = (Inr sample_info, t)" "st_info t = Some sample_info"
    using suite_first_use by (auto simp: ready_def)
  have r: "run_ops suite_env suite_registry [Op_SuiteInfo] suite_begin = Some t" "run_ops suite_env suite_registry [Op_SuiteInfo] t = Some t"
    using t by (simp_all add: ask_def SuiteInfo_copy_def run_p_def bind_p_def ret_p_def ensured_cached)
  have "st_info t = Some sample_info" "\<forall>tx \<in> set (ts_signed (st_tx t)). tx_To tx \<in> {tx_To tx}" using t(2) by simp_all
  moreover have "ts_signed (st_tx t) = []"
    using t(1) suite_start_facts(5)
    by (auto simp: ensureVerified_def proc_defs guard_err_def via_rpc_def remember_def suite_begin_def NewEVMSuiteRegistryWithDependencies_def
        split: prod.splits sum.splits if_splits)
  ultimately show ?thesis using client_serves_verified_suite[OF n r] n r by blast
qed

section \<open>Reads\<close>

definition snapshot_read :: "client_op \<Rightarrow> bool" where
  "snapshot_read op = (case op of
     Op_ResolveRepo _ _ \<Rightarrow> True | Op_ListRepos _ \<Rightarrow> True | Op_RepoInfo _ _ \<Rightarrow> True | Op_ListRefs _ _ \<Rightarrow> True | Op_ResolveRef _ _ _ \<Rightarrow> True
   | Op_ListCollaborators _ _ \<Rightarrow> True | Op_ResolveUsername _ \<Rightarrow> True | Op_AddressUsername _ \<Rightarrow> True | Op_PendingOwnershipTransfer _ \<Rightarrow> True
   | Op_OwnershipSecurity _ _ \<Rightarrow> True | Op_ModerationReport _ \<Rightarrow> True | Op_RevenueSplits _ _ \<Rightarrow> True | Op_SponsorTotals _ _ \<Rightarrow> True
   | Op_BadgesByRecipient _ \<Rightarrow> True | Op_BadgesByRepo _ _ \<Rightarrow> True | Op_ReleaseArtifacts _ \<Rightarrow> True | _ \<Rightarrow> False)"

lemma one_block_ask: "one_block info m \<Longrightarrow> st_info s = Some info \<Longrightarrow> ask m s = Some (res, t) \<Longrightarrow> \<exists>tag. good_tag tag \<and> only_reads (pinned tag) s t"
proof -
  assume o: "one_block info m" "st_info s = Some info" "ask m s = Some (res, t)"
  have "t = snd (m s)" using o(3) by (auto simp: ask_def run_p_def bind_p_def ret_p_def split: prod.splits sum.splits)
  then show ?thesis using o(1,2) unfolding one_block_def by blast
qed

text \<open>C11: Every read of a verified client, however many requests and pages it takes, is a snapshot: all its
  contract calls name one and the same block, and it changes neither the nonces nor what was signed.
\<close>
theorem reads_one_block:
  assumes "snapshot_read op" and "st_info s = Some info" and "run_op env g op s = Some (res, t)"
  shows "\<exists>tag. good_tag tag \<and> only_reads (pinned tag) s t"
  using assms(1,3) by (cases op) (auto simp: snapshot_read_def intro: queries_one_block[THEN one_block_ask, OF assms(2)])

theorem reads_one_block_witness:
  "\<exists>s t res tag. ready sample_info s \<and> run_op suite_env suite_registry (Op_ListRefs (''0x'' @ hex_encode bob) ''r'') s = Some (res, t) \<and>
     good_tag tag \<and> only_reads (pinned tag) s t"
proof -
  obtain s where s: "ready sample_info s" using suite_first_use by blast
  obtain res t where r: "run_op suite_env suite_registry (Op_ListRefs (''0x'' @ hex_encode bob) ''r'') s = Some (res, t)"
    by (metis ask_def run_op.simps(5) run_p_def surj_pair)
  have "st_info s = Some sample_info" using s by (simp add: ready_def)
  from reads_one_block[OF _ this r] s r show ?thesis by (auto simp: snapshot_read_def)
qed

text \<open>C6: On a node that runs the core contract in a state the contract can reach, \<^verbatim>\<open>ListRefs\<close> returns
  every ref the contract stores for the repository, in the contract's order, with the stored commit,
  packs, time and author, whether this takes one page or many; an owner and name the repository had
  before lead to the same refs.
\<close>
theorem refs_listed_from_contract:
  assumes "geth_ok (the_geth env)" and "reached d h c" and "ready info s"
    and "node_says (the_net env) ''eth_blockNumber'' [] (block_text block)"
    and "module_at env info ''core'' suiteABICore core_address core_abi" and "runs_core env core_abi core_address (block_text block) d c"
    and "module_at env info ''moderation'' suiteABIModeration status_address status_abi"
    and "\<And>i. contract_says env status_abi status_address (block_text block) ''effectiveStatus'' [V_bytes32 i] [V_uint8 (status i)]"
    and "\<And>i. status i \<le> 2"
    and "\<And>i k. live c i \<Longrightarrow> length (rep_owner (repositories c i)) = 20 \<and> (gr_exists (refs c i k) \<longrightarrow> length (gr_updatedBy (refs c i k)) = 20)"
    and "parseEVMAddress (lower_table (the_net env)) owner = Inr a" and "resolveRepository d c a name = Inr (r, canonical)"
  shows "fst (ListRefs env g owner name s) = Inr (map (ref_of d c (rep_id r)) (refNames c (rep_id r)))"
proof -
  have "core_client env info block core_address core_abi status_address status_abi d c status"
    using assms(1,4-10) reached_inv[OF assms(2)] block_text_nonblank by unfold_locales auto
  from core_client.refs_listed[OF this assms(3,11) parse_length[OF assms(11)] assms(12)] show ?thesis .
qed

theorem refs_listed_from_contract_witness:
  "\<exists>s. ready sample_info s \<and> reached plain_deployment ((call_by bob 700000, Call_accept run_id) # run_calls) run_accepted \<and>
     fst (ListRefs suite_env suite_registry (''0x'' @ hex_encode alice) ''r'' s) =
       Inr (map (ref_of plain_deployment run_accepted run_id) [''refs/heads/main''])"
proof -
  obtain s where s: "ready sample_info s" using suite_first_use by blast
  have p: "parseEVMAddress (lower_table (the_net suite_env)) (''0x'' @ hex_encode alice) = Inr alice"
    by (simp add: parseEVMAddress_def alice_def)
  obtain canonical where r: "resolveRepository plain_deployment run_accepted alice ''r'' = Inr (repositories run_accepted run_id, canonical)"
    using run_resolves by blast
  have n: "refNames run_accepted run_id = [''refs/heads/main'']" "rep_id (repositories run_accepted run_id) = run_id"
    by (simp_all add: run_accepted_def run_offered_def run_shared_def add_collaborator_def run_pushed_def run_repo_def set_defs)
  have "fst (ListRefs suite_env suite_registry (''0x'' @ hex_encode alice) ''r'' s) =
      Inr (map (ref_of plain_deployment run_accepted (rep_id (repositories run_accepted run_id))) (refNames run_accepted (rep_id (repositories run_accepted run_id))))"
    by (rule refs_listed_from_contract[OF sample_client.geth run_reached_end s sample_client.head sample_client.core_module sample_client.runs
        sample_client.status_module sample_client.statuses sample_client.status_range sample_client.accounts p r])
  then show ?thesis using s run_reached_end by (auto simp: n)
qed

section \<open>Resolution and writes\<close>

text \<open>C13: A repository the client resolves is well formed: it carries the EVM backend and the locator that was
  asked for; its canonical locator is the owner and name of its own information; the owner is the
  bech32 form of a 20-byte account, and reads back as that account; and the moderation status
  is one of the three names.
\<close>
theorem resolved_repository_well_formed:
  assumes "resolveRepoAt env g owner name tag s = (Inr r, t)"
  shows "rr_Backend r = BackendEVM \<and> rr_Requested r = \<lparr>loc_Owner = owner, loc_Name = name\<rparr> \<and>
    rr_Canonical r = \<lparr>loc_Owner = rp_Owner (rr_Info r), loc_Name = rp_Name (rr_Info r)\<rparr> \<and>
    rp_ModerationStatus (rr_Info r) \<in> {''active'', ''frozen'', ''delisted''} \<and>
    (\<exists>a. length a = 20 \<and> rp_Owner (rr_Info r) = encodeBech32Address ''inj'' a \<and>
      parseEVMAddress (lower_table (the_net env)) (rp_Owner (rr_Info r)) = Inr a)"
proof -
  obtain repository :: suiteRepositoryABI and status where r: "userAddressFromEVM (lower_table (the_net env)) (Address_Hex (the_geth env) (re_Owner repository)) = Inr (rp_Owner (rr_Info r))"
    "moderationStatusName status = Inr (rp_ModerationStatus (rr_Info r))"
    "rr_Backend r = BackendEVM" "rr_Requested r = \<lparr>loc_Owner = owner, loc_Name = name\<rparr>"
    "rr_Canonical r = \<lparr>loc_Owner = rp_Owner (rr_Info r), loc_Name = rp_Name (rr_Info r)\<rparr>"
    using assms unfolding resolveRepoAt_def repoInfoAt_def moderationStatusAt_def suiteUserAddress_def value_result_def
    by (auto simp: proc_ok res_simps split: option.splits)
  obtain a where a: "parseEVMAddress (lower_table (the_net env)) (Address_Hex (the_geth env) (re_Owner repository)) = Inr a"
    "rp_Owner (rr_Info r) = encodeBech32Address ''inj'' a"
    using r(1) by (auto simp: userAddressFromEVM_def res_simps)
  have len: "length a = 20" by (rule parse_length[OF a(1)])
  have "parseEVMAddress (lower_table (the_net env)) (encodeBech32Address ''inj'' a) = Inr a"
    unfolding parseEVMAddress_def bech32_form_trim(1)[OF len] using bech32_form_trim(2,3)[OF len] decode_encode_address[OF len] by (simp add: Let_def)
  then show ?thesis using r a len by (auto simp: moderationStatusName_def split: if_splits)
qed

theorem resolved_repository_well_formed_witness:
  "\<exists>s r t. resolveRepoAt suite_env suite_registry (''0x'' @ hex_encode alice) ''r'' ''latest'' s = (Inr r, t) \<and> rr_Backend r = BackendEVM"
proof -
  obtain s r t where "resolveRepoAt suite_env suite_registry (''0x'' @ hex_encode alice) ''r'' ''latest'' s = (Inr r, t)"
    using run_moved_resolves by blast
  from resolved_repository_well_formed[OF this] this show ?thesis by blast
qed

definition writes_to :: "string \<Rightarrow> string \<Rightarrow> client_op \<Rightarrow> bool" where
  \<comment> \<open>the writes that name the owner of the repository they are for\<close>
  "writes_to owner repo op = (case op of
     Op_ForkRepo a b _ \<Rightarrow> a = owner \<and> b = repo | Op_UpdateRef a b _ _ _ _ _ \<Rightarrow> a = owner \<and> b = repo | Op_DeleteRef a b _ \<Rightarrow> a = owner \<and> b = repo
   | Op_SetCollaborator a b _ _ \<Rightarrow> a = owner \<and> b = repo | Op_ProposeRecovery a b _ \<Rightarrow> a = owner \<and> b = repo
   | Op_ApproveRecovery a b \<Rightarrow> a = owner \<and> b = repo | Op_AcceptRecovery a b \<Rightarrow> a = owner \<and> b = repo
   | Op_SetModerationStatus a b _ _ \<Rightarrow> a = owner \<and> b = repo | Op_SubmitModerationReport a b _ \<Rightarrow> a = owner \<and> b = repo
   | Op_Sponsor a b _ _ \<Rightarrow> a = owner \<and> b = repo | Op_SetRevenueSplits a b _ \<Rightarrow> a = owner \<and> b = repo
   | Op_AwardBadge a b _ _ \<Rightarrow> a = owner \<and> b = repo | _ \<Rightarrow> False)"

lemma keeps_signed_via: "keeps (\<lambda>s. ts_signed (st_tx s) = xs) (via_rpc f m)"
  unfolding keeps_iff by (simp add: via_rpc_def split: prod.split)

lemma keeps_signed_put: "keeps (\<lambda>s. ts_signed (st_tx s) = xs) (put_p (remember info))"
  unfolding keeps_iff by (simp add: put_p_def remember_def)

abbreviation signed_is :: "EVMTransaction list \<Rightarrow> suite_state \<Rightarrow> bool" where
  "signed_is xs \<equiv> \<lambda>s. ts_signed (st_tx s) = xs"

lemma keeps_signed_ensure: "keeps (signed_is xs) (ensureVerified env g)"
  unfolding ensureVerified_def by (intro triple_rules keeps_signed_via keeps_signed_put keeps_pure)

lemma keeps_signed_call: "keeps (signed_is xs) (callAt env g module tag meth args)"
  unfolding callAt_def suite_module_def by (intro triple_rules keeps_signed_via keeps_signed_ensure keeps_pure)

lemma keeps_signed_info: "keeps (signed_is xs) (repoInfoAt env g r tag)"
  unfolding repoInfoAt_def moderationStatusAt_def read_one_def suiteUserAddress_def value_result_def exactly_def
  by (intro triple_rules keeps_signed_call keeps_pure)

lemma keeps_signed_resolve: "keeps (signed_is xs) (resolveRepoAt env g owner name tag)"
  unfolding resolveRepoAt_def account_bytes_def exactly_def by (intro triple_rules keeps_signed_call keeps_signed_info keeps_pure)

lemma moved_write:
  assumes "resolveRepoAt env g owner repo ''latest'' s = (Inr r, t)" "\<not> rr_IsCanonical r"
  shows "write_repo env g owner repo k s =
    Some (Inl (RepoMoved (rr_RepoID r) (loc_Owner (rr_Canonical r)) (loc_Name (rr_Canonical r))), t)"
  using assms by (simp add: write_repo_def repoForWrite_def bind_o_def run_p_def bind_p_def guard_p_def lift_p_def guard_err_def)

text \<open>C12: A write to a repository under an owner and name it no longer has is refused, with the locator it
  has now, and nothing is signed: pushes, deletions, forks, collaborators, recoveries, moderation,
  sponsorship, revenue splits and badges alike.
\<close>
theorem moved_repository_not_written:
  assumes "writes_to owner repo op" and "resolveRepoAt env g owner repo ''latest'' s = (Inr r, t)" and "\<not> rr_IsCanonical r"
  shows "run_op env g op s = Some (Inl (RepoMoved (rr_RepoID r) (loc_Owner (rr_Canonical r)) (loc_Name (rr_Canonical r))), t) \<and>
    ts_signed (st_tx t) = ts_signed (st_tx s)"
proof
  have "ts_signed (st_tx (snd (resolveRepoAt env g owner repo ''latest'' s))) = ts_signed (st_tx s)"
    using keeps_signed_resolve unfolding keeps_iff by blast
  then show "ts_signed (st_tx t) = ts_signed (st_tx s)" using assms(2) by simp
  show "run_op env g op s = Some (Inl (RepoMoved (rr_RepoID r) (loc_Owner (rr_Canonical r)) (loc_Name (rr_Canonical r))), t)"
    using assms(1)
    by (cases op)
      (simp_all add: writes_to_def ForkRepo_def UpdateRef_def DeleteRef_def SetCollaborator_def ProposeRecovery_def ApproveRecovery_def AcceptRecovery_def
        SetModerationStatus_def SubmitModerationReport_def Sponsor_def SetRevenueSplits_def AwardBadge_def moved_write[OF assms(2,3)])
qed

theorem moved_repository_not_written_witness:
  "\<exists>s r t. resolveRepoAt suite_env suite_registry (''0x'' @ hex_encode alice) ''r'' ''latest'' s = (Inr r, t) \<and> \<not> rr_IsCanonical r \<and>
     writes_to (''0x'' @ hex_encode alice) ''r'' (Op_DeleteRef (''0x'' @ hex_encode alice) ''r'' ''refs/heads/main'') \<and>
     (\<exists>e. run_op suite_env suite_registry (Op_DeleteRef (''0x'' @ hex_encode alice) ''r'' ''refs/heads/main'') s = Some (Inl e, t)) \<and>
     ts_signed (st_tx t) = ts_signed (st_tx s)"
proof -
  obtain s r t where m: "resolveRepoAt suite_env suite_registry (''0x'' @ hex_encode alice) ''r'' ''latest'' s = (Inr r, t)" "\<not> rr_IsCanonical r"
    using run_moved_resolves by blast
  have w: "writes_to (''0x'' @ hex_encode alice) ''r'' (Op_DeleteRef (''0x'' @ hex_encode alice) ''r'' ''refs/heads/main'')" by (simp add: writes_to_def)
  show ?thesis using moved_repository_not_written[OF w m] m w by blast
qed

end
