(* ===== verification/Spec2Isabelle.thy ===== *)
theory Spec2Isabelle
  imports Migration_Properties Bech32_Text Chain_Properties Config_Properties Suite_Properties Core_Properties
begin

text \<open>
  A verification development for the igit command line tools.
\<close>

end
